(* ===== verification/Prelude.thy ===== *)
theory Prelude
  imports Complex_Main "HOL-Library.Sublist" "HOL-Library.Multiset"
begin

text \<open>
  Shared vocabulary of the development: instants and durations, Rust's checked and
  saturating integer operations, IEEE floats as far as the code compares them, the
  string operations of the standard library the code calls (\<open>trim\<close>, \<open>is_empty\<close>,
  \<open>eq_ignore_ascii_case\<close>, \<open>is_ascii\<close>), format messages, and the generic lemmas on
  lists and folds that the components share.

  Conventions.  A \<open>String\<close> of the code is a HOL \<open>string\<close> holding its UTF-8 bytes, so
  \<open>length\<close> is Rust's \<open>len\<close>.  A \<open>DateTime<Utc>\<close> is the integer number of nanoseconds
  since the Unix epoch and a \<open>Duration\<close> an integer number of nanoseconds; leap-second
  instants are not modelled.  Unsigned integers are \<open>nat\<close> where the code neither wraps
  nor saturates them.
\<close>

section \<open>Hint collections\<close>

named_theorems lifecycle_simps \<open>evaluation of lifecycle predicates and transitions\<close>
named_theorems record_simps \<open>field equations of the modelled operations\<close>
named_theorems spec_intros \<open>introduction rules of the abstract specifications\<close>

section \<open>Time\<close>

type_synonym timestamp = int
type_synonym duration = int

abbreviation ns_per_ms :: int where "ns_per_ms \<equiv> 1000000"
abbreviation ns_per_s :: int where "ns_per_s \<equiv> 1000000000"

definition seconds :: "int \<Rightarrow> duration" where
  "seconds n = n * ns_per_s"

definition milliseconds :: "int \<Rightarrow> duration" where
  "milliseconds n = n * ns_per_ms"

text \<open>Rust and chrono truncate a quotient towards zero.\<close>

definition trunc_div :: "int \<Rightarrow> int \<Rightarrow> int" where
  "trunc_div a b = sgn a * sgn b * (\<bar>a\<bar> div \<bar>b\<bar>)"

definition num_seconds :: "duration \<Rightarrow> int" where
  "num_seconds d = trunc_div d ns_per_s"

definition num_milliseconds :: "duration \<Rightarrow> int" where
  "num_milliseconds d = trunc_div d ns_per_ms"

lemma trunc_div_nonneg [simp]: "0 \<le> a \<Longrightarrow> 0 < b \<Longrightarrow> trunc_div a b = a div b"
  by (cases "a = 0") (simp_all add: trunc_div_def)

text \<open>Quotient and remainder of a division, as variables linear arithmetic can work with.\<close>

lemma div_split:
  assumes "0 < (k :: int)"
  obtains q r where "a div k = q" and "a = q * k + r" and "0 \<le> r" and "r < k"
proof
  show "a div k = a div k" ..
  show "a = a div k * k + a mod k" by (rule div_mult_mod_eq [symmetric])
  show "0 \<le> a mod k" and "a mod k < k" using assms by (rule pos_mod_sign, rule pos_mod_bound)
qed

lemma num_seconds_seconds [simp]: "num_seconds (seconds n) = n"
  by (cases "n = 0") (simp_all add: num_seconds_def seconds_def trunc_div_def abs_mult sgn_mult
      abs_sgn mult.commute)

lemma num_seconds_le_iff: "0 \<le> d \<Longrightarrow> num_seconds d \<le> k \<longleftrightarrow> d < seconds (k + 1)"
  by (simp add: num_seconds_def seconds_def) linarith

section \<open>Machine integers\<close>

definition checked_i64 :: "int \<Rightarrow> int option" where
  "checked_i64 z = (if - (2 ^ 63) \<le> z \<and> z < 2 ^ 63 then Some z else None)"

definition u64_max :: nat where "u64_max = 2 ^ 64 - 1"

definition u64_saturating_add :: "nat \<Rightarrow> nat \<Rightarrow> nat" where
  "u64_saturating_add a b = min (a + b) u64_max"

lemma checked_i64_Some [simp]: "checked_i64 z = Some w \<longleftrightarrow> w = z \<and> - (2 ^ 63) \<le> z \<and> z < 2 ^ 63"
  by (auto simp: checked_i64_def)

lemma u64_saturating_add_le [simp]: "u64_saturating_add a b \<le> u64_max"
  by (simp add: u64_saturating_add_def)

section \<open>Floats\<close>

text \<open>
  The values of \<open>f32\<close> and \<open>f64\<close>: a finite value is the rational it denotes, so the
  widening \<open>f64::from\<close> is the identity, with the negative zero apart.  The NaNs are one value: no
  payload is observable in the code modelled here.  Comparisons follow IEEE 754: every
  comparison with a NaN is false, and the two zeros are equal.
\<close>

datatype fl = Finite rat | NegZero | PosInf | NegInf | NaN

fun is_finite :: "fl \<Rightarrow> bool" where
  "is_finite (Finite _) = True"
| "is_finite NegZero = True"
| "is_finite _ = False"

text \<open>The number a finite value denotes.\<close>

fun fl_value :: "fl \<Rightarrow> rat" where
  "fl_value (Finite q) = q"
| "fl_value _ = 0"

fun fl_le :: "fl \<Rightarrow> fl \<Rightarrow> bool" where
  "fl_le NaN _ = False"
| "fl_le _ NaN = False"
| "fl_le NegInf _ = True"
| "fl_le _ PosInf = True"
| "fl_le PosInf _ = False"
| "fl_le _ NegInf = False"
| "fl_le a b = (fl_value a \<le> fl_value b)"

fun fl_lt :: "fl \<Rightarrow> fl \<Rightarrow> bool" where
  "fl_lt NaN _ = False"
| "fl_lt _ NaN = False"
| "fl_lt PosInf _ = False"
| "fl_lt _ NegInf = False"
| "fl_lt NegInf _ = True"
| "fl_lt _ PosInf = True"
| "fl_lt a b = (fl_value a < fl_value b)"

fun fl_eq :: "fl \<Rightarrow> fl \<Rightarrow> bool" where
  "fl_eq NaN _ = False"
| "fl_eq _ NaN = False"
| "fl_eq a b = (if is_finite a \<and> is_finite b then fl_value a = fl_value b else a = b)"

lemma fl_le_finite_bounds:
  "fl_le (Finite a) x \<Longrightarrow> fl_le x (Finite b) \<Longrightarrow> is_finite x \<and> a \<le> fl_value x \<and> fl_value x \<le> b"
  by (cases x) auto

lemma fl_compare_finite:
  "is_finite a \<Longrightarrow> is_finite b \<Longrightarrow> fl_le a b \<longleftrightarrow> fl_value a \<le> fl_value b"
  "is_finite a \<Longrightarrow> is_finite b \<Longrightarrow> fl_lt a b \<longleftrightarrow> fl_value a < fl_value b"
  "is_finite a \<Longrightarrow> is_finite b \<Longrightarrow> fl_eq a b \<longleftrightarrow> fl_value a = fl_value b"
  by (cases a; cases b; simp)+

section \<open>Messages\<close>

text \<open>
  A formatted message is kept as its list of pieces: literal text and the arguments of
  the format string, each tagged with the trait (\<open>{}\<close> or \<open>{:?}\<close>) that renders it.
\<close>

datatype fmt_piece =
    Lit string
  | DbgStr string
  | DbgOptStr "string option"
  | DbgOptF32 "fl option"
  | ShowNat nat
  | ShowInt int
  | ShowFl fl
  | ShowTime timestamp

type_synonym message = "fmt_piece list"

section \<open>Strings\<close>

text \<open>
  The UTF-8 encodings of the characters with the Unicode property \<open>White_Space\<close>, which
  \<open>str::trim\<close> strips from both ends.
\<close>

definition white_space :: "string list" where
  "white_space =
     [[CHR 0x09], [CHR 0x0A], [CHR 0x0B], [CHR 0x0C], [CHR 0x0D], [CHR 0x20],
      [CHR 0xC2, CHR 0x85], [CHR 0xC2, CHR 0xA0], [CHR 0xE1, CHR 0x9A, CHR 0x80],
      [CHR 0xE2, CHR 0x80, CHR 0x80], [CHR 0xE2, CHR 0x80, CHR 0x81],
      [CHR 0xE2, CHR 0x80, CHR 0x82], [CHR 0xE2, CHR 0x80, CHR 0x83],
      [CHR 0xE2, CHR 0x80, CHR 0x84], [CHR 0xE2, CHR 0x80, CHR 0x85],
      [CHR 0xE2, CHR 0x80, CHR 0x86], [CHR 0xE2, CHR 0x80, CHR 0x87],
      [CHR 0xE2, CHR 0x80, CHR 0x88], [CHR 0xE2, CHR 0x80, CHR 0x89],
      [CHR 0xE2, CHR 0x80, CHR 0x8A], [CHR 0xE2, CHR 0x80, CHR 0xA8],
      [CHR 0xE2, CHR 0x80, CHR 0xA9], [CHR 0xE2, CHR 0x80, CHR 0xAF],
      [CHR 0xE2, CHR 0x81, CHR 0x9F], [CHR 0xE3, CHR 0x80, CHR 0x80]]"

fun strip_one :: "string list \<Rightarrow> string \<Rightarrow> string option" where
  "strip_one [] s = None"
| "strip_one (w # ws) s =
     (if w \<noteq> [] \<and> prefix w s then Some (drop (length w) s) else strip_one ws s)"

lemma strip_one_shorter: "strip_one ws s = Some r \<Longrightarrow> length r < length s"
  by (induction ws s rule: strip_one.induct)
    (auto split: if_splits simp: prefix_def)

function strip_all :: "string list \<Rightarrow> string \<Rightarrow> string" where
  "strip_all ws s = (case strip_one ws s of None \<Rightarrow> s | Some r \<Rightarrow> strip_all ws r)"
  by pat_completeness auto
termination
  by (relation "measure (\<lambda>(ws, s). length s)") (auto simp: strip_one_shorter)

declare strip_all.simps [simp del]

definition trim_start :: "string \<Rightarrow> string" where
  "trim_start s = strip_all white_space s"

definition trim_end :: "string \<Rightarrow> string" where
  "trim_end s = rev (strip_all (map rev white_space) (rev s))"

definition trim :: "string \<Rightarrow> string" where
  "trim s = trim_end (trim_start s)"

lemma strip_one_suffix: "strip_one ws s = Some r \<Longrightarrow> suffix r s"
  by (induction ws s rule: strip_one.induct) (auto split: if_splits simp: suffix_drop)

lemma strip_all_suffix: "suffix (strip_all ws s) s"
proof (induction ws s rule: strip_all.induct)
  case (1 ws s)
  show ?case
  proof (cases "strip_one ws s")
    case None
    then show ?thesis by (simp add: strip_all.simps [of ws s])
  next
    case (Some r)
    with "1" have "suffix (strip_all ws r) r" by simp
    with Some strip_one_suffix [OF Some] show ?thesis
      by (auto simp: strip_all.simps [of ws s] intro: suffix_order.trans)
  qed
qed

lemma strip_one_strip_all [simp]: "strip_one ws (strip_all ws s) = None"
  by (induction ws s rule: strip_all.induct)
    (simp add: strip_all.simps split: option.splits)

lemma strip_all_fixed: "strip_one ws s = None \<Longrightarrow> strip_all ws s = s"
  by (simp add: strip_all.simps)

lemma strip_one_None_iff: "strip_one ws s = None \<longleftrightarrow> (\<forall>w \<in> set ws. w \<noteq> [] \<longrightarrow> \<not> prefix w s)"
  by (induction ws s rule: strip_one.induct) auto

lemma trim_end_prefix: "prefix (trim_end s) s"
  using strip_all_suffix [of "map rev white_space" "rev s"]
  by (simp add: trim_end_def suffix_to_prefix)

lemma trim_start_trim [simp]: "trim_start (trim s) = trim s"
proof -
  have "strip_one white_space (trim_start s) = None"
    by (simp add: trim_start_def)
  then have "strip_one white_space (trim s) = None"
    unfolding strip_one_None_iff trim_def
    using trim_end_prefix prefix_order.trans by blast
  then show ?thesis by (simp add: trim_start_def strip_all_fixed)
qed

lemma trim_end_idem [simp]: "trim_end (trim_end s) = trim_end s"
  by (simp add: trim_end_def strip_all_fixed)

lemma trim_idem [simp]: "trim (trim s) = trim s"
  by (metis trim_def trim_end_idem trim_start_trim)

lemma white_space_unprintable:
  "\<forall>w \<in> set white_space. \<not> ((32 :: nat) < of_char (hd w) \<and> of_char (hd w) < (128 :: nat)) \<and>
     \<not> ((32 :: nat) < of_char (hd (rev w)) \<and> of_char (hd (rev w)) < (128 :: nat))"
  by (simp add: white_space_def)

lemma strip_one_printable:
  assumes "(32 :: nat) < of_char c" and "of_char c < (128 :: nat)"
  shows "strip_one white_space (c # s) = None"
    and "strip_one (map rev white_space) (c # s) = None"
proof -
  have hd: "prefix w (c # s) \<Longrightarrow> w \<noteq> [] \<Longrightarrow> hd w = c" for w
    by (cases w) auto
  show "strip_one white_space (c # s) = None"
    unfolding strip_one_None_iff using white_space_unprintable assms hd by blast
  show "strip_one (map rev white_space) (c # s) = None"
    unfolding strip_one_None_iff using white_space_unprintable assms hd
    by (metis (no_types, lifting) image_iff list.set_map)
qed

text \<open>Printable ASCII at both ends: \<open>trim\<close> leaves the string as it is.\<close>

lemma trim_printable:
  assumes "s \<noteq> []" and "(32 :: nat) < of_char (hd s)" and "of_char (hd s) < (128 :: nat)"
    and "(32 :: nat) < of_char (last s)" and "of_char (last s) < (128 :: nat)"
  shows "trim s = s"
proof -
  have "trim_start s = s"
    using assms by (cases s) (simp_all add: trim_start_def strip_all_fixed strip_one_printable)
  moreover have "trim_end s = s"
  proof -
    have "rev s = last s # rev (butlast s)"
      using assms(1) by (cases s rule: rev_cases) auto
    with assms(4,5) have "strip_one (map rev white_space) (rev s) = None"
      using strip_one_printable(2) by metis
    then show ?thesis by (simp add: trim_end_def strip_all_fixed)
  qed
  ultimately show ?thesis by (simp add: trim_def)
qed

lemma trim_empty [simp]: "trim [] = []"
  by (simp add: trim_def trim_start_def trim_end_def strip_all_fixed strip_one_None_iff)

text \<open>A field the code wants nonempty and free of surrounding white space.\<close>

definition nonempty_trimmed :: "string \<Rightarrow> bool" where
  "nonempty_trimmed s \<longleftrightarrow> trim s \<noteq> [] \<and> trim s = s"

definition is_ascii :: "string \<Rightarrow> bool" where
  "is_ascii s \<longleftrightarrow> (\<forall>c \<in> set s. of_char c < (128 :: nat))"

definition ascii_lower :: "char \<Rightarrow> char" where
  "ascii_lower c =
     (if (65 :: nat) \<le> of_char c \<and> of_char c \<le> (90 :: nat)
      then char_of (of_char c + 32 :: nat) else c)"

definition eq_ignore_ascii_case :: "string \<Rightarrow> string \<Rightarrow> bool" where
  "eq_ignore_ascii_case a b \<longleftrightarrow> map ascii_lower a = map ascii_lower b"

section \<open>Lists\<close>

text \<open>\<open>Iterator::position\<close>.\<close>

fun position :: "('a \<Rightarrow> bool) \<Rightarrow> 'a list \<Rightarrow> nat option" where
  "position P [] = None"
| "position P (x # xs) = (if P x then Some 0 else map_option Suc (position P xs))"

lemma position_SomeD:
  "position P xs = Some i \<Longrightarrow> i < length xs \<and> P (xs ! i) \<and> (\<forall>j < i. \<not> P (xs ! j))"
proof (induction xs arbitrary: i)
  case (Cons x xs)
  then show ?case
    by (cases i) (auto split: if_splits simp: nth_Cons less_Suc_eq_0_disj)
qed simp

lemma position_None_iff [simp]: "position P xs = None \<longleftrightarrow> (\<forall>x \<in> set xs. \<not> P x)"
  by (induction xs) auto

text \<open>\<open>Option::then\<close> and \<open>Option::or_else\<close>.\<close>

definition bool_then :: "bool \<Rightarrow> 'a \<Rightarrow> 'a option" where
  "bool_then b x = (if b then Some x else None)"

fun or_else :: "'a option \<Rightarrow> 'a option \<Rightarrow> 'a option" where
  "or_else (Some x) _ = Some x"
| "or_else None y = y"

text \<open>\<open>Option::flatten\<close>.\<close>

fun flatten_option :: "'a option option \<Rightarrow> 'a option" where
  "flatten_option (Some x) = x"
| "flatten_option None = None"

lemma or_else_None [simp]: "or_else a b = None \<longleftrightarrow> a = None \<and> b = None"
  by (cases a) auto

lemma bool_then_simps [simp]:
  "bool_then True x = Some x"
  "bool_then False x = None"
  "bool_then b x = None \<longleftrightarrow> \<not> b"
  "bool_then b x = Some y \<longleftrightarrow> b \<and> y = x"
  by (auto simp: bool_then_def)

lemma find_SomeD: "find P xs = Some x \<Longrightarrow> x \<in> set xs \<and> P x"
  by (auto simp: find_Some_iff)

lemma find_cong_pred: "(\<And>x. x \<in> set xs \<Longrightarrow> P x = Q x) \<Longrightarrow> find P xs = find Q xs"
  by (induction xs) auto

text \<open>\<open>filter_map(..).collect()\<close> and \<open>into_iter().flatten()\<close> on a list of options.\<close>

definition flatten :: "'a option list \<Rightarrow> 'a list" where
  "flatten xs = List.map_filter (\<lambda>x. x) xs"

lemma flatten_simps [simp]:
  "flatten [] = []"
  "flatten (None # xs) = flatten xs"
  "flatten (Some x # xs) = x # flatten xs"
  by (simp_all add: flatten_def)

lemma flatten_append [simp]: "flatten (xs @ ys) = flatten xs @ flatten ys"
  by (induction xs) (auto simp: flatten_def split: option.splits)

lemma in_set_flatten [simp]: "x \<in> set (flatten xs) \<longleftrightarrow> Some x \<in> set xs"
  by (induction xs) (auto simp: flatten_def split: option.splits)

lemma flatten_map_map_option: "flatten (map (map_option f) xs) = map f (flatten xs)"
  by (induction xs) (auto simp: flatten_def split: option.splits)

lemma subseq_distinctI: "subseq xs ys \<Longrightarrow> distinct ys \<Longrightarrow> distinct xs"
  by (induction rule: list_emb.induct) (auto dest: list_emb_set)

lemma subseq_subsetD: "subseq xs ys \<Longrightarrow> set xs \<subseteq> set ys"
  by (auto dest: list_emb_set)

text \<open>An invariant of every step is an invariant of the fold.\<close>

lemma foldl_invariant:
  assumes "I s" and "\<And>s x. I s \<Longrightarrow> x \<in> set xs \<Longrightarrow> I (f s x)"
  shows "I (foldl f s xs)"
  using assms by (induction xs arbitrary: s) auto

lemma foldl_simulation:
  assumes "R s t" and "\<And>s t x. R s t \<Longrightarrow> x \<in> set xs \<Longrightarrow> R (f s x) (g t (h x))"
  shows "R (foldl f s xs) (foldl g t (map h xs))"
  using assms by (induction xs arbitrary: s t) auto

lemma sort_key_sorted: "sorted (map f xs) \<Longrightarrow> sort_key f xs = xs"
  by (rule properties_for_sort_key) auto

end
