(* ===== verification/Model.thy ===== *)
theory Model
  imports Prelude
begin

text \<open>
  The schema-v1 data model of \<open>crates/core/src/model.rs\<close>, which is also the model every
  later schema is projected to for analysis.  Each struct is a record whose fields carry a
  short prefix (records of Isabelle share one name space), each enum a datatype with the
  source's constructors.  The JSON payload \<open>raw\<close> of a record (a \<open>serde_json::Value\<close>) is
  the type parameter \<open>'j\<close>: the core crate carries it along.
\<close>

section \<open>Schema versions\<close>

definition SCHEMA_VERSION_V1 :: nat where "SCHEMA_VERSION_V1 = 1"
definition SCHEMA_VERSION_V2 :: nat where "SCHEMA_VERSION_V2 = 2"
definition SCHEMA_VERSION_V3 :: nat where "SCHEMA_VERSION_V3 = 3"
definition SCHEMA_VERSION_V4 :: nat where "SCHEMA_VERSION_V4 = 4"
definition SCHEMA_VERSION_V5 :: nat where "SCHEMA_VERSION_V5 = 5"
definition SCHEMA_VERSION_V6 :: nat where "SCHEMA_VERSION_V6 = 6"
definition LATEST_SCHEMA_VERSION :: nat where "LATEST_SCHEMA_VERSION = SCHEMA_VERSION_V6"

lemmas schema_version_defs =
  SCHEMA_VERSION_V1_def SCHEMA_VERSION_V2_def SCHEMA_VERSION_V3_def SCHEMA_VERSION_V4_def
  SCHEMA_VERSION_V5_def SCHEMA_VERSION_V6_def LATEST_SCHEMA_VERSION_def

section \<open>Enumerations\<close>

datatype experiment_mode = WholeStationAb | TxFocused | RxFocused | SingleAntennaProfilingMode

datatype session_goal =
  Dx | Regional | NvisLocal | GeneralCoverage | WeakSignalReliability | SingleAntennaProfiling

datatype band = M160 | M80 | M60 | M40 | M30 | M20 | M17 | M15 | M12 | M10 | M6 | M2

datatype record_source =
  Operator | WsjtxUdp | WsjtxLog | Wsprnet | WsprLive | ImportedFile | RigAdapter | NoaaSwpc
  | Derived

datatype operator_event_type =
  SessionStarted | Switched | MissedSlot | BadSlot | NoteAdded | SessionEnded

datatype observation_kind = LocalDecode | PublicReport | ImportedSpot

datatype analysis_status = NotRun | Generated

section \<open>Bundle files and manifest\<close>

record bundle_files =
  bf_manifest :: string
  bf_station :: string
  bf_antennas :: string
  bf_schedule :: string
  bf_events :: string
  bf_observations :: string
  bf_wsjtx :: string
  bf_rig :: string
  bf_propagation :: string
  bf_analysis :: string
  bf_attachments_dir :: string

definition default_bundle_files :: bundle_files where
  "default_bundle_files =
     \<lparr>bf_manifest = ''manifest.json'',
      bf_station = ''station.json'',
      bf_antennas = ''antennas.json'',
      bf_schedule = ''schedule.json'',
      bf_events = ''events.jsonl'',
      bf_observations = ''observations.jsonl'',
      bf_wsjtx = ''wsjtx.jsonl'',
      bf_rig = ''rig.jsonl'',
      bf_propagation = ''propagation.jsonl'',
      bf_analysis = ''analysis.json'',
      bf_attachments_dir = ''attachments''\<rparr>"

record bundle_manifest =
  bm_schema_version :: nat
  bm_session_id :: string
  bm_created_at :: timestamp
  bm_app_version :: string
  bm_files :: bundle_files

section \<open>Station, antennas and schedule\<close>

record station =
  st_schema_version :: nat
  st_session_id :: string
  st_callsign :: string
  st_grid :: string
  st_power_watts :: "fl option"
  st_operator_notes :: "string option"

record antenna =
  an_label :: string
  an_facets :: "string list"
  an_height_m :: "fl option"
  an_radial_count :: "nat option"
  an_radial_length_m :: "fl option"
  an_orientation_degrees :: "fl option"
  an_tuner :: "string option"
  an_feedline :: "string option"
  an_notes :: "string option"

record antennas_file =
  af_schema_version :: nat
  af_session_id :: string
  af_antennas :: "antenna list"

record planned_slot =
  ps_slot_id :: string
  ps_sequence_number :: nat
  ps_starts_at :: timestamp
  ps_duration_seconds :: nat
  ps_guard_seconds :: nat
  ps_band :: band
  ps_antenna_label :: string

record schedule =
  sc_schema_version :: nat
  sc_session_id :: string
  sc_mode :: experiment_mode
  sc_goal :: session_goal
  sc_slots :: "planned_slot list"

section \<open>Evidence records\<close>

record record_meta =
  rm_schema_version :: nat
  rm_session_id :: string
  rm_timestamp :: timestamp
  rm_source :: record_source

record operator_event =
  ev_meta :: record_meta
  ev_event_id :: string
  ev_slot_id :: "string option"
  ev_event_type :: operator_event_type
  ev_note :: "string option"
  ev_actual_antenna_label :: "string option"

record 'j observation_record =
  ob_meta :: record_meta
  ob_observation_id :: string
  ob_observation_kind :: observation_kind
  ob_band :: band
  ob_frequency_hz :: "nat option"
  ob_mode :: "string option"
  ob_reporter_call :: "string option"
  ob_heard_call :: "string option"
  ob_reporter_grid :: "string option"
  ob_heard_grid :: "string option"
  ob_distance_km :: "fl option"
  ob_azimuth_degrees :: "fl option"
  ob_snr_db :: "fl option"
  ob_drift_hz_per_minute :: "fl option"
  ob_power_watts :: "fl option"
  ob_slot_id :: "string option"
  ob_slot_label :: "string option"
  ob_slot_confidence :: "fl option"
  ob_raw :: 'j

record 'j wsjtx_record =
  wx_meta :: record_meta
  wx_record_id :: string
  wx_message_type :: string
  wx_raw :: 'j

record 'j rig_record =
  rg_meta :: record_meta
  rg_record_id :: string
  rg_status :: string
  rg_frequency_hz :: "nat option"
  rg_mode :: "string option"
  rg_raw :: 'j

record 'j propagation_record =
  pr_meta :: record_meta
  pr_record_id :: string
  pr_observed_at :: timestamp
  pr_solar_flux_f107 :: "fl option"
  pr_sunspot_number :: "nat option"
  pr_kp_index :: "fl option"
  pr_a_index :: "nat option"
  pr_solar_wind_speed_kms :: "fl option"
  pr_bz_nt :: "fl option"
  pr_alerts :: "string list"
  pr_daylight_state :: "string option"
  pr_raw :: 'j

record analysis_file =
  al_schema_version :: nat
  al_session_id :: string
  al_generated_at :: "timestamp option"
  al_status :: analysis_status
  al_notes :: "string list"

record 'j bundle_contents =
  bc_manifest :: bundle_manifest
  bc_station :: station
  bc_antennas :: antennas_file
  bc_schedule :: schedule
  bc_events :: "operator_event list"
  bc_observations :: "'j observation_record list"
  bc_wsjtx :: "'j wsjtx_record list"
  bc_rig :: "'j rig_record list"
  bc_propagation :: "'j propagation_record list"
  bc_analysis :: analysis_file

section \<open>Instances\<close>

text \<open>The bands are declared in frequency order, which \<open>band_rank\<close> counts.\<close>

primrec band_rank :: "band \<Rightarrow> nat" where
  "band_rank M160 = 0"
| "band_rank M80 = 1"
| "band_rank M60 = 2"
| "band_rank M40 = 3"
| "band_rank M30 = 4"
| "band_rank M20 = 5"
| "band_rank M17 = 6"
| "band_rank M15 = 7"
| "band_rank M12 = 8"
| "band_rank M10 = 9"
| "band_rank M6 = 10"
| "band_rank M2 = 11"

lemma band_rank_inject: "band_rank a = band_rank b \<Longrightarrow> a = b"
  by (cases a; cases b) auto

instantiation band :: linorder
begin

definition less_eq_band :: "band \<Rightarrow> band \<Rightarrow> bool" where
  "less_eq_band a b \<longleftrightarrow> band_rank a \<le> band_rank b"

definition less_band :: "band \<Rightarrow> band \<Rightarrow> bool" where
  "less_band a b \<longleftrightarrow> band_rank a < band_rank b"

instance
  by standard (auto simp: less_eq_band_def less_band_def dest: band_rank_inject)

end

end
