(* ===== verification/Identity.thy ===== *)
theory Identity
  imports Model
begin

text \<open>
  Validated identities: the separator syntax of \<open>crates/core/src/v2.rs\<close> (\<open>validate_identity\<close>
  and the newtypes of \<open>identity_type!\<close>), its schema-v3 copy in \<open>v3.rs\<close>, the machine
  identities of \<open>semantics.rs\<close>, and \<open>Provenance\<close> with its conversions from and to the
  legacy record source.  The locale \<open>identity_type\<close> is the contract of every newtype: it
  wraps exactly the strings of the identity language, within the byte limit.
\<close>

section \<open>The syntax check\<close>

definition IDENTITY_MAX_BYTES :: nat where "IDENTITY_MAX_BYTES = 128"

datatype identity_error = Empty | TooLong | InvalidSyntax

definition is_separator :: "char \<Rightarrow> bool" where
  "is_separator c \<longleftrightarrow> c = CHR ''.'' \<or> c = CHR ''_'' \<or> c = CHR ''-''"

definition is_ascii_lowercase :: "char \<Rightarrow> bool" where
  "is_ascii_lowercase c \<longleftrightarrow> (97 :: nat) \<le> of_char c \<and> of_char c \<le> (122 :: nat)"

definition is_ascii_digit :: "char \<Rightarrow> bool" where
  "is_ascii_digit c \<longleftrightarrow> (48 :: nat) \<le> of_char c \<and> of_char c \<le> (57 :: nat)"

text \<open>The loop over the bytes, with the flag \<open>previous_was_separator\<close> as its state.\<close>

fun identity_loop :: "bool \<Rightarrow> string \<Rightarrow> identity_error + bool" where
  "identity_loop previous_was_separator [] = Inr previous_was_separator"
| "identity_loop previous_was_separator (byte # bytes) =
     (let separator = is_separator byte in
      if separator then
        if previous_was_separator then Inl InvalidSyntax
        else identity_loop separator bytes
      else if \<not> (is_ascii_lowercase byte \<or> is_ascii_digit byte) then Inl InvalidSyntax
      else identity_loop separator bytes)"

definition validate_identity :: "string \<Rightarrow> identity_error + unit" where
  "validate_identity value =
     (if value = [] then Inl Empty
      else if length value > IDENTITY_MAX_BYTES then Inl TooLong
      else case identity_loop True value of
             Inl e \<Rightarrow> Inl e
           | Inr previous_was_separator \<Rightarrow>
               if previous_was_separator then Inl InvalidSyntax else Inr ())"

text \<open>
  The abstract language: nonempty lowercase alphanumeric segments, joined by single
  separators.
\<close>

definition is_segment :: "string \<Rightarrow> bool" where
  "is_segment s \<longleftrightarrow> s \<noteq> [] \<and> (\<forall>c \<in> set s. is_ascii_lowercase c \<or> is_ascii_digit c)"

inductive identity_lang :: "string \<Rightarrow> bool" where
  segment: "is_segment s \<Longrightarrow> identity_lang s"
| join: "is_segment s \<Longrightarrow> is_separator c \<Longrightarrow> identity_lang t \<Longrightarrow> identity_lang (s @ c # t)"

lemma separator_not_segment_char:
  "is_separator c \<Longrightarrow> \<not> (is_ascii_lowercase c \<or> is_ascii_digit c)"
  by (auto simp: is_separator_def is_ascii_lowercase_def is_ascii_digit_def)

lemma identity_lang_nonempty: "identity_lang s \<Longrightarrow> s \<noteq> []"
  by (induction rule: identity_lang.induct) (auto simp: is_segment_def)

lemma identity_loop_segment:
  assumes "is_segment s"
  shows "identity_loop p (s @ t) = identity_loop False t"
proof -
  have "\<forall>c \<in> set s. is_ascii_lowercase c \<or> is_ascii_digit c \<Longrightarrow>
      s \<noteq> [] \<or> \<not> p \<Longrightarrow> identity_loop p (s @ t) = identity_loop False t" for p
    by (induction s arbitrary: p) (auto simp: Let_def dest: separator_not_segment_char)
  with assms show ?thesis by (auto simp: is_segment_def)
qed

lemma identity_loop_complete: "identity_lang s \<Longrightarrow> identity_loop p s = Inr False"
proof (induction arbitrary: p rule: identity_lang.induct)
  case (segment s)
  then show ?case using identity_loop_segment [of s p "[]"] by simp
next
  case (join s c t)
  then show ?case by (simp add: identity_loop_segment [of s p] Let_def)
qed

text \<open>Cons on an accepted string extends its first segment or starts a new one.\<close>

lemma identity_lang_Cons_segment_char:
  assumes "is_ascii_lowercase c \<or> is_ascii_digit c" and "identity_lang s"
  shows "identity_lang (c # s)"
  using assms(2)
proof cases
  case segment
  with assms(1) show ?thesis by (auto simp: is_segment_def intro: identity_lang.segment)
next
  case (join s' c' t)
  with assms(1) have "is_segment (c # s')" by (auto simp: is_segment_def)
  then have "identity_lang ((c # s') @ c' # t)"
    using join(3,4) by (rule identity_lang.join)
  with join(1) show ?thesis by simp
qed

lemma identity_loop_sound:
  "identity_loop p s = Inr False \<Longrightarrow>
     (if p then identity_lang s
      else s = [] \<or> identity_lang s \<or> (\<exists>c t. s = c # t \<and> is_separator c \<and> identity_lang t))"
proof (induction p s rule: identity_loop.induct)
  case (1 p)
  then show ?case by simp
next
  case (2 p c s)
  show ?case
  proof (cases "is_separator c")
    case True
    with "2" show ?thesis by (auto simp: Let_def split: if_splits)
  next
    case False
    with "2" have char: "is_ascii_lowercase c \<or> is_ascii_digit c"
      and rest: "s = [] \<or> identity_lang s \<or> (\<exists>c t. s = c # t \<and> is_separator c \<and> identity_lang t)"
      by (auto simp: Let_def split: if_splits)
    have seg: "is_segment [c]" using char by (simp add: is_segment_def)
    from rest consider "s = []" | "identity_lang s"
      | d t where "s = d # t" "is_separator d" "identity_lang t" by blast
    then have "identity_lang (c # s)"
    proof cases
      case 1
      with seg show ?thesis by (simp add: identity_lang.segment)
    next
      case 2
      with char show ?thesis by (rule identity_lang_Cons_segment_char)
    next
      case 3
      with identity_lang.join [OF seg] show ?thesis by simp
    qed
    then show ?thesis by simp
  qed
qed

lemma validate_identity_accepts:
  "validate_identity value = Inr () \<longleftrightarrow> identity_lang value \<and> length value \<le> IDENTITY_MAX_BYTES"
proof
  assume "validate_identity value = Inr ()"
  then have "identity_loop True value = Inr False" and "length value \<le> IDENTITY_MAX_BYTES"
    by (auto simp: validate_identity_def split: if_splits sum.splits)
  then show "identity_lang value \<and> length value \<le> IDENTITY_MAX_BYTES"
    using identity_loop_sound [of True "value"] by simp
next
  assume "identity_lang value \<and> length value \<le> IDENTITY_MAX_BYTES"
  then show "validate_identity value = Inr ()"
    by (simp add: validate_identity_def identity_loop_complete identity_lang_nonempty)
qed

section \<open>The identity newtypes\<close>

datatype provider_id = ProviderId string
datatype source_id = SourceId string
datatype acquisition_channel_id = AcquisitionChannelId string
datatype adapter_id = AdapterId string
datatype adapter_reason_id = AdapterReasonId string

text \<open>\<open>new\<close> and \<open>as_str\<close>, the macro body of \<open>identity_type!\<close> instantiated for each type.\<close>

definition new_identity :: "(string \<Rightarrow> 'i) \<Rightarrow> string \<Rightarrow> identity_error + 'i" where
  "new_identity wrap value =
     (case validate_identity value of Inl e \<Rightarrow> Inl e | Inr _ \<Rightarrow> Inr (wrap value))"

fun provider_str :: "provider_id \<Rightarrow> string" where "provider_str (ProviderId s) = s"
fun source_str :: "source_id \<Rightarrow> string" where "source_str (SourceId s) = s"
fun channel_str :: "acquisition_channel_id \<Rightarrow> string" where
  "channel_str (AcquisitionChannelId s) = s"
fun adapter_str :: "adapter_id \<Rightarrow> string" where "adapter_str (AdapterId s) = s"
fun reason_str :: "adapter_reason_id \<Rightarrow> string" where "reason_str (AdapterReasonId s) = s"

section \<open>The schema-v3 signal identities\<close>

datatype signal_plan_id = SignalPlanId string
datatype signal_variant_id = SignalVariantId string
datatype counterbalance_block_id = CounterbalanceBlockId string

datatype signal_identity_error = SignalEmpty | SignalTooLong | SignalInvalidSyntax

fun signal_identity_loop :: "bool \<Rightarrow> string \<Rightarrow> signal_identity_error + bool" where
  "signal_identity_loop previous_was_separator [] = Inr previous_was_separator"
| "signal_identity_loop previous_was_separator (byte # bytes) =
     (let separator = is_separator byte in
      if separator then
        if previous_was_separator then Inl SignalInvalidSyntax
        else signal_identity_loop separator bytes
      else if \<not> (is_ascii_lowercase byte \<or> is_ascii_digit byte) then Inl SignalInvalidSyntax
      else signal_identity_loop separator bytes)"

definition validate_signal_identity :: "string \<Rightarrow> signal_identity_error + unit" where
  "validate_signal_identity value =
     (if value = [] then Inl SignalEmpty
      else if length value > IDENTITY_MAX_BYTES then Inl SignalTooLong
      else case signal_identity_loop True value of
             Inl e \<Rightarrow> Inl e
           | Inr previous_was_separator \<Rightarrow>
               if previous_was_separator then Inl SignalInvalidSyntax else Inr ())"

definition new_signal_identity :: "(string \<Rightarrow> 'i) \<Rightarrow> string \<Rightarrow> signal_identity_error + 'i" where
  "new_signal_identity wrap value =
     (case validate_signal_identity value of Inl e \<Rightarrow> Inl e | Inr _ \<Rightarrow> Inr (wrap value))"

fun plan_str :: "signal_plan_id \<Rightarrow> string" where "plan_str (SignalPlanId s) = s"
fun variant_str :: "signal_variant_id \<Rightarrow> string" where "variant_str (SignalVariantId s) = s"
fun block_str :: "counterbalance_block_id \<Rightarrow> string" where
  "block_str (CounterbalanceBlockId s) = s"

fun signal_error_of :: "identity_error \<Rightarrow> signal_identity_error" where
  "signal_error_of Empty = SignalEmpty"
| "signal_error_of TooLong = SignalTooLong"
| "signal_error_of InvalidSyntax = SignalInvalidSyntax"

lemma signal_identity_loop_eq:
  "signal_identity_loop p s = map_sum signal_error_of id (identity_loop p s)"
  by (induction p s rule: identity_loop.induct) (auto simp: Let_def)

text \<open>The two copies of the check agree, error for error.\<close>

lemma validate_signal_identity_eq:
  "validate_signal_identity value = map_sum signal_error_of id (validate_identity value)"
  by (auto simp: validate_signal_identity_def validate_identity_def signal_identity_loop_eq
      split: sum.splits)

lemma validate_signal_identity_iff:
  "validate_signal_identity value = Inr () \<longleftrightarrow>
     identity_lang value \<and> length value \<le> IDENTITY_MAX_BYTES"
  by (cases "validate_identity value")
    (auto simp: validate_signal_identity_eq validate_identity_accepts [symmetric])

section \<open>The contract of an identity newtype\<close>

locale identity_type =
  fixes new :: "string \<Rightarrow> 'e + 'i"
    and as_str :: "'i \<Rightarrow> string"
  assumes new_accepts: "(\<exists>i. new v = Inr i) \<longleftrightarrow> identity_lang v \<and> length v \<le> IDENTITY_MAX_BYTES"
    and new_as_str: "new v = Inr i \<Longrightarrow> as_str i = v"
begin

lemma new_well_formed: "new v = Inr i \<Longrightarrow> identity_lang (as_str i)"
  using new_accepts new_as_str by blast

lemma new_bounded: "new v = Inr i \<Longrightarrow> length (as_str i) \<le> IDENTITY_MAX_BYTES"
  using new_accepts new_as_str by blast

lemma new_total: "identity_lang v \<Longrightarrow> length v \<le> IDENTITY_MAX_BYTES \<Longrightarrow> \<exists>i. new v = Inr i \<and> as_str i = v"
  using new_accepts new_as_str by blast

lemma new_inject: "new v = Inr i \<Longrightarrow> new w = Inr i \<Longrightarrow> v = w"
  using new_as_str by blast

end

lemma new_identity_Inr_iff: "new_identity wrap v = Inr i \<longleftrightarrow> validate_identity v = Inr () \<and> i = wrap v"
  by (auto simp: new_identity_def split: sum.splits)

lemma new_signal_identity_Inr_iff:
  "new_signal_identity wrap v = Inr i \<longleftrightarrow> validate_signal_identity v = Inr () \<and> i = wrap v"
  by (auto simp: new_signal_identity_def split: sum.splits)

lemmas identity_contract =
  new_identity_Inr_iff new_signal_identity_Inr_iff validate_identity_accepts
  validate_signal_identity_iff

interpretation provider: identity_type "new_identity ProviderId" provider_str
  by unfold_locales (auto simp: identity_contract)

interpretation source: identity_type "new_identity SourceId" source_str
  by unfold_locales (auto simp: identity_contract)

interpretation channel: identity_type "new_identity AcquisitionChannelId" channel_str
  by unfold_locales (auto simp: identity_contract)

interpretation adapter: identity_type "new_identity AdapterId" adapter_str
  by unfold_locales (auto simp: identity_contract)

interpretation reason: identity_type "new_identity AdapterReasonId" reason_str
  by unfold_locales (auto simp: identity_contract)

interpretation plan: identity_type "new_signal_identity SignalPlanId" plan_str
  by unfold_locales (auto simp: identity_contract)

interpretation variant: identity_type "new_signal_identity SignalVariantId" variant_str
  by unfold_locales (auto simp: identity_contract)

interpretation block: identity_type "new_signal_identity CounterbalanceBlockId" block_str
  by unfold_locales (auto simp: identity_contract)

section \<open>Machine identities\<close>

definition MACHINE_ID_MAX_BYTES :: nat where "MACHINE_ID_MAX_BYTES = 128"

datatype machine_identity_error = MachineEmpty | MachineTooLong | NonAscii

definition validate_machine_identity :: "string \<Rightarrow> machine_identity_error + unit" where
  "validate_machine_identity value =
     (if value = [] then Inl MachineEmpty
      else if length value > MACHINE_ID_MAX_BYTES then Inl MachineTooLong
      else if \<not> is_ascii value then Inl NonAscii
      else Inr ())"

text \<open>Every validated identity is a valid machine identity.\<close>

lemma segment_is_ascii: "is_segment s \<Longrightarrow> is_ascii s"
  by (force simp: is_segment_def is_ascii_def is_ascii_lowercase_def is_ascii_digit_def)

lemma identity_lang_is_ascii: "identity_lang s \<Longrightarrow> is_ascii s"
proof (induction rule: identity_lang.induct)
  case (segment s)
  then show ?case by (rule segment_is_ascii)
next
  case (join s c t)
  from segment_is_ascii [OF join(1)] join(2,4) show ?case
    by (auto simp: is_ascii_def is_separator_def)
qed

lemma validated_identity_is_machine_identity:
  "validate_identity v = Inr () \<Longrightarrow> validate_machine_identity v = Inr ()"
  by (auto simp: validate_machine_identity_def validate_identity_accepts identity_lang_nonempty
      identity_lang_is_ascii IDENTITY_MAX_BYTES_def MACHINE_ID_MAX_BYTES_def)

section \<open>Provenance\<close>

record provenance =
  pv_provider_id :: provider_id
  pv_source_id :: source_id
  pv_acquisition_channel :: acquisition_channel_id
  pv_adapter_id :: adapter_id
  pv_adapter_version :: string

fun legacy_identities :: "record_source \<Rightarrow> string \<times> string \<times> string \<times> string" where
  "legacy_identities Operator =
     (''antennabench'', ''operator-evidence'', ''operator-entry'', ''antennabench.operator'')"
| "legacy_identities WsjtxUdp = (''wsjt-x'', ''wspr'', ''udp'', ''antennabench.wsjt-x-udp'')"
| "legacy_identities WsjtxLog =
     (''wsjt-x'', ''all-wspr'', ''log-import'', ''antennabench.wsjt-x-log'')"
| "legacy_identities Wsprnet =
     (''wsprnet'', ''spots'', ''legacy-unspecified'', ''antennabench.legacy'')"
| "legacy_identities WsprLive =
     (''wspr-live'', ''spots'', ''legacy-unspecified'', ''antennabench.legacy'')"
| "legacy_identities ImportedFile =
     (''legacy'', ''imported-file'', ''file-import'', ''antennabench.legacy'')"
| "legacy_identities RigAdapter =
     (''local-rig'', ''rig-state'', ''local-adapter'', ''antennabench.rig'')"
| "legacy_identities NoaaSwpc =
     (''noaa-swpc'', ''space-weather'', ''https'', ''antennabench.noaa-swpc'')"
| "legacy_identities Derived =
     (''antennabench'', ''derived'', ''internal'', ''antennabench.core'')"

text \<open>
  \<open>Provenance::from_legacy\<close> calls \<open>expect\<close> on each identity: \<open>None\<close> is the panic of a
  static identity that the check rejects.
\<close>

definition expect :: "'e + 'a \<Rightarrow> 'a option" where
  "expect r = (case r of Inl _ \<Rightarrow> None | Inr x \<Rightarrow> Some x)"

definition from_legacy :: "record_source \<Rightarrow> string \<Rightarrow> provenance option" where
  "from_legacy src adapter_version =
     (case legacy_identities src of (provider, source_id, channel, adapter) \<Rightarrow>
        Option.bind (expect (new_identity ProviderId provider)) (\<lambda>p.
        Option.bind (expect (new_identity SourceId source_id)) (\<lambda>s.
        Option.bind (expect (new_identity AcquisitionChannelId channel)) (\<lambda>c.
        Option.bind (expect (new_identity AdapterId adapter)) (\<lambda>a.
        Some \<lparr>pv_provider_id = p, pv_source_id = s, pv_acquisition_channel = c,
              pv_adapter_id = a, pv_adapter_version = adapter_version\<rparr>)))))"

definition legacy_source :: "provenance \<Rightarrow> record_source" where
  "legacy_source p =
     (let provider = provider_str (pv_provider_id p);
          src = source_str (pv_source_id p);
          channel = channel_str (pv_acquisition_channel p)
      in if provider = ''antennabench'' \<and> src = ''operator-evidence'' then Operator
         else if provider = ''wsjt-x'' \<and> channel = ''udp'' then WsjtxUdp
         else if provider = ''wsjt-x'' \<and> channel = ''log-import'' then WsjtxLog
         else if provider = ''wsprnet'' then Wsprnet
         else if provider = ''wspr-live'' then WsprLive
         else if provider = ''local-rig'' then RigAdapter
         else if provider = ''noaa-swpc'' then NoaaSwpc
         else if provider = ''antennabench'' \<and> src = ''derived'' then Derived
         else ImportedFile)"

text \<open>The value \<open>from_legacy\<close> returns, once every static identity is known to be accepted.\<close>

definition legacy_provenance :: "record_source \<Rightarrow> string \<Rightarrow> provenance" where
  "legacy_provenance src adapter_version =
     (case legacy_identities src of (provider, source_id, channel, adapter) \<Rightarrow>
        \<lparr>pv_provider_id = ProviderId provider, pv_source_id = SourceId source_id,
         pv_acquisition_channel = AcquisitionChannelId channel,
         pv_adapter_id = AdapterId adapter, pv_adapter_version = adapter_version\<rparr>)"

lemmas identity_eval =
  new_identity_def validate_identity_def IDENTITY_MAX_BYTES_def is_separator_def
  is_ascii_lowercase_def is_ascii_digit_def expect_def

lemma from_legacy_eq: "from_legacy src v = Some (legacy_provenance src v)"
  by (cases src) (simp_all add: from_legacy_def legacy_provenance_def identity_eval)

lemma legacy_source_legacy_provenance [simp]: "legacy_source (legacy_provenance src v) = src"
  by (cases src) (simp_all add: legacy_source_def legacy_provenance_def)

text \<open>
  The identity check accepts exactly the identity language within the byte limit, reports
  an empty and an overlong identity as such, and its schema-v3 copy gives the same verdict on
  every string, error for error.
\<close>

theorem identity_check_language:
  "(validate_identity v = Inr () \<longleftrightarrow> identity_lang v \<and> length v \<le> 128) \<and>
   (validate_identity v = Inl Empty \<longleftrightarrow> v = []) \<and>
   (validate_identity v = Inl TooLong \<longleftrightarrow> 128 < length v) \<and>
   validate_signal_identity v = map_sum signal_error_of id (validate_identity v)"
proof (intro conjI)
  have loop: "identity_loop p s \<noteq> Inl Empty" "identity_loop p s \<noteq> Inl TooLong" for p s
    by (induction p s rule: identity_loop.induct) (simp_all add: Let_def)
  show "validate_identity v = Inl Empty \<longleftrightarrow> v = []"
    "validate_identity v = Inl TooLong \<longleftrightarrow> 128 < length v"
    using loop by (auto simp: validate_identity_def IDENTITY_MAX_BYTES_def split: sum.splits)
qed (simp_all add: validate_identity_accepts validate_signal_identity_eq IDENTITY_MAX_BYTES_def)

text \<open>
  Building the provenance of a legacy source never panics, and the source is read back
  from it, whatever the adapter version.
\<close>

theorem legacy_source_roundtrip:
  "map_option (\<lambda>p. (legacy_source p, pv_adapter_version p)) (from_legacy src v) = Some (src, v)"
  by (cases src) (simp_all add: from_legacy_eq legacy_source_def legacy_provenance_def)

end
