(* ===== verification/EventData.thy ===== *)
theory EventData
  imports Identity
begin

text \<open>
  The operator events of schemas v2 and v3 (\<open>crates/core/src/v2.rs\<close>, \<open>v3.rs\<close>): record
  metadata, lifecycle states, payloads, corrections and their replacements, and the
  readiness basis schema v5 adds to an armed cycle.  The structs that differ between the
  two schemas only in the type of their payload are one record with the payload type as a
  parameter.  Constructors of schema v2 end in 2, of schema v3 in 3; the correctable
  payloads start with C.
\<close>

section \<open>Metadata\<close>

record mutation_member =
  mm_mutation_id :: string
  mm_member_index :: nat
  mm_member_count :: nat

record record_meta_v2 =
  m2_schema_version :: nat
  m2_session_id :: string
  m2_recorded_at :: timestamp
  m2_provenance :: provenance
  m2_mutation :: mutation_member
  m2_runtime_context_id :: "string option"

type_synonym record_meta_v3 = record_meta_v2

text \<open>\<open>RecordMetaV2::project\<close>.\<close>

definition project_meta :: "record_meta_v2 \<Rightarrow> record_meta" where
  "project_meta m =
     \<lparr>rm_schema_version = SCHEMA_VERSION_V2, rm_session_id = m2_session_id m,
      rm_timestamp = m2_recorded_at m, rm_source = legacy_source (m2_provenance m)\<rparr>"

datatype session_lifecycle = Draft | Ready | Running | Interrupted | Ended | Abandoned

datatype event_time_basis = ObservedNow | OperatorReported | RecoverySystem

section \<open>Corrections and replacements\<close>

record 'c replacement_event =
  rp_occurred_at :: timestamp
  rp_time_basis :: event_time_basis
  rp_uncertainty_seconds :: "nat option"
  rp_slot_id :: "string option"
  rp_payload :: 'c

datatype 'c correction_action = Retract | Replace "'c replacement_event"

section \<open>Schema-v2 payloads\<close>

datatype correctable_v2 =
    CAntennaStateConfirmed2 (c2_antenna_label: string) (c2_note: "string option")
  | CSlotMissed2 "string option"
  | CSlotBad2 string
  | CNoteAdded2 string

type_synonym replacement_v2 = "correctable_v2 replacement_event"
type_synonym correction_v2 = "correctable_v2 correction_action"

datatype payload_v2 =
    SessionStarted2 "string option"
  | SessionInterrupted2 "string option"
  | InterruptionDetected2 "string option"
  | SessionResumed2 "string option"
  | SessionEnded2 "string option"
  | SessionAbandoned2 "string option"
  | AntennaStateConfirmed2 string "string option"
  | SlotMissed2 "string option"
  | SlotBad2 string
  | NoteAdded2 string
  | EventCorrected2 string correction_v2 string

section \<open>Schema-v3 and schema-v5 payloads\<close>

datatype signal_mode = Cw | Rtty

record signal_state_confirmation =
  sg_frequency_hz :: "nat option"
  sg_mode :: "signal_mode option"
  sg_power_watts :: "fl option"
  sg_transmitted_callsign :: "string option"
  sg_cadence_followed :: "bool option"
  sg_note :: "string option"

datatype wspr_readiness_basis =
    OperatorConfirmed
  | CommandVerified (switch_record_id: string) (verification_record_id: string)
  | Continued (source_ready_event_id: string)

datatype correctable_v3 =
    CAntennaStateConfirmed3 string "string option"
  | CSignalStateConfirmed3 signal_state_confirmation
  | CSlotMissed3 "string option"
  | CSlotBad3 string
  | CNoteAdded3 string

type_synonym replacement_v3 = "correctable_v3 replacement_event"
type_synonym correction_v3 = "correctable_v3 correction_action"

datatype payload_v3 =
    SessionStarted3 "string option"
  | SessionInterrupted3 "string option"
  | InterruptionDetected3 "string option"
  | SessionResumed3 "string option"
  | SessionEnded3 "string option"
  | SessionAbandoned3 "string option"
  | AntennaSwitchStarted3 "string option"
  | WsprCycleArmed3 string timestamp "wspr_readiness_basis option"
  | AntennaStateConfirmed3 string "string option"
  | SignalStateConfirmed3 signal_state_confirmation
  | SlotMissed3 "string option"
  | SlotBad3 string
  | NoteAdded3 string
  | EventCorrected3 string correction_v3 string

section \<open>Events\<close>

record 'p operator_event_record =
  oe_meta :: record_meta_v2
  oe_event_id :: string
  oe_occurred_at :: timestamp
  oe_time_basis :: event_time_basis
  oe_uncertainty_seconds :: "nat option"
  oe_slot_id :: "string option"
  oe_payload :: 'p

type_synonym operator_event_v2 = "payload_v2 operator_event_record"
type_synonym operator_event_v3 = "payload_v3 operator_event_record"

section \<open>Schedules of schema v3\<close>

datatype wspr_cycle_direction = Receive | Transmit

record signal_allocation =
  sa_signal_plan_id :: signal_plan_id
  sa_frequency_hz :: nat
  sa_frequency_variant_id :: signal_variant_id
  sa_counterbalance_block_id :: counterbalance_block_id
  sa_counterbalance_position :: nat

record wspr_cycle_intent =
  wi_intent_id :: string
  wi_sequence_number :: nat
  wi_band :: band
  wi_antenna_label :: string
  wi_direction :: "wspr_cycle_direction option"
  wi_signal :: "signal_allocation option"

record planned_slot_v3 =
  p3_slot_id :: string
  p3_sequence_number :: nat
  p3_starts_at :: timestamp
  p3_duration_seconds :: nat
  p3_guard_seconds :: nat
  p3_band :: band
  p3_antenna_label :: string
  p3_signal :: "signal_allocation option"

datatype signal_collection_profile = ManualObservation | RbnCwV1

record signal_cadence =
  cd_message :: string
  cd_repetition_count :: nat
  cd_key_speed_wpm :: "nat option"
  cd_transmit_seconds :: nat
  cd_interval_seconds :: nat

record signal_plan =
  sp_signal_plan_id :: signal_plan_id
  sp_mode :: signal_mode
  sp_planned_power_watts :: "fl option"
  sp_transmitted_callsign :: string
  sp_differing_identity_validated :: bool
  sp_cadence :: signal_cadence
  sp_collection_profile :: signal_collection_profile

datatype antenna_control_invocation_policy = OperatorTriggered | Automatic

datatype antenna_control_policy =
    Manual
  | CommandControlled antenna_control_invocation_policy bool

definition is_manual :: "antenna_control_policy \<Rightarrow> bool" where
  "is_manual p \<longleftrightarrow> p = Manual"

record schedule_v3 =
  s3_schema_version :: nat
  s3_session_id :: string
  s3_mode :: experiment_mode
  s3_goal :: session_goal
  s3_antenna_control :: "antenna_control_policy option"
  s3_signal_plans :: "signal_plan list"
  s3_wspr_cycle_intents :: "wspr_cycle_intent list"
  s3_slots :: "planned_slot_v3 list"

end
