(* ===== verification/WsprCycle.thy ===== *)
theory WsprCycle
  imports EventData
begin

text \<open>
  The timing half of \<open>crates/core/src/wspr.rs\<close>: the two-minute WSPR cycle, its transmission
  window, and the choice of the next cycle.  chrono's representable range is the parameter
  \<open>rep\<close>: \<open>checked_add_signed\<close> and \<open>from_timestamp_millis\<close> return \<open>None\<close> exactly on
  instants outside it.
\<close>

section \<open>Constants\<close>

definition WSPR_CYCLE_SECONDS :: int where "WSPR_CYCLE_SECONDS = 120"
definition WSPR_NOMINAL_START_OFFSET_SECONDS :: int where
  "WSPR_NOMINAL_START_OFFSET_SECONDS = 1"
definition WSPR_SYMBOL_COUNT :: int where "WSPR_SYMBOL_COUNT = 162"
definition WSPR_SYMBOL_DURATION_NUMERATOR :: int where
  "WSPR_SYMBOL_DURATION_NUMERATOR = 8192"
definition WSPR_SYMBOL_DURATION_DENOMINATOR :: int where
  "WSPR_SYMBOL_DURATION_DENOMINATOR = 12000"
definition WSPR_TRANSMISSION_MILLISECONDS :: int where
  "WSPR_TRANSMISSION_MILLISECONDS =
     trunc_div (WSPR_SYMBOL_COUNT * WSPR_SYMBOL_DURATION_NUMERATOR * 1000)
       WSPR_SYMBOL_DURATION_DENOMINATOR"
definition WSPR_CYCLE_MILLISECONDS :: int where
  "WSPR_CYCLE_MILLISECONDS = WSPR_CYCLE_SECONDS * 1000"
definition WSPR_START_OFFSET_MILLISECONDS :: int where
  "WSPR_START_OFFSET_MILLISECONDS = WSPR_NOMINAL_START_OFFSET_SECONDS * 1000"

lemma transmission_milliseconds [simp]: "WSPR_TRANSMISSION_MILLISECONDS = 110592"
  by (simp add: WSPR_TRANSMISSION_MILLISECONDS_def WSPR_SYMBOL_COUNT_def
      WSPR_SYMBOL_DURATION_NUMERATOR_def WSPR_SYMBOL_DURATION_DENOMINATOR_def)

lemma cycle_constants [simp]:
  "WSPR_CYCLE_SECONDS = 120" "WSPR_NOMINAL_START_OFFSET_SECONDS = 1"
  "WSPR_CYCLE_MILLISECONDS = 120000" "WSPR_START_OFFSET_MILLISECONDS = 1000"
  by (simp_all add: WSPR_CYCLE_SECONDS_def WSPR_NOMINAL_START_OFFSET_SECONDS_def
      WSPR_CYCLE_MILLISECONDS_def WSPR_START_OFFSET_MILLISECONDS_def)

section \<open>chrono's instants\<close>

definition dt_nanosecond :: "timestamp \<Rightarrow> int" where "dt_nanosecond t = t mod ns_per_s"
definition dt_timestamp :: "timestamp \<Rightarrow> int" where "dt_timestamp t = t div ns_per_s"
definition dt_timestamp_millis :: "timestamp \<Rightarrow> int" where
  "dt_timestamp_millis t = t div ns_per_ms"

definition checked_add_signed ::
    "(timestamp \<Rightarrow> bool) \<Rightarrow> timestamp \<Rightarrow> duration \<Rightarrow> timestamp option" where
  "checked_add_signed rep t d = (if rep (t + d) then Some (t + d) else None)"

definition from_timestamp_millis :: "(timestamp \<Rightarrow> bool) \<Rightarrow> int \<Rightarrow> timestamp option" where
  "from_timestamp_millis rep ms = (if rep (ms * ns_per_ms) then Some (ms * ns_per_ms) else None)"

section \<open>Cycle windows\<close>

record wspr_cycle_window =
  cw_starts_at :: timestamp
  cw_transmission_ends_at :: timestamp
  cw_next_cycle_starts_at :: timestamp

datatype wspr_cycle_timing_error = MisalignedStart | NegativeLeadTime | TimestampOverflow

definition is_wspr_cycle_start :: "timestamp \<Rightarrow> bool" where
  "is_wspr_cycle_start t \<longleftrightarrow>
     dt_nanosecond t = 0 \<and>
     dt_timestamp t mod WSPR_CYCLE_SECONDS = WSPR_NOMINAL_START_OFFSET_SECONDS"

definition from_start ::
    "(timestamp \<Rightarrow> bool) \<Rightarrow> timestamp \<Rightarrow> wspr_cycle_timing_error + wspr_cycle_window" where
  "from_start rep starts_at =
     (if \<not> is_wspr_cycle_start starts_at then Inl MisalignedStart
      else case checked_add_signed rep starts_at (milliseconds WSPR_TRANSMISSION_MILLISECONDS) of
        None \<Rightarrow> Inl TimestampOverflow
      | Some transmission_ends_at \<Rightarrow>
          (case checked_add_signed rep starts_at (seconds WSPR_CYCLE_SECONDS) of
             None \<Rightarrow> Inl TimestampOverflow
           | Some next_cycle_starts_at \<Rightarrow>
               Inr \<lparr>cw_starts_at = starts_at, cw_transmission_ends_at = transmission_ends_at,
                    cw_next_cycle_starts_at = next_cycle_starts_at\<rparr>))"

definition switching_time :: "wspr_cycle_window \<Rightarrow> duration" where
  "switching_time w = cw_next_cycle_starts_at w - cw_transmission_ends_at w"

definition next_wspr_cycle_at_or_after ::
    "(timestamp \<Rightarrow> bool) \<Rightarrow> timestamp \<Rightarrow> wspr_cycle_timing_error + wspr_cycle_window" where
  "next_wspr_cycle_at_or_after rep not_before =
     (let timestamp_millis = dt_timestamp_millis not_before in
      case checked_i64 (timestamp_millis - WSPR_START_OFFSET_MILLISECONDS) of
        None \<Rightarrow> Inl TimestampOverflow
      | Some shifted \<Rightarrow>
          let cycle_index = shifted div WSPR_CYCLE_MILLISECONDS in
          (case Option.bind (checked_i64 (cycle_index * WSPR_CYCLE_MILLISECONDS))
                  (\<lambda>v. checked_i64 (v + WSPR_START_OFFSET_MILLISECONDS)) of
             None \<Rightarrow> Inl TimestampOverflow
           | Some candidate_millis \<Rightarrow>
               (case (if candidate_millis < timestamp_millis
                      then checked_i64 (candidate_millis + WSPR_CYCLE_MILLISECONDS)
                      else Some candidate_millis) of
                  None \<Rightarrow> Inl TimestampOverflow
                | Some candidate_millis' \<Rightarrow>
                    (case from_timestamp_millis rep candidate_millis' of
                       None \<Rightarrow> Inl TimestampOverflow
                     | Some starts_at \<Rightarrow> from_start rep starts_at))))"

definition next_wspr_cycle_after_ready ::
    "(timestamp \<Rightarrow> bool) \<Rightarrow> timestamp \<Rightarrow> duration
       \<Rightarrow> wspr_cycle_timing_error + wspr_cycle_window" where
  "next_wspr_cycle_after_ready rep ready_at minimum_lead_time =
     (if minimum_lead_time < 0 then Inl NegativeLeadTime
      else case checked_add_signed rep ready_at minimum_lead_time of
             None \<Rightarrow> Inl TimestampOverflow
           | Some not_before \<Rightarrow> next_wspr_cycle_at_or_after rep not_before)"

section \<open>Properties\<close>

text \<open>An aligned start is \<open>1 s\<close> modulo \<open>120 s\<close>, to the nanosecond.\<close>

lemma is_wspr_cycle_start_iff: "is_wspr_cycle_start t \<longleftrightarrow> (\<exists>k. t = (120 * k + 1) * ns_per_s)"
proof
  assume "is_wspr_cycle_start t"
  then have "t mod ns_per_s = 0" and m: "t div ns_per_s mod 120 = 1"
    by (simp_all add: is_wspr_cycle_start_def dt_nanosecond_def dt_timestamp_def)
  moreover have "t div ns_per_s = 120 * (t div ns_per_s div 120) + 1"
    using mult_div_mod_eq [of 120 "t div ns_per_s"] m by simp
  ultimately have "t = (120 * (t div ns_per_s div 120) + 1) * ns_per_s"
    using div_mult_mod_eq [of t ns_per_s] by simp
  then show "\<exists>k. t = (120 * k + 1) * ns_per_s" ..
next
  assume "\<exists>k. t = (120 * k + 1) * ns_per_s"
  then obtain k where "t = (120 * k + 1) * ns_per_s" ..
  then show "is_wspr_cycle_start t"
    by (simp add: is_wspr_cycle_start_def dt_nanosecond_def dt_timestamp_def)
qed

lemma from_start_Inr_iff:
  "from_start rep t = Inr w \<longleftrightarrow>
     is_wspr_cycle_start t \<and> rep (t + milliseconds 110592) \<and> rep (t + seconds 120) \<and>
     w = \<lparr>cw_starts_at = t, cw_transmission_ends_at = t + milliseconds 110592,
          cw_next_cycle_starts_at = t + seconds 120\<rparr>"
  by (auto simp: from_start_def checked_add_signed_def)

lemma from_start_starts_at: "from_start rep t = Inr w \<Longrightarrow> cw_starts_at w = t"
  by (simp add: from_start_Inr_iff)

lemma from_start_window:
  "from_start rep t = Inr w \<Longrightarrow>
     cw_starts_at w < cw_transmission_ends_at w \<and>
     cw_transmission_ends_at w < cw_next_cycle_starts_at w"
  by (auto simp: from_start_Inr_iff milliseconds_def seconds_def)

lemma from_start_switching_time:
  "from_start rep t = Inr w \<Longrightarrow> switching_time w = milliseconds 9408"
  by (auto simp: from_start_Inr_iff switching_time_def milliseconds_def seconds_def)

text \<open>The next aligned start, in milliseconds, that the selection computes.\<close>

definition next_start_millis :: "int \<Rightarrow> int" where
  "next_start_millis ms =
     (let c = (ms - 1000) div 120000 * 120000 + 1000 in if c < ms then c + 120000 else c)"

lemma next_start_millis_cases:
  obtains k where "next_start_millis ms = 120000 * k + 1000"
    and "ms \<le> next_start_millis ms" and "next_start_millis ms < ms + 120000"
proof -
  obtain q r where q: "(ms - 1000) div 120000 = q" "ms - 1000 = q * 120000 + r" "0 \<le> r" "r < 120000"
    using div_split [of 120000 "ms - 1000"] by auto
  show ?thesis
  proof (rule that)
    show "next_start_millis ms = 120000 * (if r = 0 then q else q + 1) + 1000"
      and "ms \<le> next_start_millis ms" and "next_start_millis ms < ms + 120000"
      using q(2-4) by (auto simp: next_start_millis_def Let_def q(1))
  qed
qed

lemma next_start_millis_bounds:
  "ms \<le> next_start_millis ms" "next_start_millis ms < ms + 120000"
  by (rule next_start_millis_cases [of ms]; assumption)+

lemma next_start_millis_aligned: "is_wspr_cycle_start (next_start_millis ms * ns_per_ms)"
proof -
  obtain k where "next_start_millis ms = 120000 * k + 1000" by (rule next_start_millis_cases)
  then have "next_start_millis ms * ns_per_ms = (120 * k + 1) * ns_per_s" by simp
  then show ?thesis unfolding is_wspr_cycle_start_iff ..
qed

lemma next_wspr_cycle_eq:
  assumes "\<bar>t\<bar> < 2 ^ 80"
  shows "next_wspr_cycle_at_or_after rep t =
    (case from_timestamp_millis rep (next_start_millis (t div ns_per_ms)) of
       None \<Rightarrow> Inl TimestampOverflow
     | Some starts_at \<Rightarrow> from_start rep starts_at)"
proof -
  let ?ms = "t div ns_per_ms"
  obtain m u where m: "t div ns_per_ms = m" "t = m * ns_per_ms + u" "0 \<le> u" "u < ns_per_ms"
    using div_split [of ns_per_ms t] by auto
  obtain q r where q: "(m - 1000) div 120000 = q" "m - 1000 = q * 120000 + r" "0 \<le> r" "r < 120000"
    using div_split [of 120000 "m - 1000"] by auto
  have "checked_i64 (m - 1000) = Some (m - 1000)" "checked_i64 (q * 120000) = Some (q * 120000)"
    "checked_i64 (q * 120000 + 1000) = Some (q * 120000 + 1000)"
    "checked_i64 (q * 120000 + 1000 + 120000) = Some (q * 120000 + 1000 + 120000)"
    using assms m(2-4) q(2-4) by (auto simp: abs_less_iff)
  then show ?thesis
    by (simp add: next_wspr_cycle_at_or_after_def dt_timestamp_millis_def next_start_millis_def
        Let_def m(1) q(1) del: checked_i64_Some)
qed

text \<open>
  A cycle window can be built exactly on the instants one second into an even minute
  whose window chrono can represent; a misaligned start is reported as such.  The window
  then spans exactly 120 s, transmits for exactly 110.592 s and leaves 9.408 s to switch.
\<close>

theorem cycle_window_functional:
  "from_start rep t =
     (if \<exists>k. t = (120 * k + 1) * ns_per_s then
        if rep (t + milliseconds 110592) \<and> rep (t + seconds 120) then
          Inr \<lparr>cw_starts_at = t, cw_transmission_ends_at = t + milliseconds 110592,
               cw_next_cycle_starts_at = t + seconds 120\<rparr>
        else Inl TimestampOverflow
      else Inl MisalignedStart) \<and>
   switching_time \<lparr>cw_starts_at = t, cw_transmission_ends_at = t + milliseconds 110592,
     cw_next_cycle_starts_at = t + seconds 120\<rparr> = milliseconds 9408"
  unfolding is_wspr_cycle_start_iff [symmetric]
  by (simp add: from_start_def checked_add_signed_def switching_time_def milliseconds_def seconds_def)

lemma next_start_least:
  assumes "is_wspr_cycle_start s" and "ms * ns_per_ms \<le> s"
  shows "next_start_millis ms * ns_per_ms \<le> s"
proof -
  obtain j where s: "s = (120 * j + 1) * ns_per_s"
    using assms(1) unfolding is_wspr_cycle_start_iff by blast
  obtain k where k: "next_start_millis ms = 120000 * k + 1000" "next_start_millis ms < ms + 120000"
    by (rule next_start_millis_cases)
  from assms(2) have "ms \<le> 120000 * j + 1000" by (simp add: s)
  with k have "120000 * k < 120000 * j + 120000" by linarith
  then have "k \<le> j" by linarith
  then show ?thesis by (simp add: s k(1))
qed

lemma floor_ms_le: "(t :: int) div ns_per_ms * ns_per_ms \<le> t"
  and floor_ms_gt: "(t :: int) < (t div ns_per_ms + 1) * ns_per_ms"
  by (rule div_split [of ns_per_ms t]; simp)+

lemma next_wspr_cycle_InrD:
  assumes "\<bar>t\<bar> < 2 ^ 80" and "next_wspr_cycle_at_or_after rep t = Inr w"
  shows "cw_starts_at w = next_start_millis (t div ns_per_ms) * ns_per_ms"
  using assms by (auto simp: next_wspr_cycle_eq from_timestamp_millis_def from_start_Inr_iff
      split: option.splits if_splits)

text \<open>The chosen start is before the instant only where truncation moved it onto a start.\<close>

lemma next_start_before_iff:
  "next_start_millis (t div ns_per_ms) * ns_per_ms < t \<longleftrightarrow>
     is_wspr_cycle_start (t div ns_per_ms * ns_per_ms) \<and> t mod ns_per_ms \<noteq> 0"
proof (cases "next_start_millis (t div ns_per_ms) = t div ns_per_ms")
  case True
  then have aligned: "is_wspr_cycle_start (t div ns_per_ms * ns_per_ms) = True"
    using next_start_millis_aligned [of "t div ns_per_ms"] by simp
  have "t div ns_per_ms * ns_per_ms < t \<longleftrightarrow> t mod ns_per_ms \<noteq> 0"
    using minus_mod_eq_div_mult [of t ns_per_ms] pos_mod_sign [of ns_per_ms t] by linarith
  then show ?thesis unfolding True aligned by (simp only: simp_thms)
next
  case False
  with next_start_millis_bounds(1) [of "t div ns_per_ms"]
  have later: "t div ns_per_ms + 1 \<le> next_start_millis (t div ns_per_ms)" by linarith
  then have "(t div ns_per_ms + 1) * ns_per_ms \<le> next_start_millis (t div ns_per_ms) * ns_per_ms"
    by (simp add: mult_right_mono)
  with floor_ms_gt [of t] have "\<not> next_start_millis (t div ns_per_ms) * ns_per_ms < t" by linarith
  moreover have "\<not> is_wspr_cycle_start (t div ns_per_ms * ns_per_ms)"
    using next_start_least [of "t div ns_per_ms * ns_per_ms" "t div ns_per_ms"] later by auto
  ultimately show ?thesis by blast
qed

text \<open>
  C32. Choosing the next cycle never reports a misaligned start, and what it returns is the
  least aligned start that is not before the requested instant truncated to the
  millisecond, less than 120 s after the request.  The choice may therefore have begun
  already: it lies before the request exactly when the truncated request is itself an
  aligned start and truncation dropped something.  The instant is any chrono could
  represent.
\<close>

theorem next_cycle_least:
  assumes "\<bar>t\<bar> < 2 ^ 80"
  shows "next_wspr_cycle_at_or_after rep t \<noteq> Inl MisalignedStart \<and>
    (\<forall>w. next_wspr_cycle_at_or_after rep t = Inr w \<longrightarrow>
       is_wspr_cycle_start (cw_starts_at w) \<and>
       t div ns_per_ms * ns_per_ms \<le> cw_starts_at w \<and>
       cw_starts_at w < t + seconds 120 \<and>
       (\<forall>s. is_wspr_cycle_start s \<and> t div ns_per_ms * ns_per_ms \<le> s \<longrightarrow> cw_starts_at w \<le> s) \<and>
       (cw_starts_at w < t \<longleftrightarrow>
          is_wspr_cycle_start (t div ns_per_ms * ns_per_ms) \<and> t mod ns_per_ms \<noteq> 0))"
proof (intro conjI allI impI)
  show "next_wspr_cycle_at_or_after rep t \<noteq> Inl MisalignedStart"
    using assms by (simp add: next_wspr_cycle_eq from_timestamp_millis_def from_start_def
        next_start_millis_aligned split: option.split)
next
  fix w assume "next_wspr_cycle_at_or_after rep t = Inr w"
  with assms have w: "cw_starts_at w = next_start_millis (t div ns_per_ms) * ns_per_ms"
    by (rule next_wspr_cycle_InrD)
  show "is_wspr_cycle_start (cw_starts_at w)" by (simp add: w next_start_millis_aligned)
  show "t div ns_per_ms * ns_per_ms \<le> cw_starts_at w"
    using next_start_millis_bounds(1) by (simp add: w)
  show "cw_starts_at w < t + seconds 120"
    using next_start_millis_bounds(2) [of "t div ns_per_ms"] floor_ms_le [of t]
    by (simp add: w seconds_def)
  show "cw_starts_at w < t \<longleftrightarrow>
      is_wspr_cycle_start (t div ns_per_ms * ns_per_ms) \<and> t mod ns_per_ms \<noteq> 0"
    unfolding w by (rule next_start_before_iff)
next
  fix w s assume "next_wspr_cycle_at_or_after rep t = Inr w"
    and s: "is_wspr_cycle_start s \<and> t div ns_per_ms * ns_per_ms \<le> s"
  with assms have "cw_starts_at w = next_start_millis (t div ns_per_ms) * ns_per_ms"
    using next_wspr_cycle_InrD by blast
  with s next_start_least [of s "t div ns_per_ms"] show "cw_starts_at w \<le> s" by simp
qed

lemmas next_cycle_eval =
  next_wspr_cycle_at_or_after_def dt_timestamp_millis_def seconds_def milliseconds_def
  Let_def checked_i64_def from_timestamp_millis_def from_start_def is_wspr_cycle_start_def
  dt_nanosecond_def dt_timestamp_def checked_add_signed_def

lemma next_cycle_sample:
  "next_wspr_cycle_at_or_after (\<lambda>_. True) (seconds 2) =
     Inr \<lparr>cw_starts_at = seconds 121, cw_transmission_ends_at = milliseconds 231592,
          cw_next_cycle_starts_at = seconds 241\<rparr>"
  "next_wspr_cycle_after_ready (\<lambda>_. True) 0 (seconds 5) =
     Inr \<lparr>cw_starts_at = seconds 121, cw_transmission_ends_at = milliseconds 231592,
          cw_next_cycle_starts_at = seconds 241\<rparr>"
  by (simp_all add: next_wspr_cycle_after_ready_def next_cycle_eval)

theorem next_cycle_least_witness:
  "next_wspr_cycle_at_or_after (\<lambda>_. True) (seconds 2) =
     Inr \<lparr>cw_starts_at = seconds 121, cw_transmission_ends_at = milliseconds 231592,
          cw_next_cycle_starts_at = seconds 241\<rparr> \<and>
   is_wspr_cycle_start (seconds 121) \<and> seconds 2 \<le> seconds 121 \<and>
   \<not> (\<exists>s. is_wspr_cycle_start s \<and> seconds 2 \<le> s \<and> s < seconds 121)"
proof -
  have bound: "\<bar>seconds 2\<bar> < 2 ^ 80" by (simp add: seconds_def)
  from next_cycle_least [OF bound, of "\<lambda>_. True"] show ?thesis
    unfolding next_cycle_sample by (fastforce simp: seconds_def)
qed

text \<open>
  After a readiness report the chosen cycle respects the minimum lead time to the
  millisecond, and a negative lead time is refused.
\<close>

theorem next_cycle_after_ready_lead_time:
  assumes "\<bar>ready_at + lead\<bar> < 2 ^ 80"
  shows "(lead < 0 \<longleftrightarrow> next_wspr_cycle_after_ready rep ready_at lead = Inl NegativeLeadTime) \<and>
    (\<forall>w. next_wspr_cycle_after_ready rep ready_at lead = Inr w \<longrightarrow>
       ready_at + lead < cw_starts_at w + milliseconds 1 \<and>
       cw_starts_at w < ready_at + lead + seconds 120)"
proof (intro conjI allI impI iffI)
  show "next_wspr_cycle_after_ready rep ready_at lead = Inl NegativeLeadTime" if "lead < 0"
    using that by (simp add: next_wspr_cycle_after_ready_def)
  show "lead < 0" if "next_wspr_cycle_after_ready rep ready_at lead = Inl NegativeLeadTime"
    using that assms by (auto simp: next_wspr_cycle_after_ready_def next_wspr_cycle_eq
        checked_add_signed_def from_start_def split: if_splits option.splits)
next
  fix w assume "next_wspr_cycle_after_ready rep ready_at lead = Inr w"
  then have "next_wspr_cycle_at_or_after rep (ready_at + lead) = Inr w"
    by (auto simp: next_wspr_cycle_after_ready_def checked_add_signed_def split: if_splits)
  then have w: "cw_starts_at w = next_start_millis ((ready_at + lead) div ns_per_ms) * ns_per_ms"
    using assms next_wspr_cycle_InrD by blast
  show "ready_at + lead < cw_starts_at w + milliseconds 1"
    using next_start_millis_bounds(1) [of "(ready_at + lead) div ns_per_ms"] floor_ms_gt [of "ready_at + lead"]
    by (simp add: w milliseconds_def)
  show "cw_starts_at w < ready_at + lead + seconds 120"
    using next_start_millis_bounds(2) [of "(ready_at + lead) div ns_per_ms"] floor_ms_le [of "ready_at + lead"]
    by (simp add: w seconds_def)
qed

theorem next_cycle_after_ready_lead_time_witness:
  "next_wspr_cycle_after_ready (\<lambda>_. True) 0 (seconds 5) =
     Inr \<lparr>cw_starts_at = seconds 121, cw_transmission_ends_at = milliseconds 231592,
          cw_next_cycle_starts_at = seconds 241\<rparr> \<and>
   seconds 5 < seconds 121 + milliseconds 1 \<and> seconds 121 < seconds 5 + seconds 120"
proof -
  have bound: "\<bar>0 + seconds 5\<bar> < 2 ^ 80" by (simp add: seconds_def)
  from next_cycle_after_ready_lead_time [OF bound, of "\<lambda>_. True"] show ?thesis
    unfolding next_cycle_sample by simp
qed

end
