(* ===== verification/OperatorEvents.thy ===== *)
theory OperatorEvents
  imports WsprCycle
begin

text \<open>
  The operator-event reducers of \<open>crates/core/src/operator_events.rs\<close>, for schema v2 and
  schema v3: the lifecycle machine, the shape checks, the append-order reduction with
  corrections, the append validation, and the legacy projections of effective events.

  The mutable locals of the reducing loop are the record \<open>reducer\<close>: the \<open>HashSet\<close> of seen
  ids is a set, the \<open>HashMap\<close> from ids to indices a map, and \<open>effective\<close> the vector of
  optional effective events.  The body of the loop is one step function per schema.
\<close>

section \<open>Diagnostics and results\<close>

datatype event_diagnostic_code =
  DuplicateEventId | InvalidLifecycleTransition | InvalidCorrectionTarget
  | InvalidCorrectionReason | InvalidEventShape

record event_diagnostic =
  ed_event_id :: string
  ed_related_event_id :: "string option"
  ed_code :: event_diagnostic_code
  ed_message :: message

record 'c effective_event =
  ef_session_id :: string
  ef_source_event_id :: string
  ef_effective_through_event_id :: string
  ef_recorded_at :: timestamp
  ef_occurred_at :: timestamp
  ef_time_basis :: event_time_basis
  ef_uncertainty_seconds :: "nat option"
  ef_slot_id :: "string option"
  ef_payload :: 'c

type_synonym effective_v2 = "correctable_v2 effective_event"
type_synonym effective_v3 = "correctable_v3 effective_event"

record 'c event_reduction =
  re_lifecycle :: session_lifecycle
  re_effective_events :: "'c effective_event list"
  re_diagnostics :: "event_diagnostic list"

record 'c reducer =
  rd_lifecycle :: session_lifecycle
  rd_diagnostics :: "event_diagnostic list"
  rd_seen_ids :: "string set"
  rd_originals :: "string \<rightharpoonup> nat"
  rd_effective :: "'c effective_event option list"

datatype lifecycle_transition_error =
    StaleRevision nat nat
  | NotLifecycle
  | InvalidTransition session_lifecycle

primrec lifecycle_name :: "session_lifecycle \<Rightarrow> string" where
  "lifecycle_name Draft = ''Draft''"
| "lifecycle_name Ready = ''Ready''"
| "lifecycle_name Running = ''Running''"
| "lifecycle_name Interrupted = ''Interrupted''"
| "lifecycle_name Ended = ''Ended''"
| "lifecycle_name Abandoned = ''Abandoned''"

primrec lifecycle_error_message :: "lifecycle_transition_error \<Rightarrow> message" where
  "lifecycle_error_message (StaleRevision expected actual) =
     [Lit ''expected checkpoint revision '', ShowNat expected,
      Lit '', but current revision is '', ShowNat actual]"
| "lifecycle_error_message NotLifecycle = [Lit ''event is not a lifecycle transition'']"
| "lifecycle_error_message (InvalidTransition from) =
     [Lit ''invalid lifecycle transition from '', Lit (lifecycle_name from)]"

definition diagnostic ::
    "'p operator_event_record \<Rightarrow> string option \<Rightarrow> event_diagnostic_code \<Rightarrow> message
       \<Rightarrow> event_diagnostic" where
  "diagnostic event related code message =
     \<lparr>ed_event_id = oe_event_id event, ed_related_event_id = related,
      ed_code = code, ed_message = message\<rparr>"

definition push_diagnostic :: "event_diagnostic \<Rightarrow> 'c reducer \<Rightarrow> 'c reducer" where
  "push_diagnostic d s = s\<lparr>rd_diagnostics := rd_diagnostics s @ [d]\<rparr>"

definition see :: "string \<Rightarrow> 'c reducer \<Rightarrow> 'c reducer" where
  "see i s = s\<lparr>rd_seen_ids := insert i (rd_seen_ids s)\<rparr>"

definition init_reducer :: "session_lifecycle \<Rightarrow> 'c reducer" where
  "init_reducer initial =
     \<lparr>rd_lifecycle = initial, rd_diagnostics = [], rd_seen_ids = {},
      rd_originals = Map.empty, rd_effective = []\<rparr>"

definition finish_reducer :: "'c reducer \<Rightarrow> 'c event_reduction" where
  "finish_reducer s =
     \<lparr>re_lifecycle = rd_lifecycle s, re_effective_events = flatten (rd_effective s),
      re_diagnostics = rd_diagnostics s\<rparr>"

definition is_terminal :: "session_lifecycle \<Rightarrow> bool" where
  "is_terminal l \<longleftrightarrow> l = Ended \<or> l = Abandoned"

section \<open>Schema v2\<close>

fun is_lifecycle_payload :: "payload_v2 \<Rightarrow> bool" where
  "is_lifecycle_payload (SessionStarted2 _) = True"
| "is_lifecycle_payload (SessionInterrupted2 _) = True"
| "is_lifecycle_payload (InterruptionDetected2 _) = True"
| "is_lifecycle_payload (SessionResumed2 _) = True"
| "is_lifecycle_payload (SessionEnded2 _) = True"
| "is_lifecycle_payload (SessionAbandoned2 _) = True"
| "is_lifecycle_payload _ = False"

fun apply_lifecycle_transition ::
    "session_lifecycle \<Rightarrow> payload_v2 \<Rightarrow> lifecycle_transition_error + session_lifecycle" where
  "apply_lifecycle_transition Ready (SessionStarted2 _) = Inr Running"
| "apply_lifecycle_transition Running (SessionInterrupted2 _) = Inr Interrupted"
| "apply_lifecycle_transition Running (InterruptionDetected2 _) = Inr Interrupted"
| "apply_lifecycle_transition Interrupted (SessionResumed2 _) = Inr Running"
| "apply_lifecycle_transition Running (SessionEnded2 _) = Inr Ended"
| "apply_lifecycle_transition Interrupted (SessionEnded2 _) = Inr Ended"
| "apply_lifecycle_transition Draft (SessionAbandoned2 _) = Inr Abandoned"
| "apply_lifecycle_transition Ready (SessionAbandoned2 _) = Inr Abandoned"
| "apply_lifecycle_transition Running (SessionAbandoned2 _) = Inr Abandoned"
| "apply_lifecycle_transition Interrupted (SessionAbandoned2 _) = Inr Abandoned"
| "apply_lifecycle_transition from payload =
     (if \<not> is_lifecycle_payload payload then Inl NotLifecycle else Inl (InvalidTransition from))"

definition validate_lifecycle_transition_v2 ::
    "session_lifecycle \<Rightarrow> nat \<Rightarrow> nat \<Rightarrow> payload_v2
       \<Rightarrow> lifecycle_transition_error + session_lifecycle" where
  "validate_lifecycle_transition_v2 current current_revision expected_revision payload =
     (if current_revision \<noteq> expected_revision
      then Inl (StaleRevision expected_revision current_revision)
      else apply_lifecycle_transition current payload)"

text \<open>The closure \<open>slot_required\<close> of the shape checks.\<close>

definition slot_required :: "string option \<Rightarrow> string \<Rightarrow> message option" where
  "slot_required slot_id kind =
     bool_then (slot_id = None) [Lit kind, Lit '' requires a planned slot reference'']"

fun replacement_shape_error :: "replacement_v2 \<Rightarrow> message option" where
  "replacement_shape_error r =
     (case rp_payload r of
        CAntennaStateConfirmed2 antenna_label _ \<Rightarrow>
          or_else
            (bool_then (rp_slot_id r = None)
               [Lit ''replacement antenna confirmation requires a planned slot reference''])
            (bool_then (trim antenna_label = [] \<or> trim antenna_label \<noteq> antenna_label)
               [Lit ''replacement actual antenna label must be nonempty and trimmed''])
      | CSlotMissed2 _ \<Rightarrow>
          bool_then (rp_slot_id r = None)
            [Lit ''replacement missed-slot event requires a planned slot reference'']
      | CSlotBad2 reason \<Rightarrow>
          or_else
            (bool_then (rp_slot_id r = None)
               [Lit ''replacement bad-slot event requires a planned slot reference''])
            (bool_then (trim reason = []) [Lit ''replacement bad-slot reason must not be empty''])
      | CNoteAdded2 note \<Rightarrow>
          bool_then (trim note = []) [Lit ''replacement operator note must not be empty''])"

definition event_shape_error :: "operator_event_v2 \<Rightarrow> message option" where
  "event_shape_error e =
     (if is_lifecycle_payload (oe_payload e) \<and> oe_slot_id e \<noteq> None
      then Some [Lit ''lifecycle events must not reference a planned slot'']
      else case oe_payload e of
        AntennaStateConfirmed2 antenna_label _ \<Rightarrow>
          or_else (slot_required (oe_slot_id e) ''antenna confirmation'')
            (bool_then (trim antenna_label = [] \<or> trim antenna_label \<noteq> antenna_label)
               [Lit ''actual antenna label must be nonempty and trimmed''])
      | SlotMissed2 _ \<Rightarrow> slot_required (oe_slot_id e) ''missed-slot event''
      | SlotBad2 reason \<Rightarrow>
          or_else (slot_required (oe_slot_id e) ''bad-slot event'')
            (bool_then (trim reason = []) [Lit ''bad-slot reason must not be empty''])
      | NoteAdded2 note \<Rightarrow>
          bool_then (trim note = []) [Lit ''operator note must not be empty'']
      | EventCorrected2 target_event_id correction reason \<Rightarrow>
          if oe_slot_id e \<noteq> None then
            Some [Lit ''correction events carry replacement slot state in the correction payload'']
          else if trim target_event_id = [] then
            Some [Lit ''correction target event ID must not be empty'']
          else if trim reason = [] then Some [Lit ''correction reason must not be empty'']
          else (case correction of
                  Retract \<Rightarrow> None
                | Replace replacement \<Rightarrow> replacement_shape_error replacement)
      | _ \<Rightarrow> None)"

fun correctable_payload :: "payload_v2 \<Rightarrow> correctable_v2 option" where
  "correctable_payload (AntennaStateConfirmed2 l n) = Some (CAntennaStateConfirmed2 l n)"
| "correctable_payload (SlotMissed2 r) = Some (CSlotMissed2 r)"
| "correctable_payload (SlotBad2 r) = Some (CSlotBad2 r)"
| "correctable_payload (NoteAdded2 n) = Some (CNoteAdded2 n)"
| "correctable_payload _ = None"

definition effective_from_replacement ::
    "string \<Rightarrow> 'p operator_event_record \<Rightarrow> 'c replacement_event \<Rightarrow> 'c effective_event" where
  "effective_from_replacement target_event_id correction r =
     \<lparr>ef_session_id = m2_session_id (oe_meta correction),
      ef_source_event_id = target_event_id,
      ef_effective_through_event_id = oe_event_id correction,
      ef_recorded_at = m2_recorded_at (oe_meta correction),
      ef_occurred_at = rp_occurred_at r,
      ef_time_basis = rp_time_basis r,
      ef_uncertainty_seconds = rp_uncertainty_seconds r,
      ef_slot_id = rp_slot_id r,
      ef_payload = rp_payload r\<rparr>"

definition effective_from_event ::
    "'p operator_event_record \<Rightarrow> 'c \<Rightarrow> 'c effective_event" where
  "effective_from_event e payload =
     \<lparr>ef_session_id = m2_session_id (oe_meta e),
      ef_source_event_id = oe_event_id e,
      ef_effective_through_event_id = oe_event_id e,
      ef_recorded_at = m2_recorded_at (oe_meta e),
      ef_occurred_at = oe_occurred_at e,
      ef_time_basis = oe_time_basis e,
      ef_uncertainty_seconds = oe_uncertainty_seconds e,
      ef_slot_id = oe_slot_id e,
      ef_payload = payload\<rparr>"

text \<open>The two state changes of the loop: a correction, and a new original.\<close>

definition set_effective :: "nat \<Rightarrow> 'c effective_event option \<Rightarrow> 'c reducer \<Rightarrow> 'c reducer" where
  "set_effective i x s = s\<lparr>rd_effective := (rd_effective s)[i := x]\<rparr>"

definition add_original :: "string \<Rightarrow> 'c effective_event \<Rightarrow> 'c reducer \<Rightarrow> 'c reducer" where
  "add_original i v s =
     s\<lparr>rd_originals := (rd_originals s)(i \<mapsto> length (rd_effective s)),
       rd_effective := rd_effective s @ [Some v]\<rparr>"

definition set_lifecycle :: "session_lifecycle \<Rightarrow> 'c reducer \<Rightarrow> 'c reducer" where
  "set_lifecycle l s = s\<lparr>rd_lifecycle := l\<rparr>"

definition reduce_step_v2 :: "correctable_v2 reducer \<Rightarrow> operator_event_v2 \<Rightarrow> correctable_v2 reducer" where
  "reduce_step_v2 s event =
     (if oe_event_id event \<in> rd_seen_ids s then
        push_diagnostic (diagnostic event None DuplicateEventId [Lit ''event ID is duplicated'']) s
      else
        let s = see (oe_event_id event) s in
        case event_shape_error event of
          Some message \<Rightarrow> push_diagnostic (diagnostic event None InvalidEventShape message) s
        | None \<Rightarrow>
            if is_lifecycle_payload (oe_payload event) then
              (case apply_lifecycle_transition (rd_lifecycle s) (oe_payload event) of
                 Inr next_state \<Rightarrow> set_lifecycle next_state s
               | Inl error \<Rightarrow>
                   push_diagnostic (diagnostic event None InvalidLifecycleTransition
                     (lifecycle_error_message error)) s)
            else if is_terminal (rd_lifecycle s) then
              push_diagnostic (diagnostic event None InvalidLifecycleTransition
                [Lit ''operator evidence cannot be appended after a terminal lifecycle event'']) s
            else
              (case oe_payload event of
                 EventCorrected2 target_event_id correction reason \<Rightarrow>
                   if trim reason = [] then
                     push_diagnostic (diagnostic event (Some target_event_id)
                       InvalidCorrectionReason [Lit ''correction reason must not be empty'']) s
                   else
                     (case rd_originals s target_event_id of
                        None \<Rightarrow>
                          push_diagnostic (diagnostic event (Some target_event_id)
                            InvalidCorrectionTarget
                            [Lit ''correction target must be an earlier correctable event'']) s
                      | Some target_index \<Rightarrow>
                          (case correction of
                             Retract \<Rightarrow> set_effective target_index None s
                           | Replace replacement \<Rightarrow>
                               set_effective target_index
                                 (Some (effective_from_replacement target_event_id event
                                          replacement)) s))
               | payload \<Rightarrow>
                   (case correctable_payload payload of
                      None \<Rightarrow>
                        push_diagnostic (diagnostic event None InvalidEventShape
                          [Lit ''event payload is neither lifecycle evidence nor correctable operator evidence'']) s
                    | Some payload \<Rightarrow>
                        add_original (oe_event_id event) (effective_from_event event payload) s)))"

definition reduce_operator_events_v2 ::
    "session_lifecycle \<Rightarrow> operator_event_v2 list \<Rightarrow> correctable_v2 event_reduction" where
  "reduce_operator_events_v2 initial_lifecycle events =
     finish_reducer (foldl reduce_step_v2 (init_reducer initial_lifecycle) events)"

datatype event_append_error = AppendStaleRevision nat nat | InvalidEvent message

definition validate_operator_event_append_v2 ::
    "session_lifecycle \<Rightarrow> nat \<Rightarrow> nat \<Rightarrow> operator_event_v2 list \<Rightarrow> operator_event_v2
       \<Rightarrow> event_append_error + correctable_v2 event_reduction" where
  "validate_operator_event_append_v2 initial_lifecycle current_revision expected_revision
       existing proposed =
     (if current_revision \<noteq> expected_revision
      then Inl (AppendStaleRevision expected_revision current_revision)
      else if (case existing of
                 [] \<Rightarrow> False
               | event # _ \<Rightarrow> m2_session_id (oe_meta event) \<noteq> m2_session_id (oe_meta proposed))
      then Inl (InvalidEvent [Lit ''event belongs to a different session''])
      else
        let baseline = reduce_operator_events_v2 initial_lifecycle existing;
            reduction = reduce_operator_events_v2 initial_lifecycle (existing @ [proposed])
        in if length (re_diagnostics reduction) \<noteq> length (re_diagnostics baseline)
           then Inl (InvalidEvent
                  (if re_diagnostics reduction = []
                   then [Lit ''event did not produce a valid effective view'']
                   else ed_message (last (re_diagnostics reduction))))
           else Inr reduction)"

section \<open>Schema v3\<close>

fun is_lifecycle_payload_v3 :: "payload_v3 \<Rightarrow> bool" where
  "is_lifecycle_payload_v3 (SessionStarted3 _) = True"
| "is_lifecycle_payload_v3 (SessionInterrupted3 _) = True"
| "is_lifecycle_payload_v3 (InterruptionDetected3 _) = True"
| "is_lifecycle_payload_v3 (SessionResumed3 _) = True"
| "is_lifecycle_payload_v3 (SessionEnded3 _) = True"
| "is_lifecycle_payload_v3 (SessionAbandoned3 _) = True"
| "is_lifecycle_payload_v3 _ = False"

fun is_operational_payload_v3 :: "payload_v3 \<Rightarrow> bool" where
  "is_operational_payload_v3 (AntennaSwitchStarted3 _) = True"
| "is_operational_payload_v3 (WsprCycleArmed3 _ _ _) = True"
| "is_operational_payload_v3 _ = False"

fun apply_lifecycle_transition_v3 ::
    "session_lifecycle \<Rightarrow> payload_v3 \<Rightarrow> lifecycle_transition_error + session_lifecycle" where
  "apply_lifecycle_transition_v3 Ready (SessionStarted3 _) = Inr Running"
| "apply_lifecycle_transition_v3 Running (SessionInterrupted3 _) = Inr Interrupted"
| "apply_lifecycle_transition_v3 Running (InterruptionDetected3 _) = Inr Interrupted"
| "apply_lifecycle_transition_v3 Interrupted (SessionResumed3 _) = Inr Running"
| "apply_lifecycle_transition_v3 Running (SessionEnded3 _) = Inr Ended"
| "apply_lifecycle_transition_v3 Interrupted (SessionEnded3 _) = Inr Ended"
| "apply_lifecycle_transition_v3 Draft (SessionAbandoned3 _) = Inr Abandoned"
| "apply_lifecycle_transition_v3 Ready (SessionAbandoned3 _) = Inr Abandoned"
| "apply_lifecycle_transition_v3 Running (SessionAbandoned3 _) = Inr Abandoned"
| "apply_lifecycle_transition_v3 Interrupted (SessionAbandoned3 _) = Inr Abandoned"
| "apply_lifecycle_transition_v3 from payload =
     (if \<not> is_lifecycle_payload_v3 payload then Inl NotLifecycle
      else Inl (InvalidTransition from))"

fun replacement_shape_error_v3 :: "replacement_v3 \<Rightarrow> message option" where
  "replacement_shape_error_v3 r =
     (case rp_payload r of
        CAntennaStateConfirmed3 antenna_label _ \<Rightarrow>
          or_else
            (bool_then (rp_slot_id r = None)
               [Lit ''replacement antenna confirmation requires a planned slot reference''])
            (bool_then (trim antenna_label = [] \<or> trim antenna_label \<noteq> antenna_label)
               [Lit ''replacement actual antenna label must be nonempty and trimmed''])
      | CSignalStateConfirmed3 _ \<Rightarrow>
          bool_then (rp_slot_id r = None)
            [Lit ''replacement signal-state confirmation requires a planned slot reference'']
      | CSlotMissed3 _ \<Rightarrow>
          bool_then (rp_slot_id r = None)
            [Lit ''replacement missed-slot event requires a planned slot reference'']
      | CSlotBad3 reason \<Rightarrow>
          or_else
            (bool_then (rp_slot_id r = None)
               [Lit ''replacement bad-slot event requires a planned slot reference''])
            (bool_then (trim reason = []) [Lit ''replacement bad-slot reason must not be empty''])
      | CNoteAdded3 note \<Rightarrow>
          bool_then (trim note = []) [Lit ''replacement operator note must not be empty''])"

definition event_shape_error_v3 :: "operator_event_v3 \<Rightarrow> message option" where
  "event_shape_error_v3 e =
     (if is_lifecycle_payload_v3 (oe_payload e) \<and> oe_slot_id e \<noteq> None
      then Some [Lit ''lifecycle events must not reference a planned slot'']
      else case oe_payload e of
        AntennaSwitchStarted3 _ \<Rightarrow>
          bool_then (oe_slot_id e \<noteq> None)
            [Lit ''antenna-switch events must not reference a cycle intent'']
      | WsprCycleArmed3 antenna_label cycle_starts_at _ \<Rightarrow>
          or_else (or_else (or_else (slot_required (oe_slot_id e) ''armed WSPR cycle'')
            (bool_then (trim antenna_label = [] \<or> trim antenna_label \<noteq> antenna_label)
               [Lit ''armed WSPR cycle antenna label must be nonempty and trimmed'']))
            (bool_then (\<not> is_wspr_cycle_start cycle_starts_at)
               [Lit ''armed WSPR cycle must start one second into an even UTC minute'']))
            (bool_then (cycle_starts_at < oe_occurred_at e)
               [Lit ''armed WSPR cycle cannot start before the antenna was ready''])
      | AntennaStateConfirmed3 antenna_label _ \<Rightarrow>
          or_else (slot_required (oe_slot_id e) ''antenna confirmation'')
            (bool_then (trim antenna_label = [] \<or> trim antenna_label \<noteq> antenna_label)
               [Lit ''actual antenna label must be nonempty and trimmed''])
      | SignalStateConfirmed3 _ \<Rightarrow> slot_required (oe_slot_id e) ''signal-state confirmation''
      | SlotMissed3 _ \<Rightarrow> slot_required (oe_slot_id e) ''missed-slot event''
      | SlotBad3 reason \<Rightarrow>
          or_else (slot_required (oe_slot_id e) ''bad-slot event'')
            (bool_then (trim reason = []) [Lit ''bad-slot reason must not be empty''])
      | NoteAdded3 note \<Rightarrow>
          bool_then (trim note = []) [Lit ''operator note must not be empty'']
      | EventCorrected3 target_event_id correction reason \<Rightarrow>
          if oe_slot_id e \<noteq> None then
            Some [Lit ''correction events carry replacement slot state in the correction payload'']
          else if trim target_event_id = [] then
            Some [Lit ''correction target event ID must not be empty'']
          else if trim reason = [] then Some [Lit ''correction reason must not be empty'']
          else (case correction of
                  Retract \<Rightarrow> None
                | Replace replacement \<Rightarrow> replacement_shape_error_v3 replacement)
      | _ \<Rightarrow> None)"

fun correctable_payload_v3 :: "payload_v3 \<Rightarrow> correctable_v3 option" where
  "correctable_payload_v3 (AntennaStateConfirmed3 l n) = Some (CAntennaStateConfirmed3 l n)"
| "correctable_payload_v3 (SignalStateConfirmed3 c) = Some (CSignalStateConfirmed3 c)"
| "correctable_payload_v3 (SlotMissed3 r) = Some (CSlotMissed3 r)"
| "correctable_payload_v3 (SlotBad3 r) = Some (CSlotBad3 r)"
| "correctable_payload_v3 (NoteAdded3 n) = Some (CNoteAdded3 n)"
| "correctable_payload_v3 _ = None"

definition reduce_step_v3 :: "correctable_v3 reducer \<Rightarrow> operator_event_v3 \<Rightarrow> correctable_v3 reducer" where
  "reduce_step_v3 s event =
     (if oe_event_id event \<in> rd_seen_ids s then
        push_diagnostic (diagnostic event None DuplicateEventId [Lit ''event ID is duplicated'']) s
      else
        let s = see (oe_event_id event) s in
        case event_shape_error_v3 event of
          Some message \<Rightarrow> push_diagnostic (diagnostic event None InvalidEventShape message) s
        | None \<Rightarrow>
            if is_lifecycle_payload_v3 (oe_payload event) then
              (case apply_lifecycle_transition_v3 (rd_lifecycle s) (oe_payload event) of
                 Inr next_state \<Rightarrow> set_lifecycle next_state s
               | Inl error \<Rightarrow>
                   push_diagnostic (diagnostic event None InvalidLifecycleTransition
                     (lifecycle_error_message error)) s)
            else if is_terminal (rd_lifecycle s) then
              push_diagnostic (diagnostic event None InvalidLifecycleTransition
                [Lit ''operator evidence cannot be appended after a terminal lifecycle event'']) s
            else if is_operational_payload_v3 (oe_payload event) \<and> rd_lifecycle s \<noteq> Running then
              push_diagnostic (diagnostic event None InvalidLifecycleTransition
                [Lit ''operator-paced run actions require a running session'']) s
            else if is_operational_payload_v3 (oe_payload event) then s
            else
              (case oe_payload event of
                 EventCorrected3 target_event_id correction reason \<Rightarrow>
                   if trim reason = [] then
                     push_diagnostic (diagnostic event (Some target_event_id)
                       InvalidCorrectionReason [Lit ''correction reason must not be empty'']) s
                   else
                     (case rd_originals s target_event_id of
                        None \<Rightarrow>
                          push_diagnostic (diagnostic event (Some target_event_id)
                            InvalidCorrectionTarget
                            [Lit ''correction target must be an earlier correctable event'']) s
                      | Some target_index \<Rightarrow>
                          (case correction of
                             Retract \<Rightarrow> set_effective target_index None s
                           | Replace replacement \<Rightarrow>
                               set_effective target_index
                                 (Some (effective_from_replacement target_event_id event
                                          replacement)) s))
               | payload \<Rightarrow>
                   (case correctable_payload_v3 payload of
                      None \<Rightarrow>
                        push_diagnostic (diagnostic event None InvalidEventShape
                          [Lit ''event payload is neither lifecycle evidence nor correctable operator evidence'']) s
                    | Some payload \<Rightarrow>
                        add_original (oe_event_id event) (effective_from_event event payload) s)))"

definition reduce_operator_events_v3 ::
    "session_lifecycle \<Rightarrow> operator_event_v3 list \<Rightarrow> correctable_v3 event_reduction" where
  "reduce_operator_events_v3 initial_lifecycle events =
     finish_reducer (foldl reduce_step_v3 (init_reducer initial_lifecycle) events)"

section \<open>Legacy projections\<close>

definition project_legacy :: "effective_v2 \<Rightarrow> operator_event option" where
  "project_legacy e =
     (case (case ef_payload e of
              CAntennaStateConfirmed2 antenna_label note \<Rightarrow> (Switched, note, Some antenna_label)
            | CSlotMissed2 reason \<Rightarrow> (MissedSlot, reason, None)
            | CSlotBad2 reason \<Rightarrow> (BadSlot, bool_then (reason \<noteq> []) reason, None)
            | CNoteAdded2 note \<Rightarrow> (NoteAdded, bool_then (note \<noteq> []) note, None))
      of (event_type, note, actual_antenna_label) \<Rightarrow> Some
        \<lparr>ev_meta = \<lparr>rm_schema_version = SCHEMA_VERSION_V2, rm_session_id = ef_session_id e,
                    rm_timestamp = ef_occurred_at e, rm_source = Operator\<rparr>,
         ev_event_id = ef_source_event_id e,
         ev_slot_id = ef_slot_id e,
         ev_event_type = event_type,
         ev_note = note,
         ev_actual_antenna_label = actual_antenna_label\<rparr>)"

definition project_legacy_lifecycle :: "operator_event_v2 \<Rightarrow> operator_event option" where
  "project_legacy_lifecycle e =
     map_option
       (\<lambda>(event_type, note).
          \<lparr>ev_meta = \<lparr>rm_schema_version = SCHEMA_VERSION_V2,
                      rm_session_id = m2_session_id (oe_meta e),
                      rm_timestamp = oe_occurred_at e,
                      rm_source = legacy_source (m2_provenance (oe_meta e))\<rparr>,
           ev_event_id = oe_event_id e,
           ev_slot_id = oe_slot_id e,
           ev_event_type = event_type,
           ev_note = note,
           ev_actual_antenna_label = None\<rparr>)
       (case oe_payload e of
          SessionStarted2 note \<Rightarrow> Some (SessionStarted, note)
        | SessionEnded2 reason \<Rightarrow> Some (SessionEnded, reason)
        | _ \<Rightarrow> None)"

section \<open>The abstract reducer\<close>

text \<open>
  The lifecycle machine of the documentation (\<open>docs/event-semantics.md\<close>), as a relation.
\<close>

inductive lifecycle_step :: "session_lifecycle \<Rightarrow> session_lifecycle \<Rightarrow> bool" where
  start: "lifecycle_step Ready Running"
| interrupt: "lifecycle_step Running Interrupted"
| resume: "lifecycle_step Interrupted Running"
| end_running: "lifecycle_step Running Ended"
| end_interrupted: "lifecycle_step Interrupted Ended"
| abandon: "\<not> is_terminal l \<Longrightarrow> lifecycle_step l Abandoned"

inductive_cases lifecycle_step_from_ended: "lifecycle_step Ended l"
inductive_cases lifecycle_step_from_abandoned: "lifecycle_step Abandoned l"

lemma terminal_no_step: "is_terminal l \<Longrightarrow> \<not> lifecycle_step l l'"
  by (auto simp: is_terminal_def elim: lifecycle_step.cases)

text \<open>
  What one event may do to the reducer state, whatever the schema: be rejected with one
  diagnostic, move the lifecycle, correct an earlier original, record a new original, or
  (an operator-paced action) leave everything but the seen ids alone.
\<close>

inductive event_step :: "'c reducer \<Rightarrow> string \<Rightarrow> 'c reducer \<Rightarrow> bool" where
  duplicate: "i \<in> rd_seen_ids s \<Longrightarrow> ed_event_id d = i \<Longrightarrow>
     event_step s i (push_diagnostic d s)"
| rejected: "i \<notin> rd_seen_ids s \<Longrightarrow> ed_event_id d = i \<Longrightarrow>
     event_step s i (push_diagnostic d (see i s))"
| moved: "i \<notin> rd_seen_ids s \<Longrightarrow> lifecycle_step (rd_lifecycle s) l \<Longrightarrow>
     event_step s i (set_lifecycle l (see i s))"
| corrected: "i \<notin> rd_seen_ids s \<Longrightarrow> \<not> is_terminal (rd_lifecycle s) \<Longrightarrow>
     rd_originals s t = Some n \<Longrightarrow>
     (\<And>v. x = Some v \<Longrightarrow> ef_source_event_id v = t \<and> ef_effective_through_event_id v = i) \<Longrightarrow>
     event_step s i (set_effective n x (see i s))"
| recorded: "i \<notin> rd_seen_ids s \<Longrightarrow> \<not> is_terminal (rd_lifecycle s) \<Longrightarrow>
     ef_source_event_id v = i \<Longrightarrow> ef_effective_through_event_id v = i \<Longrightarrow>
     event_step s i (add_original i v (see i s))"
| ignored: "i \<notin> rd_seen_ids s \<Longrightarrow> rd_lifecycle s = Running \<Longrightarrow> event_step s i (see i s)"

lemma push_diagnostic_simps [simp, record_simps]:
  "rd_lifecycle (push_diagnostic d s) = rd_lifecycle s"
  "rd_diagnostics (push_diagnostic d s) = rd_diagnostics s @ [d]"
  "rd_seen_ids (push_diagnostic d s) = rd_seen_ids s"
  "rd_originals (push_diagnostic d s) = rd_originals s"
  "rd_effective (push_diagnostic d s) = rd_effective s"
  by (simp_all add: push_diagnostic_def)

lemma see_simps [simp, record_simps]:
  "rd_lifecycle (see i s) = rd_lifecycle s"
  "rd_diagnostics (see i s) = rd_diagnostics s"
  "rd_seen_ids (see i s) = insert i (rd_seen_ids s)"
  "rd_originals (see i s) = rd_originals s"
  "rd_effective (see i s) = rd_effective s"
  by (simp_all add: see_def)

lemma set_effective_simps [simp, record_simps]:
  "rd_lifecycle (set_effective n x s) = rd_lifecycle s"
  "rd_diagnostics (set_effective n x s) = rd_diagnostics s"
  "rd_seen_ids (set_effective n x s) = rd_seen_ids s"
  "rd_originals (set_effective n x s) = rd_originals s"
  "rd_effective (set_effective n x s) = (rd_effective s)[n := x]"
  by (simp_all add: set_effective_def)

lemma add_original_simps [simp, record_simps]:
  "rd_lifecycle (add_original i v s) = rd_lifecycle s"
  "rd_diagnostics (add_original i v s) = rd_diagnostics s"
  "rd_seen_ids (add_original i v s) = rd_seen_ids s"
  "rd_originals (add_original i v s) = (rd_originals s)(i \<mapsto> length (rd_effective s))"
  "rd_effective (add_original i v s) = rd_effective s @ [Some v]"
  by (simp_all add: add_original_def)

lemma set_lifecycle_simps [simp, record_simps]:
  "rd_lifecycle (set_lifecycle l s) = l"
  "rd_diagnostics (set_lifecycle l s) = rd_diagnostics s"
  "rd_seen_ids (set_lifecycle l s) = rd_seen_ids s"
  "rd_originals (set_lifecycle l s) = rd_originals s"
  "rd_effective (set_lifecycle l s) = rd_effective s"
  by (simp_all add: set_lifecycle_def)

lemma init_reducer_simps [simp, record_simps]:
  "rd_lifecycle (init_reducer l) = l"
  "rd_diagnostics (init_reducer l) = []"
  "rd_seen_ids (init_reducer l) = {}"
  "rd_originals (init_reducer l) = Map.empty"
  "rd_effective (init_reducer l) = []"
  by (simp_all add: init_reducer_def)

lemma diagnostic_event_id [simp]: "ed_event_id (diagnostic e r c m) = oe_event_id e"
  by (simp add: diagnostic_def)

lemma effective_ids [simp]:
  "ef_source_event_id (effective_from_event e p) = oe_event_id e"
  "ef_effective_through_event_id (effective_from_event e p) = oe_event_id e"
  "ef_source_event_id (effective_from_replacement t e r) = t"
  "ef_effective_through_event_id (effective_from_replacement t e r) = oe_event_id e"
  by (simp_all add: effective_from_event_def effective_from_replacement_def)

lemma event_shape_error_reason:
  "event_shape_error e = None \<Longrightarrow> oe_payload e = EventCorrected2 t c r \<Longrightarrow> trim r \<noteq> []"
  by (auto simp: event_shape_error_def split: if_splits)

lemma apply_lifecycle_transition_step:
  "apply_lifecycle_transition l p = Inr l' \<Longrightarrow> lifecycle_step l l'"
  by (induction l p rule: apply_lifecycle_transition.induct)
    (auto intro: lifecycle_step.intros simp: is_terminal_def split: if_splits)

lemma apply_lifecycle_transition_v3_step:
  "apply_lifecycle_transition_v3 l p = Inr l' \<Longrightarrow> lifecycle_step l l'"
  by (induction l p rule: apply_lifecycle_transition_v3.induct)
    (auto intro: lifecycle_step.intros simp: is_terminal_def split: if_splits)

lemma reduce_step_v2_refines: "event_step s (oe_event_id e) (reduce_step_v2 s e)"
proof (cases "oe_event_id e \<in> rd_seen_ids s")
  case True
  then show ?thesis by (simp add: reduce_step_v2_def event_step.duplicate)
next
  case fresh: False
  show ?thesis
  proof (cases "event_shape_error e \<noteq> None")
    case True
    with fresh show ?thesis by (auto simp: reduce_step_v2_def Let_def event_step.rejected)
  next
    case shape: False
    show ?thesis
    proof (cases "is_lifecycle_payload (oe_payload e)")
      case True
      with fresh shape show ?thesis
        by (auto simp: reduce_step_v2_def Let_def event_step.rejected
            intro: event_step.moved apply_lifecycle_transition_step split: sum.splits)
    next
      case evidence: False
      show ?thesis
      proof (cases "is_terminal (rd_lifecycle s)")
        case True
        with fresh shape evidence show ?thesis
          by (simp add: reduce_step_v2_def Let_def event_step.rejected)
      next
        case False
        with fresh shape evidence show ?thesis
          by (cases "oe_payload e")
            (auto simp: reduce_step_v2_def Let_def
              intro!: event_step.rejected event_step.corrected event_step.recorded
              split: option.splits correction_action.splits)
      qed
    qed
  qed
qed

lemma reduce_step_v3_refines: "event_step s (oe_event_id e) (reduce_step_v3 s e)"
proof (cases "oe_event_id e \<in> rd_seen_ids s")
  case True
  then show ?thesis by (simp add: reduce_step_v3_def event_step.duplicate)
next
  case fresh: False
  show ?thesis
  proof (cases "event_shape_error_v3 e \<noteq> None")
    case True
    with fresh show ?thesis by (auto simp: reduce_step_v3_def Let_def event_step.rejected)
  next
    case shape: False
    show ?thesis
    proof (cases "is_lifecycle_payload_v3 (oe_payload e)")
      case True
      with fresh shape show ?thesis
        by (auto simp: reduce_step_v3_def Let_def event_step.rejected
            intro: event_step.moved apply_lifecycle_transition_v3_step split: sum.splits)
    next
      case evidence: False
      show ?thesis
      proof (cases "is_terminal (rd_lifecycle s)")
        case True
        with fresh shape evidence show ?thesis
          by (simp add: reduce_step_v3_def Let_def event_step.rejected)
      next
        case False
        with fresh shape evidence show ?thesis
          by (cases "oe_payload e")
            (auto simp: reduce_step_v3_def Let_def
              intro!: event_step.rejected event_step.corrected event_step.recorded event_step.ignored
              split: option.splits correction_action.splits)
      qed
    qed
  qed
qed

section \<open>Invariants of one event\<close>

text \<open>
  \<open>keyed s ks\<close>: the vector \<open>effective\<close> has one cell per recorded original, in the order
  \<open>ks\<close> of their ids; the index map points every original at its own cell, and a filled
  cell holds an effective event of that original.  So every index the code uses is in range.
\<close>

definition keyed :: "'c reducer \<Rightarrow> string list \<Rightarrow> bool" where
  "keyed s ks \<longleftrightarrow>
     length (rd_effective s) = length ks \<and> distinct ks \<and> set ks \<subseteq> rd_seen_ids s \<and>
     (\<forall>t n. rd_originals s t = Some n \<longleftrightarrow> n < length ks \<and> ks ! n = t) \<and>
     (\<forall>n < length ks. \<forall>v. rd_effective s ! n = Some v \<longrightarrow> ef_source_event_id v = ks ! n)"

lemma keyed_init [simp]: "keyed (init_reducer l) []"
  by (simp add: keyed_def)

lemma keyed_index: "keyed s ks \<Longrightarrow> rd_originals s t = Some n \<Longrightarrow> n < length (rd_effective s)"
  by (simp add: keyed_def)

lemma keyed_push [simp]: "keyed (push_diagnostic d s) ks = keyed s ks"
  by (simp add: keyed_def)

lemma keyed_see: "keyed s ks \<Longrightarrow> keyed (see i s) ks"
  by (auto simp: keyed_def)

lemma keyed_set_lifecycle [simp]: "keyed (set_lifecycle l s) ks = keyed s ks"
  by (simp add: keyed_def)

lemma keyed_set_effective:
  assumes "keyed s ks" and "rd_originals s t = Some n"
    and "\<And>v. x = Some v \<Longrightarrow> ef_source_event_id v = t"
  shows "keyed (set_effective n x s) ks"
  using assms by (auto simp: keyed_def nth_list_update)

lemma keyed_add_original:
  assumes "keyed s ks" and "i \<notin> set ks" and "i \<in> rd_seen_ids s" and "ef_source_event_id v = i"
  shows "keyed (add_original i v s) (ks @ [i])"
  unfolding keyed_def
proof (intro conjI allI impI)
  fix t n
  show "rd_originals (add_original i v s) t = Some n \<longleftrightarrow>
      n < length (ks @ [i]) \<and> (ks @ [i]) ! n = t"
    using assms by (auto simp: keyed_def nth_append less_Suc_eq dest: nth_mem)
next
  fix n w
  assume "n < length (ks @ [i])" and "rd_effective (add_original i v s) ! n = Some w"
  then show "ef_source_event_id w = (ks @ [i]) ! n"
    using assms by (auto simp: keyed_def nth_append less_Suc_eq)
qed (use assms in \<open>auto simp: keyed_def\<close>)

lemma event_step_keyed:
  "event_step s i s' \<Longrightarrow> keyed s ks \<Longrightarrow> keyed s' ks \<or> keyed s' (ks @ [i])"
proof (induction rule: event_step.induct)
  case (corrected i s t n x)
  then show ?case using keyed_set_effective [of "see i s" ks t n x] by (simp add: keyed_see)
next
  case (recorded i s v)
  then have "i \<notin> set ks" by (auto simp: keyed_def)
  with recorded show ?case using keyed_add_original [of "see i s" ks i v] by (simp add: keyed_see)
qed (simp_all add: keyed_see)

lemma event_step_seen: "event_step s i s' \<Longrightarrow> rd_seen_ids s' = insert i (rd_seen_ids s)"
  by (induction rule: event_step.induct) auto

lemma event_step_diagnostics:
  "event_step s i s' \<Longrightarrow>
     rd_diagnostics s' = rd_diagnostics s \<or>
     (\<exists>d. rd_diagnostics s' = rd_diagnostics s @ [d] \<and> ed_event_id d = i)"
  by (induction rule: event_step.induct) auto

lemma event_step_rejected_unchanged:
  "event_step s i s' \<Longrightarrow> rd_diagnostics s' \<noteq> rd_diagnostics s \<Longrightarrow>
     rd_lifecycle s' = rd_lifecycle s \<and> rd_originals s' = rd_originals s \<and>
     rd_effective s' = rd_effective s"
  by (induction rule: event_step.induct) auto

lemma event_step_terminal:
  "event_step s i s' \<Longrightarrow> is_terminal (rd_lifecycle s) \<Longrightarrow>
     rd_lifecycle s' = rd_lifecycle s \<and> rd_effective s' = rd_effective s \<and>
     (\<exists>d. rd_diagnostics s' = rd_diagnostics s @ [d])"
proof (induction rule: event_step.induct)
  case (moved i s l)
  then show ?case using terminal_no_step by blast
qed (auto simp: is_terminal_def)

lemma event_step_lifecycle:
  "event_step s i s' \<Longrightarrow> rd_lifecycle s' = rd_lifecycle s \<or> lifecycle_step (rd_lifecycle s) (rd_lifecycle s')"
  by (induction rule: event_step.induct) auto

lemma flatten_cells_subseq:
  "length xs = length ks \<Longrightarrow>
   (\<forall>n < length ks. \<forall>v. xs ! n = Some v \<longrightarrow> src v = ks ! n) \<Longrightarrow>
     subseq (map src (flatten xs)) ks"
proof (induction xs ks rule: list_induct2)
  case (Cons x xs k ks)
  have "\<forall>n < length ks. \<forall>v. xs ! n = Some v \<longrightarrow> src v = ks ! n"
    using Cons.prems by (metis Suc_less_eq length_Cons nth_Cons_Suc)
  with Cons.IH have IH: "subseq (map src (flatten xs)) ks" by blast
  show ?case
  proof (cases x)
    case None
    with IH show ?thesis by (simp add: list_emb_Cons)
  next
    case (Some v)
    with Cons.prems have "src v = k" by (metis length_Cons nth_Cons_0 zero_less_Suc)
    with IH Some show ?thesis by simp
  qed
qed simp

lemma flatten_cells_subset:
  assumes "length xs = length ks"
    and "\<forall>n < length ks. \<forall>v. xs ! n = Some v \<longrightarrow> src v = ks ! n"
    and "v \<in> set (flatten xs)"
  shows "src v \<in> set ks"
  using subseq_subsetD [OF flatten_cells_subseq [OF assms(1,2)]] assms(3) by auto

section \<open>The contract of a reducer, and its runs\<close>

locale event_reducer =
  fixes step :: "'c reducer \<Rightarrow> 'e \<Rightarrow> 'c reducer"
    and event_id :: "'e \<Rightarrow> string"
  assumes step_refines: "event_step s (event_id e) (step s e)"
begin

lemma run_keyed: "\<exists>ks. keyed (foldl step (init_reducer l) es) ks \<and> subseq ks (map event_id es)"
proof (induction es rule: rev_induct)
  case Nil
  show ?case by (auto intro: exI [of _ "[]"])
next
  case (snoc e es)
  let ?s = "foldl step (init_reducer l) es"
  from snoc obtain ks where ks: "keyed ?s ks" "subseq ks (map event_id es)" by blast
  have "keyed (step ?s e) ks \<or> keyed (step ?s e) (ks @ [event_id e])"
    using step_refines ks(1) by (rule event_step_keyed)
  moreover have "subseq ks (map event_id (es @ [e]))"
    using ks(2) by (simp add: list_emb_prefix)
  moreover have "subseq (ks @ [event_id e]) (map event_id (es @ [e]))"
    using ks(2) by (simp add: list_emb_append_mono)
  ultimately show ?case by auto
qed

lemma run_index_in_range:
  "rd_originals (foldl step (init_reducer l) es) t = Some n \<Longrightarrow>
     n < length (rd_effective (foldl step (init_reducer l) es))"
  using run_keyed keyed_index by blast

lemma run_effective_order:
  "\<exists>ks. distinct ks \<and> subseq ks (map event_id es) \<and>
     subseq (map ef_source_event_id (flatten (rd_effective (foldl step (init_reducer l) es)))) ks"
proof -
  obtain ks where ks: "keyed (foldl step (init_reducer l) es) ks" "subseq ks (map event_id es)"
    using run_keyed by blast
  then have "subseq (map ef_source_event_id (flatten (rd_effective (foldl step (init_reducer l) es)))) ks"
    by (intro flatten_cells_subseq) (auto simp: keyed_def)
  with ks show ?thesis by (auto simp: keyed_def)
qed

lemma run_diagnostics_grow:
  "\<exists>ds. rd_diagnostics (foldl step s es) = rd_diagnostics s @ ds \<and> length ds \<le> length es"
proof (induction es arbitrary: s)
  case (Cons e es)
  from Cons.IH [of "step s e"] obtain ds
    where ds: "rd_diagnostics (foldl step (step s e) es) = rd_diagnostics (step s e) @ ds"
      "length ds \<le> length es" by blast
  from event_step_diagnostics [OF step_refines, of s e] ds show ?case by auto
qed simp

lemma run_terminal:
  "is_terminal (rd_lifecycle s) \<Longrightarrow>
     rd_lifecycle (foldl step s es) = rd_lifecycle s \<and>
     rd_effective (foldl step s es) = rd_effective s \<and>
     length (rd_diagnostics (foldl step s es)) = length (rd_diagnostics s) + length es"
proof (induction es arbitrary: s)
  case (Cons e es)
  from event_step_terminal [OF step_refines Cons.prems, of e] Cons.IH [of "step s e"] Cons.prems
  show ?case by auto
qed simp

lemma run_lifecycle: "lifecycle_step\<^sup>*\<^sup>* (rd_lifecycle s) (rd_lifecycle (foldl step s es))"
proof (induction es rule: rev_induct)
  case (snoc e es)
  with event_step_lifecycle [OF step_refines, of "foldl step s es" e] show ?case by auto
qed simp

end

interpretation v2: event_reducer reduce_step_v2 oe_event_id
  by unfold_locales (rule reduce_step_v2_refines)

interpretation v3: event_reducer reduce_step_v3 oe_event_id
  by unfold_locales (rule reduce_step_v3_refines)

section \<open>Looking an effective event up\<close>

definition effective_lookup :: "string \<Rightarrow> 'c event_reduction \<Rightarrow> 'c effective_event option" where
  "effective_lookup k r = find (\<lambda>v. ef_source_event_id v = k) (re_effective_events r)"

lemma find_flatten_keyed:
  assumes "length xs = length ks" and "distinct ks"
    and "\<forall>n < length ks. \<forall>v. xs ! n = Some v \<longrightarrow> src v = ks ! n"
    and "m < length ks"
  shows "find (\<lambda>v. src v = ks ! m) (flatten xs) = xs ! m"
  using assms
proof (induction xs ks arbitrary: m rule: list_induct2)
  case (Cons x xs k ks)
  have tail: "\<forall>n < length ks. \<forall>v. xs ! n = Some v \<longrightarrow> src v = ks ! n"
    and head: "\<forall>v. x = Some v \<longrightarrow> src v = k"
    using Cons.prems(2) by (auto simp: nth_Cons split: nat.splits)
  show ?case
  proof (cases m)
    case 0
    have "find (\<lambda>v. src v = k) (flatten xs) = None"
      using Cons.prems(1) flatten_cells_subset [OF Cons.hyps tail]
      by (auto simp: find_None_iff simp del: in_set_flatten)
    with 0 head show ?thesis by (cases x) auto
  next
    case (Suc j)
    with Cons.prems(1,3) have "ks ! j \<noteq> k" by auto
    with Suc head Cons.IH [of j] Cons.prems(1,3) tail show ?thesis by (cases x) auto
  qed
qed simp

lemma find_flatten_absent:
  assumes "length xs = length ks" and "k \<notin> set ks"
    and "\<forall>n < length ks. \<forall>v. xs ! n = Some v \<longrightarrow> src v = ks ! n"
  shows "find (\<lambda>v. src v = k) (flatten xs) = None"
  using assms(2) flatten_cells_subset [OF assms(1,3)] by (auto simp: find_None_iff simp del: in_set_flatten)

lemma effective_lookup_finish:
  assumes "keyed s ks"
  shows "effective_lookup k (finish_reducer s) =
    (case rd_originals s k of None \<Rightarrow> None | Some n \<Rightarrow> rd_effective s ! n)"
proof (cases "rd_originals s k")
  case None
  with assms have "k \<notin> set ks" by (metis (full_types) in_set_conv_nth keyed_def option.distinct(1))
  then show ?thesis
    using assms None find_flatten_absent [of "rd_effective s" ks k ef_source_event_id]
    by (simp add: effective_lookup_def finish_reducer_def keyed_def)
next
  case (Some n)
  with assms have n: "n < length ks" "ks ! n = k" by (auto simp: keyed_def)
  have "find (\<lambda>v. ef_source_event_id v = ks ! n) (flatten (rd_effective s)) = rd_effective s ! n"
    using assms n(1) by (intro find_flatten_keyed) (auto simp: keyed_def)
  with n(2) Some show ?thesis by (simp add: effective_lookup_def finish_reducer_def)
qed

text \<open>An accepted event is fresh and well shaped.\<close>

lemma accepted_v2:
  assumes "rd_diagnostics (reduce_step_v2 s e) = rd_diagnostics s"
  shows "oe_event_id e \<notin> rd_seen_ids s" and "event_shape_error e = None"
proof -
  show fresh: "oe_event_id e \<notin> rd_seen_ids s"
    using assms by (rule contrapos_pn) (simp add: reduce_step_v2_def)
  show "event_shape_error e = None"
  proof (cases "event_shape_error e")
    case (Some m)
    with fresh assms show ?thesis by (simp add: reduce_step_v2_def Let_def)
  qed
qed

lemma accepted_v3:
  assumes "rd_diagnostics (reduce_step_v3 s e) = rd_diagnostics s"
  shows "oe_event_id e \<notin> rd_seen_ids s" and "event_shape_error_v3 e = None"
proof -
  show fresh: "oe_event_id e \<notin> rd_seen_ids s"
    using assms by (rule contrapos_pn) (simp add: reduce_step_v3_def)
  show "event_shape_error_v3 e = None"
  proof (cases "event_shape_error_v3 e")
    case (Some m)
    with fresh assms show ?thesis by (simp add: reduce_step_v3_def Let_def)
  qed
qed

text \<open>An accepted correction, seen from the state it changes.\<close>

lemma accepted_correction_v2:
  assumes payload: "oe_payload e = EventCorrected2 t c reason"
    and accepted: "rd_diagnostics (reduce_step_v2 s e) = rd_diagnostics s"
  obtains n where "rd_originals s t = Some n"
    and "reduce_step_v2 s e =
      set_effective n (case c of Retract \<Rightarrow> None
                       | Replace r \<Rightarrow> Some (effective_from_replacement t e r)) (see (oe_event_id e) s)"
proof -
  note fresh = accepted_v2 [OF accepted]
  have live: "\<not> is_terminal (rd_lifecycle s)"
    using fresh payload accepted by (auto simp: reduce_step_v2_def)
  have reason: "trim reason \<noteq> []"
    using fresh payload live accepted by (auto simp: reduce_step_v2_def)
  show ?thesis
  proof (cases "rd_originals s t")
    case None
    with fresh payload live reason accepted show ?thesis by (simp add: reduce_step_v2_def)
  next
    case (Some n)
    with fresh payload live reason show ?thesis
      by (intro that [of n]) (simp_all add: reduce_step_v2_def split: correction_action.split)
  qed
qed

lemma accepted_correction_v3:
  assumes payload: "oe_payload e = EventCorrected3 t c reason"
    and accepted: "rd_diagnostics (reduce_step_v3 s e) = rd_diagnostics s"
  obtains n where "rd_originals s t = Some n"
    and "reduce_step_v3 s e =
      set_effective n (case c of Retract \<Rightarrow> None
                       | Replace r \<Rightarrow> Some (effective_from_replacement t e r)) (see (oe_event_id e) s)"
proof -
  note fresh = accepted_v3 [OF accepted]
  have live: "\<not> is_terminal (rd_lifecycle s)"
    using fresh payload accepted by (auto simp: reduce_step_v3_def)
  have reason: "trim reason \<noteq> []"
    using fresh payload live accepted by (auto simp: reduce_step_v3_def)
  show ?thesis
  proof (cases "rd_originals s t")
    case None
    with fresh payload live reason accepted show ?thesis by (simp add: reduce_step_v3_def)
  next
    case (Some n)
    with fresh payload live reason show ?thesis
      by (intro that [of n]) (simp_all add: reduce_step_v3_def split: correction_action.split)
  qed
qed

lemma lookup_after_set_effective:
  assumes "keyed s ks" and "rd_originals s t = Some n"
    and "\<And>v. x = Some v \<Longrightarrow> ef_source_event_id v = t"
  shows "effective_lookup k (finish_reducer (set_effective n x (see i s))) =
    (if k = t then x else effective_lookup k (finish_reducer s))"
proof -
  have k': "keyed (set_effective n x (see i s)) ks"
    using keyed_set_effective [OF keyed_see [OF assms(1)]] assms(2,3) by simp
  have n: "n < length (rd_effective s)" and inj: "\<And>m. rd_originals s k = Some m \<Longrightarrow> k \<noteq> t \<Longrightarrow> m \<noteq> n"
    using assms(1,2) by (auto simp: keyed_def)
  show ?thesis
    unfolding effective_lookup_finish [OF k'] effective_lookup_finish [OF assms(1)]
    using assms(2) n inj by (auto split: option.splits)
qed

section \<open>Properties\<close>

definition armed_window_ok :: "operator_event_v3 \<Rightarrow> bool" where
  "armed_window_ok e \<longleftrightarrow>
     (case oe_payload e of
        WsprCycleArmed3 label cycle_starts_at _ \<Rightarrow>
          oe_slot_id e \<noteq> None \<and> nonempty_trimmed label \<and> is_wspr_cycle_start cycle_starts_at \<and>
          oe_occurred_at e \<le> cycle_starts_at
      | _ \<Rightarrow> True)"

lemma shape_ok_armed_window: "event_shape_error_v3 e = None \<Longrightarrow> armed_window_ok e"
  by (auto simp: event_shape_error_v3_def armed_window_ok_def slot_required_def
      nonempty_trimmed_def split: payload_v3.splits if_splits)

text \<open>
  The lifecycle machine of \<open>docs/event-semantics.md\<close>: the action that moves a session from one
  state to the next, and the action each payload of the two schemas stands for.
\<close>

datatype lifecycle_action = StartAction | InterruptAction | ResumeAction | EndAction | AbandonAction

inductive documented_step :: "session_lifecycle \<Rightarrow> lifecycle_action \<Rightarrow> session_lifecycle \<Rightarrow> bool" where
  "documented_step Ready StartAction Running"
| "documented_step Running InterruptAction Interrupted"
| "documented_step Interrupted ResumeAction Running"
| "documented_step Running EndAction Ended"
| "documented_step Interrupted EndAction Ended"
| "\<not> is_terminal l \<Longrightarrow> documented_step l AbandonAction Abandoned"

inductive_simps documented_simps [simp]:
  "documented_step l StartAction l'" "documented_step l InterruptAction l'" "documented_step l ResumeAction l'"
  "documented_step l EndAction l'" "documented_step l AbandonAction l'"

fun action_v2 :: "payload_v2 \<Rightarrow> lifecycle_action option" where
  "action_v2 (SessionStarted2 _) = Some StartAction"
| "action_v2 (SessionInterrupted2 _) = Some InterruptAction"
| "action_v2 (InterruptionDetected2 _) = Some InterruptAction"
| "action_v2 (SessionResumed2 _) = Some ResumeAction"
| "action_v2 (SessionEnded2 _) = Some EndAction"
| "action_v2 (SessionAbandoned2 _) = Some AbandonAction"
| "action_v2 _ = None"

fun action_v3 :: "payload_v3 \<Rightarrow> lifecycle_action option" where
  "action_v3 (SessionStarted3 _) = Some StartAction"
| "action_v3 (SessionInterrupted3 _) = Some InterruptAction"
| "action_v3 (InterruptionDetected3 _) = Some InterruptAction"
| "action_v3 (SessionResumed3 _) = Some ResumeAction"
| "action_v3 (SessionEnded3 _) = Some EndAction"
| "action_v3 (SessionAbandoned3 _) = Some AbandonAction"
| "action_v3 _ = None"

text \<open>
  C12. The lifecycle machine of the code is the documented one, action by action and in both
  schemas: a payload moves the lifecycle from \<open>l\<close> to \<open>l'\<close> exactly when it stands for an action
  whose documented step leads from \<open>l\<close> to \<open>l'\<close>; the error \<open>InvalidTransition\<close> names the state an
  action has no step from, and \<open>NotLifecycle\<close> is returned exactly for the payloads that stand for
  no action.
\<close>

theorem lifecycle_machine_documented:
  "(apply_lifecycle_transition l p2 = Inr l' \<longleftrightarrow> (\<exists>a. action_v2 p2 = Some a \<and> documented_step l a l')) \<and>
   (apply_lifecycle_transition_v3 l p3 = Inr l' \<longleftrightarrow> (\<exists>a. action_v3 p3 = Some a \<and> documented_step l a l')) \<and>
   (apply_lifecycle_transition l p2 = Inl (InvalidTransition l) \<longleftrightarrow>
      (\<exists>a. action_v2 p2 = Some a \<and> {l'. documented_step l a l'} = {})) \<and>
   (apply_lifecycle_transition_v3 l p3 = Inl (InvalidTransition l) \<longleftrightarrow>
      (\<exists>a. action_v3 p3 = Some a \<and> {l'. documented_step l a l'} = {})) \<and>
   (apply_lifecycle_transition l p2 = Inl NotLifecycle \<longleftrightarrow> action_v2 p2 = None) \<and>
   (apply_lifecycle_transition_v3 l p3 = Inl NotLifecycle \<longleftrightarrow> action_v3 p3 = None)"
proof (intro conjI)
  show "apply_lifecycle_transition l p2 = Inr l' \<longleftrightarrow> (\<exists>a. action_v2 p2 = Some a \<and> documented_step l a l')"
    by (cases l; cases p2) (auto simp: is_terminal_def)
  show "apply_lifecycle_transition_v3 l p3 = Inr l' \<longleftrightarrow> (\<exists>a. action_v3 p3 = Some a \<and> documented_step l a l')"
    by (cases l; cases p3) (auto simp: is_terminal_def)
  show "apply_lifecycle_transition l p2 = Inl (InvalidTransition l) \<longleftrightarrow>
      (\<exists>a. action_v2 p2 = Some a \<and> {l'. documented_step l a l'} = {})"
    by (cases l; cases p2) (auto simp: is_terminal_def)
  show "apply_lifecycle_transition_v3 l p3 = Inl (InvalidTransition l) \<longleftrightarrow>
      (\<exists>a. action_v3 p3 = Some a \<and> {l'. documented_step l a l'} = {})"
    by (cases l; cases p3) (auto simp: is_terminal_def)
  show "apply_lifecycle_transition l p2 = Inl NotLifecycle \<longleftrightarrow> action_v2 p2 = None"
    by (cases l; cases p2) auto
  show "apply_lifecycle_transition_v3 l p3 = Inl NotLifecycle \<longleftrightarrow> action_v3 p3 = None"
    by (cases l; cases p3) auto
qed

text \<open>
  The index map of the schema-v3 reduction never points outside the vector
  \<open>effective\<close> (the code's \<open>effective[target_index]\<close> cannot panic), and the effective
  events it returns have distinct original ids that occur in the order the originals were
  appended.
\<close>

theorem reduction_v3_indices_and_order:
  "ran (rd_originals (foldl reduce_step_v3 (init_reducer l) es))
     \<subseteq> {..<length (rd_effective (foldl reduce_step_v3 (init_reducer l) es))} \<and>
   distinct (map ef_source_event_id (re_effective_events (reduce_operator_events_v3 l es))) \<and>
   subseq (map ef_source_event_id (re_effective_events (reduce_operator_events_v3 l es)))
     (map oe_event_id es)"
proof -
  obtain ks where ks: "distinct ks" "subseq ks (map oe_event_id es)"
    "subseq (map ef_source_event_id (re_effective_events (reduce_operator_events_v3 l es))) ks"
    using v3.run_effective_order [of es l]
    by (auto simp: reduce_operator_events_v3_def finish_reducer_def)
  then show ?thesis
    by (auto simp: ran_def dest: v3.run_index_in_range intro: subseq_distinctI
        subseq_order.trans)
qed

text \<open>
  C16. Ended and abandoned sessions are final: whatever events follow, the reduction keeps
  the lifecycle and the effective events it had, and adds exactly one diagnostic for each
  of them.
\<close>

theorem reduction_v3_terminal_absorbing:
  assumes "is_terminal (re_lifecycle (reduce_operator_events_v3 l es))"
  shows "re_lifecycle (reduce_operator_events_v3 l (es @ later)) =
       re_lifecycle (reduce_operator_events_v3 l es) \<and>
     re_effective_events (reduce_operator_events_v3 l (es @ later)) =
       re_effective_events (reduce_operator_events_v3 l es) \<and>
     length (re_diagnostics (reduce_operator_events_v3 l (es @ later))) =
       length (re_diagnostics (reduce_operator_events_v3 l es)) + length later"
  using assms v3.run_terminal [of "foldl reduce_step_v3 (init_reducer l) es" later]
  by (simp add: reduce_operator_events_v3_def finish_reducer_def)

definition sample_provenance :: provenance where
  "sample_provenance = legacy_provenance Operator ''test''"

definition sample_meta :: record_meta_v2 where
  "sample_meta =
     \<lparr>m2_schema_version = 3, m2_session_id = ''session'', m2_recorded_at = 0,
      m2_provenance = sample_provenance,
      m2_mutation = \<lparr>mm_mutation_id = ''m'', mm_member_index = 0, mm_member_count = 1\<rparr>,
      m2_runtime_context_id = None\<rparr>"

definition sample_event :: "string \<Rightarrow> string option \<Rightarrow> 'p \<Rightarrow> 'p operator_event_record" where
  "sample_event i slot p =
     \<lparr>oe_meta = sample_meta, oe_event_id = i, oe_occurred_at = 0, oe_time_basis = ObservedNow,
      oe_uncertainty_seconds = None, oe_slot_id = slot, oe_payload = p\<rparr>"

lemmas sample_defs = sample_event_def sample_meta_def

lemmas reduce_v3_eval =
  reduce_operator_events_v3_def reduce_step_v3_def Let_def event_shape_error_v3_def
  finish_reducer_def sample_defs diagnostic_def is_terminal_def

theorem reduction_v3_terminal_absorbing_witness:
  "re_lifecycle (reduce_operator_events_v3 Ready
     ([sample_event ''a'' None (SessionAbandoned3 None)] @
      [sample_event ''n'' None (NoteAdded3 ''late'')])) = Abandoned"
proof -
  have "re_lifecycle (reduce_operator_events_v3 Ready
      [sample_event ''a'' None (SessionAbandoned3 None)]) = Abandoned"
    by (simp add: reduce_v3_eval)
  moreover from this have "is_terminal (re_lifecycle (reduce_operator_events_v3 Ready
      [sample_event ''a'' None (SessionAbandoned3 None)]))"
    by (simp add: is_terminal_def)
  ultimately show ?thesis
    using reduction_v3_terminal_absorbing by metis
qed

lemma append_reduce_v2:
  "finish_reducer (reduce_step_v2 (foldl reduce_step_v2 (init_reducer l) es) e) =
     reduce_operator_events_v2 l (es @ [e])"
  by (simp add: reduce_operator_events_v2_def)

lemma reduction_v2_grows:
  obtains "re_diagnostics (reduce_operator_events_v2 l (es @ [e])) =
      re_diagnostics (reduce_operator_events_v2 l es)"
  | d where "re_diagnostics (reduce_operator_events_v2 l (es @ [e])) =
      re_diagnostics (reduce_operator_events_v2 l es) @ [d]"
    and "ed_event_id d = oe_event_id e"
    and "re_lifecycle (reduce_operator_events_v2 l (es @ [e])) =
      re_lifecycle (reduce_operator_events_v2 l es)"
    and "re_effective_events (reduce_operator_events_v2 l (es @ [e])) =
      re_effective_events (reduce_operator_events_v2 l es)"
proof -
  let ?s = "foldl reduce_step_v2 (init_reducer l) es"
  note step = reduce_step_v2_refines [of ?s e]
  from event_step_diagnostics [OF step] event_step_rejected_unchanged [OF step] that
  show ?thesis
    by (fastforce simp: reduce_operator_events_v2_def finish_reducer_def)
qed

text \<open>
  C35. Appending an operator event: the validation returns a reduction exactly when the
  revision is the expected one, the event belongs to the session and the reduction of the
  extended history has no new diagnostic, and then it returns that reduction.  An event
  refused for any other reason is refused with the message of the single diagnostic the
  event itself produces, and the reduction of the extended history then has the same
  lifecycle and effective events as before.
\<close>

theorem append_validation_v2:
  "(validate_operator_event_append_v2 l current expected existing proposed = Inr r) =
     (current = expected \<and>
      (existing = [] \<or> m2_session_id (oe_meta (hd existing)) = m2_session_id (oe_meta proposed)) \<and>
      re_diagnostics (reduce_operator_events_v2 l (existing @ [proposed])) =
        re_diagnostics (reduce_operator_events_v2 l existing) \<and>
      r = reduce_operator_events_v2 l (existing @ [proposed])) \<and>
   (validate_operator_event_append_v2 l current expected existing proposed =
       Inl (AppendStaleRevision expected current)) = (current \<noteq> expected) \<and>
   {m. current = expected \<and>
       (existing = [] \<or> m2_session_id (oe_meta (hd existing)) = m2_session_id (oe_meta proposed)) \<and>
       validate_operator_event_append_v2 l current expected existing proposed = Inl (InvalidEvent m)}
     \<subseteq> {m. \<exists>d. ed_message d = m \<and> ed_event_id d = oe_event_id proposed \<and>
          reduce_operator_events_v2 l (existing @ [proposed]) =
            (reduce_operator_events_v2 l existing)
              \<lparr>re_diagnostics := re_diagnostics (reduce_operator_events_v2 l existing) @ [d]\<rparr>}"
proof -
  have session: "(case existing of [] \<Rightarrow> False
      | event # _ \<Rightarrow> m2_session_id (oe_meta event) \<noteq> m2_session_id (oe_meta proposed)) =
    (\<not> (existing = [] \<or> m2_session_id (oe_meta (hd existing)) = m2_session_id (oe_meta proposed)))"
    by (cases existing) auto
  show ?thesis
  proof (cases rule: reduction_v2_grows [of l existing proposed])
    case 1
    then show ?thesis
      by (auto simp: validate_operator_event_append_v2_def Let_def session)
  next
    case (2 d)
    then have "reduce_operator_events_v2 l (existing @ [proposed]) =
        (reduce_operator_events_v2 l existing)
          \<lparr>re_diagnostics := re_diagnostics (reduce_operator_events_v2 l existing) @ [d]\<rparr>"
      by simp
    with 2 show ?thesis
      by (auto simp: validate_operator_event_append_v2_def Let_def session)
  qed
qed

text \<open>
  C9. An accepted correction decides the effective view of its target and of nothing else:
  after a retraction the target has no effective event, after a replacement it has the
  replacement (with the correction's session, id and capture time), also where an earlier
  correction had retracted or replaced it; every other original keeps its effective event.
\<close>

theorem correction_v2_decides_target:
  assumes "oe_payload e = EventCorrected2 t c reason"
    and "re_diagnostics (reduce_operator_events_v2 l (es @ [e])) =
      re_diagnostics (reduce_operator_events_v2 l es)"
  shows "effective_lookup k (reduce_operator_events_v2 l (es @ [e])) =
    (if k = t
     then (case c of Retract \<Rightarrow> None | Replace r \<Rightarrow> Some (effective_from_replacement t e r))
     else effective_lookup k (reduce_operator_events_v2 l es))"
proof -
  let ?s = "foldl reduce_step_v2 (init_reducer l) es"
  obtain ks where ks: "keyed ?s ks" using v2.run_keyed by blast
  have "rd_diagnostics (reduce_step_v2 ?s e) = rd_diagnostics ?s"
    using assms(2) by (simp add: reduce_operator_events_v2_def finish_reducer_def)
  then obtain n where n: "rd_originals ?s t = Some n"
    and step: "reduce_step_v2 ?s e =
      set_effective n (case c of Retract \<Rightarrow> None
                       | Replace r \<Rightarrow> Some (effective_from_replacement t e r)) (see (oe_event_id e) ?s)"
    using accepted_correction_v2 [OF assms(1)] by blast
  show ?thesis
    unfolding append_reduce_v2 [symmetric] step
    by (subst lookup_after_set_effective [OF ks n])
      (auto simp: reduce_operator_events_v2_def split: correction_action.splits)
qed

definition sample_replacement :: "'c \<Rightarrow> 'c replacement_event" where
  "sample_replacement c =
     \<lparr>rp_occurred_at = 5, rp_time_basis = OperatorReported, rp_uncertainty_seconds = Some 2,
      rp_slot_id = None, rp_payload = c\<rparr>"


lemmas reduce_v2_eval =
  reduce_operator_events_v2_def reduce_step_v2_def Let_def event_shape_error_def
  finish_reducer_def sample_defs diagnostic_def is_terminal_def slot_required_def

text \<open>A note is retracted, and a later correction restores it with new text.\<close>

definition note_event :: operator_event_v2 where
  "note_event = sample_event ''n'' None (NoteAdded2 ''first'')"

definition retract_event :: operator_event_v2 where
  "retract_event = sample_event ''r'' None (EventCorrected2 ''n'' Retract ''wrong'')"

definition restore_event :: operator_event_v2 where
  "restore_event = sample_event ''s'' None
     (EventCorrected2 ''n'' (Replace (sample_replacement (CNoteAdded2 ''second''))) ''typo'')"

lemma sample_event_fields [simp]:
  "oe_event_id (sample_event i slot p) = i" "oe_slot_id (sample_event i slot p) = slot"
  "oe_payload (sample_event i slot p) = p" "oe_occurred_at (sample_event i slot p) = 0"
  by (simp_all add: sample_event_def)

lemma sample_shapes:
  "event_shape_error note_event = None" "event_shape_error retract_event = None"
  "event_shape_error restore_event = None"
  by (simp_all add: note_event_def retract_event_def restore_event_def event_shape_error_def
      sample_replacement_def trim_printable)

lemma sample_history_fields [simp]:
  "oe_event_id note_event = ''n''" "oe_payload note_event = NoteAdded2 ''first''"
  "oe_event_id retract_event = ''r''"
  "oe_payload retract_event = EventCorrected2 ''n'' Retract ''wrong''"
  "oe_event_id restore_event = ''s''"
  "oe_payload restore_event =
     EventCorrected2 ''n'' (Replace (sample_replacement (CNoteAdded2 ''second''))) ''typo''"
  by (simp_all add: note_event_def retract_event_def restore_event_def)

lemma note_step:
  "reduce_step_v2 (init_reducer Ready) note_event =
     add_original ''n'' (effective_from_event note_event (CNoteAdded2 ''first''))
       (see ''n'' (init_reducer Ready))"
  by (simp add: reduce_step_v2_def Let_def sample_shapes is_terminal_def)

lemma retract_step:
  assumes "''r'' \<notin> rd_seen_ids s" and "rd_originals s ''n'' = Some i" and "rd_lifecycle s = Ready"
  shows "reduce_step_v2 s retract_event = set_effective i None (see ''r'' s)"
  using assms by (simp add: reduce_step_v2_def Let_def sample_shapes is_terminal_def trim_printable)

lemma restore_step:
  assumes "''s'' \<notin> rd_seen_ids s" and "rd_originals s ''n'' = Some i" and "rd_lifecycle s = Ready"
  shows "reduce_step_v2 s restore_event =
    set_effective i (Some (effective_from_replacement ''n'' restore_event
      (sample_replacement (CNoteAdded2 ''second'')))) (see ''s'' s)"
  using assms by (simp add: reduce_step_v2_def Let_def sample_shapes is_terminal_def trim_printable)

lemma sample_diagnostics:
  "re_diagnostics (reduce_operator_events_v2 Ready [note_event, retract_event]) = []"
  "re_diagnostics (reduce_operator_events_v2 Ready [note_event, retract_event, restore_event]) = []"
  by (simp_all add: reduce_operator_events_v2_def finish_reducer_def note_step retract_step
      restore_step)

theorem correction_v2_decides_target_witness:
  "effective_lookup ''n''
     (reduce_operator_events_v2 Ready ([note_event, retract_event] @ [restore_event])) =
   Some (effective_from_replacement ''n'' restore_event (sample_replacement (CNoteAdded2 ''second'')))"
proof -
  have payload: "oe_payload restore_event =
      EventCorrected2 ''n'' (Replace (sample_replacement (CNoteAdded2 ''second''))) ''typo''"
    by simp
  have accepted: "re_diagnostics (reduce_operator_events_v2 Ready
        ([note_event, retract_event] @ [restore_event])) =
      re_diagnostics (reduce_operator_events_v2 Ready [note_event, retract_event])"
    by (simp add: sample_diagnostics)
  show ?thesis
    using correction_v2_decides_target [OF payload accepted, of "''n''"] by simp
qed

lemma reduce_step_v3_operational:
  assumes "oe_event_id e \<notin> rd_seen_ids s" and "event_shape_error_v3 e = None"
    and "is_operational_payload_v3 (oe_payload e)" and "rd_lifecycle s \<noteq> Running"
  shows "\<exists>d. reduce_step_v3 s e = push_diagnostic d (see (oe_event_id e) s)"
  using assms by (cases "oe_payload e"; cases "is_terminal (rd_lifecycle s)")
    (auto simp: reduce_step_v3_def Let_def)

lemma reduce_step_v3_operational_running:
  assumes "oe_event_id e \<notin> rd_seen_ids s" and "event_shape_error_v3 e = None"
    and "is_operational_payload_v3 (oe_payload e)" and "rd_lifecycle s = Running"
  shows "reduce_step_v3 s e = see (oe_event_id e) s"
  using assms by (cases "oe_payload e") (auto simp: reduce_step_v3_def Let_def is_terminal_def)

text \<open>
  C17. Operator-paced actions need a running session: when the schema-v3 reduction accepts an
  antenna switch or an armed cycle without a diagnostic, the lifecycle was \<open>Running\<close>, and
  an armed cycle names an intent and a trimmed antenna label, starts on the WSPR grid and
  does not start before the antenna was ready.  The action changes neither the lifecycle nor
  the effective events.
\<close>

theorem operational_needs_running_v3:
  assumes "is_operational_payload_v3 (oe_payload e)"
    and "re_diagnostics (reduce_operator_events_v3 l (es @ [e])) =
      re_diagnostics (reduce_operator_events_v3 l es)"
  shows "re_lifecycle (reduce_operator_events_v3 l es) = Running \<and> armed_window_ok e \<and>
    reduce_operator_events_v3 l (es @ [e]) = reduce_operator_events_v3 l es"
proof -
  let ?s = "foldl reduce_step_v3 (init_reducer l) es"
  have acc: "rd_diagnostics (reduce_step_v3 ?s e) = rd_diagnostics ?s"
    using assms(2) by (simp add: reduce_operator_events_v3_def finish_reducer_def)
  note fresh = accepted_v3 [OF acc]
  have run: "rd_lifecycle ?s = Running"
    using reduce_step_v3_operational [OF fresh assms(1)] acc by fastforce
  then have "reduce_step_v3 ?s e = see (oe_event_id e) ?s"
    by (rule reduce_step_v3_operational_running [OF fresh assms(1)])
  then show ?thesis
    using run shape_ok_armed_window [OF fresh(2)]
    by (simp add: reduce_operator_events_v3_def finish_reducer_def)
qed

definition started_event :: operator_event_v3 where
  "started_event = sample_event ''start'' None (SessionStarted3 None)"

definition armed_event :: "string \<Rightarrow> string \<Rightarrow> string \<Rightarrow> timestamp \<Rightarrow> operator_event_v3" where
  "armed_event i intent label start =
     sample_event i (Some intent) (WsprCycleArmed3 label start (Some OperatorConfirmed))"

theorem operational_needs_running_v3_witness:
  "re_lifecycle (reduce_operator_events_v3 Ready [started_event]) = Running \<and>
   armed_window_ok (armed_event ''ready-a'' ''intent-a'' ''A'' (seconds 1))"
proof -
  have op: "is_operational_payload_v3 (oe_payload (armed_event ''ready-a'' ''intent-a'' ''A'' (seconds 1)))"
    by (simp add: armed_event_def sample_defs)
  have "is_wspr_cycle_start (seconds 1)"
    by (simp add: is_wspr_cycle_start_def dt_nanosecond_def dt_timestamp_def seconds_def)
  then have "re_diagnostics (reduce_operator_events_v3 Ready
        ([started_event] @ [armed_event ''ready-a'' ''intent-a'' ''A'' (seconds 1)])) =
      re_diagnostics (reduce_operator_events_v3 Ready [started_event])"
    by (simp add: armed_event_def started_event_def reduce_v3_eval trim_printable
        slot_required_def seconds_def)
  from operational_needs_running_v3 [OF op this] show ?thesis by simp
qed

end
