(* ===== verification/WsprRun.thy ===== *)
theory WsprRun
  imports OperatorEvents
begin

text \<open>
  The run projection of \<open>crates/core/src/wspr.rs\<close> (\<open>project_wspr_run_v3\<close>): antenna
  occupancies, armed cycles, skipped intents and diagnostics derived from the schema-v3
  events in append order.  The mutable locals of its loop are the record \<open>run_state\<close>.
  The occupancies are proved equal to a closed specification that does not mention the
  loop, and the coverage flag of a cycle is read off that specification.
\<close>

section \<open>Data\<close>

record antenna_occupancy =
  ao_antenna_label :: string
  ao_starts_at :: timestamp
  ao_ends_at :: "timestamp option"
  ao_ready_event_id :: string

record armed_wspr_cycle =
  ac_intent_id :: string
  ac_sequence_number :: nat
  ac_band :: band
  ac_antenna_label :: string
  ac_ready_at :: timestamp
  ac_ready_event_id :: string
  ac_window :: wspr_cycle_window
  ac_covered :: bool

record wspr_run_diagnostic =
  wd_code :: string
  wd_event_id :: string
  wd_message :: message

record wspr_run_projection =
  wp_occupancies :: "antenna_occupancy list"
  wp_cycles :: "armed_wspr_cycle list"
  wp_skipped_intent_ids :: "string list"
  wp_diagnostics :: "wspr_run_diagnostic list"

record run_state =
  ru_open :: "antenna_occupancy option"
  ru_seen_intents :: "string set"
  ru_projection :: wspr_run_projection

section \<open>The loop\<close>

definition push_run_diagnostic ::
    "string \<Rightarrow> operator_event_v3 \<Rightarrow> message \<Rightarrow> run_state \<Rightarrow> run_state" where
  "push_run_diagnostic code event message s =
     s\<lparr>ru_projection := (ru_projection s)\<lparr>wp_diagnostics :=
         wp_diagnostics (ru_projection s) @
           [\<lparr>wd_code = code, wd_event_id = oe_event_id event, wd_message = message\<rparr>]\<rparr>\<rparr>"

definition push_occupancy :: "antenna_occupancy \<Rightarrow> run_state \<Rightarrow> run_state" where
  "push_occupancy interval s =
     s\<lparr>ru_projection := (ru_projection s)\<lparr>wp_occupancies :=
         wp_occupancies (ru_projection s) @ [interval]\<rparr>\<rparr>"

definition close_occupancy :: "operator_event_v3 \<Rightarrow> run_state \<Rightarrow> run_state" where
  "close_occupancy event s =
     (case ru_open s of
        None \<Rightarrow> s
      | Some interval \<Rightarrow>
          let s = s\<lparr>ru_open := None\<rparr> in
          if oe_occurred_at event < ao_starts_at interval then
            push_occupancy (interval\<lparr>ao_ends_at := Some (ao_starts_at interval)\<rparr>)
              (push_run_diagnostic ''wspr_run.non_monotonic_action'' event
                 [Lit ''operator action time moved backwards across an antenna interval''] s)
          else
            push_occupancy (interval\<lparr>ao_ends_at := Some (oe_occurred_at event)\<rparr>) s)"

fun closes_occupancy :: "payload_v3 \<Rightarrow> bool" where
  "closes_occupancy (AntennaSwitchStarted3 _) = True"
| "closes_occupancy (SessionInterrupted3 _) = True"
| "closes_occupancy (InterruptionDetected3 _) = True"
| "closes_occupancy (SessionEnded3 _) = True"
| "closes_occupancy (SessionAbandoned3 _) = True"
| "closes_occupancy _ = False"

definition open_occupancy :: "operator_event_v3 \<Rightarrow> string \<Rightarrow> run_state \<Rightarrow> run_state" where
  "open_occupancy event antenna_label s =
     s\<lparr>ru_open := Some \<lparr>ao_antenna_label = antenna_label, ao_starts_at = oe_occurred_at event,
         ao_ends_at = None, ao_ready_event_id = oe_event_id event\<rparr>\<rparr>"

text \<open>The second half of the loop body: the checks of the armed intent and the new cycle.\<close>

definition arm_intent ::
    "(timestamp \<Rightarrow> bool) \<Rightarrow> schedule_v3 \<Rightarrow> string set \<Rightarrow> operator_event_v3 \<Rightarrow> string \<Rightarrow> timestamp
       \<Rightarrow> string option \<Rightarrow> run_state \<Rightarrow> run_state" where
  "arm_intent rep sched skipped event antenna_label cycle_starts_at continued_source s =
     (case oe_slot_id event of
        None \<Rightarrow>
          push_run_diagnostic ''wspr_run.missing_intent'' event
            [Lit ''armed WSPR cycle does not identify a cycle intent''] s
      | Some intent_id \<Rightarrow>
     (case find (\<lambda>intent. wi_intent_id intent = intent_id) (s3_wspr_cycle_intents sched) of
        None \<Rightarrow>
          push_run_diagnostic ''wspr_run.unknown_intent'' event
            [Lit ''armed WSPR cycle references unknown intent '', DbgStr intent_id] s
      | Some intent \<Rightarrow>
      if intent_id \<in> ru_seen_intents s then
        push_run_diagnostic ''wspr_run.intent_reused'' event
          [Lit ''cycle intent '', DbgStr intent_id, Lit '' was armed more than once''] s
      else
        let expected_intent =
              find (\<lambda>expected. wi_intent_id expected \<notin> ru_seen_intents s \<and>
                      wi_intent_id expected \<notin> skipped) (s3_wspr_cycle_intents sched) in
        if (case expected_intent of None \<Rightarrow> False
            | Some expected \<Rightarrow> wi_intent_id expected \<noteq> intent_id) then
          push_run_diagnostic ''wspr_run.intent_out_of_order'' event
            [Lit ''cycle intent '', DbgStr intent_id,
             Lit '' was armed before the preceding intended cycles''] s
        else
          let s = s\<lparr>ru_seen_intents := insert intent_id (ru_seen_intents s)\<rparr> in
          (case from_start rep cycle_starts_at of
             Inl _ \<Rightarrow>
               push_run_diagnostic ''wspr_run.invalid_cycle_start'' event
                 [Lit ''armed cycle is not aligned to the WSPR protocol''] s
           | Inr window \<Rightarrow>
               if cw_starts_at window < oe_occurred_at event then
                 push_run_diagnostic ''wspr_run.cycle_before_ready'' event
                   [Lit ''armed cycle starts before the antenna readiness action''] s
               else
                 let ready_at =
                       (case Option.bind continued_source
                               (\<lambda>source. Option.bind (ru_open s)
                                  (\<lambda>occupancy. if ao_ready_event_id occupancy = source
                                                then Some (ao_starts_at occupancy) else None)) of
                          None \<Rightarrow> oe_occurred_at event
                        | Some t \<Rightarrow> t);
                     cycle =
                       \<lparr>ac_intent_id = wi_intent_id intent,
                        ac_sequence_number = wi_sequence_number intent,
                        ac_band = wi_band intent,
                        ac_antenna_label = antenna_label,
                        ac_ready_at = ready_at,
                        ac_ready_event_id =
                          (case continued_source of None \<Rightarrow> oe_event_id event | Some source \<Rightarrow> source),
                        ac_window = window,
                        ac_covered = False\<rparr>
                 in s\<lparr>ru_projection := (ru_projection s)\<lparr>wp_cycles :=
                      wp_cycles (ru_projection s) @ [cycle]\<rparr>\<rparr>)))"

definition run_step ::
    "(timestamp \<Rightarrow> bool) \<Rightarrow> schedule_v3 \<Rightarrow> string set \<Rightarrow> run_state \<Rightarrow> operator_event_v3 \<Rightarrow> run_state" where
  "run_step rep sched skipped s event =
     (if closes_occupancy (oe_payload event) then close_occupancy event s
      else case oe_payload event of
        WsprCycleArmed3 antenna_label cycle_starts_at readiness \<Rightarrow>
          (case readiness of
             Some (Continued source) \<Rightarrow>
               if (case ru_open s of
                     None \<Rightarrow> False
                   | Some occupancy \<Rightarrow> ao_antenna_label occupancy = antenna_label \<and>
                       ao_ready_event_id occupancy = source)
               then arm_intent rep sched skipped event antenna_label cycle_starts_at (Some source) s
               else push_run_diagnostic ''wspr_run.invalid_continued_readiness'' event
                      [Lit ''continued readiness does not reference the still-open antenna occupancy''] s
           | _ \<Rightarrow>
               arm_intent rep sched skipped event antenna_label cycle_starts_at None
                 (open_occupancy event antenna_label (close_occupancy event s)))
      | _ \<Rightarrow> s)"

definition skipped_intents :: "schedule_v3 \<Rightarrow> operator_event_v3 list \<Rightarrow> string set" where
  "skipped_intents sched events =
     set (filter (\<lambda>intent_id. \<exists>intent \<in> set (s3_wspr_cycle_intents sched).
                    wi_intent_id intent = intent_id)
       (List.map_filter
          (\<lambda>event. case ef_payload event of CSlotMissed3 _ \<Rightarrow> ef_slot_id event | _ \<Rightarrow> None)
          (re_effective_events (reduce_operator_events_v3 Ready events))))"

definition init_run :: "schedule_v3 \<Rightarrow> string set \<Rightarrow> run_state" where
  "init_run sched skipped =
     \<lparr>ru_open = None, ru_seen_intents = {},
      ru_projection = \<lparr>wp_occupancies = [], wp_cycles = [],
        wp_skipped_intent_ids =
          map wi_intent_id
            (filter (\<lambda>intent. wi_intent_id intent \<in> skipped) (s3_wspr_cycle_intents sched)),
        wp_diagnostics = []\<rparr>\<rparr>"

definition covers :: "antenna_occupancy \<Rightarrow> armed_wspr_cycle \<Rightarrow> bool" where
  "covers interval cycle \<longleftrightarrow>
     ao_ready_event_id interval = ac_ready_event_id cycle \<and>
     ao_antenna_label interval = ac_antenna_label cycle \<and>
     ao_starts_at interval \<le> cw_starts_at (ac_window cycle) \<and>
     (case ao_ends_at interval of None \<Rightarrow> True
      | Some ends_at \<Rightarrow> cw_transmission_ends_at (ac_window cycle) \<le> ends_at)"

definition finish_run :: "run_state \<Rightarrow> wspr_run_projection" where
  "finish_run s =
     (let p = ru_projection (case ru_open s of None \<Rightarrow> s | Some interval \<Rightarrow> push_occupancy interval s)
      in p\<lparr>wp_cycles :=
           map (\<lambda>cycle. cycle\<lparr>ac_covered :=
                  list_ex (\<lambda>interval. covers interval cycle) (wp_occupancies p)\<rparr>) (wp_cycles p)\<rparr>)"

definition project_wspr_run_v3 ::
    "(timestamp \<Rightarrow> bool) \<Rightarrow> schedule_v3 \<Rightarrow> operator_event_v3 list \<Rightarrow> wspr_run_projection" where
  "project_wspr_run_v3 rep sched events =
     (let skipped = skipped_intents sched events in
      finish_run (foldl (run_step rep sched skipped) (init_run sched skipped) events))"

section \<open>Occupancies: the closed specification\<close>

text \<open>
  The event opens an occupancy when it arms a cycle on a readiness of its own; the interval
  it opens ends at the next event that closes or opens one, and never before its start.
\<close>

definition ready_label :: "operator_event_v3 \<Rightarrow> string option" where
  "ready_label e =
     (case oe_payload e of
        WsprCycleArmed3 label _ readiness \<Rightarrow>
          (case readiness of Some (Continued _) \<Rightarrow> None | _ \<Rightarrow> Some label)
      | _ \<Rightarrow> None)"

definition boundary :: "operator_event_v3 \<Rightarrow> bool" where
  "boundary e \<longleftrightarrow> closes_occupancy (oe_payload e) \<or> ready_label e \<noteq> None"

definition interval_end :: "timestamp \<Rightarrow> operator_event_v3 list \<Rightarrow> timestamp option" where
  "interval_end start es = map_option (\<lambda>b. max start (oe_occurred_at b)) (find boundary es)"

fun occupancy_spec :: "operator_event_v3 list \<Rightarrow> antenna_occupancy list" where
  "occupancy_spec [] = []"
| "occupancy_spec (e # es) =
     (case ready_label e of
        None \<Rightarrow> occupancy_spec es
      | Some label \<Rightarrow>
          \<lparr>ao_antenna_label = label, ao_starts_at = oe_occurred_at e,
           ao_ends_at = interval_end (oe_occurred_at e) es,
           ao_ready_event_id = oe_event_id e\<rparr> # occupancy_spec es)"

lemma ready_not_closing: "ready_label e = Some l \<Longrightarrow> \<not> closes_occupancy (oe_payload e)"
  by (auto simp: ready_label_def split: payload_v3.splits)

text \<open>The part of the run state the occupancies live in, and its own step.\<close>

definition occ_view :: "run_state \<Rightarrow> antenna_occupancy option \<times> antenna_occupancy list" where
  "occ_view s = (ru_open s, wp_occupancies (ru_projection s))"

definition closed_at :: "antenna_occupancy option \<Rightarrow> timestamp \<Rightarrow> antenna_occupancy list" where
  "closed_at o' t =
     (case o' of None \<Rightarrow> [] | Some i \<Rightarrow> [i\<lparr>ao_ends_at := Some (max (ao_starts_at i) t)\<rparr>])"

definition occ_step ::
    "antenna_occupancy option \<times> antenna_occupancy list \<Rightarrow> operator_event_v3
       \<Rightarrow> antenna_occupancy option \<times> antenna_occupancy list" where
  "occ_step v e =
     (if boundary e then
        (map_option (\<lambda>label. \<lparr>ao_antenna_label = label, ao_starts_at = oe_occurred_at e,
             ao_ends_at = None, ao_ready_event_id = oe_event_id e\<rparr>) (ready_label e),
         snd v @ closed_at (fst v) (oe_occurred_at e))
      else v)"

lemma occ_view_push_diagnostic [simp]: "occ_view (push_run_diagnostic c e m s) = occ_view s"
  by (simp add: occ_view_def push_run_diagnostic_def)

lemma occ_view_arm_intent [simp]: "occ_view (arm_intent rep sc sk e l t c s) = occ_view s"
  by (simp add: arm_intent_def Let_def split: option.split sum.split) (simp add: occ_view_def)

lemma occ_view_close [simp]:
  "occ_view (close_occupancy e s) = (None, snd (occ_view s) @ closed_at (fst (occ_view s)) (oe_occurred_at e))"
  by (simp add: close_occupancy_def occ_view_def closed_at_def push_occupancy_def
      push_run_diagnostic_def Let_def max_def split: option.split)

lemma occ_view_open:
  "occ_view (open_occupancy e l s) =
     (Some \<lparr>ao_antenna_label = l, ao_starts_at = oe_occurred_at e, ao_ends_at = None,
        ao_ready_event_id = oe_event_id e\<rparr>, snd (occ_view s))"
  by (simp add: open_occupancy_def occ_view_def)

lemma occ_view_run_step: "occ_view (run_step rep sc sk s e) = occ_step (occ_view s) e"
proof (cases "closes_occupancy (oe_payload e)")
  case True
  then have "ready_label e = None" using ready_not_closing by (cases "ready_label e") auto
  with True show ?thesis by (simp add: run_step_def occ_step_def boundary_def)
next
  case False
  then show ?thesis
    by (auto simp: run_step_def occ_step_def boundary_def ready_label_def occ_view_open
        split: payload_v3.splits option.splits wspr_readiness_basis.splits)
qed

lemma occ_view_fold:
  "occ_view (foldl (run_step rep sc sk) s es) = foldl occ_step (occ_view s) es"
  by (induction es arbitrary: s) (simp_all add: occ_view_run_step)

definition still_open :: "antenna_occupancy option \<Rightarrow> operator_event_v3 list \<Rightarrow> antenna_occupancy list" where
  "still_open o' es =
     (case o' of None \<Rightarrow> []
      | Some i \<Rightarrow> [i\<lparr>ao_ends_at := interval_end (ao_starts_at i) es\<rparr>])"

lemma occ_step_fold_spec:
  assumes "\<forall>i. o' = Some i \<longrightarrow> ao_ends_at i = None"
  shows "(case foldl occ_step (o', os) es of (q, qs) \<Rightarrow> qs @ (case q of None \<Rightarrow> [] | Some i \<Rightarrow> [i])) =
    os @ still_open o' es @ occupancy_spec es"
  using assms
proof (induction es arbitrary: o' os)
  case Nil
  then show ?case by (auto simp: still_open_def interval_end_def split: option.splits)
next
  case (Cons e es)
  show ?case
  proof (cases "boundary e")
    case False
    then have "ready_label e = None" by (simp add: boundary_def)
    moreover from False have "interval_end t (e # es) = interval_end t es" for t
      by (simp add: interval_end_def)
    ultimately show ?thesis
      using Cons.IH [OF Cons.prems] False
      by (simp add: occ_step_def still_open_def split: option.splits)
  next
    case True
    then have end_here: "interval_end t (e # es) = Some (max t (oe_occurred_at e))" for t
      by (simp add: interval_end_def)
    show ?thesis
    proof (cases "ready_label e")
      case None
      with True Cons.IH [of None "os @ closed_at o' (oe_occurred_at e)"] show ?thesis
        by (simp add: occ_step_def still_open_def closed_at_def end_here split: option.splits)
    next
      case (Some l)
      let ?i = "\<lparr>ao_antenna_label = l, ao_starts_at = oe_occurred_at e, ao_ends_at = None,
        ao_ready_event_id = oe_event_id e\<rparr>"
      from Some True Cons.IH [of "Some ?i" "os @ closed_at o' (oe_occurred_at e)"] show ?thesis
        by (simp add: occ_step_def still_open_def closed_at_def end_here split: option.splits)
    qed
  qed
qed

lemma wp_occupancies_eq:
  "wp_occupancies (project_wspr_run_v3 rep sched events) = occupancy_spec events"
proof -
  let ?sk = "skipped_intents sched events"
  let ?f = "foldl (run_step rep sched ?sk) (init_run sched ?sk) events"
  have "wp_occupancies (finish_run ?f) =
      (case occ_view ?f of (q, qs) \<Rightarrow> qs @ (case q of None \<Rightarrow> [] | Some i \<Rightarrow> [i]))"
    by (simp add: finish_run_def Let_def occ_view_def push_occupancy_def split: option.split)
  also have "occ_view ?f = foldl occ_step (None, []) events"
    by (simp add: occ_view_fold) (simp add: occ_view_def init_run_def)
  also have "(case foldl occ_step (None, []) events of (q, qs) \<Rightarrow>
      qs @ (case q of None \<Rightarrow> [] | Some i \<Rightarrow> [i])) = occupancy_spec events"
    using occ_step_fold_spec [of None "[]" events] by (simp add: still_open_def)
  finally show ?thesis by (simp add: project_wspr_run_v3_def Let_def)
qed

lemma interval_end_ge: "interval_end start es = Some t \<Longrightarrow> start \<le> t"
  by (auto simp: interval_end_def)

lemma occupancy_spec_well_formed:
  "list_all (\<lambda>i. case ao_ends_at i of None \<Rightarrow> True | Some t \<Rightarrow> ao_starts_at i \<le> t) (occupancy_spec es)"
  by (induction es) (auto simp: interval_end_ge split: option.splits)

text \<open>
  C7. The antenna occupancies of a run are the closed specification of its events: every
  armed cycle with a readiness of its own opens an interval at its action time, which ends
  at the next event that switches the antenna, interrupts or ends the session, or reports
  another readiness (or at its own start when that action time moved backwards), and is
  open-ended only when no such event follows.  Neither the schedule nor the validity of the
  armed intent matters, and no interval ends before it starts.
\<close>

theorem occupancies_spec:
  "wp_occupancies (project_wspr_run_v3 rep sched events) = occupancy_spec events \<and>
   list_all (\<lambda>i. case ao_ends_at i of None \<Rightarrow> True | Some t \<Rightarrow> ao_starts_at i \<le> t)
     (wp_occupancies (project_wspr_run_v3 rep sched events))"
  by (simp add: wp_occupancies_eq occupancy_spec_well_formed)

lemma split_first:
  "(\<exists>pre e post. x # xs = pre @ e # post \<and> P e post) \<longleftrightarrow>
     P x xs \<or> (\<exists>pre e post. xs = pre @ e # post \<and> P e post)"
proof (intro iffI; elim disjE exE conjE)
  fix pre e post assume "x # xs = pre @ e # post" and "P e post"
  then show "P x xs \<or> (\<exists>pre e post. xs = pre @ e # post \<and> P e post)" by (cases pre) auto
next
  assume "P x xs" then show "\<exists>pre e post. x # xs = pre @ e # post \<and> P e post" by blast
next
  fix pre e post assume "xs = pre @ e # post" and "P e post"
  then have "x # xs = (x # pre) @ e # post \<and> P e post" by simp
  then show "\<exists>pre e post. x # xs = pre @ e # post \<and> P e post" by blast
qed

lemma occupancy_spec_from_events:
  "i \<in> set (occupancy_spec es) \<longleftrightarrow>
     (\<exists>pre e post. es = pre @ e # post \<and> ready_label e = Some (ao_antenna_label i) \<and>
        ao_starts_at i = oe_occurred_at e \<and> ao_ready_event_id i = oe_event_id e \<and>
        ao_ends_at i = interval_end (oe_occurred_at e) post)"
proof (induction es)
  case (Cons x xs)
  let ?at = "\<lambda>e post. ready_label e = Some (ao_antenna_label i) \<and> ao_starts_at i = oe_occurred_at e \<and>
    ao_ready_event_id i = oe_event_id e \<and> ao_ends_at i = interval_end (oe_occurred_at e) post"
  have "(\<exists>pre e post. x # xs = pre @ e # post \<and> ?at e post) \<longleftrightarrow>
      ?at x xs \<or> (\<exists>pre e post. xs = pre @ e # post \<and> ?at e post)"
    by (rule split_first)
  moreover have "i \<in> set (occupancy_spec (x # xs)) \<longleftrightarrow> ?at x xs \<or> i \<in> set (occupancy_spec xs)"
    by (cases i) (auto split: option.splits)
  ultimately show ?case using Cons.IH by simp
qed simp

text \<open>Actions recorded in time order give disjoint intervals, in order.\<close>

lemma occupancy_spec_starts:
  "sorted (map oe_occurred_at es) \<Longrightarrow> i \<in> set (occupancy_spec es) \<Longrightarrow>
     \<exists>e \<in> set es. boundary e \<and> ao_starts_at i = oe_occurred_at e"
  unfolding occupancy_spec_from_events boundary_def by auto

lemma find_boundary_le:
  "sorted (map oe_occurred_at es) \<Longrightarrow> find boundary es = Some b \<Longrightarrow>
     e \<in> set es \<Longrightarrow> boundary e \<Longrightarrow> oe_occurred_at b \<le> oe_occurred_at e"
  by (induction es) (auto split: if_splits dest: find_SomeD)

lemma occupancy_spec_disjoint:
  "sorted (map oe_occurred_at es) \<Longrightarrow>
     sorted_wrt (\<lambda>i j. \<exists>t. ao_ends_at i = Some t \<and> t \<le> ao_starts_at j) (occupancy_spec es)"
proof (induction es)
  case (Cons e es)
  have "\<exists>t. interval_end (oe_occurred_at e) es = Some t \<and> t \<le> ao_starts_at j"
    if j: "j \<in> set (occupancy_spec es)" for j
  proof -
    from Cons.prems have sorted: "sorted (map oe_occurred_at es)" by simp
    from occupancy_spec_starts [OF this j] obtain x
      where x: "x \<in> set es" "boundary x" "ao_starts_at j = oe_occurred_at x" by blast
    then obtain b where b: "find boundary es = Some b"
      by (metis find_None_iff not_Some_eq)
    have "oe_occurred_at b \<le> oe_occurred_at x"
      using sorted b x(1,2) by (rule find_boundary_le)
    moreover have "oe_occurred_at e \<le> oe_occurred_at x" using Cons.prems x(1) by auto
    ultimately show ?thesis using b x(3) by (simp add: interval_end_def)
  qed
  with Cons show ?case by (auto split: option.splits)
qed simp

text \<open>
  C31. When the operator actions are recorded in time order, the antenna occupancies of a run
  are pairwise disjoint and in order: each ends, at the latest, where the next one starts.
  So at no instant are two antennas taken to be connected.
\<close>

theorem occupancies_disjoint:
  assumes "sorted (map oe_occurred_at events)"
  shows "sorted_wrt (\<lambda>i j. \<exists>t. ao_ends_at i = Some t \<and> t \<le> ao_starts_at j)
    (wp_occupancies (project_wspr_run_v3 rep sched events))"
  using assms by (simp add: wp_occupancies_eq occupancy_spec_disjoint)

definition sample_schedule :: schedule_v3 where
  "sample_schedule =
     \<lparr>s3_schema_version = 3, s3_session_id = ''session'', s3_mode = WholeStationAb,
      s3_goal = GeneralCoverage, s3_antenna_control = None, s3_signal_plans = [],
      s3_wspr_cycle_intents =
        [\<lparr>wi_intent_id = ''intent-a'', wi_sequence_number = 1, wi_band = M20,
          wi_antenna_label = ''A'', wi_direction = None, wi_signal = None\<rparr>,
         \<lparr>wi_intent_id = ''intent-b'', wi_sequence_number = 2, wi_band = M20,
          wi_antenna_label = ''B'', wi_direction = None, wi_signal = None\<rparr>],
      s3_slots = []\<rparr>"

definition at_time :: "timestamp \<Rightarrow> operator_event_v3 \<Rightarrow> operator_event_v3" where
  "at_time t e = e\<lparr>oe_occurred_at := t\<rparr>"

definition sample_run :: "operator_event_v3 list" where
  "sample_run =
     [armed_event ''ready-a'' ''intent-a'' ''A'' (seconds 1),
      at_time (milliseconds 111592) (sample_event ''switch-a'' None (AntennaSwitchStarted3 None)),
      at_time (seconds 120) (armed_event ''ready-b'' ''intent-b'' ''B'' (seconds 121))]"

theorem occupancies_disjoint_witness:
  "sorted_wrt (\<lambda>i j. \<exists>t. ao_ends_at i = Some t \<and> t \<le> ao_starts_at j)
    (wp_occupancies (project_wspr_run_v3 (\<lambda>_. True) sample_schedule sample_run))"
proof (rule occupancies_disjoint)
  show "sorted (map oe_occurred_at sample_run)"
    by (simp add: sample_run_def armed_event_def at_time_def milliseconds_def seconds_def)
qed

section \<open>Cycles\<close>

text \<open>
  What one armed event can do to the cycles and the intents seen: nothing, or consume the
  intent it names, with at most one new cycle whose window is a checked one.
\<close>

definition expected_intent :: "schedule_v3 \<Rightarrow> string set \<Rightarrow> string set \<Rightarrow> wspr_cycle_intent option" where
  "expected_intent sched skipped seen =
     find (\<lambda>expected. wi_intent_id expected \<notin> seen \<and> wi_intent_id expected \<notin> skipped)
       (s3_wspr_cycle_intents sched)"

definition consumes :: "schedule_v3 \<Rightarrow> string set \<Rightarrow> run_state \<Rightarrow> string \<Rightarrow> run_state \<Rightarrow> bool" where
  "consumes sched skipped s i s' \<longleftrightarrow>
     i \<in> wi_intent_id ` set (s3_wspr_cycle_intents sched) \<and> i \<notin> ru_seen_intents s \<and>
     (case expected_intent sched skipped (ru_seen_intents s) of None \<Rightarrow> True
      | Some expected \<Rightarrow> wi_intent_id expected = i) \<and>
     ru_seen_intents s' = insert i (ru_seen_intents s) \<and>
     (wp_cycles (ru_projection s') = wp_cycles (ru_projection s) \<or>
      (\<exists>c rep t. wp_cycles (ru_projection s') = wp_cycles (ru_projection s) @ [c] \<and>
         ac_intent_id c = i \<and> from_start rep t = Inr (ac_window c)))"

definition idles :: "run_state \<Rightarrow> run_state \<Rightarrow> bool" where
  "idles s s' \<longleftrightarrow> ru_seen_intents s' = ru_seen_intents s \<and>
     wp_cycles (ru_projection s') = wp_cycles (ru_projection s)"

lemma idles_simps [simp]:
  "idles s s"
  "idles s (push_run_diagnostic c e m s)"
  "idles s (close_occupancy e s)"
  "idles s (open_occupancy e l (close_occupancy e s))"
  by (simp_all add: idles_def push_run_diagnostic_def close_occupancy_def open_occupancy_def
      push_occupancy_def Let_def split: option.split)

lemma arm_intent_cases:
  "idles s (arm_intent rep sched skipped e l t cs s) \<or>
   (\<exists>i. consumes sched skipped s i (arm_intent rep sched skipped e l t cs s))"
proof (cases "oe_slot_id e")
  case None
  then show ?thesis by (simp add: arm_intent_def)
next
  case (Some i)
  show ?thesis
  proof (cases "find (\<lambda>intent. wi_intent_id intent = i) (s3_wspr_cycle_intents sched)")
    case None
    with Some show ?thesis by (simp add: arm_intent_def)
  next
    case (Some intent)
    let ?x = "expected_intent sched skipped (ru_seen_intents s)"
    let ?bad = "case ?x of None \<Rightarrow> False | Some expected \<Rightarrow> wi_intent_id expected \<noteq> i"
    from find_SomeD [OF Some] have intent: "intent \<in> set (s3_wspr_cycle_intents sched)"
      "wi_intent_id intent = i" by auto
    show ?thesis
    proof (cases "i \<in> ru_seen_intents s \<or> ?bad")
      case True
      with Some \<open>oe_slot_id e = Some i\<close> show ?thesis
        by (cases "i \<in> ru_seen_intents s") (simp_all add: arm_intent_def flip: expected_intent_def)
    next
      case False
      then have ok: "i \<notin> ru_seen_intents s" "\<not> ?bad" by auto
      then have exp: "case ?x of None \<Rightarrow> True | Some expected \<Rightarrow> wi_intent_id expected = i"
        by (auto split: option.splits)
      have "consumes sched skipped s i (arm_intent rep sched skipped e l t cs s)"
        unfolding consumes_def
      proof (intro conjI)
        show "i \<in> wi_intent_id ` set (s3_wspr_cycle_intents sched)" using intent by blast
        show "i \<notin> ru_seen_intents s" by (rule ok)
        show "case ?x of None \<Rightarrow> True | Some expected \<Rightarrow> wi_intent_id expected = i" by (rule exp)
        show "ru_seen_intents (arm_intent rep sched skipped e l t cs s) = insert i (ru_seen_intents s)"
          using Some \<open>oe_slot_id e = Some i\<close> ok
          by (simp add: arm_intent_def push_run_diagnostic_def Let_def flip: expected_intent_def
              split: sum.split)
        show "wp_cycles (ru_projection (arm_intent rep sched skipped e l t cs s)) = wp_cycles (ru_projection s) \<or>
          (\<exists>c rep' t'. wp_cycles (ru_projection (arm_intent rep sched skipped e l t cs s)) =
             wp_cycles (ru_projection s) @ [c] \<and> ac_intent_id c = i \<and>
             from_start rep' t' = Inr (ac_window c))"
          using Some \<open>oe_slot_id e = Some i\<close> ok intent(2)
          by (auto simp: arm_intent_def push_run_diagnostic_def Let_def simp flip: expected_intent_def
              split: sum.split)
      qed
      then show ?thesis by blast
    qed
  qed
qed

lemma idles_trans: "idles s s' \<Longrightarrow> idles s' s'' \<Longrightarrow> idles s s''"
  by (simp add: idles_def)

lemma idles_consumes: "idles s s' \<Longrightarrow> consumes sched skipped s' i s'' \<Longrightarrow> consumes sched skipped s i s''"
  by (simp add: idles_def consumes_def)

lemma run_step_cases:
  "idles s (run_step rep sched skipped s e) \<or> (\<exists>i. consumes sched skipped s i (run_step rep sched skipped s e))"
proof -
  let ?s = "\<lambda>l. open_occupancy e l (close_occupancy e s)"
  have opened: "idles s (arm_intent rep sched skipped e l t None (?s l)) \<or>
      (\<exists>i. consumes sched skipped s i (arm_intent rep sched skipped e l t None (?s l)))" for l t
    using arm_intent_cases [of "?s l" rep sched skipped e l t None]
      idles_trans [OF idles_simps(4)] idles_consumes [OF idles_simps(4)] by blast
  show ?thesis
    by (simp add: run_step_def opened arm_intent_cases
        split: payload_v3.split option.split wspr_readiness_basis.split)
qed

text \<open>
  The invariant: the intents seen and not skipped are a prefix \<open>A\<close> of the schedule's
  unskipped intents, and the cycles armed for them are in the order of that prefix.
\<close>

definition unskipped :: "string set \<Rightarrow> string list \<Rightarrow> string list" where
  "unskipped skipped ids = filter (\<lambda>i. i \<notin> skipped) ids"

definition run_inv :: "schedule_v3 \<Rightarrow> string set \<Rightarrow> run_state \<Rightarrow> bool" where
  "run_inv sched skipped s \<longleftrightarrow>
     (let ids = map ac_intent_id (wp_cycles (ru_projection s)) in
      distinct ids \<and> set ids \<subseteq> ru_seen_intents s \<and>
      ru_seen_intents s \<subseteq> wi_intent_id ` set (s3_wspr_cycle_intents sched) \<and>
      (\<forall>c \<in> set (wp_cycles (ru_projection s)). \<exists>rep t. from_start rep t = Inr (ac_window c)) \<and>
      (\<exists>A B. unskipped skipped (map wi_intent_id (s3_wspr_cycle_intents sched)) = A @ B \<and>
         ru_seen_intents s - skipped = set A \<and> subseq (unskipped skipped ids) A))"

lemma expected_intent_unskipped:
  "map_option wi_intent_id (expected_intent sched skipped seen) =
     find (\<lambda>i. i \<notin> seen) (unskipped skipped (map wi_intent_id (s3_wspr_cycle_intents sched)))"
proof -
  have "map_option wi_intent_id (find (\<lambda>x. wi_intent_id x \<notin> seen \<and> wi_intent_id x \<notin> skipped) xs) =
      find (\<lambda>i. i \<notin> seen) (filter (\<lambda>i. i \<notin> skipped) (map wi_intent_id xs))" for xs :: "wspr_cycle_intent list"
    by (induction xs) auto
  then show ?thesis by (simp add: expected_intent_def unskipped_def)
qed


lemma find_split: "find P (A @ B) = Some x \<Longrightarrow> list_all (\<lambda>a. \<not> P a) A \<Longrightarrow>
    \<exists>B1 B2. B = B1 @ x # B2 \<and> list_all (\<lambda>a. \<not> P a) B1"
proof (induction A)
  case Nil
  then show ?case
  proof (induction B)
    case (Cons b B)
    show ?case
    proof (cases "P b")
      case True
      with Cons.prems show ?thesis by (intro exI [of _ "[]"] exI [of _ B]) auto
    next
      case False
      with Cons obtain B1 B2 where "B = B1 @ x # B2" "list_all (\<lambda>a. \<not> P a) B1" by auto
      with False show ?thesis by (intro exI [of _ "b # B1"] exI [of _ B2]) auto
    qed
  qed simp
qed simp

lemma run_inv_idles: "run_inv sched skipped s \<Longrightarrow> idles s s' \<Longrightarrow> run_inv sched skipped s'"
  by (simp add: run_inv_def idles_def)

lemma run_inv_consumes:
  assumes inv: "run_inv sched skipped s" and step: "consumes sched skipped s i s'"
  shows "run_inv sched skipped s'"
proof -
  let ?cs = "wp_cycles (ru_projection s)" and ?cs' = "wp_cycles (ru_projection s')"
  let ?N = "unskipped skipped (map wi_intent_id (s3_wspr_cycle_intents sched))"
  let ?P = "\<lambda>i. i \<notin> ru_seen_intents s"
  from inv obtain A B where old: "distinct (map ac_intent_id ?cs)"
      "set (map ac_intent_id ?cs) \<subseteq> ru_seen_intents s"
      "ru_seen_intents s \<subseteq> wi_intent_id ` set (s3_wspr_cycle_intents sched)"
      "\<forall>c \<in> set ?cs. \<exists>rep t. from_start rep t = Inr (ac_window c)"
    and AB: "?N = A @ B" "ru_seen_intents s - skipped = set A"
      "subseq (unskipped skipped (map ac_intent_id ?cs)) A"
    by (auto simp: run_inv_def Let_def)
  from step have i: "i \<in> wi_intent_id ` set (s3_wspr_cycle_intents sched)" "?P i"
      "ru_seen_intents s' = insert i (ru_seen_intents s)"
    and exp: "case expected_intent sched skipped (ru_seen_intents s) of None \<Rightarrow> True
      | Some expected \<Rightarrow> wi_intent_id expected = i"
    by (simp_all add: consumes_def)
  from step have "?cs' = ?cs \<or> (\<exists>c rep t. ?cs' = ?cs @ [c] \<and> ac_intent_id c = i \<and>
      from_start rep t = Inr (ac_window c))"
    by (simp add: consumes_def)
  then have "\<exists>new. ?cs' = ?cs @ new \<and> (map ac_intent_id new = [] \<or> map ac_intent_id new = [i]) \<and>
      (\<forall>c \<in> set new. \<exists>rep t. from_start rep t = Inr (ac_window c))"
    by (metis append_Nil2 empty_iff list.simps(8,9) list.set(1) set_ConsD)
  then obtain new where new: "?cs' = ?cs @ new" "map ac_intent_id new = [] \<or> map ac_intent_id new = [i]"
      "\<forall>c \<in> set new. \<exists>rep t. from_start rep t = Inr (ac_window c)"
    by (elim exE conjE) (rule that)
  have ids: "distinct (map ac_intent_id ?cs')" "set (map ac_intent_id ?cs') \<subseteq> ru_seen_intents s'"
    "ru_seen_intents s' \<subseteq> wi_intent_id ` set (s3_wspr_cycle_intents sched)"
    "\<forall>c \<in> set ?cs'. \<exists>rep t. from_start rep t = Inr (ac_window c)"
    using old new i by (auto simp: map_eq_Cons_conv)
  have "\<exists>A B. ?N = A @ B \<and> ru_seen_intents s' - skipped = set A \<and>
      subseq (unskipped skipped (map ac_intent_id ?cs')) A"
  proof (cases "i \<in> skipped")
    case True
    then have "unskipped skipped (map ac_intent_id ?cs') = unskipped skipped (map ac_intent_id ?cs)"
      using new(1,2) by (auto simp: unskipped_def)
    with AB True i(3) show ?thesis by auto
  next
    case False
    with i(1) have "i \<in> set ?N" by (auto simp: unskipped_def)
    with i(2) have "find ?P ?N \<noteq> None" by (auto simp: find_None_iff)
    with exp have "find ?P ?N = Some i"
      by (auto simp flip: expected_intent_unskipped split: option.splits)
    moreover have "list_all (\<lambda>a. \<not> ?P a) A" using AB(2) by (auto simp: list_all_iff)
    ultimately have "\<exists>B1 B2. B = B1 @ i # B2 \<and> list_all (\<lambda>a. \<not> ?P a) B1"
      unfolding AB(1) by (rule find_split)
    then obtain B1 B2 where B: "B = B1 @ i # B2" "list_all (\<lambda>a. \<not> ?P a) B1"
      by (elim exE conjE) (rule that)
    have "set B1 \<subseteq> set ?N" using AB(1) B(1) by auto
    then have "set B1 \<subseteq> - skipped" by (auto simp: unskipped_def)
    with B(2) have "set B1 \<subseteq> set A" using AB(2) by (auto simp: list_all_iff)
    then have "ru_seen_intents s' - skipped = set (A @ B1 @ [i])"
      using AB(2) i(3) False by auto
    moreover have "subseq (unskipped skipped (map ac_intent_id new)) (B1 @ [i])"
      using new(2) False by (auto simp: unskipped_def)
    then have "subseq (unskipped skipped (map ac_intent_id ?cs')) (A @ B1 @ [i])"
      using AB(3) new(1) by (simp add: unskipped_def list_emb_append_mono)
    ultimately show ?thesis
      by (intro exI [of _ "A @ B1 @ [i]"] exI [of _ B2]) (simp add: AB(1) B(1))
  qed
  with ids show ?thesis by (simp add: run_inv_def Let_def)
qed

lemma run_inv_fold:
  "run_inv sched skipped (foldl (run_step rep sched skipped) (init_run sched skipped) events)"
proof (rule foldl_invariant)
  show "run_inv sched skipped (init_run sched skipped)"
    by (simp add: run_inv_def init_run_def unskipped_def)
  show "run_inv sched skipped (run_step rep sched skipped s e)" if "run_inv sched skipped s" for s e
    using that run_step_cases run_inv_idles run_inv_consumes by metis
qed

lemma finish_cycles:
  "wp_cycles (finish_run s) =
     map (\<lambda>c. c\<lparr>ac_covered := list_ex (\<lambda>i. covers i c) (wp_occupancies (finish_run s))\<rparr>)
       (wp_cycles (ru_projection s))"
  by (simp add: finish_run_def Let_def push_occupancy_def split: option.split)

lemma projected_cycles:
  "\<exists>cycles. wp_cycles (project_wspr_run_v3 rep sched events) =
       map (\<lambda>c. c\<lparr>ac_covered := list_ex (\<lambda>i. covers i c) (occupancy_spec events)\<rparr>) cycles \<and>
     run_inv sched (skipped_intents sched events)
       \<lparr>ru_open = None, ru_seen_intents = seen,
          ru_projection = \<lparr>wp_occupancies = [], wp_cycles = cycles, wp_skipped_intent_ids = [],
            wp_diagnostics = []\<rparr>\<rparr>" if "seen = ru_seen_intents (foldl (run_step rep sched
      (skipped_intents sched events)) (init_run sched (skipped_intents sched events)) events)" for seen
proof -
  let ?sk = "skipped_intents sched events"
  let ?s = "foldl (run_step rep sched ?sk) (init_run sched ?sk) events"
  have "project_wspr_run_v3 rep sched events = finish_run ?s"
    by (simp add: project_wspr_run_v3_def Let_def)
  with finish_cycles [of ?s] wp_occupancies_eq [of rep sched events]
  have "wp_cycles (project_wspr_run_v3 rep sched events) =
      map (\<lambda>c. c\<lparr>ac_covered := list_ex (\<lambda>i. covers i c) (occupancy_spec events)\<rparr>)
        (wp_cycles (ru_projection ?s))" by simp
  moreover have "run_inv sched ?sk \<lparr>ru_open = None, ru_seen_intents = seen,
      ru_projection = \<lparr>wp_occupancies = [], wp_cycles = wp_cycles (ru_projection ?s),
        wp_skipped_intent_ids = [], wp_diagnostics = []\<rparr>\<rparr>"
    using run_inv_fold [of sched ?sk rep events] that by (simp add: run_inv_def)
  ultimately show ?thesis by blast
qed

text \<open>
  C30. The armed cycles of a run never repeat an intent and are all scheduled, and those of the
  intents that were not skipped come in schedule order: their intent ids form a subsequence of
  the schedule's intents.  (An intent that was skipped may be armed out of order.)
\<close>

theorem cycles_in_schedule_order:
  "distinct (map ac_intent_id (wp_cycles (project_wspr_run_v3 rep sched events))) \<and>
   ac_intent_id ` set (wp_cycles (project_wspr_run_v3 rep sched events))
     \<subseteq> wi_intent_id ` set (s3_wspr_cycle_intents sched) \<and>
   subseq
     (filter (\<lambda>i. i \<notin> skipped_intents sched events)
       (map ac_intent_id (wp_cycles (project_wspr_run_v3 rep sched events))))
     (map wi_intent_id (s3_wspr_cycle_intents sched))"
proof -
  let ?sk = "skipped_intents sched events"
  obtain cycles where c: "wp_cycles (project_wspr_run_v3 rep sched events) =
       map (\<lambda>c. c\<lparr>ac_covered := list_ex (\<lambda>i. covers i c) (occupancy_spec events)\<rparr>) cycles"
    and inv: "run_inv sched ?sk
       \<lparr>ru_open = None, ru_seen_intents = ru_seen_intents (foldl (run_step rep sched ?sk) (init_run sched ?sk) events),
          ru_projection = \<lparr>wp_occupancies = [], wp_cycles = cycles, wp_skipped_intent_ids = [],
            wp_diagnostics = []\<rparr>\<rparr>"
    using projected_cycles by blast
  have ids: "map ac_intent_id (wp_cycles (project_wspr_run_v3 rep sched events)) = map ac_intent_id cycles"
    by (simp add: c)
  from inv obtain A B where "distinct (map ac_intent_id cycles)"
      "ac_intent_id ` set cycles \<subseteq> wi_intent_id ` set (s3_wspr_cycle_intents sched)"
      "unskipped ?sk (map wi_intent_id (s3_wspr_cycle_intents sched)) = A @ B"
      "subseq (unskipped ?sk (map ac_intent_id cycles)) A"
    by (auto simp: run_inv_def Let_def)
  moreover from this(3) have "subseq A (map wi_intent_id (s3_wspr_cycle_intents sched))"
    by (metis subseq_filter_left subseq_order.trans list_emb_append2 subseq_order.order_refl
        unskipped_def subseq_rev_drop_many)
  ultimately show ?thesis
    unfolding ids by (auto simp: unskipped_def image_image c intro: subseq_order.trans)
qed

section \<open>Coverage\<close>

text \<open>
  The antenna of a cycle stayed connected for its whole transmission: the event the cycle
  relies on reported this antenna no later than the cycle's start, and the first later event
  that could have changed the antenna came at or after the end of the transmission.
\<close>

definition uninterrupted :: "operator_event_v3 list \<Rightarrow> armed_wspr_cycle \<Rightarrow> bool" where
  "uninterrupted events c \<longleftrightarrow>
     (\<exists>pre e post. events = pre @ e # post \<and> ready_label e = Some (ac_antenna_label c) \<and>
        oe_event_id e = ac_ready_event_id c \<and>
        oe_occurred_at e \<le> cw_starts_at (ac_window c) \<and>
        (case find boundary post of None \<Rightarrow> True
         | Some b \<Rightarrow> cw_transmission_ends_at (ac_window c) \<le> oe_occurred_at b))"

lemma covers_spec_iff:
  assumes "from_start rep t = Inr (ac_window c)"
  shows "list_ex (\<lambda>i. covers i c) (occupancy_spec events) \<longleftrightarrow> uninterrupted events c"
proof -
  let ?P = "\<lambda>start post. case interval_end start post of None \<Rightarrow> True
    | Some ends_at \<Rightarrow> cw_transmission_ends_at (ac_window c) \<le> ends_at"
  have lt: "cw_starts_at (ac_window c) < cw_transmission_ends_at (ac_window c)"
    using from_start_window [OF assms] by simp
  have "list_ex (\<lambda>i. covers i c) (occupancy_spec events) \<longleftrightarrow>
      (\<exists>pre e post. events = pre @ e # post \<and> ready_label e = Some (ac_antenna_label c) \<and>
        oe_event_id e = ac_ready_event_id c \<and> oe_occurred_at e \<le> cw_starts_at (ac_window c) \<and>
        ?P (oe_occurred_at e) post)" (is "_ \<longleftrightarrow> (\<exists>pre e post. ?Q pre e post)")
  proof
    assume "list_ex (\<lambda>i. covers i c) (occupancy_spec events)"
    then obtain i where "i \<in> set (occupancy_spec events)" "covers i c"
      unfolding list_ex_iff by blast
    then show "\<exists>pre e post. ?Q pre e post"
      unfolding occupancy_spec_from_events covers_def by metis
  next
    assume "\<exists>pre e post. ?Q pre e post"
    then obtain pre e post where Q: "?Q pre e post" by blast
    let ?i = "\<lparr>ao_antenna_label = ac_antenna_label c, ao_starts_at = oe_occurred_at e,
      ao_ends_at = interval_end (oe_occurred_at e) post, ao_ready_event_id = oe_event_id e\<rparr>"
    from Q have "?i \<in> set (occupancy_spec events)"
      unfolding occupancy_spec_from_events
      by (intro exI [of _ pre] exI [of _ e] exI [of _ post]) simp
    moreover from Q have "covers ?i c" by (simp add: covers_def)
    ultimately show "list_ex (\<lambda>i. covers i c) (occupancy_spec events)"
      unfolding list_ex_iff by blast
  qed
  also have "\<dots> \<longleftrightarrow> uninterrupted events c"
  proof -
    have "?P (oe_occurred_at e) post \<longleftrightarrow> (case find boundary post of None \<Rightarrow> True
         | Some b \<Rightarrow> cw_transmission_ends_at (ac_window c) \<le> oe_occurred_at b)"
      if "oe_occurred_at e \<le> cw_starts_at (ac_window c)" for e :: operator_event_v3 and post
      using that lt by (auto simp: interval_end_def split: option.split)
    then show ?thesis unfolding uninterrupted_def by (metis (no_types, lifting))
  qed
  finally show ?thesis .
qed

lemma projected_cycle_covered:
  "c \<in> set (wp_cycles (project_wspr_run_v3 rep sched events)) \<Longrightarrow> ac_covered c \<longleftrightarrow> uninterrupted events c"
proof -
  let ?sk = "skipped_intents sched events"
  obtain cycles where c: "wp_cycles (project_wspr_run_v3 rep sched events) =
       map (\<lambda>c. c\<lparr>ac_covered := list_ex (\<lambda>i. covers i c) (occupancy_spec events)\<rparr>) cycles"
    and inv: "\<forall>c \<in> set cycles. \<exists>rep t. from_start rep t = Inr (ac_window c)"
    using projected_cycles [of _ rep sched events] by (auto simp: run_inv_def Let_def)
  have "uninterrupted events (c\<lparr>ac_covered := b\<rparr>) = uninterrupted events c" for c :: armed_wspr_cycle and b
    by (simp add: uninterrupted_def cong: option.case_cong)
  then have "ac_covered x = uninterrupted events x"
    if "x \<in> set (wp_cycles (project_wspr_run_v3 rep sched events))" for x
    using that inv covers_spec_iff unfolding c by fastforce
  moreover assume "c \<in> set (wp_cycles (project_wspr_run_v3 rep sched events))"
  ultimately show "ac_covered c \<longleftrightarrow> uninterrupted events c" by blast
qed

text \<open>
  C8. A cycle is flagged as fully covered by its antenna exactly when the antenna provably
  stayed connected: some event reported the cycle's antenna under the event id the cycle
  relies on, no later than the cycle's start, and the next event that closes or opens an
  occupancy, if there is one, came at or after the end of the 110.592 s transmission.
\<close>

theorem covered_iff_uninterrupted:
  "{c \<in> set (wp_cycles (project_wspr_run_v3 rep sched events)). ac_covered c} =
   {c \<in> set (wp_cycles (project_wspr_run_v3 rep sched events)). uninterrupted events c}"
  using projected_cycle_covered by blast

end
