(* ===== verification/Alignment.thy ===== *)
theory Alignment
  imports Model
begin

text \<open>
  Schedule alignment and bundle normalization (\<open>crates/core/src/alignment.rs\<close>,
  \<open>normalization.rs\<close>): which antenna was really connected in each planned slot, and which
  slot, label and confidence each observation gets.  An \<open>f32\<close> confidence is the exact
  rational of its literal.  The arm the code marks \<open>unreachable!\<close> is the value \<open>None\<close>;
  alignment is proved never to reach it.  The sum of a slot's start and its \<open>u32\<close> durations
  is assumed to stay in chrono's range.
\<close>

section \<open>Data\<close>

record slot_alignment_policy =
  boundary_seconds :: int

definition default_slot_alignment_policy :: slot_alignment_policy where
  "default_slot_alignment_policy = \<lparr>boundary_seconds = 5\<rparr>"

datatype aligned_slot_status =
    StatusPlannedNoSwitchEvent
  | StatusUnknownActualState
  | StatusSwitched
  | StatusLateSwitch
  | StatusMissed
  | StatusBad
  | StatusConflictingEvidence

record aligned_slot =
  as_slot_id :: string
  as_sequence_number :: nat
  as_band :: band
  as_planned_label :: string
  as_actual_label :: "string option"
  as_status :: aligned_slot_status
  as_starts_at :: timestamp
  as_ends_at :: timestamp
  as_usable_start :: timestamp
  as_switch_event_id :: "string option"
  as_switch_timestamp :: "timestamp option"
  as_switch_delay_seconds :: "int option"

datatype slot_assignment_reason =
    ReasonInterior
  | ReasonGuardTime
  | ReasonNearBoundary
  | ReasonLateSwitch
  | ReasonBeforeObservedSwitch
  | ReasonMissedSlot
  | ReasonBadSlot
  | ReasonUnknownActualState
  | ReasonConflictingEvidence
  | ReasonBandMismatch
  | ReasonOutsideSchedule

record observation_slot_assignment =
  oa_observation_id :: string
  oa_slot_id :: "string option"
  oa_slot_label :: "string option"
  oa_confidence :: fl
  oa_reason :: slot_assignment_reason

record schedule_slot_alignment =
  sl_slots :: "aligned_slot list"
  sl_observation_assignments :: "observation_slot_assignment list"

section \<open>Operations\<close>

text \<open>\<open>Iterator::min_by_key\<close>: the first of the least elements.\<close>

definition min_by_key :: "('a \<Rightarrow> int) \<Rightarrow> 'a list \<Rightarrow> 'a option" where
  "min_by_key f xs =
     (case xs of [] \<Rightarrow> None
      | x # rest \<Rightarrow> Some (foldl (\<lambda>least y. if f y < f least then y else least) x rest))"

definition switch_delay_seconds :: "planned_slot \<Rightarrow> operator_event \<Rightarrow> int" where
  "switch_delay_seconds slot event = num_seconds (rm_timestamp (ev_meta event) - ps_starts_at slot)"

text \<open>
  \<open>DateTime<Utc> + Duration\<close>, the sum or chrono's panic (\<open>None\<close>) outside the range of a
  \<open>DateTime<Utc>\<close>, from the first instant of the year -262143 to the last of the year 262142.
\<close>

definition MIN_UTC :: timestamp where "MIN_UTC = - 8334601228800 * ns_per_s"

definition MAX_UTC :: timestamp where "MAX_UTC = 8210266876800 * ns_per_s - 1"

definition plus_duration :: "timestamp \<Rightarrow> duration \<Rightarrow> timestamp option" where
  "plus_duration t d = (if MIN_UTC \<le> t + d \<and> t + d \<le> MAX_UTC then Some (t + d) else None)"

definition guard_end :: "planned_slot \<Rightarrow> timestamp option" where
  "guard_end slot = plus_duration (ps_starts_at slot) (seconds (int (ps_guard_seconds slot)))"

definition slot_end :: "planned_slot \<Rightarrow> timestamp option" where
  "slot_end slot = plus_duration (ps_starts_at slot) (seconds (int (ps_duration_seconds slot)))"

text \<open>The literal the code repeats for a slot without a switch.\<close>

definition unswitched_slot ::
    "planned_slot \<Rightarrow> timestamp \<Rightarrow> timestamp \<Rightarrow> string option \<Rightarrow> aligned_slot_status \<Rightarrow> aligned_slot" where
  "unswitched_slot slot guard_ends_at ends_at actual_label status =
     \<lparr>as_slot_id = ps_slot_id slot, as_sequence_number = ps_sequence_number slot,
      as_band = ps_band slot, as_planned_label = ps_antenna_label slot,
      as_actual_label = actual_label, as_status = status, as_starts_at = ps_starts_at slot,
      as_ends_at = ends_at, as_usable_start = guard_ends_at,
      as_switch_event_id = None, as_switch_timestamp = None, as_switch_delay_seconds = None\<rparr>"

definition aligned_as ::
    "planned_slot \<Rightarrow> operator_event list \<Rightarrow> bool \<Rightarrow> timestamp \<Rightarrow> timestamp \<Rightarrow> aligned_slot" where
  "aligned_as slot events schema_v2 guard_ends_at ends_at =
     (let slot_events = filter (\<lambda>event. ev_slot_id event = Some (ps_slot_id slot)) events;
          switch_events = filter (\<lambda>event. ev_event_type event = Switched) slot_events;
          bad_events = length (filter (\<lambda>event. ev_event_type event = BadSlot) slot_events);
          missed_events = length (filter (\<lambda>event. ev_event_type event = MissedSlot) slot_events);
          active_fact_count = length switch_events + bad_events + missed_events;
          unswitched = unswitched_slot slot guard_ends_at ends_at
      in
      if schema_v2 \<and> active_fact_count > 1 then unswitched None StatusConflictingEvidence
      else if bad_events > 0 then unswitched None StatusBad
      else if missed_events > 0 then unswitched None StatusMissed
      else
        case min_by_key (\<lambda>event. rm_timestamp (ev_meta event)) switch_events of
          Some event \<Rightarrow>
            let status =
                  (if rm_timestamp (ev_meta event) \<le> guard_ends_at then StatusSwitched
                   else StatusLateSwitch) in
            \<lparr>as_slot_id = ps_slot_id slot, as_sequence_number = ps_sequence_number slot,
             as_band = ps_band slot, as_planned_label = ps_antenna_label slot,
             as_actual_label =
               or_else (ev_actual_antenna_label event)
                 (bool_then (\<not> schema_v2) (ps_antenna_label slot)),
             as_status = status, as_starts_at = ps_starts_at slot, as_ends_at = ends_at,
             as_usable_start = max guard_ends_at (rm_timestamp (ev_meta event)),
             as_switch_event_id = Some (ev_event_id event),
             as_switch_timestamp = Some (rm_timestamp (ev_meta event)),
             as_switch_delay_seconds = Some (switch_delay_seconds slot event)\<rparr>
        | None \<Rightarrow>
            if schema_v2 then unswitched None StatusUnknownActualState
            else unswitched (Some (ps_antenna_label slot)) StatusPlannedNoSwitchEvent)"

definition align_slot :: "planned_slot \<Rightarrow> operator_event list \<Rightarrow> bool \<Rightarrow> aligned_slot option" where
  "align_slot slot events schema_v2 =
     Option.bind (guard_end slot) (\<lambda>guard_ends_at.
     Option.bind (slot_end slot) (\<lambda>ends_at.
     Some (aligned_as slot events schema_v2 guard_ends_at ends_at)))"

definition assignment ::
    "'j observation_record \<Rightarrow> aligned_slot option \<Rightarrow> string option \<Rightarrow> rat
       \<Rightarrow> slot_assignment_reason \<Rightarrow> observation_slot_assignment" where
  "assignment observation slot slot_label confidence reason =
     \<lparr>oa_observation_id = ob_observation_id observation,
      oa_slot_id = map_option as_slot_id slot, oa_slot_label = slot_label,
      oa_confidence = Finite confidence, oa_reason = reason\<rparr>"

definition f32_010 :: rat where "f32_010 = 13421773 / 134217728"
definition f32_025 :: rat where "f32_025 = 1 / 4"
definition f32_060 :: rat where "f32_060 = 10066330 / 16777216"
definition f32_070 :: rat where "f32_070 = 11744051 / 16777216"
definition f32_080 :: rat where "f32_080 = 13421773 / 16777216"
definition f32_095 :: rat where "f32_095 = 15938355 / 16777216"

lemmas f32_defs = f32_010_def f32_025_def f32_060_def f32_070_def f32_080_def f32_095_def

definition assign_after_guard ::
    "'j observation_record \<Rightarrow> aligned_slot \<Rightarrow> slot_alignment_policy
       \<Rightarrow> observation_slot_assignment option" where
  "assign_after_guard observation slot policy =
     (let timestamp = rm_timestamp (ob_meta observation) in
      if timestamp < as_usable_start slot then
        let label =
              (if (case as_switch_timestamp slot of None \<Rightarrow> False
                   | Some switch_timestamp \<Rightarrow> switch_timestamp \<le> timestamp)
               then as_actual_label slot else None)
        in Some (assignment observation (Some slot) label f32_025 ReasonGuardTime)
      else if num_seconds (as_ends_at slot - timestamp) \<le> boundary_seconds policy then
        Some (assignment observation (Some slot) (as_actual_label slot) f32_060 ReasonNearBoundary)
      else case as_status slot of
          StatusLateSwitch \<Rightarrow>
            Some (assignment observation (Some slot) (as_actual_label slot) f32_070 ReasonLateSwitch)
        | StatusPlannedNoSwitchEvent \<Rightarrow>
            Some (assignment observation (Some slot) (as_actual_label slot) f32_080 ReasonInterior)
        | StatusSwitched \<Rightarrow>
            Some (assignment observation (Some slot) (as_actual_label slot) f32_095 ReasonInterior)
        | _ \<Rightarrow> None)"

definition assign_observation_to_slot ::
    "'j observation_record \<Rightarrow> aligned_slot list \<Rightarrow> slot_alignment_policy
       \<Rightarrow> observation_slot_assignment option" where
  "assign_observation_to_slot observation slots policy =
     (let timestamp = rm_timestamp (ob_meta observation) in
      case find (\<lambda>slot. as_starts_at slot \<le> timestamp \<and> timestamp < as_ends_at slot) slots of
        None \<Rightarrow> Some (assignment observation None None 0 ReasonOutsideSchedule)
      | Some slot \<Rightarrow>
          if ob_band observation \<noteq> as_band slot then
            Some (assignment observation None None 0 ReasonBandMismatch)
          else case as_status slot of
              StatusConflictingEvidence \<Rightarrow>
                Some (assignment observation (Some slot) None 0 ReasonConflictingEvidence)
            | StatusUnknownActualState \<Rightarrow>
                Some (assignment observation (Some slot) None 0 ReasonUnknownActualState)
            | StatusBad \<Rightarrow> Some (assignment observation (Some slot) None 0 ReasonBadSlot)
            | StatusMissed \<Rightarrow> Some (assignment observation (Some slot) None 0 ReasonMissedSlot)
            | StatusLateSwitch \<Rightarrow>
                if timestamp < as_usable_start slot then
                  Some (assignment observation (Some slot) None f32_010 ReasonBeforeObservedSwitch)
                else assign_after_guard observation slot policy
            | _ \<Rightarrow> assign_after_guard observation slot policy)"

definition align_schedule_slots ::
    "schedule \<Rightarrow> operator_event list \<Rightarrow> 'j observation_record list \<Rightarrow> slot_alignment_policy
       \<Rightarrow> schedule_slot_alignment option" where
  "align_schedule_slots sched events observations policy =
     Option.bind
       (those (map (\<lambda>slot. align_slot slot events (SCHEMA_VERSION_V2 \<le> sc_schema_version sched))
          (sc_slots sched))) (\<lambda>slots.
     Option.bind
       (those (map (\<lambda>observation. assign_observation_to_slot observation slots policy)
          observations)) (\<lambda>assignments.
     Some \<lparr>sl_slots = slots, sl_observation_assignments = assignments\<rparr>))"

definition apply_slot_assignments ::
    "'j observation_record list \<Rightarrow> observation_slot_assignment list \<Rightarrow> 'j observation_record list" where
  "apply_slot_assignments observations assignments =
     map (\<lambda>observation.
       case find (\<lambda>a. oa_observation_id a = ob_observation_id observation) assignments of
         None \<Rightarrow> observation
       | Some a \<Rightarrow>
           observation\<lparr>ob_slot_id := oa_slot_id a, ob_slot_label := oa_slot_label a,
             ob_slot_confidence := Some (oa_confidence a)\<rparr>) observations"

definition annotate_bundle_observations ::
    "'j bundle_contents \<Rightarrow> ('j bundle_contents \<times> schedule_slot_alignment) option" where
  "annotate_bundle_observations bundle =
     map_option
       (\<lambda>alignment.
         (bundle\<lparr>bc_observations :=
            apply_slot_assignments (bc_observations bundle) (sl_observation_assignments alignment)\<rparr>,
          alignment))
       (align_schedule_slots (bc_schedule bundle) (bc_events bundle) (bc_observations bundle)
          default_slot_alignment_policy)"

definition normalize_bundle :: "'j bundle_contents \<Rightarrow> 'j bundle_contents option" where
  "normalize_bundle bundle = map_option fst (annotate_bundle_observations bundle)"

section \<open>What a slot's evidence says\<close>

lemma foldl_min_in:
  "foldl (\<lambda>least y. if f y < (f least :: int) then y else least) x xs \<in> insert x (set xs)"
  by (induction xs arbitrary: x) auto

lemma foldl_min_le:
  "z \<in> insert x (set xs) \<Longrightarrow>
     f (foldl (\<lambda>least y. if f y < (f least :: int) then y else least) x xs) \<le> f z"
proof (induction xs arbitrary: x z)
  case (Cons y ys)
  let ?x = "if f y < f x then y else x"
  have le: "f (foldl (\<lambda>least y. if f y < f least then y else least) ?x ys) \<le> f w"
    if "w \<in> insert ?x (set ys)" for w
    using that by (rule Cons.IH)
  from Cons.prems consider "z = x" | "z = y" | "z \<in> set ys" by auto
  then show ?case
  proof cases
    case 3
    then show ?thesis using le by simp
  next
    case 1
    then have "f ?x \<le> f z" by simp
    with le [of ?x] show ?thesis by simp
  next
    case 2
    then have "f ?x \<le> f z" by simp
    with le [of ?x] show ?thesis by simp
  qed
qed simp

lemma min_by_key_None [simp]: "min_by_key f xs = None \<longleftrightarrow> xs = []"
  by (cases xs) (simp_all add: min_by_key_def)

lemma min_by_key_SomeD: "min_by_key f xs = Some x \<Longrightarrow> x \<in> set xs \<and> (\<forall>y \<in> set xs. f x \<le> f y)"
  using foldl_min_in [of f "hd xs" "tl xs"] foldl_min_le [of _ "hd xs" "tl xs" f]
  by (cases xs) (auto simp: min_by_key_def)

lemma min_by_key_single [simp]: "min_by_key f [x] = Some x"
  by (simp add: min_by_key_def)

text \<open>The events of one type that name the slot.\<close>

definition slot_facts :: "operator_event list \<Rightarrow> planned_slot \<Rightarrow> operator_event_type \<Rightarrow> operator_event list" where
  "slot_facts events slot ty =
     filter (\<lambda>e. ev_slot_id e = Some (ps_slot_id slot) \<and> ev_event_type e = ty) events"

definition active_facts :: "operator_event list \<Rightarrow> planned_slot \<Rightarrow> nat" where
  "active_facts events slot =
     length (slot_facts events slot Switched) + length (slot_facts events slot BadSlot) +
     length (slot_facts events slot MissedSlot)"

definition first_switch :: "operator_event list \<Rightarrow> planned_slot \<Rightarrow> operator_event option" where
  "first_switch events slot =
     min_by_key (\<lambda>e. rm_timestamp (ev_meta e)) (slot_facts events slot Switched)"

text \<open>The instants of a slot, and the slot aligned by them, where chrono does not panic.\<close>

definition guard_instant :: "planned_slot \<Rightarrow> timestamp" where
  "guard_instant slot = ps_starts_at slot + seconds (int (ps_guard_seconds slot))"

definition end_instant :: "planned_slot \<Rightarrow> timestamp" where
  "end_instant slot = ps_starts_at slot + seconds (int (ps_duration_seconds slot))"

definition in_utc :: "timestamp \<Rightarrow> bool" where
  "in_utc t \<longleftrightarrow> MIN_UTC \<le> t \<and> t \<le> MAX_UTC"

definition representable_slot :: "planned_slot \<Rightarrow> bool" where
  "representable_slot slot \<longleftrightarrow> in_utc (guard_instant slot) \<and> in_utc (end_instant slot)"

definition slot_alignment :: "planned_slot \<Rightarrow> operator_event list \<Rightarrow> bool \<Rightarrow> aligned_slot" where
  "slot_alignment slot events schema_v2 =
     aligned_as slot events schema_v2 (guard_instant slot) (end_instant slot)"

lemma align_slot_eq:
  "align_slot slot events schema_v2 =
     (if representable_slot slot then Some (slot_alignment slot events schema_v2) else None)"
  by (simp add: align_slot_def guard_end_def slot_end_def plus_duration_def representable_slot_def in_utc_def
      guard_instant_def end_instant_def slot_alignment_def)

abbreviation unswitched :: "planned_slot \<Rightarrow> string option \<Rightarrow> aligned_slot_status \<Rightarrow> aligned_slot" where
  "unswitched slot \<equiv> unswitched_slot slot (guard_instant slot) (end_instant slot)"

lemma align_slot_facts:
  "slot_alignment slot events schema_v2 =
     (if schema_v2 \<and> 1 < active_facts events slot then unswitched slot None StatusConflictingEvidence
      else if slot_facts events slot BadSlot \<noteq> [] then unswitched slot None StatusBad
      else if slot_facts events slot MissedSlot \<noteq> [] then unswitched slot None StatusMissed
      else case first_switch events slot of
          Some e \<Rightarrow>
            (unswitched slot
               (or_else (ev_actual_antenna_label e) (bool_then (\<not> schema_v2) (ps_antenna_label slot)))
               (if rm_timestamp (ev_meta e) \<le> guard_instant slot then StatusSwitched else StatusLateSwitch))
              \<lparr>as_usable_start := max (guard_instant slot) (rm_timestamp (ev_meta e)),
               as_switch_event_id := Some (ev_event_id e),
               as_switch_timestamp := Some (rm_timestamp (ev_meta e)),
               as_switch_delay_seconds := Some (switch_delay_seconds slot e)\<rparr>
        | None \<Rightarrow>
            if schema_v2 then unswitched slot None StatusUnknownActualState
            else unswitched slot (Some (ps_antenna_label slot)) StatusPlannedNoSwitchEvent)"
proof -
  have "filter (\<lambda>e. ev_event_type e = ty)
      (filter (\<lambda>e. ev_slot_id e = Some (ps_slot_id slot)) events) = slot_facts events slot ty" for ty
    by (simp add: slot_facts_def conj_commute)
  then show ?thesis
    by (simp add: slot_alignment_def aligned_as_def Let_def active_facts_def first_switch_def unswitched_slot_def
        del: filter_filter min_by_key_None cong: option.case_cong if_cong)
qed

lemma align_slot_keeps [simp]:
  "as_slot_id (slot_alignment slot events v) = ps_slot_id slot"
  "as_band (slot_alignment slot events v) = ps_band slot"
  "as_starts_at (slot_alignment slot events v) = ps_starts_at slot"
  "as_ends_at (slot_alignment slot events v) = end_instant slot"
  "as_planned_label (slot_alignment slot events v) = ps_antenna_label slot"
  by (simp_all add: align_slot_facts unswitched_slot_def split: option.split)

lemma slot_facts_single:
  "length xs + length ys + length zs \<le> 1 \<Longrightarrow> x \<in> set xs \<Longrightarrow> xs = [x] \<and> ys = [] \<and> zs = []"
  by (cases xs) auto

text \<open>
  Which antenna a schema-v2 slot counts as having used is decided by evidence alone: the
  actual label of an aligned slot is \<open>l\<close> exactly when one single fact names the slot, that
  fact is a switch, and the operator recorded the label \<open>l\<close> with it.  The planned label
  never stands in for it.  In schema v1 a slot without a bad or missed report falls back to
  the planned label.
\<close>

theorem actual_label_from_evidence:
  "(as_actual_label (slot_alignment slot events True) = Some l \<longleftrightarrow>
     (\<exists>e. slot_facts events slot Switched = [e] \<and> slot_facts events slot BadSlot = [] \<and>
        slot_facts events slot MissedSlot = [] \<and> ev_actual_antenna_label e = Some l)) \<and>
   as_actual_label (slot_alignment slot events False) =
     (if slot_facts events slot BadSlot = [] \<and> slot_facts events slot MissedSlot = []
      then Some (case Option.bind (first_switch events slot) ev_actual_antenna_label of
                   None \<Rightarrow> ps_antenna_label slot | Some m \<Rightarrow> m)
      else None)"
proof
  let ?sw = "slot_facts events slot Switched" and ?bad = "slot_facts events slot BadSlot"
    and ?mi = "slot_facts events slot MissedSlot"
  show "as_actual_label (slot_alignment slot events True) = Some l \<longleftrightarrow>
      (\<exists>e. ?sw = [e] \<and> ?bad = [] \<and> ?mi = [] \<and> ev_actual_antenna_label e = Some l)"
  proof
    assume label: "as_actual_label (slot_alignment slot events True) = Some l"
    then have few: "length ?sw + length ?bad + length ?mi \<le> 1"
      by (auto simp: align_slot_facts active_facts_def unswitched_slot_def split: if_splits)
    from label obtain e where e: "first_switch events slot = Some e" "ev_actual_antenna_label e = Some l"
      by (auto simp: align_slot_facts unswitched_slot_def or_else.simps split: if_splits option.splits
          elim: or_else.elims)
    from e(1) have "e \<in> set ?sw" by (auto simp: first_switch_def dest: min_by_key_SomeD)
    from slot_facts_single [OF few this] e(2)
    show "\<exists>e. ?sw = [e] \<and> ?bad = [] \<and> ?mi = [] \<and> ev_actual_antenna_label e = Some l" by blast
  next
    assume "\<exists>e. ?sw = [e] \<and> ?bad = [] \<and> ?mi = [] \<and> ev_actual_antenna_label e = Some l"
    then show "as_actual_label (slot_alignment slot events True) = Some l"
      by (auto simp: align_slot_facts active_facts_def first_switch_def unswitched_slot_def)
  qed
  show "as_actual_label (slot_alignment slot events False) =
     (if ?bad = [] \<and> ?mi = []
      then Some (case Option.bind (first_switch events slot) ev_actual_antenna_label of
                   None \<Rightarrow> ps_antenna_label slot | Some m \<Rightarrow> m)
      else None)"
    by (auto simp: align_slot_facts unswitched_slot_def split: option.split)
qed

text \<open>The status, its usable start and its switch stay consistent.\<close>

lemma aligned_switch:
  assumes "as_actual_label (slot_alignment slot events True) = Some l"
  obtains e where "slot_facts events slot Switched = [e]" "slot_facts events slot BadSlot = []"
    "slot_facts events slot MissedSlot = []" "ev_actual_antenna_label e = Some l"
    "as_switch_timestamp (slot_alignment slot events True) = Some (rm_timestamp (ev_meta e))"
    "rm_timestamp (ev_meta e) \<le> as_usable_start (slot_alignment slot events True)"
proof -
  let ?sw = "slot_facts events slot Switched" and ?bad = "slot_facts events slot BadSlot"
    and ?mi = "slot_facts events slot MissedSlot"
  from assms have few: "length ?sw + length ?bad + length ?mi \<le> 1"
    by (auto simp: align_slot_facts active_facts_def unswitched_slot_def split: if_splits)
  from assms obtain e where e: "first_switch events slot = Some e" "ev_actual_antenna_label e = Some l"
    by (auto simp: align_slot_facts unswitched_slot_def split: if_splits option.splits
        elim: or_else.elims)
  from e(1) have "e \<in> set ?sw" by (auto simp: first_switch_def dest: min_by_key_SomeD)
  from slot_facts_single [OF few this] e show thesis
    by (intro that [of e]) (auto simp: align_slot_facts active_facts_def unswitched_slot_def)
qed

section \<open>Alignment is total\<close>

lemma assign_total [simp]: "assign_observation_to_slot observation slots policy \<noteq> None"
  by (simp add: assign_observation_to_slot_def assign_after_guard_def Let_def
      split: option.split aligned_slot_status.split)

definition assigned :: "'j observation_record \<Rightarrow> aligned_slot list \<Rightarrow> slot_alignment_policy
    \<Rightarrow> observation_slot_assignment" where
  "assigned observation slots policy = the (assign_observation_to_slot observation slots policy)"

definition aligned_slots :: "schedule \<Rightarrow> operator_event list \<Rightarrow> aligned_slot list" where
  "aligned_slots sched events =
     map (\<lambda>slot. slot_alignment slot events (SCHEMA_VERSION_V2 \<le> sc_schema_version sched)) (sc_slots sched)"

lemma those_map_total: "(\<And>x. f x \<noteq> None) \<Longrightarrow> those (map f xs) = Some (map (\<lambda>x. the (f x)) xs)"
  by (induction xs) (auto split: option.split)

lemma those_map_if: "those (map (\<lambda>x. if P x then Some (f x) else None) xs) =
    (if list_all P xs then Some (map f xs) else None)"
  by (induction xs) simp_all

text \<open>Alignment panics exactly when the guard or the end of a planned slot is no \<open>DateTime<Utc>\<close>.\<close>

definition representable_slots :: "schedule \<Rightarrow> bool" where
  "representable_slots sched \<longleftrightarrow> list_all representable_slot (sc_slots sched)"

definition alignment_of ::
    "schedule \<Rightarrow> operator_event list \<Rightarrow> 'j observation_record list \<Rightarrow> slot_alignment_policy
       \<Rightarrow> schedule_slot_alignment" where
  "alignment_of sched events observations policy =
     \<lparr>sl_slots = aligned_slots sched events,
      sl_observation_assignments = map (\<lambda>ob. assigned ob (aligned_slots sched events) policy) observations\<rparr>"

lemma align_eq:
  "align_schedule_slots sched events observations policy =
     (if representable_slots sched then Some (alignment_of sched events observations policy) else None)"
  by (simp add: align_schedule_slots_def align_slot_eq those_map_if those_map_total assigned_def aligned_slots_def
      representable_slots_def alignment_of_def)

text \<open>The shapes an assignment can have.\<close>

lemma assigned_unfold:
  "assigned ob slots policy =
     (let t = rm_timestamp (ob_meta ob) in
      case find (\<lambda>slot. as_starts_at slot \<le> t \<and> t < as_ends_at slot) slots of
        None \<Rightarrow> assignment ob None None 0 ReasonOutsideSchedule
      | Some slot \<Rightarrow>
          if ob_band ob \<noteq> as_band slot then assignment ob None None 0 ReasonBandMismatch
          else case as_status slot of
              StatusConflictingEvidence \<Rightarrow> assignment ob (Some slot) None 0 ReasonConflictingEvidence
            | StatusUnknownActualState \<Rightarrow> assignment ob (Some slot) None 0 ReasonUnknownActualState
            | StatusBad \<Rightarrow> assignment ob (Some slot) None 0 ReasonBadSlot
            | StatusMissed \<Rightarrow> assignment ob (Some slot) None 0 ReasonMissedSlot
            | st \<Rightarrow>
                if t < as_usable_start slot then
                  if st = StatusLateSwitch then
                    assignment ob (Some slot) None f32_010 ReasonBeforeObservedSwitch
                  else
                    assignment ob (Some slot)
                      (if (case as_switch_timestamp slot of None \<Rightarrow> False | Some s \<Rightarrow> s \<le> t)
                       then as_actual_label slot else None) f32_025 ReasonGuardTime
                else if num_seconds (as_ends_at slot - t) \<le> boundary_seconds policy then
                  assignment ob (Some slot) (as_actual_label slot) f32_060 ReasonNearBoundary
                else if st = StatusLateSwitch then
                  assignment ob (Some slot) (as_actual_label slot) f32_070 ReasonLateSwitch
                else if st = StatusPlannedNoSwitchEvent then
                  assignment ob (Some slot) (as_actual_label slot) f32_080 ReasonInterior
                else assignment ob (Some slot) (as_actual_label slot) f32_095 ReasonInterior)"
  by (simp add: assigned_def assign_observation_to_slot_def assign_after_guard_def Let_def
      split: option.split aligned_slot_status.split)

lemma assigned_observation_id [simp]: "oa_observation_id (assigned ob slots policy) = ob_observation_id ob"
  by (simp add: assigned_unfold Let_def assignment_def split: option.split aligned_slot_status.split)

lemma assigned_label:
  assumes "oa_slot_label (assigned ob slots policy) = Some l"
  obtains slot where "slot \<in> set slots" "oa_slot_id (assigned ob slots policy) = Some (as_slot_id slot)"
    "as_starts_at slot \<le> rm_timestamp (ob_meta ob)" "rm_timestamp (ob_meta ob) < as_ends_at slot"
    "ob_band ob = as_band slot" "as_actual_label slot = Some l"
    "as_usable_start slot \<le> rm_timestamp (ob_meta ob) \<or>
       (\<exists>s. as_switch_timestamp slot = Some s \<and> s \<le> rm_timestamp (ob_meta ob))"
proof -
  let ?t = "rm_timestamp (ob_meta ob)"
  from assms obtain slot where find: "find (\<lambda>slot. as_starts_at slot \<le> ?t \<and> ?t < as_ends_at slot) slots = Some slot"
    and band: "ob_band ob = as_band slot"
    by (auto simp: assigned_unfold Let_def assignment_def split: option.splits if_splits)
  from find_SomeD [OF find] have slot: "slot \<in> set slots" "as_starts_at slot \<le> ?t" "?t < as_ends_at slot"
    by auto
  have "oa_slot_id (assigned ob slots policy) = Some (as_slot_id slot)"
    by (simp add: assigned_unfold Let_def assignment_def find band split: aligned_slot_status.split)
  moreover have "as_actual_label slot = Some l"
    using assms by (auto simp: assigned_unfold Let_def assignment_def find band
        split: aligned_slot_status.splits if_splits)
  moreover have "as_usable_start slot \<le> ?t \<or> (\<exists>s. as_switch_timestamp slot = Some s \<and> s \<le> ?t)"
    using assms by (auto simp: assigned_unfold Let_def assignment_def find band
        split: aligned_slot_status.splits if_splits option.splits)
  ultimately show thesis using slot band by (intro that [of slot]) auto
qed

text \<open>
  C10. No label is ever invented for a schema-v2 observation: when an assignment carries the
  label \<open>l\<close>, the observation falls into a planned slot of its own band, exactly one fact names
  that slot, it is a switch recorded with the label \<open>l\<close>, and it happened no later than the
  observation.
\<close>

theorem labels_have_evidence:
  assumes "SCHEMA_VERSION_V2 \<le> sc_schema_version sched"
    and "align_schedule_slots sched events observations policy = Some a"
    and "x \<in> set (sl_observation_assignments a)" and "oa_slot_label x = Some l"
  shows "\<exists>ob \<in> set observations. \<exists>slot \<in> set (sc_slots sched). \<exists>e.
    oa_observation_id x = ob_observation_id ob \<and> oa_slot_id x = Some (ps_slot_id slot) \<and>
    ps_starts_at slot \<le> rm_timestamp (ob_meta ob) \<and> rm_timestamp (ob_meta ob) < end_instant slot \<and>
    ob_band ob = ps_band slot \<and>
    slot_facts events slot Switched = [e] \<and> slot_facts events slot BadSlot = [] \<and>
    slot_facts events slot MissedSlot = [] \<and> ev_actual_antenna_label e = Some l \<and>
    rm_timestamp (ev_meta e) \<le> rm_timestamp (ob_meta ob)"
proof -
  from assms(2,3) obtain ob where ob: "ob \<in> set observations"
    "x = assigned ob (aligned_slots sched events) policy"
    by (auto simp: align_eq alignment_of_def split: if_splits)
  from assms(4) obtain al where al: "al \<in> set (aligned_slots sched events)"
    "oa_slot_id x = Some (as_slot_id al)" "as_starts_at al \<le> rm_timestamp (ob_meta ob)"
    "rm_timestamp (ob_meta ob) < as_ends_at al" "ob_band ob = as_band al" "as_actual_label al = Some l"
    "as_usable_start al \<le> rm_timestamp (ob_meta ob) \<or>
       (\<exists>s. as_switch_timestamp al = Some s \<and> s \<le> rm_timestamp (ob_meta ob))"
    unfolding ob(2) by (rule assigned_label)
  from al(1) assms(1) obtain slot where slot: "slot \<in> set (sc_slots sched)" "al = slot_alignment slot events True"
    by (auto simp: aligned_slots_def)
  from al(6) obtain e where e: "slot_facts events slot Switched = [e]" "slot_facts events slot BadSlot = []"
    "slot_facts events slot MissedSlot = []" "ev_actual_antenna_label e = Some l"
    "as_switch_timestamp al = Some (rm_timestamp (ev_meta e))"
    "rm_timestamp (ev_meta e) \<le> as_usable_start al"
    unfolding slot(2) by (rule aligned_switch)
  from al(7) e(5,6) have "rm_timestamp (ev_meta e) \<le> rm_timestamp (ob_meta ob)" by auto
  with ob slot al(2-5) e(1-4) show ?thesis
    by (intro bexI [OF _ ob(1)] bexI [OF _ slot(1)] exI [of _ e]) simp
qed

definition sample_legacy_meta :: "timestamp \<Rightarrow> record_source \<Rightarrow> record_meta" where
  "sample_legacy_meta t source =
     \<lparr>rm_schema_version = 2, rm_session_id = ''session'', rm_timestamp = t, rm_source = source\<rparr>"

definition sample_slot :: planned_slot where
  "sample_slot =
     \<lparr>ps_slot_id = ''slot-1'', ps_sequence_number = 1, ps_starts_at = 0,
      ps_duration_seconds = 120, ps_guard_seconds = 10, ps_band = M20, ps_antenna_label = ''A''\<rparr>"

definition sample_slot_schedule :: schedule where
  "sample_slot_schedule =
     \<lparr>sc_schema_version = 2, sc_session_id = ''session'', sc_mode = WholeStationAb,
      sc_goal = GeneralCoverage, sc_slots = [sample_slot]\<rparr>"

definition sample_switch :: operator_event where
  "sample_switch =
     \<lparr>ev_meta = sample_legacy_meta (seconds 2) Operator, ev_event_id = ''event-1'', ev_slot_id = Some ''slot-1'',
      ev_event_type = Switched, ev_note = None, ev_actual_antenna_label = Some ''B''\<rparr>"

definition sample_observation :: "unit observation_record" where
  "sample_observation =
     \<lparr>ob_meta = sample_legacy_meta (seconds 60) WsjtxUdp, ob_observation_id = ''obs-1'',
      ob_observation_kind = LocalDecode, ob_band = M20, ob_frequency_hz = None, ob_mode = None,
      ob_reporter_call = None, ob_heard_call = None, ob_reporter_grid = None, ob_heard_grid = None,
      ob_distance_km = None, ob_azimuth_degrees = None, ob_snr_db = None,
      ob_drift_hz_per_minute = None, ob_power_watts = None, ob_slot_id = None, ob_slot_label = None,
      ob_slot_confidence = None, ob_raw = ()\<rparr>"

lemma sample_assigned:
  "assigned sample_observation (aligned_slots sample_slot_schedule [sample_switch])
      default_slot_alignment_policy =
     \<lparr>oa_observation_id = ''obs-1'', oa_slot_id = Some ''slot-1'', oa_slot_label = Some ''B'',
      oa_confidence = Finite f32_095, oa_reason = ReasonInterior\<rparr>"
  by (simp add: assigned_unfold aligned_slots_def sample_slot_schedule_def sample_observation_def
      sample_legacy_meta_def schema_version_defs Let_def align_slot_facts slot_facts_def active_facts_def
      first_switch_def sample_switch_def sample_slot_def unswitched_slot_def seconds_def
      guard_instant_def end_instant_def num_seconds_def assignment_def default_slot_alignment_policy_def)

theorem labels_have_evidence_witness:
  "\<exists>ob \<in> set [sample_observation]. \<exists>slot \<in> set (sc_slots sample_slot_schedule). \<exists>e.
    ''obs-1'' = ob_observation_id ob \<and> Some ''slot-1'' = Some (ps_slot_id slot) \<and>
    ps_starts_at slot \<le> rm_timestamp (ob_meta ob) \<and> rm_timestamp (ob_meta ob) < end_instant slot \<and>
    ob_band ob = ps_band slot \<and>
    slot_facts [sample_switch] slot Switched = [e] \<and> slot_facts [sample_switch] slot BadSlot = [] \<and>
    slot_facts [sample_switch] slot MissedSlot = [] \<and> ev_actual_antenna_label e = Some ''B'' \<and>
    rm_timestamp (ev_meta e) \<le> rm_timestamp (ob_meta ob)"
proof -
  let ?x = "\<lparr>oa_observation_id = ''obs-1'', oa_slot_id = Some ''slot-1'', oa_slot_label = Some ''B'',
      oa_confidence = Finite f32_095, oa_reason = ReasonInterior\<rparr>"
  let ?a = "alignment_of sample_slot_schedule [sample_switch] [sample_observation] default_slot_alignment_policy"
  have member: "?x \<in> set (sl_observation_assignments ?a)" by (simp add: sample_assigned alignment_of_def)
  have aligned: "align_schedule_slots sample_slot_schedule [sample_switch] [sample_observation]
      default_slot_alignment_policy = Some ?a"
    by (simp add: align_eq representable_slots_def representable_slot_def in_utc_def MIN_UTC_def MAX_UTC_def
        sample_slot_schedule_def sample_slot_def guard_instant_def end_instant_def seconds_def)
  from labels_have_evidence [OF _ aligned member] show ?thesis
    by (simp only: observation_slot_assignment.select_convs sample_slot_schedule_def
        schedule.select_convs schema_version_defs order.refl)
qed

lemma confidence_range:
  "oa_confidence (assigned ob slots policy) \<in> Finite ` {0, f32_010, f32_025, f32_060, f32_070, f32_080, f32_095}"
proof (cases "find (\<lambda>slot. as_starts_at slot \<le> rm_timestamp (ob_meta ob) \<and>
    rm_timestamp (ob_meta ob) < as_ends_at slot) slots")
  case None
  then show ?thesis by (simp add: assigned_unfold assignment_def)
next
  case (Some slot)
  then show ?thesis by (cases "as_status slot") (simp_all add: assigned_unfold assignment_def Let_def)
qed

lemma assigned_slot_known:
  "oa_slot_id (assigned ob slots policy) \<in> insert None (Some ` as_slot_id ` set slots)"
proof (cases "find (\<lambda>slot. as_starts_at slot \<le> rm_timestamp (ob_meta ob) \<and>
    rm_timestamp (ob_meta ob) < as_ends_at slot) slots")
  case None
  then show ?thesis by (simp add: assigned_unfold assignment_def)
next
  case (Some slot)
  with find_SomeD [OF Some] show ?thesis
    by (cases "as_status slot") (auto simp: assigned_unfold assignment_def Let_def)
qed

text \<open>
  Confidence is graded by evidence: it is 0 exactly when the observation got no slot or a
  slot whose state is conflicting, unknown, bad or missed, and otherwise one of
  0.10 < 0.25 < 0.60 < 0.70 < 0.80 < 0.95; an assignment with a label has at least 0.25, and
  0.95 only for an observation inside a slot with a switch on time.
\<close>

theorem confidence_graded:
  "(oa_confidence (assigned ob slots policy) = Finite 0 \<longleftrightarrow>
     oa_reason (assigned ob slots policy) \<in> {ReasonOutsideSchedule, ReasonBandMismatch,
       ReasonConflictingEvidence, ReasonUnknownActualState, ReasonBadSlot, ReasonMissedSlot}) \<and>
   oa_confidence (assigned ob slots policy) \<in>
     Finite ` {0, f32_010, f32_025, f32_060, f32_070, f32_080, f32_095} \<and>
   (oa_slot_label (assigned ob slots policy) = None \<or>
     fl_le (Finite f32_025) (oa_confidence (assigned ob slots policy))) \<and>
   (oa_slot_id (assigned ob slots policy) = None \<longleftrightarrow>
     oa_reason (assigned ob slots policy) \<in> {ReasonOutsideSchedule, ReasonBandMismatch})"
proof (cases "find (\<lambda>slot. as_starts_at slot \<le> rm_timestamp (ob_meta ob) \<and>
    rm_timestamp (ob_meta ob) < as_ends_at slot) slots")
  case None
  then show ?thesis by (simp add: assigned_unfold assignment_def)
next
  case (Some slot)
  then show ?thesis
    by (cases "as_status slot") (simp_all add: assigned_unfold assignment_def Let_def f32_defs)
qed

section \<open>Normalization\<close>

definition unannotated :: "'j observation_record \<Rightarrow> 'j observation_record" where
  "unannotated ob = ob\<lparr>ob_slot_id := None, ob_slot_label := None, ob_slot_confidence := None\<rparr>"

lemma unannotated_apply [simp]:
  "map unannotated (apply_slot_assignments observations assignments) = map unannotated observations"
  by (simp add: apply_slot_assignments_def unannotated_def split: option.split)

lemma assigned_unannotated: "unannotated a = unannotated b \<Longrightarrow> assigned a slots policy = assigned b slots policy"
proof -
  assume eq: "unannotated a = unannotated b"
  have "ob_meta a = ob_meta (unannotated a)" "ob_band a = ob_band (unannotated a)"
    "ob_observation_id a = ob_observation_id (unannotated a)"
    "ob_meta b = ob_meta (unannotated b)" "ob_band b = ob_band (unannotated b)"
    "ob_observation_id b = ob_observation_id (unannotated b)"
    by (simp_all add: unannotated_def)
  then have "ob_meta a = ob_meta b" "ob_band a = ob_band b" "ob_observation_id a = ob_observation_id b"
    by (simp_all add: eq)
  moreover from this have "assignment a = assignment b" by (intro ext) (simp add: assignment_def)
  ultimately show ?thesis by (simp only: assigned_unfold)
qed

lemma assigned_map_unannotated:
  "map unannotated as = map unannotated bs \<Longrightarrow>
     map (\<lambda>ob. assigned ob slots policy) as = map (\<lambda>ob. assigned ob slots policy) bs"
  by (auto simp: list_eq_iff_nth_eq intro: assigned_unannotated)

lemma apply_twice:
  "apply_slot_assignments (apply_slot_assignments observations assignments) assignments =
     apply_slot_assignments observations assignments"
  by (simp add: apply_slot_assignments_def split: option.split)

lemma normalize_eq:
  "normalize_bundle b =
     (if representable_slots (bc_schedule b)
      then Some (b\<lparr>bc_observations := apply_slot_assignments (bc_observations b)
        (map (\<lambda>ob. assigned ob (aligned_slots (bc_schedule b) (bc_events b)) default_slot_alignment_policy)
           (bc_observations b))\<rparr>)
      else None)"
  by (simp add: normalize_bundle_def annotate_bundle_observations_def align_eq alignment_of_def)

text \<open>
  Normalizing a bundle succeeds exactly when its slots are representable, is idempotent, and
  rewrites nothing but the three slot annotations of the observations: clearing those on both
  sides gives the same bundle.
\<close>

theorem normalize_idempotent:
  "if representable_slots (bc_schedule b)
   then \<exists>n. normalize_bundle b = Some n \<and> normalize_bundle n = Some n \<and>
     n\<lparr>bc_observations := map unannotated (bc_observations n)\<rparr> =
       b\<lparr>bc_observations := map unannotated (bc_observations b)\<rparr>
   else normalize_bundle b = None"
proof (cases "representable_slots (bc_schedule b)")
  case True
  let ?slots = "aligned_slots (bc_schedule b) (bc_events b)"
  let ?as = "\<lambda>obs. map (\<lambda>ob. assigned ob ?slots default_slot_alignment_policy) obs"
  let ?obs = "apply_slot_assignments (bc_observations b) (?as (bc_observations b))"
  let ?n = "b\<lparr>bc_observations := ?obs\<rparr>"
  have "?as ?obs = ?as (bc_observations b)"
    by (rule assigned_map_unannotated) simp
  then have "normalize_bundle ?n = Some ?n"
    using normalize_eq [of ?n] True by (simp add: apply_twice)
  moreover have "?n\<lparr>bc_observations := map unannotated (bc_observations ?n)\<rparr> =
      b\<lparr>bc_observations := map unannotated (bc_observations b)\<rparr>" by simp
  ultimately show ?thesis using normalize_eq [of b] True by auto
qed (simp add: normalize_eq)

end
