(* ===== verification/Diagnostics.thy ===== *)
theory Diagnostics
  imports Model "HOL-Library.Product_Lexorder" "HOL-Library.Option_ord"
    "HOL-Library.List_Lexorder" "HOL-Library.Char_ord"
begin

text \<open>
  Diagnostics and validation reports (\<open>crates/core/src/diagnostics.rs\<close>): the operations a
  diagnostic blocks, the deterministic order of a report, and what a report allows.  The
  derived \<open>Ord\<close> of a Rust enum is its declaration order, of a tuple or struct the
  lexicographic order, of an \<open>Option\<close> the one with \<open>None\<close> first, of a \<open>String\<close> the
  lexicographic order of its bytes.
\<close>

section \<open>Data\<close>

datatype bundle_validation_profile = CompatibilityRead | AnalysisProfile | StrictCreation | Upgrade

datatype bundle_diagnostic_category = Wire | Structural | Semantic | Eligibility

datatype bundle_diagnostic_severity = SeverityWarning | SeverityError

datatype bundle_record_kind =
    KindAntenna | KindSlot | KindOperatorEvent | KindObservation | KindAdapterRecord
  | KindWsjtXRecord | KindRigRecord | KindPropagationRecord

datatype bundle_file_role =
    RoleManifest | RoleSessionState | RoleStation | RoleAntennas | RoleSchedule | RoleEvents
  | RoleObservations | RoleAdapterRecords | RoleWsjtX | RoleRig | RolePropagation | RoleAnalysis

primrec profile_rank :: "bundle_validation_profile \<Rightarrow> nat" where
  "profile_rank CompatibilityRead = 0"
| "profile_rank AnalysisProfile = 1"
| "profile_rank StrictCreation = 2"
| "profile_rank Upgrade = 3"

primrec kind_rank :: "bundle_record_kind \<Rightarrow> nat" where
  "kind_rank KindAntenna = 0"
| "kind_rank KindSlot = 1"
| "kind_rank KindOperatorEvent = 2"
| "kind_rank KindObservation = 3"
| "kind_rank KindAdapterRecord = 4"
| "kind_rank KindWsjtXRecord = 5"
| "kind_rank KindRigRecord = 6"
| "kind_rank KindPropagationRecord = 7"

primrec role_rank :: "bundle_file_role \<Rightarrow> nat" where
  "role_rank RoleManifest = 0"
| "role_rank RoleSessionState = 1"
| "role_rank RoleStation = 2"
| "role_rank RoleAntennas = 3"
| "role_rank RoleSchedule = 4"
| "role_rank RoleEvents = 5"
| "role_rank RoleObservations = 6"
| "role_rank RoleAdapterRecords = 7"
| "role_rank RoleWsjtX = 8"
| "role_rank RoleRig = 9"
| "role_rank RolePropagation = 10"
| "role_rank RoleAnalysis = 11"

lemma profile_rank_inject: "profile_rank p = profile_rank q \<longleftrightarrow> p = q"
  by (cases p; cases q; simp)

lemma kind_rank_inject: "kind_rank k = kind_rank l \<longleftrightarrow> k = l"
  by (cases k; cases l; simp)

lemma role_rank_inject: "role_rank r = role_rank s \<longleftrightarrow> r = s"
  by (cases r; cases s; simp)

lemmas rank_inject = profile_rank_inject kind_rank_inject role_rank_inject

instantiation bundle_validation_profile :: linorder
begin

definition less_eq_bundle_validation_profile ::
    "bundle_validation_profile \<Rightarrow> bundle_validation_profile \<Rightarrow> bool" where
  "less_eq_bundle_validation_profile p q \<longleftrightarrow> profile_rank p \<le> profile_rank q"

definition less_bundle_validation_profile ::
    "bundle_validation_profile \<Rightarrow> bundle_validation_profile \<Rightarrow> bool" where
  "less_bundle_validation_profile p q \<longleftrightarrow> profile_rank p < profile_rank q"

instance
  by standard (auto simp: less_eq_bundle_validation_profile_def less_bundle_validation_profile_def
      simp flip: rank_inject)

end

instantiation bundle_record_kind :: linorder
begin

definition less_eq_bundle_record_kind :: "bundle_record_kind \<Rightarrow> bundle_record_kind \<Rightarrow> bool" where
  "less_eq_bundle_record_kind k l \<longleftrightarrow> kind_rank k \<le> kind_rank l"

definition less_bundle_record_kind :: "bundle_record_kind \<Rightarrow> bundle_record_kind \<Rightarrow> bool" where
  "less_bundle_record_kind k l \<longleftrightarrow> kind_rank k < kind_rank l"

instance
  by standard (auto simp: less_eq_bundle_record_kind_def less_bundle_record_kind_def
      simp flip: rank_inject)

end

instantiation bundle_file_role :: linorder
begin

definition less_eq_bundle_file_role :: "bundle_file_role \<Rightarrow> bundle_file_role \<Rightarrow> bool" where
  "less_eq_bundle_file_role r s \<longleftrightarrow> role_rank r \<le> role_rank s"

definition less_bundle_file_role :: "bundle_file_role \<Rightarrow> bundle_file_role \<Rightarrow> bool" where
  "less_bundle_file_role r s \<longleftrightarrow> role_rank r < role_rank s"

instance
  by standard (auto simp: less_eq_bundle_file_role_def less_bundle_file_role_def
      simp flip: rank_inject)

end

record bundle_diagnostic_location =
  dl_file :: bundle_file_role
  dl_record_kind :: "bundle_record_kind option"
  dl_record_id :: "string option"
  dl_record_index :: "nat option"
  dl_physical_line :: "nat option"
  dl_field_path :: "string option"

definition location_of_file :: "bundle_file_role \<Rightarrow> bundle_diagnostic_location" where
  "location_of_file file =
     \<lparr>dl_file = file, dl_record_kind = None, dl_record_id = None, dl_record_index = None,
      dl_physical_line = None, dl_field_path = None\<rparr>"

record bundle_diagnostic =
  bd_code :: string
  bd_category :: bundle_diagnostic_category
  bd_severity :: bundle_diagnostic_severity
  bd_blocked_operations :: "bundle_validation_profile list"
  bd_location :: bundle_diagnostic_location
  bd_message :: message
  bd_related_locations :: "bundle_diagnostic_location list"

definition blocks :: "bundle_diagnostic \<Rightarrow> bundle_validation_profile \<Rightarrow> bool" where
  "blocks diagnostic profile \<longleftrightarrow> profile \<in> set (bd_blocked_operations diagnostic)"

definition ALL_TYPED_OPERATIONS :: "bundle_validation_profile list" where
  "ALL_TYPED_OPERATIONS = [CompatibilityRead, AnalysisProfile, StrictCreation, Upgrade]"

definition ANALYSIS_AND_WRITE_OPERATIONS :: "bundle_validation_profile list" where
  "ANALYSIS_AND_WRITE_OPERATIONS = [AnalysisProfile, StrictCreation, Upgrade]"

definition WRITE_OPERATIONS :: "bundle_validation_profile list" where
  "WRITE_OPERATIONS = [StrictCreation, Upgrade]"

lemmas operation_sets =
  ALL_TYPED_OPERATIONS_def ANALYSIS_AND_WRITE_OPERATIONS_def WRITE_OPERATIONS_def

section \<open>Reports\<close>

record bundle_validation_report =
  vr_diagnostics :: "bundle_diagnostic list"

text \<open>The derived order of a location, as the order of its key.\<close>

type_synonym location_key =
  "bundle_file_role \<times> bundle_record_kind option \<times> string option \<times> nat option \<times> nat option \<times> string option"

definition location_key :: "bundle_diagnostic_location \<Rightarrow> location_key" where
  "location_key l =
     (dl_file l, dl_record_kind l, dl_record_id l, dl_record_index l, dl_physical_line l,
      dl_field_path l)"

type_synonym diagnostic_key =
  "bundle_file_role \<times> nat option \<times> string option \<times> string \<times> string option"

definition diagnostic_key :: "bundle_diagnostic \<Rightarrow> diagnostic_key" where
  "diagnostic_key d =
     (dl_file (bd_location d), dl_record_index (bd_location d), dl_field_path (bd_location d),
      bd_code d, dl_record_id (bd_location d))"

definition tidy_diagnostic :: "bundle_diagnostic \<Rightarrow> bundle_diagnostic" where
  "tidy_diagnostic d =
     d\<lparr>bd_blocked_operations := remdups_adj (sort (bd_blocked_operations d)),
       bd_related_locations := remdups_adj (sort_key location_key (bd_related_locations d))\<rparr>"

definition sort_deterministically :: "bundle_diagnostic list \<Rightarrow> bundle_diagnostic list" where
  "sort_deterministically ds = map tidy_diagnostic (sort_key diagnostic_key ds)"

definition report_new :: "bundle_diagnostic list \<Rightarrow> bundle_validation_report" where
  "report_new ds = \<lparr>vr_diagnostics = sort_deterministically ds\<rparr>"

definition report_is_empty :: "bundle_validation_report \<Rightarrow> bool" where
  "report_is_empty r \<longleftrightarrow> vr_diagnostics r = []"

definition allows :: "bundle_validation_report \<Rightarrow> bundle_validation_profile \<Rightarrow> bool" where
  "allows r profile \<longleftrightarrow> \<not> list_ex (\<lambda>d. blocks d profile) (vr_diagnostics r)"

definition blocking_diagnostics ::
    "bundle_validation_report \<Rightarrow> bundle_validation_profile \<Rightarrow> bundle_diagnostic list" where
  "blocking_diagnostics r profile = filter (\<lambda>d. blocks d profile) (vr_diagnostics r)"

definition report_extend ::
    "bundle_validation_report \<Rightarrow> bundle_diagnostic list \<Rightarrow> bundle_validation_report" where
  "report_extend r ds = \<lparr>vr_diagnostics = sort_deterministically (vr_diagnostics r @ ds)\<rparr>"

section \<open>Properties\<close>

lemma location_key_inject: "location_key l = location_key m \<Longrightarrow> l = m"
  by (cases l; cases m) (simp add: location_key_def)

lemma blocks_tidy [simp]: "blocks (tidy_diagnostic d) profile = blocks d profile"
  by (simp add: blocks_def tidy_diagnostic_def)

lemma diagnostic_key_tidy [simp]: "diagnostic_key (tidy_diagnostic d) = diagnostic_key d"
  by (simp add: diagnostic_key_def tidy_diagnostic_def)

lemma sorted_key_remdups_adj:
  "sorted (map f xs) \<Longrightarrow> sorted (map f (remdups_adj xs))"
  by (induction xs rule: remdups_adj.induct) auto

lemma remdups_adj_idem: "remdups_adj (remdups_adj xs) = remdups_adj xs"
  by (simp flip: distinct_adj_altdef)

lemma tidy_idem [simp]: "tidy_diagnostic (tidy_diagnostic d) = tidy_diagnostic d"
proof -
  have "sort (remdups_adj (sort (bd_blocked_operations d))) = remdups_adj (sort (bd_blocked_operations d))"
    by (intro sort_key_sorted sorted_key_remdups_adj) simp
  moreover have "sort_key location_key (remdups_adj (sort_key location_key (bd_related_locations d))) =
      remdups_adj (sort_key location_key (bd_related_locations d))"
    by (intro sort_key_sorted sorted_key_remdups_adj) simp
  ultimately show ?thesis by (simp add: tidy_diagnostic_def remdups_adj_idem)
qed

lemma map_key_tidy [simp]: "map diagnostic_key (map tidy_diagnostic ds) = map diagnostic_key ds"
  by simp

lemma sort_key_map_tidy:
  "sort_key diagnostic_key (map tidy_diagnostic ds) = map tidy_diagnostic (sort_key diagnostic_key ds)"
proof -
  have ins: "insort_key diagnostic_key (tidy_diagnostic d) (map tidy_diagnostic ds) =
      map tidy_diagnostic (insort_key diagnostic_key d ds)" for d ds
    by (induction ds) auto
  show ?thesis by (induction ds) (simp_all add: ins)
qed

lemma sort_deterministically_mset [simp]:
  "mset (sort_deterministically ds) = image_mset tidy_diagnostic (mset ds)"
  by (simp add: sort_deterministically_def)

lemma set_sort_deterministically [simp]:
  "set (sort_deterministically ds) = tidy_diagnostic ` set ds"
  by (simp add: sort_deterministically_def)

text \<open>
  A report is in canonical form: its diagnostics are those it was given, each with its
  blocked operations and related locations sorted and free of repetitions, ordered by file,
  record, field, code and identity; sorting again changes nothing.
\<close>

theorem report_canonical:
  "sorted (map diagnostic_key (vr_diagnostics (report_new ds))) \<and>
   mset (vr_diagnostics (report_new ds)) = image_mset tidy_diagnostic (mset ds) \<and>
   sort_deterministically (vr_diagnostics (report_new ds)) = vr_diagnostics (report_new ds) \<and>
   (\<lambda>d. set (bd_blocked_operations (tidy_diagnostic d))) = (\<lambda>d. set (bd_blocked_operations d))"
proof (intro conjI)
  show "sorted (map diagnostic_key (vr_diagnostics (report_new ds)))"
    by (simp add: report_new_def sort_deterministically_def comp_def)
  show "mset (vr_diagnostics (report_new ds)) = image_mset tidy_diagnostic (mset ds)"
    by (simp add: report_new_def)
  show "sort_deterministically (vr_diagnostics (report_new ds)) = vr_diagnostics (report_new ds)"
    by (simp add: report_new_def sort_deterministically_def sort_key_map_tidy sort_key_sorted)
  show "(\<lambda>d. set (bd_blocked_operations (tidy_diagnostic d))) = (\<lambda>d. set (bd_blocked_operations d))"
    by (simp add: tidy_diagnostic_def)
qed

text \<open>
  The order in which validation finds the diagnostics is invisible in the report, as long
  as no two of them agree on file, record, field, code and identity: permuting the
  diagnostics gives the same report.
\<close>

theorem report_order_independent:
  assumes "mset ds = mset ds'" and "distinct (map diagnostic_key ds)"
  shows "report_new ds = report_new ds'"
proof -
  have "inj_on diagnostic_key (set ds)" using assms(2) by (simp add: distinct_map)
  then have "sort_key diagnostic_key ds = sort_key diagnostic_key ds'"
    using assms(1) by (intro sort_key_inj_key_eq) simp_all
  then show ?thesis by (simp add: report_new_def sort_deterministically_def)
qed

definition sample_diagnostic :: "string \<Rightarrow> bundle_diagnostic" where
  "sample_diagnostic code =
     \<lparr>bd_code = code, bd_category = Semantic, bd_severity = SeverityError,
      bd_blocked_operations = WRITE_OPERATIONS, bd_location = location_of_file RoleSchedule,
      bd_message = [], bd_related_locations = []\<rparr>"

theorem report_order_independent_witness:
  "report_new [sample_diagnostic ''a'', sample_diagnostic ''b''] =
     report_new [sample_diagnostic ''b'', sample_diagnostic ''a'']"
  by (rule report_order_independent)
    (simp_all add: sample_diagnostic_def diagnostic_key_def add_mset_commute)

lemma allows_new: "allows (report_new ds) profile \<longleftrightarrow> (\<forall>d \<in> set ds. \<not> blocks d profile)"
  by (simp add: allows_def report_new_def list_ex_iff)

lemma allows_extend: "allows (report_extend r ds) profile \<longleftrightarrow>
    allows r profile \<and> (\<forall>d \<in> set ds. \<not> blocks d profile)"
  by (auto simp: allows_def report_extend_def list_ex_iff)

lemma report_is_empty_simps [simp]:
  "report_is_empty (report_new ds) \<longleftrightarrow> ds = []"
  "report_is_empty (report_extend r ds) \<longleftrightarrow> report_is_empty r \<and> ds = []"
  by (auto simp: report_is_empty_def report_new_def report_extend_def simp flip: set_empty)

text \<open>
  What a report allows depends only on the diagnostics put into it: extending a report
  allows exactly what the report and a report of the new diagnostics both allow, a report
  allows an operation exactly when nothing blocks it, and the empty report allows everything.
\<close>

theorem report_allows:
  "(allows (report_extend r ds) profile \<longleftrightarrow> allows r profile \<and> allows (report_new ds) profile) \<and>
   (allows r profile \<longleftrightarrow> blocking_diagnostics r profile = []) \<and>
   allows (report_new []) profile \<and>
   (report_is_empty (report_extend r ds) \<longleftrightarrow> report_is_empty r \<and> ds = [])"
  by (auto simp: allows_extend allows_new) (auto simp: allows_def blocking_diagnostics_def
      list_ex_iff filter_empty_conv)

end
