(* ===== verification/Semantics.thy ===== *)
theory Semantics
  imports Identity Diagnostics
begin

text \<open>
  The semantic checks of a bundle (\<open>crates/core/src/semantics.rs\<close>): identities, station and
  antenna descriptions, schedule numbering, ranges of observed numbers.  Each check returns
  the diagnostics it pushes, in order; the mutable maps of the loops are accumulators.
\<close>

section \<open>Locations and texts\<close>

fun show_nat :: "nat \<Rightarrow> string" where
  "show_nat n =
     (if n < 10 then [char_of (48 + n)] else show_nat (n div 10) @ [char_of (48 + n mod 10)])"

declare show_nat.simps [simp del]

definition has_physical_line :: "bundle_file_role \<Rightarrow> bool" where
  "has_physical_line file \<longleftrightarrow>
     file \<in> {RoleEvents, RoleObservations, RoleWsjtX, RoleRig, RolePropagation}"

definition location ::
    "bundle_file_role \<Rightarrow> bundle_record_kind option \<Rightarrow> string option \<Rightarrow> nat option \<Rightarrow> string option
       \<Rightarrow> bundle_diagnostic_location" where
  "location file record_kind record_id record_index field_path =
     \<lparr>dl_file = file, dl_record_kind = record_kind, dl_record_id = record_id,
      dl_record_index = record_index,
      dl_physical_line =
        flatten_option (bool_then (has_physical_line file) (map_option (\<lambda>index. index + 1) record_index)),
      dl_field_path = field_path\<rparr>"

definition number_location ::
    "bundle_file_role \<Rightarrow> bundle_record_kind option \<Rightarrow> (string \<times> nat) option \<Rightarrow> string
       \<Rightarrow> bundle_diagnostic_location" where
  "number_location file kind record field_path =
     location file kind (map_option fst record) (map_option snd record) (Some field_path)"

definition semantic_diagnostic ::
    "string \<Rightarrow> bundle_diagnostic_severity \<Rightarrow> bundle_validation_profile list
       \<Rightarrow> bundle_diagnostic_location \<Rightarrow> message \<Rightarrow> bundle_diagnostic_location list \<Rightarrow> bundle_diagnostic" where
  "semantic_diagnostic code severity blocked loc message related =
     \<lparr>bd_code = code, bd_category = Semantic, bd_severity = severity,
      bd_blocked_operations = blocked, bd_location = loc, bd_message = message,
      bd_related_locations = related\<rparr>"

definition semantic_warning ::
    "string \<Rightarrow> bundle_file_role \<Rightarrow> string \<Rightarrow> message \<Rightarrow> bundle_diagnostic" where
  "semantic_warning code file field_path message =
     semantic_diagnostic code SeverityWarning [StrictCreation]
       (location file None None None (Some field_path)) message []"

definition number_diagnostic ::
    "string \<Rightarrow> bundle_diagnostic_location \<Rightarrow> message \<Rightarrow> bundle_diagnostic" where
  "number_diagnostic code loc message =
     semantic_diagnostic code SeverityError ANALYSIS_AND_WRITE_OPERATIONS loc message []"

section \<open>Numbers\<close>

definition positive :: "fl \<Rightarrow> bool" where "positive v = fl_lt (Finite 0) v"
definition nonnegative :: "fl \<Rightarrow> bool" where "nonnegative v = fl_le (Finite 0) v"
definition degrees :: "fl \<Rightarrow> bool" where
  "degrees v \<longleftrightarrow> fl_le (Finite 0) v \<and> fl_lt v (Finite 360)"
definition kp :: "fl \<Rightarrow> bool" where "kp v \<longleftrightarrow> fl_le (Finite 0) v \<and> fl_le v (Finite 9)"
definition any_finite :: "fl \<Rightarrow> bool" where "any_finite v = True"

definition validate_number ::
    "fl \<Rightarrow> (fl \<Rightarrow> bool) \<Rightarrow> bundle_diagnostic_location \<Rightarrow> string \<Rightarrow> bundle_diagnostic list" where
  "validate_number v in_range loc rule =
     (if \<not> is_finite v then
        [number_diagnostic ''bundle.semantic.non_finite_number'' loc
           [Lit rule, Lit ''; found non-finite value '', ShowFl v]]
      else if \<not> in_range v then
        [number_diagnostic ''bundle.semantic.invalid_range'' loc
           [Lit rule, Lit ''; found '', ShowFl v]]
      else [])"

definition validate_optional_number ::
    "fl option \<Rightarrow> (fl \<Rightarrow> bool) \<Rightarrow> bundle_diagnostic_location \<Rightarrow> string \<Rightarrow> bundle_diagnostic list" where
  "validate_optional_number v in_range loc rule =
     (case v of None \<Rightarrow> [] | Some x \<Rightarrow> validate_number x in_range loc rule)"

definition invalid_range :: "bundle_diagnostic_location \<Rightarrow> string \<Rightarrow> bundle_diagnostic list" where
  "invalid_range loc message = [number_diagnostic ''bundle.semantic.invalid_range'' loc [Lit message]]"

definition validate_write_only_finite ::
    "fl \<Rightarrow> bundle_diagnostic_location \<Rightarrow> string \<Rightarrow> bundle_diagnostic list" where
  "validate_write_only_finite v loc rule =
     (if \<not> is_finite v then
        [semantic_diagnostic ''bundle.semantic.non_finite_number'' SeverityError WRITE_OPERATIONS
           loc [Lit rule, Lit ''; found non-finite value '', ShowFl v] []]
      else [])"

section \<open>Identities\<close>

primrec machine_identity_error_text :: "machine_identity_error \<Rightarrow> message" where
  "machine_identity_error_text MachineEmpty = [Lit ''identity must not be empty'']"
| "machine_identity_error_text MachineTooLong =
     [Lit ''identity exceeds '', ShowNat MACHINE_ID_MAX_BYTES, Lit '' bytes'']"
| "machine_identity_error_text NonAscii = [Lit ''identity must contain only ASCII bytes'']"

definition validate_identity_at ::
    "string \<Rightarrow> bundle_diagnostic_location \<Rightarrow> string \<Rightarrow> string \<Rightarrow> bundle_diagnostic list" where
  "validate_identity_at v identity_location field_path identity_kind =
     (case validate_machine_identity v of
        Inr _ \<Rightarrow> []
      | Inl error \<Rightarrow>
          let loc = (if dl_field_path identity_location = None
                     then identity_location\<lparr>dl_field_path := Some field_path\<rparr>
                     else identity_location) in
          [semantic_diagnostic
             (case error of MachineEmpty \<Rightarrow> ''bundle.semantic.empty_identity''
              | _ \<Rightarrow> ''bundle.semantic.invalid_identity'')
             SeverityWarning WRITE_OPERATIONS loc
             ([Lit identity_kind, Lit '' identity '', DbgStr v, Lit '' is invalid: ''] @
                machine_identity_error_text error) []])"

definition record_ids ::
    "'j bundle_contents \<Rightarrow> (bundle_file_role \<times> bundle_record_kind \<times> string list) list" where
  "record_ids bundle =
     [(RoleEvents, KindOperatorEvent, map ev_event_id (bc_events bundle)),
      (RoleObservations, KindObservation, map ob_observation_id (bc_observations bundle)),
      (RoleWsjtX, KindWsjtXRecord, map wx_record_id (bc_wsjtx bundle)),
      (RoleRig, KindRigRecord, map rg_record_id (bc_rig bundle)),
      (RolePropagation, KindPropagationRecord, map pr_record_id (bc_propagation bundle))]"

definition validate_identities :: "'j bundle_contents \<Rightarrow> bundle_diagnostic list" where
  "validate_identities bundle =
     validate_identity_at (bm_session_id (bc_manifest bundle)) (location_of_file RoleManifest)
       ''/session_id'' ''session'' @
     concat (map (\<lambda>(index, slot).
         validate_identity_at (ps_slot_id slot)
           (location RoleSchedule (Some KindSlot) (Some (ps_slot_id slot)) (Some index)
              (Some (''/slots/'' @ show_nat index @ ''/slot_id'')))
           ''/slot_id'' ''slot'')
       (enumerate 0 (sc_slots (bc_schedule bundle)))) @
     concat (map (\<lambda>(file, kind, ids).
         concat (map (\<lambda>(index, i).
             validate_identity_at i (location file (Some kind) (Some i) (Some index) None)
               (if kind = KindOperatorEvent then ''/event_id''
                else if kind = KindObservation then ''/observation_id'' else ''/record_id'')
               ''record'')
           (enumerate 0 ids)))
       (record_ids bundle))"

section \<open>Station and antennas\<close>

definition validate_station :: "'j bundle_contents \<Rightarrow> bundle_diagnostic list" where
  "validate_station bundle =
     concat (map (\<lambda>(field, v).
         if v = [] \<or> trim v \<noteq> v then
           [semantic_warning ''bundle.semantic.invalid_required_text'' RoleStation field
              [Lit ''new station identity text must be trimmed and nonempty'']]
         else [])
       [(''/callsign'', st_callsign (bc_station bundle)), (''/grid'', st_grid (bc_station bundle))]) @
     validate_optional_number (st_power_watts (bc_station bundle)) positive
       (number_location RoleStation None None ''/power_watts'')
       ''station power must be finite and greater than zero''"

text \<open>A control character: below U+0020, U+007F, or U+0080 to U+009F in UTF-8.\<close>

fun has_control :: "string \<Rightarrow> bool" where
  "has_control [] = False"
| "has_control (c # s) =
     ((of_char c < (32 :: nat) \<or> of_char c = (127 :: nat)) \<or>
      (c = CHR 0xC2 \<and> s \<noteq> [] \<and> (128 :: nat) \<le> of_char (hd s) \<and> of_char (hd s) \<le> (159 :: nat)) \<or>
      has_control s)"

definition ANTENNA_LABEL_MAX_BYTES :: nat where "ANTENNA_LABEL_MAX_BYTES = 128"

definition valid_antenna_label :: "string \<Rightarrow> bool" where
  "valid_antenna_label label \<longleftrightarrow>
     \<not> (trim label = [] \<or> trim label \<noteq> label \<or> length label > ANTENNA_LABEL_MAX_BYTES \<or>
        has_control label)"

definition antenna_label_location :: "antenna \<Rightarrow> nat \<Rightarrow> bundle_diagnostic_location" where
  "antenna_label_location ant index =
     location RoleAntennas (Some KindAntenna) (Some (an_label ant)) (Some index)
       (Some (''/antennas/'' @ show_nat index @ ''/label''))"

definition antenna_numbers :: "antenna \<Rightarrow> nat \<Rightarrow> bundle_diagnostic list" where
  "antenna_numbers ant index =
     (let loc = (\<lambda>field. number_location RoleAntennas (Some KindAntenna) (Some (an_label ant, index))
                  (''/antennas/'' @ show_nat index @ ''/'' @ field)) in
      concat (map (\<lambda>(field, v). validate_optional_number v nonnegative (loc field)
           ''antenna dimension must be finite and nonnegative'')
         [(''height_m'', an_height_m ant), (''radial_length_m'', an_radial_length_m ant)]) @
      validate_optional_number (an_orientation_degrees ant) degrees (loc ''orientation_degrees'')
        ''antenna orientation must be finite and in [0, 360) degrees'')"

fun antennas_loop ::
    "antenna list \<Rightarrow> (string \<Rightarrow> nat option) \<Rightarrow> nat \<Rightarrow> antenna list \<Rightarrow> bundle_diagnostic list" where
  "antennas_loop antennas labels index [] = []"
| "antennas_loop antennas labels index (ant # rest) =
     (let normalized = trim (an_label ant); label_location = antenna_label_location ant index in
      (if \<not> valid_antenna_label (an_label ant) then
         [semantic_diagnostic ''bundle.semantic.invalid_antenna_label'' SeverityWarning
            WRITE_OPERATIONS label_location
            [Lit ''antenna label must be trimmed, nonempty, control-free, and at most '',
             ShowNat ANTENNA_LABEL_MAX_BYTES, Lit '' UTF-8 bytes''] []]
       else []) @
      (case labels normalized of
         None \<Rightarrow> []
       | Some first_index \<Rightarrow>
           [semantic_diagnostic ''bundle.semantic.duplicate_antenna_label'' SeverityError
              ANALYSIS_AND_WRITE_OPERATIONS label_location
              [Lit ''antenna label '', DbgStr normalized, Lit '' is ambiguous after trimming'']
              [antenna_label_location (antennas ! first_index) first_index]]) @
      antenna_numbers ant index @
      antennas_loop antennas (labels(normalized \<mapsto> index)) (index + 1) rest)"

definition validate_antennas :: "'j bundle_contents \<Rightarrow> bundle_diagnostic list" where
  "validate_antennas bundle =
     antennas_loop (af_antennas (bc_antennas bundle)) (\<lambda>_. None) 0 (af_antennas (bc_antennas bundle))"

section \<open>Schedule\<close>

definition slot_field_location :: "planned_slot \<Rightarrow> nat \<Rightarrow> string \<Rightarrow> bundle_diagnostic_location" where
  "slot_field_location slot index field =
     location RoleSchedule (Some KindSlot) (Some (ps_slot_id slot)) (Some index)
       (Some (''/slots/'' @ show_nat index @ ''/'' @ field))"

fun slots_loop ::
    "planned_slot list \<Rightarrow> (nat \<Rightarrow> nat option) \<Rightarrow> nat option \<Rightarrow> nat \<Rightarrow> planned_slot list
       \<Rightarrow> bundle_diagnostic list" where
  "slots_loop slots sequence_numbers previous_sequence index [] = []"
| "slots_loop slots sequence_numbers previous_sequence index (slot # rest) =
     (case sequence_numbers (ps_sequence_number slot) of
        None \<Rightarrow> []
      | Some first_index \<Rightarrow>
          [semantic_diagnostic ''bundle.semantic.duplicate_sequence_number'' SeverityError
             WRITE_OPERATIONS (slot_field_location slot index ''sequence_number'')
             [Lit ''slot sequence number '', ShowNat (ps_sequence_number slot), Lit '' is duplicated'']
             [slot_field_location (slots ! first_index) first_index ''sequence_number'']]) @
     (if (case previous_sequence of None \<Rightarrow> False | Some previous \<Rightarrow> ps_sequence_number slot < previous)
      then [semantic_diagnostic ''bundle.semantic.slot_sequence_out_of_order'' SeverityError
              ANALYSIS_AND_WRITE_OPERATIONS (slot_field_location slot index ''sequence_number'')
              [Lit ''slot sequence numbers must be strictly increasing in persisted order''] []]
      else []) @
     (if ps_duration_seconds slot = 0 then
        [semantic_diagnostic ''bundle.semantic.invalid_slot_duration'' SeverityError
           ANALYSIS_AND_WRITE_OPERATIONS (slot_field_location slot index ''duration_seconds'')
           [Lit ''slot duration must be greater than zero''] []]
      else []) @
     (if ps_guard_seconds slot \<ge> ps_duration_seconds slot then
        [semantic_diagnostic ''bundle.semantic.invalid_slot_guard'' SeverityError
           ANALYSIS_AND_WRITE_OPERATIONS (slot_field_location slot index ''guard_seconds'')
           [Lit ''slot guard time must be less than slot duration''] []]
      else []) @
     slots_loop slots (sequence_numbers(ps_sequence_number slot \<mapsto> index))
       (Some (ps_sequence_number slot)) (index + 1) rest"

definition shape_matches :: "schedule \<Rightarrow> bool" where
  "shape_matches sched =
     (let distinct_labels = card (set (map ps_antenna_label (sc_slots sched))) in
      case sc_mode sched of
        SingleAntennaProfilingMode \<Rightarrow> distinct_labels = 1 \<and> sc_goal sched = SingleAntennaProfiling
      | _ \<Rightarrow> distinct_labels \<ge> 2 \<and> sc_goal sched \<noteq> SingleAntennaProfiling)"

definition validate_schedule :: "'j bundle_contents \<Rightarrow> bundle_diagnostic list" where
  "validate_schedule bundle =
     (let sched = bc_schedule bundle in
      (if sc_slots sched = [] then
         [semantic_warning ''bundle.semantic.empty_schedule'' RoleSchedule ''/slots''
            [Lit ''newly authored schedules require at least one slot'']]
       else []) @
      slots_loop (sc_slots sched) (\<lambda>_. None) None 0 (sc_slots sched) @
      (if \<not> shape_matches sched then
         [semantic_warning ''bundle.semantic.experiment_shape_mismatch'' RoleSchedule ''/mode''
            [Lit ''experiment mode, goal, and distinct scheduled antennas do not form a supported shape'']]
       else []))"

section \<open>Evidence\<close>

definition validate_observation :: "nat \<Rightarrow> 'j observation_record \<Rightarrow> bundle_diagnostic list" where
  "validate_observation index observation =
     (let loc = number_location RoleObservations (Some KindObservation)
                  (Some (ob_observation_id observation, index)) in
      (if ob_frequency_hz observation = Some 0 then
         invalid_range (loc ''/frequency_hz'') ''observation frequency must be greater than zero''
       else []) @
      validate_optional_number (ob_distance_km observation) nonnegative (loc ''/distance_km'')
        ''observation distance must be finite and nonnegative'' @
      validate_optional_number (ob_azimuth_degrees observation) degrees (loc ''/azimuth_degrees'')
        ''observation azimuth must be finite and in [0, 360) degrees'' @
      (case ob_snr_db observation of
         None \<Rightarrow> []
       | Some v \<Rightarrow> validate_write_only_finite v (loc ''/snr_db'') ''observation SNR must be finite'') @
      validate_optional_number (ob_drift_hz_per_minute observation) (\<lambda>_. True)
        (loc ''/drift_hz_per_minute'') ''observation drift must be finite'' @
      validate_optional_number (ob_power_watts observation) positive (loc ''/power_watts'')
        ''observation power must be finite and greater than zero'' @
      (if (case ob_slot_confidence observation of None \<Rightarrow> False | Some v \<Rightarrow> \<not> is_finite v) then
         [number_diagnostic ''bundle.semantic.non_finite_number'' (loc ''/slot_confidence'')
            [Lit ''slot confidence must be finite and in [0, 1]'']]
       else []))"

definition validate_observations :: "'j bundle_contents \<Rightarrow> bundle_diagnostic list" where
  "validate_observations bundle =
     concat (map (\<lambda>(index, observation). validate_observation index observation)
       (enumerate 0 (bc_observations bundle)))"

definition validate_rig :: "'j bundle_contents \<Rightarrow> bundle_diagnostic list" where
  "validate_rig bundle =
     concat (map (\<lambda>(index, r).
         if rg_frequency_hz r = Some 0 then
           invalid_range
             (number_location RoleRig (Some KindRigRecord) (Some (rg_record_id r, index)) ''/frequency_hz'')
             ''rig frequency must be greater than zero''
         else [])
       (enumerate 0 (bc_rig bundle)))"

definition validate_propagation_record :: "nat \<Rightarrow> 'j propagation_record \<Rightarrow> bundle_diagnostic list" where
  "validate_propagation_record index r =
     concat (map (\<lambda>(field, v, in_range, rule).
         validate_optional_number v in_range
           (number_location RolePropagation (Some KindPropagationRecord) (Some (pr_record_id r, index)) field)
           rule)
       [(''/solar_flux_f107'', pr_solar_flux_f107 r, nonnegative,
           ''solar flux must be finite and nonnegative''),
        (''/kp_index'', pr_kp_index r, kp, ''planetary Kp must be finite and in [0, 9]''),
        (''/solar_wind_speed_kms'', pr_solar_wind_speed_kms r, nonnegative,
           ''solar wind speed must be finite and nonnegative''),
        (''/bz_nt'', pr_bz_nt r, any_finite, ''Bz must be finite'')])"

definition validate_propagation :: "'j bundle_contents \<Rightarrow> bundle_diagnostic list" where
  "validate_propagation bundle =
     concat (map (\<lambda>(index, r). validate_propagation_record index r)
       (enumerate 0 (bc_propagation bundle)))"

definition validate_analysis :: "'j bundle_contents \<Rightarrow> bundle_diagnostic list" where
  "validate_analysis bundle =
     (if al_status (bc_analysis bundle) = Generated \<and> al_generated_at (bc_analysis bundle) = None
      then [semantic_warning ''bundle.semantic.analysis_metadata_mismatch'' RoleAnalysis ''/generated_at''
              [Lit ''generated analysis metadata requires a generation timestamp'']]
      else [])"

definition semantic_diagnostics :: "'j bundle_contents \<Rightarrow> bundle_diagnostic list" where
  "semantic_diagnostics bundle =
     validate_identities bundle @ validate_station bundle @ validate_antennas bundle @
     validate_schedule bundle @ validate_observations bundle @ validate_rig bundle @
     validate_propagation bundle @ validate_analysis bundle"

section \<open>What the checks permit\<close>

definition permits :: "bundle_validation_profile \<Rightarrow> bundle_diagnostic list \<Rightarrow> bool" where
  "permits p ds \<longleftrightarrow> list_all (\<lambda>d. \<not> blocks d p) ds"

lemma permits_simps [simp]:
  "permits p []"
  "permits p (d # ds) \<longleftrightarrow> \<not> blocks d p \<and> permits p ds"
  "permits p (ds @ es) \<longleftrightarrow> permits p ds \<and> permits p es"
  by (simp_all add: permits_def)

lemma permits_concat_map [simp]: "permits p (concat (map f xs)) \<longleftrightarrow> list_all (\<lambda>x. permits p (f x)) xs"
  by (induction xs) simp_all

lemma permits_if [simp]: "permits p (if b then ds else []) \<longleftrightarrow> (b \<longrightarrow> permits p ds)"
  by simp

lemma list_all_enumerate [simp]:
  "list_all (\<lambda>x. P (snd x)) (enumerate n xs) \<longleftrightarrow> list_all P xs"
  by (induction xs arbitrary: n) auto

text \<open>The levels of the profiles.\<close>

definition below_analysis :: "bundle_validation_profile set" where
  "below_analysis = {CompatibilityRead}"

definition below_write :: "bundle_validation_profile set" where
  "below_write = {CompatibilityRead, AnalysisProfile}"

definition below_creation :: "bundle_validation_profile set" where
  "below_creation = {CompatibilityRead, AnalysisProfile, Upgrade}"

lemma blocks_semantic [simp]:
  "blocks (semantic_diagnostic c s ANALYSIS_AND_WRITE_OPERATIONS l m r) p \<longleftrightarrow> p \<notin> below_analysis"
  "blocks (semantic_diagnostic c s WRITE_OPERATIONS l m r) p \<longleftrightarrow> p \<notin> below_write"
  "blocks (semantic_warning c f fp m) p \<longleftrightarrow> p \<notin> below_creation"
  "blocks (number_diagnostic c l m) p \<longleftrightarrow> p \<notin> below_analysis"
  by (cases p; simp add: blocks_def semantic_diagnostic_def semantic_warning_def number_diagnostic_def
      operation_sets below_analysis_def below_write_def below_creation_def)+

text \<open>Numbers.\<close>

definition number_ok :: "(fl \<Rightarrow> bool) \<Rightarrow> fl option \<Rightarrow> bool" where
  "number_ok in_range v = (case v of None \<Rightarrow> True | Some x \<Rightarrow> is_finite x \<and> in_range x)"

lemma permits_number [simp]:
  "permits p (validate_optional_number v in_range loc rule) \<longleftrightarrow>
     p \<in> below_analysis \<or> number_ok in_range v"
  by (auto simp: validate_optional_number_def validate_number_def number_ok_def split: option.split)

lemma permits_invalid_range [simp]: "permits p (invalid_range loc m) \<longleftrightarrow> p \<in> below_analysis"
  by (simp add: invalid_range_def)

lemma permits_write_only_finite [simp]:
  "permits p (validate_write_only_finite v loc rule) \<longleftrightarrow> p \<in> below_write \<or> is_finite v"
  by (auto simp: validate_write_only_finite_def)

definition machine_identity :: "string \<Rightarrow> bool" where
  "machine_identity v \<longleftrightarrow> v \<noteq> [] \<and> length v \<le> 128 \<and> is_ascii v"

lemma permits_identity [simp]:
  "permits p (validate_identity_at v loc fp k) \<longleftrightarrow> p \<in> below_write \<or> machine_identity v"
  by (auto simp: validate_identity_at_def validate_machine_identity_def machine_identity_def
      MACHINE_ID_MAX_BYTES_def Let_def)

section \<open>The abstract requirements\<close>

text \<open>A number the bundle may leave out, but that is finite and in range when it is there.\<close>

fun number_in :: "(rat \<Rightarrow> bool) \<Rightarrow> fl option \<Rightarrow> bool" where
  "number_in P None = True"
| "number_in P (Some v) \<longleftrightarrow> is_finite v \<and> P (fl_value v)"

lemma number_ok_iff [simp]:
  "number_ok nonnegative v = number_in (\<lambda>q. 0 \<le> q) v"
  "number_ok positive v = number_in (\<lambda>q. 0 < q) v"
  "number_ok degrees v = number_in (\<lambda>q. 0 \<le> q \<and> q < 360) v"
  "number_ok kp v = number_in (\<lambda>q. 0 \<le> q \<and> q \<le> 9) v"
  "number_ok any_finite v = number_in (\<lambda>_. True) v"
  "number_ok (\<lambda>_. True) v = number_in (\<lambda>_. True) v"
  by (cases v; cases "the v"; simp add: number_ok_def nonnegative_def positive_def degrees_def kp_def any_finite_def)+

definition antenna_measured :: "antenna \<Rightarrow> bool" where
  "antenna_measured a \<longleftrightarrow> number_in (\<lambda>q. 0 \<le> q) (an_height_m a) \<and>
     number_in (\<lambda>q. 0 \<le> q) (an_radial_length_m a) \<and>
     number_in (\<lambda>q. 0 \<le> q \<and> q < 360) (an_orientation_degrees a)"

definition observation_measured :: "'j observation_record \<Rightarrow> bool" where
  "observation_measured ob \<longleftrightarrow> ob_frequency_hz ob \<noteq> Some 0 \<and>
     number_in (\<lambda>q. 0 \<le> q) (ob_distance_km ob) \<and>
     number_in (\<lambda>q. 0 \<le> q \<and> q < 360) (ob_azimuth_degrees ob) \<and>
     number_in (\<lambda>_. True) (ob_drift_hz_per_minute ob) \<and>
     number_in (\<lambda>q. 0 < q) (ob_power_watts ob) \<and>
     number_in (\<lambda>_. True) (ob_slot_confidence ob)"

definition propagation_measured :: "'j propagation_record \<Rightarrow> bool" where
  "propagation_measured r \<longleftrightarrow> number_in (\<lambda>q. 0 \<le> q) (pr_solar_flux_f107 r) \<and>
     number_in (\<lambda>q. 0 \<le> q \<and> q \<le> 9) (pr_kp_index r) \<and>
     number_in (\<lambda>q. 0 \<le> q) (pr_solar_wind_speed_kms r) \<and> number_in (\<lambda>_. True) (pr_bz_nt r)"

lemma slot_confidence_finite:
  "number_in (\<lambda>_. True) v \<longleftrightarrow> (case v of None \<Rightarrow> True | Some x \<Rightarrow> is_finite x)"
  by (cases v) simp_all

text \<open>What analysis needs: unambiguous labels, ordered usable slots, finite numbers in range.\<close>

definition analysable :: "'j bundle_contents \<Rightarrow> bool" where
  "analysable b \<longleftrightarrow>
     number_in (\<lambda>q. 0 < q) (st_power_watts (bc_station b)) \<and>
     distinct (map (\<lambda>a. trim (an_label a)) (af_antennas (bc_antennas b))) \<and>
     list_all antenna_measured (af_antennas (bc_antennas b)) \<and>
     sorted (map ps_sequence_number (sc_slots (bc_schedule b))) \<and>
     list_all (\<lambda>s. ps_guard_seconds s < ps_duration_seconds s) (sc_slots (bc_schedule b)) \<and>
     list_all observation_measured (bc_observations b) \<and>
     list_all (\<lambda>r. rg_frequency_hz r \<noteq> Some 0) (bc_rig b) \<and>
     list_all propagation_measured (bc_propagation b)"

text \<open>What writing needs besides: proper identities and labels, unique sequence numbers.\<close>

definition writable :: "'j bundle_contents \<Rightarrow> bool" where
  "writable b \<longleftrightarrow>
     list_all machine_identity
       ([bm_session_id (bc_manifest b)] @ map ps_slot_id (sc_slots (bc_schedule b)) @
        map ev_event_id (bc_events b) @ map ob_observation_id (bc_observations b) @
        map wx_record_id (bc_wsjtx b) @ map rg_record_id (bc_rig b) @
        map pr_record_id (bc_propagation b)) \<and>
     list_all (\<lambda>a. valid_antenna_label (an_label a)) (af_antennas (bc_antennas b)) \<and>
     distinct (map ps_sequence_number (sc_slots (bc_schedule b))) \<and>
     list_all (\<lambda>ob. case ob_snr_db ob of None \<Rightarrow> True | Some v \<Rightarrow> is_finite v) (bc_observations b)"

text \<open>What creating a new bundle needs besides.\<close>

definition creatable :: "'j bundle_contents \<Rightarrow> bool" where
  "creatable b \<longleftrightarrow>
     nonempty_trimmed (st_callsign (bc_station b)) \<and> nonempty_trimmed (st_grid (bc_station b)) \<and>
     sc_slots (bc_schedule b) \<noteq> [] \<and> shape_matches (bc_schedule b) \<and>
     \<not> (al_status (bc_analysis b) = Generated \<and> al_generated_at (bc_analysis b) = None)"

section \<open>Each check\<close>

lemma list_all_disj_const: "list_all (\<lambda>x. c \<or> P x) xs \<longleftrightarrow> c \<or> list_all P xs"
  by (induction xs) auto

lemma permits_identities:
  "permits p (validate_identities b) \<longleftrightarrow> p \<in> below_write \<or>
     list_all machine_identity
       ([bm_session_id (bc_manifest b)] @ map ps_slot_id (sc_slots (bc_schedule b)) @
        map ev_event_id (bc_events b) @ map ob_observation_id (bc_observations b) @
        map wx_record_id (bc_wsjtx b) @ map rg_record_id (bc_rig b) @
        map pr_record_id (bc_propagation b))"
  using list_all_enumerate [of "\<lambda>s. machine_identity (ps_slot_id s)" 0 "sc_slots (bc_schedule b)"]
  by (auto simp: validate_identities_def record_ids_def list_all_disj_const list.pred_map comp_def
      case_prod_unfold simp del: list_all_enumerate simp: list_all_enumerate [of machine_identity])

lemma permits_station:
  "permits p (validate_station b) \<longleftrightarrow>
     (p \<in> below_analysis \<or> number_in (\<lambda>q. 0 < q) (st_power_watts (bc_station b))) \<and>
     (p \<in> below_creation \<or> nonempty_trimmed (st_callsign (bc_station b)) \<and>
        nonempty_trimmed (st_grid (bc_station b)))"
  by (auto simp: validate_station_def nonempty_trimmed_def)

lemma permits_antenna_numbers [simp]:
  "permits p (antenna_numbers a i) \<longleftrightarrow> p \<in> below_analysis \<or> antenna_measured a"
  by (auto simp: antenna_numbers_def Let_def antenna_measured_def)

lemma permits_antennas_loop:
  "permits p (antennas_loop all labels i as) \<longleftrightarrow>
     (p \<in> below_analysis \<or> distinct (map (\<lambda>a. trim (an_label a)) as) \<and>
        (\<lambda>a. trim (an_label a)) ` set as \<inter> dom labels = {} \<and> list_all antenna_measured as) \<and>
     (p \<in> below_write \<or> list_all (\<lambda>a. valid_antenna_label (an_label a)) as)"
proof (induction as arbitrary: labels i)
  case (Cons a as)
  show ?case
    unfolding antennas_loop.simps Let_def permits_simps Cons.IH
    by (auto split: option.splits)
qed simp

lemma permits_slots_loop:
  "permits p (slots_loop all seen previous i slots) \<longleftrightarrow>
     (p \<in> below_analysis \<or>
        sorted ((case previous of None \<Rightarrow> [] | Some q \<Rightarrow> [q]) @ map ps_sequence_number slots) \<and>
        list_all (\<lambda>s. ps_guard_seconds s < ps_duration_seconds s) slots) \<and>
     (p \<in> below_write \<or> distinct (map ps_sequence_number slots) \<and>
        ps_sequence_number ` set slots \<inter> dom seen = {})"
proof (induction slots arbitrary: seen previous i)
  case Nil
  then show ?case by (simp split: option.split)
next
  case (Cons slot slots)
  show ?case
    unfolding slots_loop.simps permits_simps Cons.IH
    by (auto split: option.splits)
qed

lemma permits_schedule:
  "permits p (validate_schedule b) \<longleftrightarrow>
     (p \<in> below_analysis \<or> sorted (map ps_sequence_number (sc_slots (bc_schedule b))) \<and>
        list_all (\<lambda>s. ps_guard_seconds s < ps_duration_seconds s) (sc_slots (bc_schedule b))) \<and>
     (p \<in> below_write \<or> distinct (map ps_sequence_number (sc_slots (bc_schedule b)))) \<and>
     (p \<in> below_creation \<or> sc_slots (bc_schedule b) \<noteq> [] \<and> shape_matches (bc_schedule b))"
  by (auto simp: validate_schedule_def Let_def permits_slots_loop)

lemma permits_observation:
  "permits p (validate_observation i ob) \<longleftrightarrow>
     (p \<in> below_analysis \<or> observation_measured ob) \<and>
     (p \<in> below_write \<or> (case ob_snr_db ob of None \<Rightarrow> True | Some v \<Rightarrow> is_finite v))"
  by (auto simp: validate_observation_def Let_def observation_measured_def slot_confidence_finite
      split: option.splits)

lemma permits_observations:
  "permits p (validate_observations b) \<longleftrightarrow>
     (p \<in> below_analysis \<or> list_all observation_measured (bc_observations b)) \<and>
     (p \<in> below_write \<or>
        list_all (\<lambda>ob. case ob_snr_db ob of None \<Rightarrow> True | Some v \<Rightarrow> is_finite v) (bc_observations b))"
proof -
  have "permits p (validate_observations b) \<longleftrightarrow>
      list_all (\<lambda>ob. (p \<in> below_analysis \<or> observation_measured ob) \<and>
        (p \<in> below_write \<or> (case ob_snr_db ob of None \<Rightarrow> True | Some v \<Rightarrow> is_finite v))) (bc_observations b)"
    unfolding validate_observations_def permits_concat_map case_prod_unfold permits_observation
    by (rule list_all_enumerate)
  then show ?thesis by (auto simp: list_all_iff)
qed

lemma permits_rig:
  "permits p (validate_rig b) \<longleftrightarrow>
     p \<in> below_analysis \<or> list_all (\<lambda>r. rg_frequency_hz r \<noteq> Some 0) (bc_rig b)"
proof -
  have "permits p (validate_rig b) \<longleftrightarrow>
      list_all (\<lambda>r. rg_frequency_hz r = Some 0 \<longrightarrow> p \<in> below_analysis) (bc_rig b)"
    unfolding validate_rig_def permits_concat_map case_prod_unfold permits_if permits_invalid_range
    by (rule list_all_enumerate)
  then show ?thesis by (auto simp: list_all_iff)
qed

lemma permits_propagation:
  "permits p (validate_propagation b) \<longleftrightarrow>
     p \<in> below_analysis \<or> list_all propagation_measured (bc_propagation b)"
proof -
  have one: "permits p (validate_propagation_record i r) \<longleftrightarrow> p \<in> below_analysis \<or> propagation_measured r"
    for i and r :: "'a propagation_record"
    by (auto simp: validate_propagation_record_def propagation_measured_def)
  have "permits p (validate_propagation b) \<longleftrightarrow>
      list_all (\<lambda>r. p \<in> below_analysis \<or> propagation_measured r) (bc_propagation b)"
    unfolding validate_propagation_def permits_concat_map case_prod_unfold one
    by (rule list_all_enumerate)
  then show ?thesis by (simp add: list_all_disj_const)
qed

lemma below_order: "p \<in> below_analysis \<Longrightarrow> p \<in> below_write" "p \<in> below_write \<Longrightarrow> p \<in> below_creation"
  by (auto simp: below_analysis_def below_write_def below_creation_def)

lemma permits_semantic_diagnostics:
  "permits p (semantic_diagnostics b) \<longleftrightarrow>
     (p \<in> below_analysis \<or> analysable b) \<and> (p \<in> below_write \<or> writable b) \<and>
     (p \<in> below_creation \<or> creatable b)"
proof -
  have "permits p (validate_antennas b) \<longleftrightarrow>
     (p \<in> below_analysis \<or> distinct (map (\<lambda>a. trim (an_label a)) (af_antennas (bc_antennas b))) \<and>
        list_all antenna_measured (af_antennas (bc_antennas b))) \<and>
     (p \<in> below_write \<or> list_all (\<lambda>a. valid_antenna_label (an_label a)) (af_antennas (bc_antennas b)))"
    by (simp add: validate_antennas_def permits_antennas_loop)
  moreover have "permits p (validate_analysis b) \<longleftrightarrow> p \<in> below_creation \<or>
      \<not> (al_status (bc_analysis b) = Generated \<and> al_generated_at (bc_analysis b) = None)"
    by (auto simp: validate_analysis_def)
  ultimately show ?thesis
    by (simp add: semantic_diagnostics_def permits_identities permits_station permits_schedule
        permits_observations permits_rig permits_propagation analysable_def writable_def
        creatable_def) blast
qed

section \<open>Every diagnostic blocks creation\<close>

text \<open>The operations a diagnostic of this crate can block.\<close>

definition graded :: "bundle_diagnostic \<Rightarrow> bool" where
  "graded d \<longleftrightarrow> bd_blocked_operations d \<in>
     {ALL_TYPED_OPERATIONS, ANALYSIS_AND_WRITE_OPERATIONS, WRITE_OPERATIONS, [StrictCreation]}"

lemma graded_blocks:
  "graded d \<Longrightarrow> blocks d StrictCreation"
  "graded d \<Longrightarrow> blocks d AnalysisProfile \<Longrightarrow> blocks d Upgrade"
  "graded d \<Longrightarrow> blocks d CompatibilityRead \<Longrightarrow> blocks d AnalysisProfile"
  by (auto simp: graded_def blocks_def operation_sets)

lemma graded_simps [simp]:
  "graded (semantic_diagnostic c s ANALYSIS_AND_WRITE_OPERATIONS l m r)"
  "graded (semantic_diagnostic c s WRITE_OPERATIONS l m r)"
  "graded (semantic_warning c f fp m)"
  "graded (number_diagnostic c l m)"
  by (simp_all add: graded_def semantic_diagnostic_def semantic_warning_def number_diagnostic_def)

lemma all_graded_concat_map [simp]:
  "list_all graded (concat (map f xs)) \<longleftrightarrow> list_all (\<lambda>x. list_all graded (f x)) xs"
  by (induction xs) simp_all

lemma all_graded_parts [simp]:
  "list_all graded (validate_optional_number v in_range loc rule)"
  "list_all graded (invalid_range loc rule)"
  "list_all graded (validate_identity_at i loc fp k)"
  "list_all graded (validate_write_only_finite x loc rule)"
  by (simp_all add: validate_optional_number_def validate_number_def invalid_range_def
      validate_identity_at_def validate_write_only_finite_def Let_def split: option.split sum.split)

lemma all_graded_antennas_loop [simp]: "list_all graded (antennas_loop all labels i as)"
  by (induction as arbitrary: labels i) (simp_all add: Let_def antenna_numbers_def split: option.split)

lemma all_graded_slots_loop [simp]: "list_all graded (slots_loop all seen previous i slots)"
  by (induction slots arbitrary: seen previous i) (simp_all split: option.split)

lemma all_graded_semantic [simp]: "list_all graded (semantic_diagnostics b)"
  by (simp add: semantic_diagnostics_def validate_identities_def validate_station_def
      validate_antennas_def validate_schedule_def validate_observations_def validate_observation_def
      validate_rig_def validate_propagation_def validate_propagation_record_def validate_analysis_def
      Let_def case_prod_unfold list.pred_True split: option.split)

lemma graded_permits:
  assumes "list_all graded ds"
  shows "permits StrictCreation ds \<longleftrightarrow> ds = []"
    and "permits Upgrade ds \<Longrightarrow> permits AnalysisProfile ds"
    and "permits AnalysisProfile ds \<Longrightarrow> permits CompatibilityRead ds"
  using assms by (induction ds) (auto dest: graded_blocks)

text \<open>
  C11. The semantic checks of a bundle are exactly the four-level contract: they never block
  reading, they let analysis pass exactly when the bundle is \<open>analysable\<close> (unambiguous antenna
  labels, slots ordered with guard shorter than duration, every number finite and in range),
  an upgrade exactly when it is moreover \<open>writable\<close> (machine identities, clean labels, unique
  sequence numbers, finite SNR), and creation exactly when it is moreover \<open>creatable\<close>
  (trimmed call sign and grid, a nonempty schedule of a supported shape, consistent analysis
  metadata); and they are silent exactly when creation passes.
\<close>

theorem semantic_contract:
  "permits CompatibilityRead (semantic_diagnostics b) \<and>
   (permits AnalysisProfile (semantic_diagnostics b) \<longleftrightarrow> analysable b) \<and>
   (permits Upgrade (semantic_diagnostics b) \<longleftrightarrow> analysable b \<and> writable b) \<and>
   (permits StrictCreation (semantic_diagnostics b) \<longleftrightarrow> analysable b \<and> writable b \<and> creatable b) \<and>
   (semantic_diagnostics b = [] \<longleftrightarrow> analysable b \<and> writable b \<and> creatable b)"
  by (simp add: permits_semantic_diagnostics flip: graded_permits(1) [OF all_graded_semantic])
    (simp add: below_analysis_def below_write_def below_creation_def)

end
