(* ===== verification/Validation.thy ===== *)
theory Validation
  imports Semantics Alignment
begin

text \<open>
  Bundle validation (\<open>crates/core/src/validation.rs\<close>): the structural issues of a bundle, the
  diagnostics they become, and the report that decides which operations the bundle may be
  used for.  A panic (alignment's \<open>unreachable!\<close>, an \<open>assert!\<close>) is the value \<open>None\<close>.
\<close>

section \<open>Data\<close>

datatype bundle_id_kind =
  IdSlot | IdOperatorEvent | IdObservation | IdWsjtXRecord | IdRigRecord | IdPropagationRecord

datatype alignment_annotation_field = SlotIdField | SlotLabelField | SlotConfidenceField

datatype bundle_validation_issue =
    UnexpectedSchemaVersion bundle_file_role "string option" nat nat
  | SessionIdMismatch bundle_file_role "string option" string string
  | DuplicateId bundle_id_kind string
  | UnknownAntennaLabel string string
  | SlotWindowOutOfOrder string string
  | SlotWindowOverlap string timestamp string timestamp
  | UnknownEventSlot string string
  | UnknownObservationSlot string string
  | InvalidSlotConfidence string fl
  | AlignmentAnnotationMismatch string alignment_annotation_field message message

record bundle_validation_error =
  ve_issues :: "bundle_validation_issue list"
  ve_report :: bundle_validation_report

section \<open>Issues\<close>

definition validate_root_schema_and_session ::
    "bundle_file_role \<Rightarrow> nat \<Rightarrow> nat \<Rightarrow> string \<Rightarrow> string \<Rightarrow> bundle_validation_issue list" where
  "validate_root_schema_and_session file actual_version expected_version actual_session expected_session =
     (if actual_version \<noteq> expected_version
      then [UnexpectedSchemaVersion file None expected_version actual_version] else []) @
     (if actual_session \<noteq> expected_session
      then [SessionIdMismatch file None expected_session actual_session] else [])"

definition validate_record_meta ::
    "bundle_file_role \<Rightarrow> string \<Rightarrow> nat \<Rightarrow> (string \<times> nat \<times> string) list \<Rightarrow> bundle_validation_issue list" where
  "validate_record_meta file expected_session expected_version records =
     concat (map (\<lambda>(record_id, actual_version, actual_session).
         (if actual_version \<noteq> expected_version
          then [UnexpectedSchemaVersion file (Some record_id) expected_version actual_version] else []) @
         (if actual_session \<noteq> expected_session
          then [SessionIdMismatch file (Some record_id) expected_session actual_session] else []))
       records)"

fun duplicates_loop :: "bundle_id_kind \<Rightarrow> string set \<Rightarrow> string list \<Rightarrow> bundle_validation_issue list" where
  "duplicates_loop kind seen [] = []"
| "duplicates_loop kind seen (i # ids) =
     (if i \<in> seen then [DuplicateId kind i] else []) @ duplicates_loop kind (insert i seen) ids"

definition validate_duplicates :: "bundle_id_kind \<Rightarrow> string list \<Rightarrow> bundle_validation_issue list" where
  "validate_duplicates kind ids = duplicates_loop kind {} ids"

definition window_pair ::
    "planned_slot \<Rightarrow> planned_slot \<Rightarrow> bundle_validation_issue list option" where
  "window_pair previous slot =
     Option.bind (slot_end previous) (\<lambda>previous_ends_at.
     Option.bind (slot_end slot) (\<lambda>slot_ends_at.
     Some
       ((if ps_starts_at slot \<le> ps_starts_at previous
         then [SlotWindowOutOfOrder (ps_slot_id previous) (ps_slot_id slot)] else []) @
        (if ps_starts_at slot < previous_ends_at \<and> ps_starts_at previous < slot_ends_at
         then [SlotWindowOverlap (ps_slot_id previous) previous_ends_at (ps_slot_id slot)
                 (ps_starts_at slot)] else []))))"

fun windows_loop ::
    "string set \<Rightarrow> planned_slot option \<Rightarrow> planned_slot list \<Rightarrow> bundle_validation_issue list option" where
  "windows_loop antenna_labels previous_slot [] = Some []"
| "windows_loop antenna_labels previous_slot (slot # slots) =
     Option.bind (case previous_slot of None \<Rightarrow> Some [] | Some previous \<Rightarrow> window_pair previous slot) (\<lambda>pair.
     Option.bind (windows_loop antenna_labels (Some slot) slots) (\<lambda>later.
     Some
       ((if ps_antenna_label slot \<notin> antenna_labels
         then [UnknownAntennaLabel (ps_slot_id slot) (ps_antenna_label slot)] else []) @ pair @ later)))"

definition validate_schedule_references_and_windows ::
    "'j bundle_contents \<Rightarrow> bundle_validation_issue list option" where
  "validate_schedule_references_and_windows bundle =
     windows_loop (set (map an_label (af_antennas (bc_antennas bundle)))) None
       (sc_slots (bc_schedule bundle))"

definition validate_event_and_observation_references ::
    "'j bundle_contents \<Rightarrow> bundle_validation_issue list" where
  "validate_event_and_observation_references bundle =
     (let slot_ids = set (map ps_slot_id (sc_slots (bc_schedule bundle))) in
      concat (map (\<lambda>event.
          case ev_slot_id event of
            None \<Rightarrow> []
          | Some slot_id \<Rightarrow>
              if slot_id \<notin> slot_ids then [UnknownEventSlot (ev_event_id event) slot_id] else [])
        (bc_events bundle)) @
      concat (map (\<lambda>observation.
          case ob_slot_id observation of
            None \<Rightarrow> []
          | Some slot_id \<Rightarrow>
              if slot_id \<notin> slot_ids
              then [UnknownObservationSlot (ob_observation_id observation) slot_id] else [])
        (bc_observations bundle)))"

definition unit_interval :: "fl \<Rightarrow> bool" where
  "unit_interval v \<longleftrightarrow> fl_le (Finite 0) v \<and> fl_le v (Finite 1)"

definition validate_slot_confidence_ranges :: "'j bundle_contents \<Rightarrow> bundle_validation_issue list" where
  "validate_slot_confidence_ranges bundle =
     concat (map (\<lambda>observation.
         case ob_slot_confidence observation of
           None \<Rightarrow> []
         | Some slot_confidence \<Rightarrow>
             if \<not> unit_interval slot_confidence
             then [InvalidSlotConfidence (ob_observation_id observation) slot_confidence] else [])
       (bc_observations bundle))"

text \<open>
  The tolerance is the \<open>f32\<close> literal \<open>0.000_001\<close>.  The \<open>f32\<close> subtraction of the code is
  exact on operands within a factor two of each other or with a zero operand, and a rounded
  difference of the other operands the code can meet (an expected confidence of at least
  0.1) is far above the tolerance, so the comparison is the one on the exact difference.
\<close>

definition SLOT_CONFIDENCE_TOLERANCE :: rat where
  "SLOT_CONFIDENCE_TOLERANCE = 8796093 / 2 ^ 43"

definition slot_confidence_matches :: "fl option \<Rightarrow> fl option \<Rightarrow> bool" where
  "slot_confidence_matches actual expected =
     (case (actual, expected) of
        (Some a, Some e) \<Rightarrow>
          is_finite a \<and> is_finite e \<and> \<bar>fl_value a - fl_value e\<bar> \<le> SLOT_CONFIDENCE_TOLERANCE
      | (None, None) \<Rightarrow> True
      | _ \<Rightarrow> False)"

definition annotation_mismatches ::
    "'j observation_record \<Rightarrow> observation_slot_assignment \<Rightarrow> bundle_validation_issue list" where
  "annotation_mismatches observation a =
     (if ob_slot_id observation \<noteq> oa_slot_id a then
        [AlignmentAnnotationMismatch (ob_observation_id observation) SlotIdField
           [DbgOptStr (oa_slot_id a)] [DbgOptStr (ob_slot_id observation)]] else []) @
     (if ob_slot_label observation \<noteq> oa_slot_label a then
        [AlignmentAnnotationMismatch (ob_observation_id observation) SlotLabelField
           [DbgOptStr (oa_slot_label a)] [DbgOptStr (ob_slot_label observation)]] else []) @
     (if \<not> slot_confidence_matches (ob_slot_confidence observation) (Some (oa_confidence a)) then
        [AlignmentAnnotationMismatch (ob_observation_id observation) SlotConfidenceField
           [DbgOptF32 (Some (oa_confidence a))] [DbgOptF32 (ob_slot_confidence observation)]] else [])"

definition validate_alignment_annotations ::
    "'j bundle_contents \<Rightarrow> bundle_validation_issue list option" where
  "validate_alignment_annotations bundle =
     map_option (\<lambda>alignment.
         concat (map (\<lambda>(observation, a). annotation_mismatches observation a)
           (zip (bc_observations bundle) (sl_observation_assignments alignment))))
       (align_schedule_slots (bc_schedule bundle) (bc_events bundle) (bc_observations bundle)
          default_slot_alignment_policy)"

definition validate_schema_and_session :: "'j bundle_contents \<Rightarrow> bundle_validation_issue list" where
  "validate_schema_and_session bundle =
     (let session = bm_session_id (bc_manifest bundle);
          version = bm_schema_version (bc_manifest bundle);
          meta = (\<lambda>record_id m. (record_id, rm_schema_version m, rm_session_id m)) in
      (if version \<noteq> SCHEMA_VERSION_V1 \<and> version \<noteq> SCHEMA_VERSION_V2
       then [UnexpectedSchemaVersion RoleManifest None LATEST_SCHEMA_VERSION version] else []) @
      validate_root_schema_and_session RoleManifest (bm_schema_version (bc_manifest bundle)) version
        (bm_session_id (bc_manifest bundle)) session @
      validate_root_schema_and_session RoleStation (st_schema_version (bc_station bundle)) version
        (st_session_id (bc_station bundle)) session @
      validate_root_schema_and_session RoleAntennas (af_schema_version (bc_antennas bundle)) version
        (af_session_id (bc_antennas bundle)) session @
      validate_root_schema_and_session RoleSchedule (sc_schema_version (bc_schedule bundle)) version
        (sc_session_id (bc_schedule bundle)) session @
      validate_root_schema_and_session RoleAnalysis (al_schema_version (bc_analysis bundle)) version
        (al_session_id (bc_analysis bundle)) session @
      validate_record_meta RoleEvents session version
        (map (\<lambda>r. meta (ev_event_id r) (ev_meta r)) (bc_events bundle)) @
      validate_record_meta RoleObservations session version
        (map (\<lambda>r. meta (ob_observation_id r) (ob_meta r)) (bc_observations bundle)) @
      validate_record_meta RoleWsjtX session version
        (map (\<lambda>r. meta (wx_record_id r) (wx_meta r)) (bc_wsjtx bundle)) @
      validate_record_meta RoleRig session version
        (map (\<lambda>r. meta (rg_record_id r) (rg_meta r)) (bc_rig bundle)) @
      validate_record_meta RolePropagation session version
        (map (\<lambda>r. meta (pr_record_id r) (pr_meta r)) (bc_propagation bundle)))"

definition validate_all_duplicates :: "'j bundle_contents \<Rightarrow> bundle_validation_issue list" where
  "validate_all_duplicates bundle =
     validate_duplicates IdSlot (map ps_slot_id (sc_slots (bc_schedule bundle))) @
     validate_duplicates IdOperatorEvent (map ev_event_id (bc_events bundle)) @
     validate_duplicates IdObservation (map ob_observation_id (bc_observations bundle)) @
     validate_duplicates IdWsjtXRecord (map wx_record_id (bc_wsjtx bundle)) @
     validate_duplicates IdRigRecord (map rg_record_id (bc_rig bundle)) @
     validate_duplicates IdPropagationRecord (map pr_record_id (bc_propagation bundle))"

definition validate_bundle_issues :: "'j bundle_contents \<Rightarrow> bundle_validation_issue list option" where
  "validate_bundle_issues bundle =
     Option.bind (validate_schedule_references_and_windows bundle) (\<lambda>windows.
     Option.bind (validate_alignment_annotations bundle) (\<lambda>mismatches.
     Some
       (validate_schema_and_session bundle @ validate_all_duplicates bundle @ windows @
        validate_event_and_observation_references bundle @
        validate_slot_confidence_ranges bundle @ mismatches)))"

section \<open>Locations of issues\<close>

definition record_location ::
    "'j bundle_contents option \<Rightarrow> bundle_file_role \<Rightarrow> string option \<Rightarrow> string
       \<Rightarrow> bundle_diagnostic_location" where
  "record_location bundle file record_id field_path =
     (let (record_kind, record_index) =
        (case record_id of
           None \<Rightarrow> (None, None)
         | Some i \<Rightarrow>
             (case (bundle, file) of
                (Some b, RoleEvents) \<Rightarrow>
                  (Some KindOperatorEvent, position (\<lambda>r. ev_event_id r = i) (bc_events b))
              | (Some b, RoleObservations) \<Rightarrow>
                  (Some KindObservation, position (\<lambda>r. ob_observation_id r = i) (bc_observations b))
              | (Some b, RoleWsjtX) \<Rightarrow>
                  (Some KindWsjtXRecord, position (\<lambda>r. wx_record_id r = i) (bc_wsjtx b))
              | (Some b, RoleRig) \<Rightarrow>
                  (Some KindRigRecord, position (\<lambda>r. rg_record_id r = i) (bc_rig b))
              | (Some b, RolePropagation) \<Rightarrow>
                  (Some KindPropagationRecord, position (\<lambda>r. pr_record_id r = i) (bc_propagation b))
              | _ \<Rightarrow> (None, None)))
      in \<lparr>dl_file = file, dl_record_kind = record_kind, dl_record_id = record_id,
          dl_record_index = record_index, dl_physical_line = None, dl_field_path = Some field_path\<rparr>)"

definition slot_location ::
    "'j bundle_contents option \<Rightarrow> string \<Rightarrow> string \<Rightarrow> bundle_diagnostic_location" where
  "slot_location bundle slot_id field_path =
     (let record_index = Option.bind bundle
            (\<lambda>b. position (\<lambda>slot. ps_slot_id slot = slot_id) (sc_slots (bc_schedule b)))
      in \<lparr>dl_file = RoleSchedule, dl_record_kind = Some KindSlot, dl_record_id = Some slot_id,
          dl_record_index = record_index, dl_physical_line = None,
          dl_field_path = Some (case record_index of None \<Rightarrow> field_path
            | Some index \<Rightarrow> ''/slots/'' @ show_nat index @ field_path)\<rparr>)"

definition indices_of :: "('a \<Rightarrow> bool) \<Rightarrow> 'a list \<Rightarrow> nat list" where
  "indices_of P xs = map fst (filter (\<lambda>(i, x). P x) (enumerate 0 xs))"

definition id_kind_target ::
    "'j bundle_contents option \<Rightarrow> bundle_id_kind \<Rightarrow> string
       \<Rightarrow> bundle_file_role \<times> bundle_record_kind \<times> nat list" where
  "id_kind_target bundle kind i =
     (let indices = (\<lambda>f. case bundle of None \<Rightarrow> [] | Some b \<Rightarrow> f b) in
      case kind of
        IdSlot \<Rightarrow> (RoleSchedule, KindSlot,
          indices (\<lambda>b. indices_of (\<lambda>r. ps_slot_id r = i) (sc_slots (bc_schedule b))))
      | IdOperatorEvent \<Rightarrow> (RoleEvents, KindOperatorEvent,
          indices (\<lambda>b. indices_of (\<lambda>r. ev_event_id r = i) (bc_events b)))
      | IdObservation \<Rightarrow> (RoleObservations, KindObservation,
          indices (\<lambda>b. indices_of (\<lambda>r. ob_observation_id r = i) (bc_observations b)))
      | IdWsjtXRecord \<Rightarrow> (RoleWsjtX, KindWsjtXRecord,
          indices (\<lambda>b. indices_of (\<lambda>r. wx_record_id r = i) (bc_wsjtx b)))
      | IdRigRecord \<Rightarrow> (RoleRig, KindRigRecord,
          indices (\<lambda>b. indices_of (\<lambda>r. rg_record_id r = i) (bc_rig b)))
      | IdPropagationRecord \<Rightarrow> (RolePropagation, KindPropagationRecord,
          indices (\<lambda>b. indices_of (\<lambda>r. pr_record_id r = i) (bc_propagation b))))"

definition id_field_name :: "bundle_id_kind \<Rightarrow> string" where
  "id_field_name kind =
     (if kind = IdSlot then ''slot_id''
      else if kind = IdOperatorEvent then ''event_id''
      else if kind = IdObservation then ''observation_id''
      else ''record_id'')"

definition duplicate_id_locations ::
    "'j bundle_contents option \<Rightarrow> bundle_id_kind \<Rightarrow> string
       \<Rightarrow> bundle_diagnostic_location \<times> bundle_diagnostic_location list" where
  "duplicate_id_locations bundle kind i =
     (let (file, record_kind, indices) = id_kind_target bundle kind i;
          field_name = id_field_name kind;
          make_location = (\<lambda>index.
            \<lparr>dl_file = file, dl_record_kind = Some record_kind, dl_record_id = Some i,
             dl_record_index = index,
             dl_physical_line = flatten_option
               (bool_then (has_physical_line file) (map_option (\<lambda>n. n + 1) index)),
             dl_field_path = Some
               (case (kind, index) of
                  (IdSlot, Some n) \<Rightarrow> ''/slots/'' @ show_nat n @ ''/'' @ field_name
                | _ \<Rightarrow> ''/'' @ field_name)\<rparr>)
      in (make_location (if 1 < length indices then Some (indices ! 1) else None),
          (case indices of [] \<Rightarrow> [] | index # _ \<Rightarrow> [make_location (Some index)])))"

section \<open>Diagnostics of issues\<close>

definition id_kind_debug :: "bundle_id_kind \<Rightarrow> string" where
  "id_kind_debug kind =
     (case kind of IdSlot \<Rightarrow> ''Slot'' | IdOperatorEvent \<Rightarrow> ''OperatorEvent''
      | IdObservation \<Rightarrow> ''Observation'' | IdWsjtXRecord \<Rightarrow> ''WsjtXRecord''
      | IdRigRecord \<Rightarrow> ''RigRecord'' | IdPropagationRecord \<Rightarrow> ''PropagationRecord'')"

definition issue_diagnostic ::
    "string \<Rightarrow> bundle_diagnostic_category \<Rightarrow> bundle_diagnostic_severity
       \<Rightarrow> bundle_validation_profile list \<Rightarrow> bundle_diagnostic_location \<Rightarrow> message
       \<Rightarrow> bundle_diagnostic_location list \<Rightarrow> bundle_diagnostic" where
  "issue_diagnostic code category severity blocked loc message related =
     \<lparr>bd_code = code, bd_category = category, bd_severity = severity,
      bd_blocked_operations = blocked, bd_location = loc, bd_message = message,
      bd_related_locations = related\<rparr>"

fun diagnostic_from_issue ::
    "bundle_validation_issue \<Rightarrow> 'j bundle_contents option \<Rightarrow> bundle_diagnostic" where
  "diagnostic_from_issue (UnexpectedSchemaVersion file record_id expected actual) bundle =
     issue_diagnostic ''bundle.wire.unsupported_schema_version'' Wire SeverityError ALL_TYPED_OPERATIONS
       (record_location bundle file record_id
          (case record_id of None \<Rightarrow> ''/schema_version'' | Some _ \<Rightarrow> ''/meta/schema_version''))
       [Lit ''schema version '', ShowNat actual, Lit '' is not supported; expected '', ShowNat expected] []"
| "diagnostic_from_issue (SessionIdMismatch file record_id expected actual) bundle =
     issue_diagnostic ''bundle.structure.session_id_mismatch'' Structural SeverityError ALL_TYPED_OPERATIONS
       (record_location bundle file record_id
          (case record_id of None \<Rightarrow> ''/session_id'' | Some _ \<Rightarrow> ''/meta/session_id''))
       [Lit ''session ID '', DbgStr actual, Lit '' does not match manifest ID '', DbgStr expected]
       [(location_of_file RoleManifest)\<lparr>dl_field_path := Some ''/session_id''\<rparr>]"
| "diagnostic_from_issue (DuplicateId kind i) bundle =
     (let (loc, related) = duplicate_id_locations bundle kind i in
      issue_diagnostic ''bundle.structure.duplicate_id'' Structural SeverityError ALL_TYPED_OPERATIONS
        loc [Lit ''durable '', Lit (id_kind_debug kind), Lit '' ID '', DbgStr i, Lit '' is duplicated'']
        related)"
| "diagnostic_from_issue (UnknownAntennaLabel slot_id antenna_label) bundle =
     issue_diagnostic ''bundle.structure.unknown_antenna_label'' Structural SeverityError
       ALL_TYPED_OPERATIONS (slot_location bundle slot_id ''/antenna_label'')
       [Lit ''slot '', DbgStr slot_id, Lit '' references unknown antenna label '', DbgStr antenna_label] []"
| "diagnostic_from_issue (SlotWindowOutOfOrder previous_slot_id slot_id) bundle =
     issue_diagnostic ''bundle.structure.slot_window_out_of_order'' Structural SeverityError
       ALL_TYPED_OPERATIONS (slot_location bundle slot_id ''/starts_at'')
       [Lit ''slot '', DbgStr slot_id, Lit '' does not start strictly after preceding slot '',
        DbgStr previous_slot_id]
       [slot_location bundle previous_slot_id ''/starts_at'']"
| "diagnostic_from_issue (SlotWindowOverlap previous_slot_id previous_ends_at slot_id starts_at) bundle =
     issue_diagnostic ''bundle.structure.slot_window_overlap'' Structural SeverityError
       ALL_TYPED_OPERATIONS (slot_location bundle slot_id ''/starts_at'')
       [Lit ''slot '', DbgStr slot_id, Lit '' starts at '', ShowTime starts_at, Lit '' before slot '',
        DbgStr previous_slot_id, Lit '' ends at '', ShowTime previous_ends_at]
       [slot_location bundle previous_slot_id ''/duration_seconds'']"
| "diagnostic_from_issue (UnknownEventSlot event_id slot_id) bundle =
     issue_diagnostic ''bundle.structure.unknown_event_slot'' Structural SeverityError
       ALL_TYPED_OPERATIONS (record_location bundle RoleEvents (Some event_id) ''/slot_id'')
       [Lit ''event '', DbgStr event_id, Lit '' references unknown slot '', DbgStr slot_id] []"
| "diagnostic_from_issue (UnknownObservationSlot observation_id slot_id) bundle =
     issue_diagnostic ''bundle.structure.unknown_observation_slot'' Structural SeverityError
       ALL_TYPED_OPERATIONS (record_location bundle RoleObservations (Some observation_id) ''/slot_id'')
       [Lit ''observation '', DbgStr observation_id, Lit '' references unknown slot '', DbgStr slot_id] []"
| "diagnostic_from_issue (InvalidSlotConfidence observation_id slot_confidence) bundle =
     issue_diagnostic ''bundle.semantic.invalid_slot_confidence'' Semantic SeverityError
       ANALYSIS_AND_WRITE_OPERATIONS
       (record_location bundle RoleObservations (Some observation_id) ''/slot_confidence'')
       [Lit ''observation '', DbgStr observation_id, Lit '' has slot confidence '',
        ShowFl slot_confidence, Lit '', outside [0, 1]''] []"
| "diagnostic_from_issue (AlignmentAnnotationMismatch observation_id field expected actual) bundle =
     issue_diagnostic ''bundle.semantic.alignment_annotation_mismatch'' Semantic SeverityWarning
       [StrictCreation]
       (record_location bundle RoleObservations (Some observation_id)
          (case field of SlotIdField \<Rightarrow> ''/slot_id'' | SlotLabelField \<Rightarrow> ''/slot_label''
           | SlotConfidenceField \<Rightarrow> ''/slot_confidence''))
       ([Lit ''persisted alignment annotation for observation '', DbgStr observation_id, Lit '' is ''] @
        actual @ [Lit ''; regenerated value is ''] @ expected) []"

section \<open>Reports and errors\<close>

definition report_from_issues ::
    "'j bundle_contents \<Rightarrow> bundle_validation_issue list \<Rightarrow> bundle_validation_report" where
  "report_from_issues bundle issues =
     report_extend (report_new (map (\<lambda>issue. diagnostic_from_issue issue (Some bundle)) issues))
       (semantic_diagnostics bundle)"

definition validate_bundle_report :: "'j bundle_contents \<Rightarrow> bundle_validation_report option" where
  "validate_bundle_report bundle = map_option (report_from_issues bundle) (validate_bundle_issues bundle)"

text \<open>The constructors of the error assert that there is something to report.\<close>

definition error_new :: "bundle_validation_issue list \<Rightarrow> bundle_validation_error option" where
  "error_new issues =
     (if issues = [] then None
      else Some \<lparr>ve_issues = issues,
             ve_report = report_new
               (map (\<lambda>issue. diagnostic_from_issue issue (None :: unit bundle_contents option)) issues)\<rparr>)"

definition error_from_report :: "bundle_validation_report \<Rightarrow> bundle_validation_error option" where
  "error_from_report report =
     (if report_is_empty report then None else Some \<lparr>ve_issues = [], ve_report = report\<rparr>)"

definition error_from_issues_and_report ::
    "bundle_validation_issue list \<Rightarrow> bundle_validation_report \<Rightarrow> bundle_validation_error option" where
  "error_from_issues_and_report issues report =
     (if issues = [] \<and> report_is_empty report then None
      else Some \<lparr>ve_issues = issues, ve_report = report\<rparr>)"

definition validate_bundle :: "'j bundle_contents \<Rightarrow> (bundle_validation_error + unit) option" where
  "validate_bundle bundle =
     Option.bind (validate_bundle_issues bundle)
       (\<lambda>issues.
          let report = report_from_issues bundle issues in
          if report_is_empty report then Some (Inr ())
          else map_option Inl (error_from_issues_and_report issues report))"

section \<open>Abstract requirements\<close>

definition one_session :: "'j bundle_contents \<Rightarrow> bool" where
  "one_session b \<longleftrightarrow>
     (let v = bm_schema_version (bc_manifest b); i = bm_session_id (bc_manifest b);
          same = (\<lambda>m. rm_schema_version m = v \<and> rm_session_id m = i) in
      v \<in> {SCHEMA_VERSION_V1, SCHEMA_VERSION_V2} \<and>
      st_schema_version (bc_station b) = v \<and> st_session_id (bc_station b) = i \<and>
      af_schema_version (bc_antennas b) = v \<and> af_session_id (bc_antennas b) = i \<and>
      sc_schema_version (bc_schedule b) = v \<and> sc_session_id (bc_schedule b) = i \<and>
      al_schema_version (bc_analysis b) = v \<and> al_session_id (bc_analysis b) = i \<and>
      list_all same (map ev_meta (bc_events b) @ map ob_meta (bc_observations b) @
        map wx_meta (bc_wsjtx b) @ map rg_meta (bc_rig b) @ map pr_meta (bc_propagation b)))"

definition unique_ids :: "'j bundle_contents \<Rightarrow> bool" where
  "unique_ids b \<longleftrightarrow>
     distinct (map ps_slot_id (sc_slots (bc_schedule b))) \<and>
     distinct (map ev_event_id (bc_events b)) \<and>
     distinct (map ob_observation_id (bc_observations b)) \<and>
     distinct (map wx_record_id (bc_wsjtx b)) \<and> distinct (map rg_record_id (bc_rig b)) \<and>
     distinct (map pr_record_id (bc_propagation b))"

text \<open>One slot starts later than another and not before the other ends.\<close>

definition slot_after :: "planned_slot \<Rightarrow> planned_slot \<Rightarrow> bool" where
  "slot_after s t \<longleftrightarrow> ps_starts_at s < ps_starts_at t \<and> end_instant s \<le> ps_starts_at t"

definition sound_schedule :: "'j bundle_contents \<Rightarrow> bool" where
  "sound_schedule b \<longleftrightarrow>
     ps_antenna_label ` set (sc_slots (bc_schedule b)) \<subseteq> an_label ` set (af_antennas (bc_antennas b)) \<and>
     sorted_wrt slot_after (sc_slots (bc_schedule b))"

definition slots_resolve :: "'j bundle_contents \<Rightarrow> bool" where
  "slots_resolve b \<longleftrightarrow>
     set (map ev_slot_id (bc_events b) @ map ob_slot_id (bc_observations b)) \<subseteq>
       insert None (Some ` ps_slot_id ` set (sc_slots (bc_schedule b)))"

definition confidences_ok :: "'j bundle_contents \<Rightarrow> bool" where
  "confidences_ok b \<longleftrightarrow>
     list_all (\<lambda>ob. case ob_slot_confidence ob of None \<Rightarrow> True | Some v \<Rightarrow> unit_interval v) (bc_observations b)"

definition assigned_in :: "'j bundle_contents \<Rightarrow> 'j observation_record \<Rightarrow> observation_slot_assignment" where
  "assigned_in b ob =
     assigned ob (aligned_slots (bc_schedule b) (bc_events b)) default_slot_alignment_policy"

definition annotations_match :: "'j bundle_contents \<Rightarrow> bool" where
  "annotations_match b \<longleftrightarrow>
     list_all (\<lambda>ob. ob_slot_id ob = oa_slot_id (assigned_in b ob) \<and>
         ob_slot_label ob = oa_slot_label (assigned_in b ob) \<and>
         slot_confidence_matches (ob_slot_confidence ob) (Some (oa_confidence (assigned_in b ob))))
       (bc_observations b)"

definition structurally_sound :: "'j bundle_contents \<Rightarrow> bool" where
  "structurally_sound b \<longleftrightarrow> one_session b \<and> unique_ids b \<and> sound_schedule b \<and> slots_resolve b"

section \<open>The checks meet the requirements\<close>

lemma validate_record_meta_Nil:
  "validate_record_meta file i v records = [] \<longleftrightarrow>
     list_all (\<lambda>(r, v', i'). v' = v \<and> i' = i) records"
  by (induction records) (auto simp: validate_record_meta_def split: if_splits)

lemma schema_and_session_Nil: "validate_schema_and_session b = [] \<longleftrightarrow> one_session b"
  by (auto simp: validate_schema_and_session_def Let_def validate_root_schema_and_session_def
      validate_record_meta_Nil one_session_def list.pred_map comp_def)

lemma duplicates_loop_Nil: "duplicates_loop kind seen ids = [] \<longleftrightarrow> distinct ids \<and> set ids \<inter> seen = {}"
  by (induction ids arbitrary: seen) auto

lemma all_duplicates_Nil: "validate_all_duplicates b = [] \<longleftrightarrow> unique_ids b"
  by (simp add: validate_all_duplicates_def validate_duplicates_def duplicates_loop_Nil unique_ids_def)

lemma end_instant_ge [simp]: "ps_starts_at s \<le> end_instant s"
  by (simp add: end_instant_def seconds_def)

lemma slot_after_trans: "slot_after s t \<Longrightarrow> slot_after t u \<Longrightarrow> slot_after s u"
  by (simp add: slot_after_def)

lemma slot_after_check:
  "\<not> ps_starts_at t \<le> ps_starts_at s \<and> \<not> (ps_starts_at t < end_instant s \<and> ps_starts_at s < end_instant t) \<longleftrightarrow>
     slot_after s t"
  using end_instant_ge [of t] unfolding slot_after_def by linarith

text \<open>The issues of the loop where chrono does not panic.\<close>

fun window_issues ::
    "string set \<Rightarrow> planned_slot option \<Rightarrow> planned_slot list \<Rightarrow> bundle_validation_issue list" where
  "window_issues labels previous [] = []"
| "window_issues labels previous (slot # slots) =
     (if ps_antenna_label slot \<notin> labels
      then [UnknownAntennaLabel (ps_slot_id slot) (ps_antenna_label slot)] else []) @
     (case previous of
        None \<Rightarrow> []
      | Some q \<Rightarrow>
          (if ps_starts_at slot \<le> ps_starts_at q
           then [SlotWindowOutOfOrder (ps_slot_id q) (ps_slot_id slot)] else []) @
          (if ps_starts_at slot < end_instant q \<and> ps_starts_at q < end_instant slot
           then [SlotWindowOverlap (ps_slot_id q) (end_instant q) (ps_slot_id slot) (ps_starts_at slot)]
           else [])) @
     window_issues labels (Some slot) slots"

definition schedule_issues :: "'j bundle_contents \<Rightarrow> bundle_validation_issue list" where
  "schedule_issues b = window_issues (set (map an_label (af_antennas (bc_antennas b)))) None (sc_slots (bc_schedule b))"

lemma slot_end_eq: "representable_slot slot \<Longrightarrow> slot_end slot = Some (end_instant slot)"
  by (simp add: slot_end_def plus_duration_def representable_slot_def in_utc_def end_instant_def)

lemma windows_loop_eq:
  "list_all representable_slot (case previous of None \<Rightarrow> slots | Some q \<Rightarrow> q # slots) \<Longrightarrow>
     windows_loop labels previous slots = Some (window_issues labels previous slots)"
  by (induction slots arbitrary: previous) (auto simp: window_pair_def slot_end_eq split: option.splits)

lemma schedule_issues_eq:
  "representable_slots (bc_schedule b) \<Longrightarrow>
     validate_schedule_references_and_windows b = Some (schedule_issues b)"
  by (simp add: validate_schedule_references_and_windows_def schedule_issues_def representable_slots_def windows_loop_eq)

lemma windows_loop_Nil:
  "window_issues labels previous slots = [] \<longleftrightarrow>
     ps_antenna_label ` set slots \<subseteq> labels \<and>
     successively slot_after ((case previous of None \<Rightarrow> [] | Some q \<Rightarrow> [q]) @ slots)"
proof (induction slots arbitrary: previous)
  case Nil
  then show ?case by (simp split: option.split)
next
  case (Cons slot slots)
  show ?case
    by (cases previous) (auto simp: Cons.IH Let_def simp flip: slot_after_check)
qed

lemma successively_slot_after: "successively slot_after slots \<longleftrightarrow> sorted_wrt slot_after slots"
  by (rule successively_iff_sorted_wrt_strong) (blast intro: slot_after_trans)

text \<open>
  Comparing each slot only with the one before it is enough: the schedule check is silent
  exactly when every slot names a known antenna and all pairs of slots, not only neighbours,
  are ordered and disjoint; then at any instant at most one slot is open, so the slot an
  observation is assigned to does not depend on the order of the schedule.
\<close>

theorem schedule_windows_disjoint:
  "(schedule_issues b = [] \<longleftrightarrow> sound_schedule b) \<and>
   sorted_wrt (\<lambda>s t. slot_after s t \<and> {ps_starts_at s ..< end_instant s} \<inter> {ps_starts_at t ..< end_instant t} = {})
     (if sound_schedule b then sc_slots (bc_schedule b) else [])"
proof
  show "schedule_issues b = [] \<longleftrightarrow> sound_schedule b"
    by (simp add: schedule_issues_def windows_loop_Nil
        successively_slot_after sound_schedule_def)
  show "sorted_wrt (\<lambda>s t. slot_after s t \<and> {ps_starts_at s ..< end_instant s} \<inter> {ps_starts_at t ..< end_instant t} = {})
     (if sound_schedule b then sc_slots (bc_schedule b) else [])"
    by (auto simp: sound_schedule_def slot_after_def elim!: sorted_wrt_mono_rel [rotated])
qed

lemma schedule_Nil: "schedule_issues b = [] \<longleftrightarrow> sound_schedule b"
  by (simp add: schedule_issues_def windows_loop_Nil
      successively_slot_after sound_schedule_def)

lemma references_Nil: "validate_event_and_observation_references b = [] \<longleftrightarrow> slots_resolve b"
proof -
  have "(case x of None \<Rightarrow> [] | Some i \<Rightarrow> if i \<notin> ids then [f i] else []) = [] \<longleftrightarrow>
      x \<in> insert None (Some ` ids)" for x ids and f :: "string \<Rightarrow> bundle_validation_issue"
    by (cases x) auto
  then show ?thesis
    by (simp add: validate_event_and_observation_references_def Let_def slots_resolve_def
        image_subset_iff ball_Un del: insert_iff)
qed

lemma confidence_Nil: "validate_slot_confidence_ranges b = [] \<longleftrightarrow> confidences_ok b"
  by (auto simp: validate_slot_confidence_ranges_def confidences_ok_def list_all_iff
      split: option.splits if_splits)

definition mismatches :: "'j bundle_contents \<Rightarrow> bundle_validation_issue list" where
  "mismatches b = concat (map (\<lambda>ob. annotation_mismatches ob (assigned_in b ob)) (bc_observations b))"

lemma alignment_annotations_eq:
  "validate_alignment_annotations b = (if representable_slots (bc_schedule b) then Some (mismatches b) else None)"
proof -
  have "map (\<lambda>(ob, a). annotation_mismatches ob a) (zip obs (map f obs)) =
      map (\<lambda>ob. annotation_mismatches ob (f ob)) obs" for obs :: "'a observation_record list" and f
    by (induction obs) simp_all
  then show ?thesis
    by (simp add: validate_alignment_annotations_def align_eq alignment_of_def mismatches_def assigned_in_def)
qed

lemma mismatches_Nil: "mismatches b = [] \<longleftrightarrow> annotations_match b"
  by (auto simp: mismatches_def annotations_match_def annotation_mismatches_def list_all_iff)

lemma issues_eq:
  "validate_bundle_issues b =
     (if representable_slots (bc_schedule b)
      then Some (validate_schema_and_session b @ validate_all_duplicates b @ schedule_issues b @
        validate_event_and_observation_references b @ validate_slot_confidence_ranges b @ mismatches b)
      else None)"
  by (cases "validate_schedule_references_and_windows b")
    (auto simp: validate_bundle_issues_def alignment_annotations_eq schedule_issues_eq)

section \<open>Levels of the issues\<close>

text \<open>Whether an issue is about the annotations of an observation, which normalization owns.\<close>

fun tolerated_below :: "bundle_validation_issue \<Rightarrow> bundle_validation_profile set" where
  "tolerated_below (InvalidSlotConfidence _ _) = below_analysis"
| "tolerated_below (AlignmentAnnotationMismatch _ _ _ _) = below_creation"
| "tolerated_below _ = {}"

lemma blocks_issue: "blocks (diagnostic_from_issue i bundle) p \<longleftrightarrow> p \<notin> tolerated_below i"
  by (cases i; cases p; simp add: blocks_def issue_diagnostic_def operation_sets below_analysis_def
      below_creation_def case_prod_unfold Let_def)

lemma graded_issue [simp]: "graded (diagnostic_from_issue i bundle)"
  by (cases i) (simp_all add: graded_def issue_diagnostic_def case_prod_unfold Let_def)

lemma permits_issues:
  "permits p (map (\<lambda>i. diagnostic_from_issue i bundle) is) \<longleftrightarrow> list_all (\<lambda>i. p \<in> tolerated_below i) is"
  by (simp add: permits_def list.pred_map comp_def blocks_issue)

definition structural :: "bundle_validation_issue \<Rightarrow> bool" where
  "structural i \<longleftrightarrow> tolerated_below i = {}"

lemma structural_only:
  "list_all structural is \<Longrightarrow> list_all (\<lambda>i. p \<in> tolerated_below i) is \<longleftrightarrow> is = []"
  by (cases "is") (auto simp: structural_def)

lemma list_all_concat_map [simp]: "list_all P (concat (map f xs)) \<longleftrightarrow> list_all (\<lambda>x. list_all P (f x)) xs"
  by (induction xs) simp_all

lemma structural_duplicates_loop [simp]: "list_all structural (duplicates_loop kind seen ids)"
  by (induction ids arbitrary: seen) (simp_all add: structural_def)

lemma structural_windows_loop [simp]: "list_all structural (window_issues labels previous slots)"
  by (induction slots arbitrary: previous) (simp_all add: structural_def Let_def split: option.split)

lemma structural_Nil [simp]: "list_all structural (if c then [i] else []) \<longleftrightarrow> (c \<longrightarrow> structural i)"
  by simp

lemma structural_issue [simp]:
  "structural (UnexpectedSchemaVersion f r e a)" "structural (SessionIdMismatch f r e' a')"
  "structural (UnknownEventSlot x y)" "structural (UnknownObservationSlot x y)"
  by (simp_all add: structural_def)

lemma structural_root [simp]: "list_all structural (validate_root_schema_and_session f v v' i i')"
  by (simp add: validate_root_schema_and_session_def)

lemma structural_record_meta [simp]: "list_all structural (validate_record_meta f i v records)"
  by (simp add: validate_record_meta_def case_prod_unfold list.pred_True)

lemma structural_schema [simp]: "list_all structural (validate_schema_and_session b)"
  unfolding validate_schema_and_session_def Let_def list_all_append by simp

lemma structural_duplicates [simp]: "list_all structural (validate_all_duplicates b)"
  by (simp add: validate_all_duplicates_def validate_duplicates_def)

lemma structural_windows [simp]: "list_all structural (schedule_issues b)"
  by (simp add: schedule_issues_def)

lemma structural_references [simp]: "list_all structural (validate_event_and_observation_references b)"
proof -
  have "list_all structural (case x of None \<Rightarrow> [] | Some y \<Rightarrow> if y \<notin> ids then [UnknownEventSlot e y] else [])"
    and "list_all structural (case x of None \<Rightarrow> [] | Some y \<Rightarrow> if y \<notin> ids then [UnknownObservationSlot e y] else [])"
    for x e and ids :: "string set"
    by (simp_all split: option.split)
  then show ?thesis
    unfolding validate_event_and_observation_references_def Let_def list_all_append list_all_concat_map
    by (simp add: list.pred_True)
qed

lemma tolerated_confidence:
  "list_all (\<lambda>i. p \<in> tolerated_below i) (validate_slot_confidence_ranges b) \<longleftrightarrow>
     p \<in> below_analysis \<or> confidences_ok b"
  by (auto simp: validate_slot_confidence_ranges_def confidences_ok_def list_all_iff
      split: option.splits if_splits)

lemma tolerated_mismatches:
  "list_all (\<lambda>i. p \<in> tolerated_below i) (mismatches b) \<longleftrightarrow> p \<in> below_creation \<or> annotations_match b"
proof -
  have "list_all (\<lambda>i. p \<in> tolerated_below i) (annotation_mismatches ob a) \<longleftrightarrow>
      p \<in> below_creation \<or> annotation_mismatches ob a = []" for a and ob :: "'a observation_record"
    by (auto simp: annotation_mismatches_def)
  then have "list_all (\<lambda>i. p \<in> tolerated_below i) (mismatches b) \<longleftrightarrow>
      p \<in> below_creation \<or> mismatches b = []"
    by (simp add: mismatches_def list_all_disj_const) (simp add: list_all_iff)
  then show ?thesis by (simp add: mismatches_Nil)
qed

lemma structural_issues_Nil:
  "validate_schema_and_session b @ validate_all_duplicates b @
     schedule_issues b @ validate_event_and_observation_references b = [] \<longleftrightarrow>
   structurally_sound b"
  by (simp add: schema_and_session_Nil all_duplicates_Nil schedule_Nil references_Nil
      structurally_sound_def)

lemma tolerated_issues:
  assumes "validate_bundle_issues b = Some is"
  shows "list_all (\<lambda>i. p \<in> tolerated_below i) is \<longleftrightarrow> structurally_sound b \<and>
    (p \<in> below_analysis \<or> confidences_ok b) \<and> (p \<in> below_creation \<or> annotations_match b)"
proof -
  let ?st = "validate_schema_and_session b @ validate_all_duplicates b @
     schedule_issues b @ validate_event_and_observation_references b"
  have "is = ?st @ validate_slot_confidence_ranges b @ mismatches b"
    using assms by (simp add: issues_eq split: if_splits)
  moreover have "list_all (\<lambda>i. p \<in> tolerated_below i) ?st \<longleftrightarrow> ?st = []"
    by (rule structural_only) simp
  ultimately show ?thesis
    unfolding structural_issues_Nil by (simp add: tolerated_confidence tolerated_mismatches) blast
qed

lemma allows_report:
  "allows (report_from_issues b is) p \<longleftrightarrow>
     list_all (\<lambda>i. p \<in> tolerated_below i) is \<and> permits p (semantic_diagnostics b)"
proof -
  have "permits p ds \<longleftrightarrow> (\<forall>d \<in> set ds. \<not> blocks d p)" for ds by (simp add: permits_def list_all_iff)
  then show ?thesis
    unfolding report_from_issues_def allows_extend allows_new
    by (simp flip: permits_issues [of p "Some b"])
qed

lemma report_empty_iff: "report_is_empty (report_from_issues b is) \<longleftrightarrow>
    allows (report_from_issues b is) StrictCreation"
proof -
  have "list_all (\<lambda>i. StrictCreation \<in> tolerated_below i) is \<longleftrightarrow> is = []"
    using graded_permits(1) [of "map (\<lambda>i. diagnostic_from_issue i (Some b)) is"]
    by (simp add: permits_issues list.pred_map comp_def list.pred_True)
  then show ?thesis
    by (simp add: allows_report graded_permits(1)) (simp add: report_from_issues_def)
qed

text \<open>
  C1. Validation is the abstract contract, level by level.  When the guard and the end of every
  planned slot are instants of chrono's range, it returns a report: the bundle may be read
  exactly when it is \<open>structurally_sound\<close> (one schema version and session throughout, unique
  ids, known labels, disjoint ordered slots, resolving slot references), analysed exactly when
  moreover its confidences lie in [0, 1] and it is \<open>analysable\<close>, upgraded exactly when it is
  moreover \<open>writable\<close>, created exactly when moreover its annotations are the regenerated ones
  and it is \<open>creatable\<close>; so each profile includes the ones before it, and \<open>validate_bundle\<close>
  returns \<open>Ok\<close> exactly on the bundles that may be created.  When the guard or the end of some
  slot is past the range, validation panics instead of reporting it.
\<close>

theorem validation_contract:
  "if representable_slots (bc_schedule b)
   then \<exists>r. validate_bundle_report b = Some r \<and>
     (allows r CompatibilityRead \<longleftrightarrow> structurally_sound b) \<and>
     (allows r AnalysisProfile \<longleftrightarrow> structurally_sound b \<and> confidences_ok b \<and> analysable b) \<and>
     (allows r Upgrade \<longleftrightarrow> structurally_sound b \<and> confidences_ok b \<and> analysable b \<and> writable b) \<and>
     (allows r StrictCreation \<longleftrightarrow> structurally_sound b \<and> confidences_ok b \<and> analysable b \<and>
        writable b \<and> annotations_match b \<and> creatable b) \<and>
     (validate_bundle b = Some (Inr ()) \<longleftrightarrow> allows r StrictCreation) \<and>
     validate_bundle b \<noteq> None
   else validate_bundle_report b = None \<and> validate_bundle b = None"
proof (cases "representable_slots (bc_schedule b)")
  case True
  then obtain "is" where "is": "validate_bundle_issues b = Some is" by (simp add: issues_eq)
  let ?r = "report_from_issues b is"
  have level: "allows ?r p \<longleftrightarrow> structurally_sound b \<and>
      (p \<in> below_analysis \<or> confidences_ok b \<and> analysable b) \<and> (p \<in> below_write \<or> writable b) \<and>
      (p \<in> below_creation \<or> annotations_match b \<and> creatable b)" for p
    unfolding allows_report tolerated_issues [OF "is"] permits_semantic_diagnostics by blast
  have "validate_bundle_report b = Some ?r" by (simp add: validate_bundle_report_def "is")
  moreover have "validate_bundle b = Some (Inr ()) \<longleftrightarrow> allows ?r StrictCreation"
    and "validate_bundle b \<noteq> None"
    by (simp_all add: validate_bundle_def "is" Let_def error_from_issues_and_report_def
        flip: report_empty_iff)
  ultimately show ?thesis
    unfolding if_P [OF True]
    by (intro exI [of _ ?r] conjI)
      (simp_all add: level below_analysis_def below_write_def below_creation_def)
qed (simp add: validate_bundle_report_def validate_bundle_def issues_eq)

section \<open>Normalization repairs the annotations\<close>

fun about_annotation :: "bundle_validation_issue \<Rightarrow> bool" where
  "about_annotation (UnknownObservationSlot _ _) = True"
| "about_annotation (InvalidSlotConfidence _ _) = True"
| "about_annotation (AlignmentAnnotationMismatch _ _ _ _) = True"
| "about_annotation _ = False"

lemma find_assigned:
  "distinct (map ob_observation_id obs) \<Longrightarrow> ob \<in> set obs \<Longrightarrow>
     find (\<lambda>a. oa_observation_id a = ob_observation_id ob) (map (\<lambda>ob. assigned ob slots policy) obs) =
       Some (assigned ob slots policy)"
  by (induction obs) (auto intro: rev_image_eqI)

definition annotate :: "observation_slot_assignment \<Rightarrow> 'j observation_record \<Rightarrow> 'j observation_record" where
  "annotate a ob = ob\<lparr>ob_slot_id := oa_slot_id a, ob_slot_label := oa_slot_label a,
     ob_slot_confidence := Some (oa_confidence a)\<rparr>"

lemma annotate_simps [simp]:
  "ob_meta (annotate a ob) = ob_meta ob" "ob_observation_id (annotate a ob) = ob_observation_id ob"
  "ob_slot_id (annotate a ob) = oa_slot_id a" "ob_slot_label (annotate a ob) = oa_slot_label a"
  "ob_slot_confidence (annotate a ob) = Some (oa_confidence a)"
  "unannotated (annotate a ob) = unannotated ob"
  by (simp_all add: annotate_def unannotated_def)

lemma normalize_distinct:
  assumes "distinct (map ob_observation_id (bc_observations b))" and "representable_slots (bc_schedule b)"
  shows "normalize_bundle b =
    Some (b\<lparr>bc_observations := map (\<lambda>ob. annotate (assigned_in b ob) ob) (bc_observations b)\<rparr>)"
proof -
  have "apply_slot_assignments (bc_observations b) (map (assigned_in b) (bc_observations b)) =
      map (\<lambda>ob. annotate (assigned_in b ob) ob) (bc_observations b)"
    using find_assigned [OF assms(1)]
    by (simp add: apply_slot_assignments_def assigned_in_def [abs_def] annotate_def)
  then show ?thesis using assms(2) by (simp add: normalize_eq assigned_in_def [abs_def])
qed

lemma assigned_in_annotated:
  "bc_schedule n = bc_schedule b \<Longrightarrow> bc_events n = bc_events b \<Longrightarrow>
     assigned_in n (annotate a ob) = assigned_in b ob"
  by (simp add: assigned_in_def) (rule assigned_unannotated, simp)

lemma confidence_matches_self: "slot_confidence_matches (Some (oa_confidence (assigned ob slots policy)))
    (Some (oa_confidence (assigned ob slots policy)))"
  using confidence_range [of ob slots policy] by (auto simp: slot_confidence_matches_def SLOT_CONFIDENCE_TOLERANCE_def)

lemma normalized_annotations:
  fixes b :: "'j bundle_contents"
  assumes "n = b\<lparr>bc_observations := map (\<lambda>ob. annotate (assigned_in b ob) ob) (bc_observations b)\<rparr>"
  shows "annotations_match n" and "confidences_ok n"
    and "ob_slot_id ` set (bc_observations n) \<subseteq>
      insert None (Some ` ps_slot_id ` set (sc_slots (bc_schedule n)))"
proof -
  have same: "bc_schedule n = bc_schedule b" "bc_events n = bc_events b" by (simp_all add: assms)
  then have again: "assigned_in n (annotate a ob) = assigned_in b ob" for a ob
    by (rule assigned_in_annotated)
  have "slot_confidence_matches (Some (oa_confidence (assigned_in b ob))) (Some (oa_confidence (assigned_in b ob)))"
    for ob
    unfolding assigned_in_def by (rule confidence_matches_self)
  moreover have "bc_observations n = map (\<lambda>ob. annotate (assigned_in b ob) ob) (bc_observations b)"
    by (simp add: assms)
  ultimately show "annotations_match n"
    by (simp add: annotations_match_def list_all_iff again)
  have "unit_interval (oa_confidence (assigned_in b ob))" for ob
    using confidence_range [of ob "aligned_slots (bc_schedule b) (bc_events b)" default_slot_alignment_policy]
    by (auto simp: unit_interval_def assigned_in_def f32_defs)
  then show "confidences_ok n" by (simp add: confidences_ok_def assms list.pred_map comp_def list_all_iff)
  have slots: "as_slot_id ` set (aligned_slots (bc_schedule b) (bc_events b)) =
      ps_slot_id ` set (sc_slots (bc_schedule b))"
    by (simp add: aligned_slots_def image_image)
  have known: "oa_slot_id (assigned_in b ob) \<in> insert None (Some ` ps_slot_id ` set (sc_slots (bc_schedule b)))"
    for ob
    unfolding assigned_in_def slots [symmetric] by (rule assigned_slot_known)
  show "ob_slot_id ` set (bc_observations n) \<subseteq>
      insert None (Some ` ps_slot_id ` set (sc_slots (bc_schedule n)))"
  proof
    fix x assume "x \<in> ob_slot_id ` set (bc_observations n)"
    then obtain ob where "x = oa_slot_id (assigned_in b ob)" by (auto simp: assms)
    with known [of ob] show "x \<in> insert None (Some ` ps_slot_id ` set (sc_slots (bc_schedule n)))"
      by (simp only: same)
  qed
qed

lemma not_about_structural_loops [simp]:
  "list_all (\<lambda>i. \<not> about_annotation i) (duplicates_loop kind seen ids)"
  "list_all (\<lambda>i. \<not> about_annotation i) (window_issues labels previous slots)"
  by (induction ids arbitrary: seen; simp)
    (induction slots arbitrary: previous; simp add: Let_def split: option.split)

lemma not_about_if [simp]: "list_all P (if c then [i] else []) \<longleftrightarrow> (c \<longrightarrow> P i)"
  by simp

lemma not_about_schema [simp]:
  "list_all (\<lambda>i. \<not> about_annotation i) (validate_schema_and_session b)"
proof -
  have root: "list_all (\<lambda>i. \<not> about_annotation i) (validate_root_schema_and_session f v v' i i')"
    for f v v' i i'
    by (simp add: validate_root_schema_and_session_def)
  have meta: "list_all (\<lambda>i. \<not> about_annotation i) (validate_record_meta f i v records)" for f i v records
    by (simp add: validate_record_meta_def case_prod_unfold list.pred_True)
  show ?thesis
    unfolding validate_schema_and_session_def Let_def list_all_append
    by (simp add: root meta)
qed

lemma filter_all: "list_all P xs \<Longrightarrow> filter P xs = xs"
  by (induction xs) auto

lemma filter_none: "list_all (\<lambda>x. \<not> P x) xs \<Longrightarrow> filter P xs = []"
  by (induction xs) auto

definition event_references :: "'j bundle_contents \<Rightarrow> bundle_validation_issue list" where
  "event_references b = concat (map (\<lambda>event. case ev_slot_id event of None \<Rightarrow> []
       | Some slot_id \<Rightarrow> if slot_id \<notin> set (map ps_slot_id (sc_slots (bc_schedule b)))
           then [UnknownEventSlot (ev_event_id event) slot_id] else []) (bc_events b))"

definition observation_references :: "'j bundle_contents \<Rightarrow> bundle_validation_issue list" where
  "observation_references b = concat (map (\<lambda>ob. case ob_slot_id ob of None \<Rightarrow> []
       | Some slot_id \<Rightarrow> if slot_id \<notin> set (map ps_slot_id (sc_slots (bc_schedule b)))
           then [UnknownObservationSlot (ob_observation_id ob) slot_id] else []) (bc_observations b))"

lemma references_split:
  "validate_event_and_observation_references b = event_references b @ observation_references b"
  unfolding validate_event_and_observation_references_def Let_def event_references_def
    observation_references_def by (rule refl)

lemma about_references [simp]:
  "list_all (\<lambda>i. \<not> about_annotation i) (event_references b)"
  "list_all about_annotation (observation_references b)"
  by (auto simp: event_references_def observation_references_def list_all_iff
      split: option.splits if_splits)

lemma about_annotations [simp]:
  "list_all about_annotation (validate_slot_confidence_ranges b)"
  "list_all about_annotation (mismatches b)"
  by (auto simp: validate_slot_confidence_ranges_def mismatches_def annotation_mismatches_def
      list_all_iff split: option.splits if_splits)

lemma filter_issues:
  assumes "representable_slots (bc_schedule b)"
  shows "map_option (filter (\<lambda>i. \<not> about_annotation i)) (validate_bundle_issues b) = Some
     (validate_schema_and_session b @ validate_all_duplicates b @
      schedule_issues b @ event_references b)"
proof -
  have "list_all (\<lambda>i. \<not> about_annotation i) (validate_all_duplicates b)"
    and "list_all (\<lambda>i. \<not> about_annotation i) (schedule_issues b)"
    by (simp_all add: validate_all_duplicates_def validate_duplicates_def schedule_issues_def)
  then show ?thesis
    using assms by (simp add: issues_eq references_split filter_all filter_none)
qed

text \<open>
  Normalizing a bundle with distinct observation ids repairs exactly the annotations: the
  issues of the normalized bundle are, in order, the issues of the original except those
  about an observation's slot, label or confidence, of which none is left; the repaired
  annotations are the regenerated ones and lie in [0, 1].
\<close>

theorem normalization_repairs:
  assumes "distinct (map ob_observation_id (bc_observations b))" and "representable_slots (bc_schedule b)"
  shows "\<exists>n. normalize_bundle b = Some n \<and> annotations_match n \<and> confidences_ok n \<and>
    validate_bundle_issues n = map_option (filter (\<lambda>i. \<not> about_annotation i)) (validate_bundle_issues b)"
proof -
  obtain n where n: "n = b\<lparr>bc_observations := map (\<lambda>ob. annotate (assigned_in b ob) ob) (bc_observations b)\<rparr>"
    by simp
  note ok = normalized_annotations [OF n]
  have "validate_schema_and_session n = validate_schema_and_session b"
    "validate_all_duplicates n = validate_all_duplicates b"
    "schedule_issues n = schedule_issues b"
    "event_references n = event_references b"
    by (simp_all add: n validate_schema_and_session_def validate_all_duplicates_def comp_def Let_def
        schedule_issues_def event_references_def cong: if_cong option.case_cong)
  moreover have "observation_references n = []"
    using ok(3) by (auto simp: observation_references_def split: option.split) force
  moreover have "validate_slot_confidence_ranges n = []" "mismatches n = []"
    using ok by (simp_all add: confidence_Nil mismatches_Nil)
  moreover have "representable_slots (bc_schedule n)" using assms(2) by (simp add: n)
  ultimately have "validate_bundle_issues n = Some (validate_schema_and_session b @ validate_all_duplicates b @
      schedule_issues b @ event_references b)"
    by (simp only: issues_eq [of n] references_split if_True append_Nil2 append_Nil append_assoc)
  then have "validate_bundle_issues n = map_option (filter (\<lambda>i. \<not> about_annotation i)) (validate_bundle_issues b)"
    by (simp only: filter_issues [OF assms(2)])
  with normalize_distinct [OF assms] ok n show ?thesis by blast
qed

definition sample_bundle :: "unit bundle_contents" where
  "sample_bundle =
     \<lparr>bc_manifest = \<lparr>bm_schema_version = 2, bm_session_id = ''session'', bm_created_at = 0,
        bm_app_version = ''0'', bm_files = default_bundle_files\<rparr>,
      bc_station = \<lparr>st_schema_version = 2, st_session_id = ''session'', st_callsign = ''N1RWJ'',
        st_grid = ''FN42'', st_power_watts = None, st_operator_notes = None\<rparr>,
      bc_antennas = \<lparr>af_schema_version = 2, af_session_id = ''session'', af_antennas = []\<rparr>,
      bc_schedule = sample_slot_schedule, bc_events = [sample_switch],
      bc_observations = [sample_observation], bc_wsjtx = [], bc_rig = [], bc_propagation = [],
      bc_analysis = \<lparr>al_schema_version = 2, al_session_id = ''session'', al_generated_at = None,
        al_status = NotRun, al_notes = []\<rparr>\<rparr>"

theorem normalization_repairs_witness:
  "\<exists>n. normalize_bundle sample_bundle = Some n \<and> annotations_match n \<and> confidences_ok n \<and>
    validate_bundle_issues n =
      map_option (filter (\<lambda>i. \<not> about_annotation i)) (validate_bundle_issues sample_bundle)"
  by (rule normalization_repairs)
    (simp_all add: sample_bundle_def representable_slots_def representable_slot_def in_utc_def MIN_UTC_def MAX_UTC_def
      sample_slot_schedule_def sample_slot_def guard_instant_def end_instant_def seconds_def)

end
