(* ===== verification/BundleTypes.thy ===== *)
theory BundleTypes
  imports EventData
begin

text \<open>
  The bundles of schemas v2 to v6 (\<open>crates/core/src/v2.rs\<close>, \<open>v3.rs\<close>,
  \<open>v5_antenna_control.rs\<close>, \<open>v6.rs\<close>, \<open>v6/diagnostic.rs\<close>): adapter, observation, rig and
  propagation records, session state, antenna-control invocations, runtime contexts and
  operational diagnostics.  A field with a default (\<open>#[serde(default)]\<close>) is an ordinary
  field; the serialized form is not modelled.  The JSON payloads are of type \<open>'j\<close>.
\<close>

section \<open>Adapter records\<close>

datatype adapter_disposition =
    Accepted | Malformed | Filtered | DuplicateInput | ConflictingInput | Unsupported
  | PartiallyNormalized

datatype normalized_record_kind = NormalizedObservation | NormalizedRig | NormalizedPropagation

record normalized_record_link =
  nl_record_kind :: normalized_record_kind
  nl_record_id :: string

record attachment_reference =
  at_sha256 :: string
  at_byte_size :: nat
  at_media_type :: string
  at_encoding :: "string option"
  at_container :: "string option"
  at_source_locator :: "string option"

definition is_lower_hex :: "char \<Rightarrow> bool" where
  "is_lower_hex c \<longleftrightarrow> is_ascii_digit c \<or> ((97 :: nat) \<le> of_char c \<and> of_char c \<le> (102 :: nat))"

definition has_valid_digest :: "attachment_reference \<Rightarrow> bool" where
  "has_valid_digest a \<longleftrightarrow> length (at_sha256 a) = 64 \<and> list_all is_lower_hex (at_sha256 a)"

definition relative_path :: "attachment_reference \<Rightarrow> string option" where
  "relative_path a = bool_then (has_valid_digest a) (''sha256/'' @ at_sha256 a)"

datatype adapter_input =
    Inline string string "string option" "string option"
  | Attachment attachment_reference

record adapter_record_v2 =
  ar_meta :: record_meta_v2
  ar_record_id :: string
  ar_source_time :: "timestamp option"
  ar_record_type :: string
  ar_disposition :: adapter_disposition
  ar_reason :: adapter_reason_id
  ar_normalized_records :: "normalized_record_link list"
  ar_input :: adapter_input

section \<open>Observations, rig and propagation records\<close>

record 'j observation_record_v2 =
  o2_meta :: record_meta_v2
  o2_observation_id :: string
  o2_adapter_record_ids :: "string list"
  o2_observation_kind :: observation_kind
  o2_band :: band
  o2_frequency_hz :: "nat option"
  o2_mode :: "string option"
  o2_reporter_call :: "string option"
  o2_heard_call :: "string option"
  o2_reporter_grid :: "string option"
  o2_heard_grid :: "string option"
  o2_distance_km :: "fl option"
  o2_azimuth_degrees :: "fl option"
  o2_snr_db :: "fl option"
  o2_drift_hz_per_minute :: "fl option"
  o2_power_watts :: "fl option"
  o2_slot_id :: "string option"
  o2_slot_label :: "string option"
  o2_slot_confidence :: "fl option"
  o2_raw :: 'j

record 'j rig_record_v2 =
  r2_meta :: record_meta_v2
  r2_record_id :: string
  r2_adapter_record_ids :: "string list"
  r2_status :: string
  r2_frequency_hz :: "nat option"
  r2_mode :: "string option"
  r2_raw :: 'j

record 'j propagation_record_v2 =
  q2_meta :: record_meta_v2
  q2_record_id :: string
  q2_adapter_record_ids :: "string list"
  q2_observed_at :: timestamp
  q2_solar_flux_f107 :: "fl option"
  q2_sunspot_number :: "nat option"
  q2_kp_index :: "fl option"
  q2_a_index :: "nat option"
  q2_solar_wind_speed_kms :: "fl option"
  q2_bz_nt :: "fl option"
  q2_alerts :: "string list"
  q2_daylight_state :: "string option"
  q2_raw :: 'j

section \<open>Operational diagnostics of schema v6\<close>

datatype diagnostic_operation =
    SessionMutation | CheckpointRecovery | WsprLiveAcquisition | AdapterFileImport | WsjtxIntake
  | AntennaControllerAttach | AntennaControllerSwitch | AntennaControllerVerify | ReportRender
  | ReportExport | BundleExport

datatype diagnostic_phase =
    Admission | Preflight | Acquire | Parse | Normalize | Serialize | Checkpoint | Finalize
  | Recover | Render | WriteDestination

datatype diagnostic_outcome =
  Failed | Partial | Recovered | Cancelled | CompletedIdempotently | UnknownOutcome

datatype diagnostic_severity = InfoLevel | WarningLevel | ErrorLevel

datatype evidence_effect =
    NoneCommitted | EarlierEvidenceRetained | PrimaryEvidenceCommitted | PriorCommitReused
  | CancelledBeforeEffect | UnknownEffect

datatype retry_disposition =
  Retryable | RequiresStateChange | RequiresInputChange | NotRetryable | UnknownRetry

record diagnostic_retry =
  dr_disposition :: retry_disposition
  dr_guidance_code :: string

datatype diagnostic_target =
    TargetAdapter string
  | TargetSource string
  | TargetMutation string
  | TargetRecord string
  | TargetSlot string
  | TargetIntent string
  | TargetAcquisitionWindow timestamp timestamp

datatype diagnostic_fact_value =
    FactBool bool
  | FactI64 int
  | FactU64 nat
  | FactTimestamp timestamp
  | FactEnum string
  | FactIdentifier string

record diagnostic_fact =
  df_name :: string
  df_value :: diagnostic_fact_value

record diagnostic_cause =
  dc_code :: string
  dc_phase :: diagnostic_phase
  dc_facts :: "diagnostic_fact list"

datatype diagnostic_detail_state = DetailComplete | DetailTruncated

record diagnostic_detail_status =
  de_state :: diagnostic_detail_state
  de_omitted_fact_count :: nat

record operational_diagnostic =
  od_schema :: string
  od_diagnostic_id :: string
  od_correlation_id :: string
  od_attempt_id :: string
  od_mutation :: mutation_member
  od_runtime_context_id :: string
  od_occurred_at :: timestamp
  od_operation :: diagnostic_operation
  od_phase :: diagnostic_phase
  od_code :: string
  od_summary :: string
  od_outcome :: diagnostic_outcome
  od_severity :: diagnostic_severity
  od_revision_before :: "nat option"
  od_revision_after :: "nat option"
  od_diagnostic_revision :: nat
  od_evidence_effect :: evidence_effect
  od_retry :: diagnostic_retry
  od_targets :: "diagnostic_target list"
  od_causes :: "diagnostic_cause list"
  od_detail_status :: diagnostic_detail_status

datatype diagnostics_state = StateComplete | StateSaturated | StateGap

record diagnostics_status =
  ds_state :: diagnostics_state
  ds_omitted_count :: nat
  ds_first_omitted_at :: "timestamp option"
  ds_reason_code :: "string option"

definition diagnostics_status_complete :: diagnostics_status where
  "diagnostics_status_complete =
     \<lparr>ds_state = StateComplete, ds_omitted_count = 0, ds_first_omitted_at = None,
      ds_reason_code = None\<rparr>"

section \<open>Manifest and session state\<close>

record bundle_files_v2 =
  f2_manifest :: string
  f2_session_state :: string
  f2_station :: string
  f2_antennas :: string
  f2_schedule :: string
  f2_events :: string
  f2_observations :: string
  f2_adapter_records :: string
  f2_rig :: string
  f2_propagation :: string
  f2_analysis :: string
  f2_attachments_dir :: string
  f2_runtime_contexts :: "string option"
  f2_diagnostics :: "string option"

definition default_bundle_files_v2 :: bundle_files_v2 where
  "default_bundle_files_v2 =
     \<lparr>f2_manifest = ''manifest.json'',
      f2_session_state = ''session-state.json'',
      f2_station = ''station.json'',
      f2_antennas = ''antennas.json'',
      f2_schedule = ''schedule.json'',
      f2_events = ''events.jsonl'',
      f2_observations = ''observations.jsonl'',
      f2_adapter_records = ''adapter-records.jsonl'',
      f2_rig = ''rig.jsonl'',
      f2_propagation = ''propagation.jsonl'',
      f2_analysis = ''analysis.json'',
      f2_attachments_dir = ''attachments'',
      f2_runtime_contexts = None,
      f2_diagnostics = None\<rparr>"

record bundle_manifest_v2 =
  n2_schema_version :: nat
  n2_session_id :: string
  n2_created_at :: timestamp
  n2_app_version :: string
  n2_files :: bundle_files_v2
  n2_creator_runtime_context_id :: "string option"

record plan_generation =
  pg_generation_id :: string
  pg_station_sha256 :: string
  pg_antennas_sha256 :: string
  pg_schedule_sha256 :: string
  pg_root_sha256 :: string

record stream_checkpoint =
  ck_committed_bytes :: nat
  ck_record_count :: nat
  ck_last_record_id :: "string option"
  ck_committed_sha256 :: string

record session_state_v2 =
  ss_schema_version :: nat
  ss_session_id :: string
  ss_revision :: nat
  ss_lifecycle :: session_lifecycle
  ss_wspr_live_acquisition_enabled :: bool
  ss_active_plan :: plan_generation
  ss_streams :: "string \<Rightarrow> stream_checkpoint option"
  ss_last_committed_mutation_id :: "string option"
  ss_active_runtime_context_id :: "string option"
  ss_diagnostics_status :: "diagnostics_status option"

record 'j bundle_v2_contents =
  b2_manifest :: bundle_manifest_v2
  b2_session_state :: session_state_v2
  b2_station :: station
  b2_antennas :: antennas_file
  b2_schedule :: schedule
  b2_events :: "operator_event_v2 list"
  b2_observations :: "'j observation_record_v2 list"
  b2_adapter_records :: "adapter_record_v2 list"
  b2_rig :: "'j rig_record_v2 list"
  b2_propagation :: "'j propagation_record_v2 list"
  b2_analysis :: analysis_file

section \<open>Antenna control of schema v5\<close>

datatype antenna_control_role = SwitchRole | VerificationRole

record antenna_control_command =
  cc_program_template :: string
  cc_argument_templates :: "string list"
  cc_resolved_program :: string
  cc_resolved_arguments :: "string list"

record antenna_control_context =
  cx_antenna :: string
  cx_target :: string
  cx_mode :: experiment_mode
  cx_direction :: wspr_cycle_direction
  cx_band :: band
  cx_frequency_hz :: "nat option"
  cx_sequence :: nat
  cx_intent_id :: string
  cx_session_id :: string
  cx_callsign :: string

datatype antenna_control_disposition =
    Exit int
  | SpawnError string
  | Signaled "int option"
  | Timeout

definition is_exit_zero :: "antenna_control_disposition \<Rightarrow> bool" where
  "is_exit_zero d \<longleftrightarrow> d = Exit 0"

datatype antenna_control_output_encoding = Utf8 | Base64

record antenna_control_output =
  ou_encoding :: antenna_control_output_encoding
  ou_data :: string
  ou_truncated :: bool

record antenna_control_invocation =
  iv_role :: antenna_control_role
  iv_controller_profile_name :: string
  iv_controller_profile_revision :: string
  iv_command :: antenna_control_command
  iv_context :: antenna_control_context
  iv_started_at :: timestamp
  iv_completed_at :: timestamp
  iv_elapsed_milliseconds :: nat
  iv_disposition :: antenna_control_disposition
  iv_stdout :: antenna_control_output
  iv_stderr :: antenna_control_output

record 'j rig_record_v3 =
  r3_meta :: record_meta_v3
  r3_record_id :: string
  r3_adapter_record_ids :: "string list"
  r3_status :: string
  r3_frequency_hz :: "nat option"
  r3_mode :: "string option"
  r3_power_watts :: "fl option"
  r3_antenna_control :: "antenna_control_invocation option"
  r3_raw :: 'j

section \<open>Runtime contexts of schema v6\<close>

datatype source_state = Clean | Dirty | UnknownSource

datatype build_channel = OfficialRelease | Development | LocalBuild | UnknownChannel

datatype build_timestamp_source = SourceDateEpoch

record build_timestamp =
  bt_value :: timestamp
  bt_source :: build_timestamp_source

record build_identity =
  bi_app_version :: "string option"
  bi_source_commit :: "string option"
  bi_source_state :: source_state
  bi_build_channel :: build_channel
  bi_release_tag :: "string option"
  bi_target_triple :: "string option"
  bi_build_architecture :: "string option"
  bi_build_timestamp :: "build_timestamp option"

record runtime_platform =
  pl_os_family :: "string option"
  pl_os_version :: "string option"
  pl_runtime_architecture :: "string option"
  pl_application_id :: "string option"

record runtime_context =
  rc_schema :: string
  rc_context_id :: string
  rc_first_recorded_at :: timestamp
  rc_mutation :: mutation_member
  rc_build :: build_identity
  rc_platform :: runtime_platform

section \<open>The bundle of schemas v3 to v6\<close>

record 'j bundle_v3_contents =
  b3_manifest :: bundle_manifest_v2
  b3_session_state :: session_state_v2
  b3_station :: station
  b3_antennas :: antennas_file
  b3_schedule :: schedule_v3
  b3_events :: "operator_event_v3 list"
  b3_observations :: "'j observation_record_v2 list"
  b3_adapter_records :: "adapter_record_v2 list"
  b3_rig :: "'j rig_record_v3 list"
  b3_propagation :: "'j propagation_record_v2 list"
  b3_analysis :: analysis_file
  b3_runtime_contexts :: "runtime_context list"
  b3_diagnostics :: "operational_diagnostic list"

end
