(* ===== verification/Upgrade.thy ===== *)
theory Upgrade
  imports BundleTypes WsprRun
begin

text \<open>
  The schema upgrades v2 to v3 (\<open>crates/core/src/v3.rs\<close>) and v3 or v4 to v5
  (\<open>v5_antenna_control.rs\<close>), and the projection of schema-v3 events back to schema v2.
  The upgrade of events is proved to be undone by the projection and to commute with the
  event reduction, so an upgrade never changes what a session's history means.
\<close>

section \<open>Schema v2 to schema v3\<close>

definition upgrade_v2_meta :: "record_meta_v2 \<Rightarrow> record_meta_v3" where
  "upgrade_v2_meta m = m\<lparr>m2_schema_version := SCHEMA_VERSION_V3\<rparr>"

fun upgrade_v2_correctable :: "correctable_v2 \<Rightarrow> correctable_v3" where
  "upgrade_v2_correctable (CAntennaStateConfirmed2 antenna_label note) =
     CAntennaStateConfirmed3 antenna_label note"
| "upgrade_v2_correctable (CSlotMissed2 reason) = CSlotMissed3 reason"
| "upgrade_v2_correctable (CSlotBad2 reason) = CSlotBad3 reason"
| "upgrade_v2_correctable (CNoteAdded2 note) = CNoteAdded3 note"

definition upgrade_v2_replacement :: "replacement_v2 \<Rightarrow> replacement_v3" where
  "upgrade_v2_replacement r =
     \<lparr>rp_occurred_at = rp_occurred_at r, rp_time_basis = rp_time_basis r,
      rp_uncertainty_seconds = rp_uncertainty_seconds r, rp_slot_id = rp_slot_id r,
      rp_payload = upgrade_v2_correctable (rp_payload r)\<rparr>"

fun upgrade_v2_correction :: "correction_v2 \<Rightarrow> correction_v3" where
  "upgrade_v2_correction Retract = Retract"
| "upgrade_v2_correction (Replace replacement) = Replace (upgrade_v2_replacement replacement)"

fun upgrade_v2_payload :: "payload_v2 \<Rightarrow> payload_v3" where
  "upgrade_v2_payload (SessionStarted2 note) = SessionStarted3 note"
| "upgrade_v2_payload (SessionInterrupted2 reason) = SessionInterrupted3 reason"
| "upgrade_v2_payload (InterruptionDetected2 reason) = InterruptionDetected3 reason"
| "upgrade_v2_payload (SessionResumed2 note) = SessionResumed3 note"
| "upgrade_v2_payload (SessionEnded2 reason) = SessionEnded3 reason"
| "upgrade_v2_payload (SessionAbandoned2 reason) = SessionAbandoned3 reason"
| "upgrade_v2_payload (AntennaStateConfirmed2 antenna_label note) = AntennaStateConfirmed3 antenna_label note"
| "upgrade_v2_payload (SlotMissed2 reason) = SlotMissed3 reason"
| "upgrade_v2_payload (SlotBad2 reason) = SlotBad3 reason"
| "upgrade_v2_payload (NoteAdded2 note) = NoteAdded3 note"
| "upgrade_v2_payload (EventCorrected2 target_event_id correction reason) =
     EventCorrected3 target_event_id (upgrade_v2_correction correction) reason"

definition with_payload :: "'p operator_event_record \<Rightarrow> record_meta_v2 \<Rightarrow> 'q \<Rightarrow> 'q operator_event_record" where
  "with_payload e m payload =
     \<lparr>oe_meta = m, oe_event_id = oe_event_id e, oe_occurred_at = oe_occurred_at e,
      oe_time_basis = oe_time_basis e, oe_uncertainty_seconds = oe_uncertainty_seconds e,
      oe_slot_id = oe_slot_id e, oe_payload = payload\<rparr>"

definition upgrade_v2_event :: "operator_event_v2 \<Rightarrow> operator_event_v3" where
  "upgrade_v2_event e = with_payload e (upgrade_v2_meta (oe_meta e)) (upgrade_v2_payload (oe_payload e))"

definition upgrade_v2_rig :: "'j rig_record_v2 \<Rightarrow> 'j rig_record_v3" where
  "upgrade_v2_rig r =
     \<lparr>r3_meta = upgrade_v2_meta (r2_meta r), r3_record_id = r2_record_id r,
      r3_adapter_record_ids = r2_adapter_record_ids r, r3_status = r2_status r,
      r3_frequency_hz = r2_frequency_hz r, r3_mode = r2_mode r, r3_power_watts = None,
      r3_antenna_control = None, r3_raw = r2_raw r\<rparr>"

definition upgrade_v2_slot :: "planned_slot \<Rightarrow> planned_slot_v3" where
  "upgrade_v2_slot slot =
     \<lparr>p3_slot_id = ps_slot_id slot, p3_sequence_number = ps_sequence_number slot,
      p3_starts_at = ps_starts_at slot, p3_duration_seconds = ps_duration_seconds slot,
      p3_guard_seconds = ps_guard_seconds slot, p3_band = ps_band slot,
      p3_antenna_label = ps_antenna_label slot, p3_signal = None\<rparr>"

definition upgrade_v2_schedule :: "schedule \<Rightarrow> schedule_v3" where
  "upgrade_v2_schedule s =
     \<lparr>s3_schema_version = SCHEMA_VERSION_V3, s3_session_id = sc_session_id s, s3_mode = sc_mode s,
      s3_goal = sc_goal s, s3_antenna_control = None, s3_signal_plans = [],
      s3_wspr_cycle_intents = [], s3_slots = map upgrade_v2_slot (sc_slots s)\<rparr>"

definition upgrade_v2_bundle_model :: "'j bundle_v2_contents \<Rightarrow> 'j bundle_v3_contents" where
  "upgrade_v2_bundle_model b =
     \<lparr>b3_manifest = (b2_manifest b)\<lparr>n2_schema_version := SCHEMA_VERSION_V3\<rparr>,
      b3_session_state = (b2_session_state b)\<lparr>ss_schema_version := SCHEMA_VERSION_V3\<rparr>,
      b3_station = (b2_station b)\<lparr>st_schema_version := SCHEMA_VERSION_V3\<rparr>,
      b3_antennas = (b2_antennas b)\<lparr>af_schema_version := SCHEMA_VERSION_V3\<rparr>,
      b3_schedule = upgrade_v2_schedule (b2_schedule b),
      b3_events = map upgrade_v2_event (b2_events b),
      b3_observations = map (\<lambda>r. r\<lparr>o2_meta := upgrade_v2_meta (o2_meta r)\<rparr>) (b2_observations b),
      b3_adapter_records = map (\<lambda>r. r\<lparr>ar_meta := upgrade_v2_meta (ar_meta r)\<rparr>) (b2_adapter_records b),
      b3_rig = map upgrade_v2_rig (b2_rig b),
      b3_propagation = map (\<lambda>r. r\<lparr>q2_meta := upgrade_v2_meta (q2_meta r)\<rparr>) (b2_propagation b),
      b3_analysis = (b2_analysis b)\<lparr>al_schema_version := SCHEMA_VERSION_V3\<rparr>,
      b3_runtime_contexts = [], b3_diagnostics = []\<rparr>"

section \<open>Schema-v3 events projected to schema v2\<close>

definition project_v3_meta_to_v2 :: "record_meta_v3 \<Rightarrow> record_meta_v2" where
  "project_v3_meta_to_v2 m = m\<lparr>m2_schema_version := SCHEMA_VERSION_V2\<rparr>"

fun project_v3_correctable :: "correctable_v3 \<Rightarrow> correctable_v2 option" where
  "project_v3_correctable (CAntennaStateConfirmed3 antenna_label note) =
     Some (CAntennaStateConfirmed2 antenna_label note)"
| "project_v3_correctable (CSignalStateConfirmed3 _) = None"
| "project_v3_correctable (CSlotMissed3 reason) = Some (CSlotMissed2 reason)"
| "project_v3_correctable (CSlotBad3 reason) = Some (CSlotBad2 reason)"
| "project_v3_correctable (CNoteAdded3 note) = Some (CNoteAdded2 note)"

fun project_v3_correction_to_v2 :: "correction_v3 \<Rightarrow> correction_v2 option" where
  "project_v3_correction_to_v2 Retract = Some Retract"
| "project_v3_correction_to_v2 (Replace r) =
     map_option (\<lambda>payload. Replace
         \<lparr>rp_occurred_at = rp_occurred_at r, rp_time_basis = rp_time_basis r,
          rp_uncertainty_seconds = rp_uncertainty_seconds r, rp_slot_id = rp_slot_id r,
          rp_payload = payload\<rparr>)
       (project_v3_correctable (rp_payload r))"

fun project_v3_payload :: "payload_v3 \<Rightarrow> payload_v2 option" where
  "project_v3_payload (SessionStarted3 note) = Some (SessionStarted2 note)"
| "project_v3_payload (SessionInterrupted3 reason) = Some (SessionInterrupted2 reason)"
| "project_v3_payload (InterruptionDetected3 reason) = Some (InterruptionDetected2 reason)"
| "project_v3_payload (SessionResumed3 note) = Some (SessionResumed2 note)"
| "project_v3_payload (SessionEnded3 reason) = Some (SessionEnded2 reason)"
| "project_v3_payload (SessionAbandoned3 reason) = Some (SessionAbandoned2 reason)"
| "project_v3_payload (AntennaSwitchStarted3 _) = None"
| "project_v3_payload (WsprCycleArmed3 antenna_label _ _) =
     Some (AntennaStateConfirmed2 antenna_label (Some ''Antenna ready for the armed WSPR cycle.''))"
| "project_v3_payload (AntennaStateConfirmed3 antenna_label note) =
     Some (AntennaStateConfirmed2 antenna_label note)"
| "project_v3_payload (SignalStateConfirmed3 _) = None"
| "project_v3_payload (SlotMissed3 reason) = Some (SlotMissed2 reason)"
| "project_v3_payload (SlotBad3 reason) = Some (SlotBad2 reason)"
| "project_v3_payload (NoteAdded3 note) = Some (NoteAdded2 note)"
| "project_v3_payload (EventCorrected3 target_event_id correction reason) =
     map_option (\<lambda>c. EventCorrected2 target_event_id c reason) (project_v3_correction_to_v2 correction)"

definition project_v3_event_to_v2 :: "operator_event_v3 \<Rightarrow> operator_event_v2 option" where
  "project_v3_event_to_v2 e =
     map_option (with_payload e (project_v3_meta_to_v2 (oe_meta e))) (project_v3_payload (oe_payload e))"

section \<open>Schemas v3 and v4 to schema v5\<close>

definition upgrade_meta_v5 :: "record_meta_v2 \<Rightarrow> record_meta_v2" where
  "upgrade_meta_v5 m = m\<lparr>m2_schema_version := SCHEMA_VERSION_V5\<rparr>"

fun confirm_readiness :: "payload_v3 \<Rightarrow> payload_v3" where
  "confirm_readiness (WsprCycleArmed3 antenna_label cycle_starts_at _) =
     WsprCycleArmed3 antenna_label cycle_starts_at (Some OperatorConfirmed)"
| "confirm_readiness payload = payload"

definition upgrade_event_v5 :: "operator_event_v3 \<Rightarrow> operator_event_v3" where
  "upgrade_event_v5 e = e\<lparr>oe_meta := upgrade_meta_v5 (oe_meta e),
     oe_payload := confirm_readiness (oe_payload e)\<rparr>"

definition upgrade_v3_bundle_model_to_v5 :: "'j bundle_v3_contents \<Rightarrow> 'j bundle_v3_contents" where
  "upgrade_v3_bundle_model_to_v5 b =
     b\<lparr>b3_manifest := (b3_manifest b)\<lparr>n2_schema_version := SCHEMA_VERSION_V5\<rparr>,
       b3_session_state := (b3_session_state b)\<lparr>ss_schema_version := SCHEMA_VERSION_V5\<rparr>,
       b3_station := (b3_station b)\<lparr>st_schema_version := SCHEMA_VERSION_V5\<rparr>,
       b3_antennas := (b3_antennas b)\<lparr>af_schema_version := SCHEMA_VERSION_V5\<rparr>,
       b3_schedule := (b3_schedule b)\<lparr>s3_schema_version := SCHEMA_VERSION_V5,
         s3_antenna_control := Some Manual\<rparr>,
       b3_analysis := (b3_analysis b)\<lparr>al_schema_version := SCHEMA_VERSION_V5\<rparr>,
       b3_events := map upgrade_event_v5 (b3_events b),
       b3_observations := map (\<lambda>r. r\<lparr>o2_meta := upgrade_meta_v5 (o2_meta r)\<rparr>) (b3_observations b),
       b3_adapter_records := map (\<lambda>r. r\<lparr>ar_meta := upgrade_meta_v5 (ar_meta r)\<rparr>) (b3_adapter_records b),
       b3_rig := map (\<lambda>r. r\<lparr>r3_meta := upgrade_meta_v5 (r3_meta r), r3_antenna_control := None\<rparr>) (b3_rig b),
       b3_propagation := map (\<lambda>r. r\<lparr>q2_meta := upgrade_meta_v5 (q2_meta r)\<rparr>) (b3_propagation b)\<rparr>"

section \<open>An upgrade and the projection that undoes it\<close>

locale schema_upgrade =
  fixes up :: "'a \<Rightarrow> 'b" and down :: "'b \<Rightarrow> 'a option" and current :: "'a \<Rightarrow> bool"
  assumes down_up: "current x \<Longrightarrow> down (up x) = Some x"
begin

lemma up_inject: "current x \<Longrightarrow> current y \<Longrightarrow> up x = up y \<Longrightarrow> x = y"
  by (metis down_up option.inject)

lemma history_kept: "list_all current xs \<Longrightarrow> List.map_filter down (map up xs) = xs"
  by (induction xs) (simp_all add: down_up)

lemma histories_distinguished:
  "list_all current xs \<Longrightarrow> list_all current ys \<Longrightarrow> map up xs = map up ys \<Longrightarrow> xs = ys"
  by (metis history_kept)

end

lemma project_upgrade_correctable [simp]:
  "project_v3_correctable (upgrade_v2_correctable c) = Some c"
  by (cases c) simp_all

lemma project_upgrade_correction [simp]:
  "project_v3_correction_to_v2 (upgrade_v2_correction c) = Some c"
  by (cases c) (simp_all add: upgrade_v2_replacement_def)

lemma project_upgrade_payload [simp]: "project_v3_payload (upgrade_v2_payload p) = Some p"
  by (cases p) simp_all

lemma project_upgrade_event: "project_v3_event_to_v2 (upgrade_v2_event e) =
    Some (e\<lparr>oe_meta := project_v3_meta_to_v2 (oe_meta e)\<rparr>)"
  by (simp add: project_v3_event_to_v2_def upgrade_v2_event_def with_payload_def
      project_v3_meta_to_v2_def upgrade_v2_meta_def)

definition is_v2_event :: "operator_event_v2 \<Rightarrow> bool" where
  "is_v2_event e \<longleftrightarrow> m2_schema_version (oe_meta e) = SCHEMA_VERSION_V2"

lemma project_v3_meta_id: "m2_schema_version m = SCHEMA_VERSION_V2 \<Longrightarrow> project_v3_meta_to_v2 m = m"
  by (simp add: project_v3_meta_to_v2_def)

interpretation v2_v3: schema_upgrade upgrade_v2_event project_v3_event_to_v2 is_v2_event
  by unfold_locales (simp add: project_upgrade_event is_v2_event_def project_v3_meta_id)

interpretation v2_v3_correction: schema_upgrade upgrade_v2_correction project_v3_correction_to_v2 "\<lambda>_. True"
  by unfold_locales simp

text \<open>
  C15. The upgrade of schema-v2 events to schema v3 loses nothing: projecting the upgraded
  history back gives the history itself, so two different schema-v2 histories never upgrade
  to the same schema-v3 history.
\<close>

theorem event_upgrade_roundtrip:
  assumes "list_all is_v2_event es" and "list_all is_v2_event es'"
  shows "List.map_filter project_v3_event_to_v2 (map upgrade_v2_event es) = es \<and>
    (map upgrade_v2_event es = map upgrade_v2_event es' \<longleftrightarrow> es = es')"
  using assms v2_v3.history_kept v2_v3.histories_distinguished by blast

definition as_v2 :: "operator_event_v2 \<Rightarrow> operator_event_v2" where
  "as_v2 e = e\<lparr>oe_meta := project_v3_meta_to_v2 (oe_meta e)\<rparr>"

theorem event_upgrade_roundtrip_witness:
  "List.map_filter project_v3_event_to_v2 (map upgrade_v2_event [as_v2 note_event]) = [as_v2 note_event] \<and>
    (map upgrade_v2_event [as_v2 note_event] = map upgrade_v2_event [as_v2 retract_event] \<longleftrightarrow>
       [as_v2 note_event] = [as_v2 retract_event])"
  by (rule event_upgrade_roundtrip)
    (simp_all add: is_v2_event_def as_v2_def project_v3_meta_to_v2_def)

section \<open>The upgrade commutes with the reduction\<close>

text \<open>The reducer state of schema v2, seen in schema v3.\<close>

definition up_effective :: "effective_v2 \<Rightarrow> effective_v3" where
  "up_effective e =
     \<lparr>ef_session_id = ef_session_id e, ef_source_event_id = ef_source_event_id e,
      ef_effective_through_event_id = ef_effective_through_event_id e,
      ef_recorded_at = ef_recorded_at e, ef_occurred_at = ef_occurred_at e,
      ef_time_basis = ef_time_basis e, ef_uncertainty_seconds = ef_uncertainty_seconds e,
      ef_slot_id = ef_slot_id e, ef_payload = upgrade_v2_correctable (ef_payload e)\<rparr>"

definition up_reducer :: "correctable_v2 reducer \<Rightarrow> correctable_v3 reducer" where
  "up_reducer s =
     \<lparr>rd_lifecycle = rd_lifecycle s, rd_diagnostics = rd_diagnostics s, rd_seen_ids = rd_seen_ids s,
      rd_originals = rd_originals s, rd_effective = map (map_option up_effective) (rd_effective s)\<rparr>"

definition up_reduction :: "correctable_v2 event_reduction \<Rightarrow> correctable_v3 event_reduction" where
  "up_reduction r =
     \<lparr>re_lifecycle = re_lifecycle r, re_effective_events = map up_effective (re_effective_events r),
      re_diagnostics = re_diagnostics r\<rparr>"

lemma upgrade_event_fields [simp]:
  "oe_event_id (upgrade_v2_event e) = oe_event_id e"
  "oe_slot_id (upgrade_v2_event e) = oe_slot_id e"
  "oe_payload (upgrade_v2_event e) = upgrade_v2_payload (oe_payload e)"
  "oe_occurred_at (upgrade_v2_event e) = oe_occurred_at e"
  "m2_session_id (oe_meta (upgrade_v2_event e)) = m2_session_id (oe_meta e)"
  "m2_recorded_at (oe_meta (upgrade_v2_event e)) = m2_recorded_at (oe_meta e)"
  "oe_time_basis (upgrade_v2_event e) = oe_time_basis e"
  "oe_uncertainty_seconds (upgrade_v2_event e) = oe_uncertainty_seconds e"
  by (simp_all add: upgrade_v2_event_def with_payload_def upgrade_v2_meta_def)

lemma upgrade_shape_replacement [simp]:
  "replacement_shape_error_v3 (upgrade_v2_replacement r) = replacement_shape_error r"
  by (cases "rp_payload r") (simp_all add: upgrade_v2_replacement_def)

lemma upgrade_shape [simp]: "event_shape_error_v3 (upgrade_v2_event e) = event_shape_error e"
  by (cases "oe_payload e")
    (simp_all add: event_shape_error_v3_def event_shape_error_def
      del: replacement_shape_error.simps replacement_shape_error_v3.simps split: correction_action.split)

lemma upgrade_kind [simp]:
  "is_lifecycle_payload_v3 (upgrade_v2_payload p) = is_lifecycle_payload p"
  "is_operational_payload_v3 (upgrade_v2_payload p) = False"
  "correctable_payload_v3 (upgrade_v2_payload p) = map_option upgrade_v2_correctable (correctable_payload p)"
  by (cases p; simp)+

lemma upgrade_transition [simp]:
  "apply_lifecycle_transition_v3 l (upgrade_v2_payload p) = apply_lifecycle_transition l p"
  by (cases l; cases p; simp)

lemma upgrade_diagnostic [simp]: "diagnostic (upgrade_v2_event e) r c m = diagnostic e r c m"
  by (simp add: diagnostic_def)

lemma upgrade_effective [simp]:
  "effective_from_event (upgrade_v2_event e) (upgrade_v2_correctable c) = up_effective (effective_from_event e c)"
  "effective_from_replacement t (upgrade_v2_event e) (upgrade_v2_replacement r) =
     up_effective (effective_from_replacement t e r)"
  by (simp_all add: effective_from_event_def effective_from_replacement_def up_effective_def
      upgrade_v2_replacement_def)

lemma up_reducer_fields [simp]:
  "rd_lifecycle (up_reducer s) = rd_lifecycle s" "rd_seen_ids (up_reducer s) = rd_seen_ids s"
  "rd_originals (up_reducer s) = rd_originals s" "rd_diagnostics (up_reducer s) = rd_diagnostics s"
  "rd_effective (up_reducer s) = map (map_option up_effective) (rd_effective s)"
  by (simp_all add: up_reducer_def)

lemma up_reducer_ops:
  "up_reducer (push_diagnostic d s) = push_diagnostic d (up_reducer s)"
  "up_reducer (see i s) = see i (up_reducer s)"
  "up_reducer (set_lifecycle l s) = set_lifecycle l (up_reducer s)"
  "up_reducer (set_effective n x s) = set_effective n (map_option up_effective x) (up_reducer s)"
  "up_reducer (add_original i v s) = add_original i (up_effective v) (up_reducer s)"
  by (simp_all add: up_reducer_def push_diagnostic_def see_def set_lifecycle_def set_effective_def
      add_original_def map_update)

lemma reduce_step_upgrade:
  "reduce_step_v3 (up_reducer s) (upgrade_v2_event e) = up_reducer (reduce_step_v2 s e)"
proof (cases "oe_event_id e \<in> rd_seen_ids s")
  case True
  then show ?thesis by (simp add: reduce_step_v3_def reduce_step_v2_def up_reducer_ops)
next
  case fresh: False
  let ?s = "see (oe_event_id e) s"
  show ?thesis
  proof (cases "event_shape_error e")
    case (Some m)
    with fresh show ?thesis by (simp add: reduce_step_v3_def reduce_step_v2_def Let_def up_reducer_ops)
  next
    case shape: None
    show ?thesis
    proof (cases "is_lifecycle_payload (oe_payload e)")
      case True
      with fresh shape show ?thesis
        by (simp add: reduce_step_v3_def reduce_step_v2_def Let_def up_reducer_ops split: sum.split)
    next
      case evidence: False
      show ?thesis
      proof (cases "is_terminal (rd_lifecycle s)")
        case True
        with fresh shape evidence show ?thesis
          by (simp add: reduce_step_v3_def reduce_step_v2_def Let_def up_reducer_ops)
      next
        case running: False
        show ?thesis
        proof (cases "oe_payload e")
          case (EventCorrected2 t c r)
          with fresh shape evidence running show ?thesis
            by (cases c) (simp_all add: reduce_step_v3_def reduce_step_v2_def Let_def up_reducer_ops
                split: option.split)
        qed (use fresh shape evidence running in \<open>simp_all add: reduce_step_v3_def reduce_step_v2_def
            Let_def up_reducer_ops flip: upgrade_effective\<close>)
      qed
    qed
  qed
qed

lemma reduce_fold_upgrade:
  "foldl reduce_step_v3 (up_reducer s) (map upgrade_v2_event es) = up_reducer (foldl reduce_step_v2 s es)"
  by (induction es arbitrary: s) (simp_all add: reduce_step_upgrade)

text \<open>
  C14. Upgrading a history to schema v3 and then reducing it gives the upgrade of its schema-v2
  reduction: the same lifecycle, the same diagnostics with the same messages, and the same
  effective evidence in the same order.
\<close>

theorem upgrade_commutes_with_reduction:
  "reduce_operator_events_v3 l (map upgrade_v2_event es) = up_reduction (reduce_operator_events_v2 l es)"
proof -
  have "up_reducer (init_reducer l) = init_reducer l"
    by (simp add: up_reducer_def init_reducer_def)
  with reduce_fold_upgrade [of "init_reducer l" es] show ?thesis
    by (simp add: reduce_operator_events_v3_def reduce_operator_events_v2_def finish_reducer_def
        up_reduction_def flatten_map_map_option)
qed

end
