(* ===== verification/CurrentBundle.thy ===== *)
theory CurrentBundle
  imports Upgrade "HOL-Library.Product_Lexorder"
begin

text \<open>
  The projection of every bundle schema to the one analysis model
  (\<open>CurrentBundleContents::from_v1\<close> and \<open>BundleV2Contents::into_current\<close> of
  \<open>crates/core/src/v2.rs\<close>, \<open>BundleV3Contents::into_current\<close> of \<open>v3.rs\<close>) and the repair of
  confirmed WSPR.live observations (\<open>wspr_live_projection.rs\<close>).  Reading the string member
  \<open>direction\<close> of a JSON payload is the parameter \<open>direction_of\<close> (\<open>serde_json\<close>).
\<close>

section \<open>The current model\<close>

datatype current_record_kind = CurrentEvent | CurrentObservation | CurrentRig | CurrentPropagation

record current_record_provenance =
  cp_record_kind :: current_record_kind
  cp_record_id :: string
  cp_provenance :: provenance

record 'j current_bundle_contents =
  cb_bundle :: "'j bundle_contents"
  cb_record_provenance :: "current_record_provenance list"
  cb_adapter_records :: "adapter_record_v2 list"
  cb_session_state :: "session_state_v2 option"

definition legacy_record_provenance ::
    "current_record_kind \<Rightarrow> string \<Rightarrow> record_source \<Rightarrow> current_record_provenance option" where
  "legacy_record_provenance kind i src =
     map_option (\<lambda>p. \<lparr>cp_record_kind = kind, cp_record_id = i, cp_provenance = p\<rparr>)
       (from_legacy src ''legacy-v1'')"

definition from_v1 :: "'j bundle_contents \<Rightarrow> 'j current_bundle_contents option" where
  "from_v1 b =
     map_option (\<lambda>provenance. \<lparr>cb_bundle = b, cb_record_provenance = provenance,
         cb_adapter_records = [], cb_session_state = None\<rparr>)
       (those
         (map (\<lambda>e. legacy_record_provenance CurrentEvent (ev_event_id e) (rm_source (ev_meta e)))
            (bc_events b) @
          map (\<lambda>ob. legacy_record_provenance CurrentObservation (ob_observation_id ob) (rm_source (ob_meta ob)))
            (bc_observations b) @
          map (\<lambda>r. legacy_record_provenance CurrentRig (rg_record_id r) (rm_source (rg_meta r)))
            (bc_rig b) @
          map (\<lambda>r. legacy_record_provenance CurrentPropagation (pr_record_id r) (rm_source (pr_meta r)))
            (bc_propagation b)))"

section \<open>Schema v2\<close>

text \<open>Collecting into a \<open>BTreeMap\<close>: a later entry replaces an earlier one with its key.\<close>

definition collect_map :: "('k \<times> 'v) list \<Rightarrow> 'k \<Rightarrow> 'v option" where
  "collect_map entries = foldl (\<lambda>m (k, v). m(k \<mapsto> v)) (\<lambda>_. None) entries"

fun current_events ::
    "(string \<Rightarrow> operator_event option) \<Rightarrow> operator_event_v2 list \<Rightarrow> operator_event list" where
  "current_events effective [] = []"
| "current_events effective (e # es) =
     (case project_legacy_lifecycle e of
        Some x \<Rightarrow> x # current_events effective es
      | None \<Rightarrow>
          (case effective (oe_event_id e) of
             Some x \<Rightarrow> x # current_events (effective(oe_event_id e := None)) es
           | None \<Rightarrow> current_events effective es))"

definition current_observation :: "'j observation_record_v2 \<Rightarrow> 'j observation_record" where
  "current_observation r =
     \<lparr>ob_meta = project_meta (o2_meta r), ob_observation_id = o2_observation_id r,
      ob_observation_kind = o2_observation_kind r, ob_band = o2_band r,
      ob_frequency_hz = o2_frequency_hz r, ob_mode = o2_mode r,
      ob_reporter_call = o2_reporter_call r, ob_heard_call = o2_heard_call r,
      ob_reporter_grid = o2_reporter_grid r, ob_heard_grid = o2_heard_grid r,
      ob_distance_km = o2_distance_km r, ob_azimuth_degrees = o2_azimuth_degrees r,
      ob_snr_db = o2_snr_db r, ob_drift_hz_per_minute = o2_drift_hz_per_minute r,
      ob_power_watts = o2_power_watts r, ob_slot_id = o2_slot_id r, ob_slot_label = o2_slot_label r,
      ob_slot_confidence = o2_slot_confidence r, ob_raw = o2_raw r\<rparr>"

definition current_rig :: "'j rig_record_v2 \<Rightarrow> 'j rig_record" where
  "current_rig r =
     \<lparr>rg_meta = project_meta (r2_meta r), rg_record_id = r2_record_id r, rg_status = r2_status r,
      rg_frequency_hz = r2_frequency_hz r, rg_mode = r2_mode r, rg_raw = r2_raw r\<rparr>"

definition current_propagation :: "'j propagation_record_v2 \<Rightarrow> 'j propagation_record" where
  "current_propagation r =
     \<lparr>pr_meta = project_meta (q2_meta r), pr_record_id = q2_record_id r,
      pr_observed_at = q2_observed_at r, pr_solar_flux_f107 = q2_solar_flux_f107 r,
      pr_sunspot_number = q2_sunspot_number r, pr_kp_index = q2_kp_index r,
      pr_a_index = q2_a_index r, pr_solar_wind_speed_kms = q2_solar_wind_speed_kms r,
      pr_bz_nt = q2_bz_nt r, pr_alerts = q2_alerts r, pr_daylight_state = q2_daylight_state r,
      pr_raw = q2_raw r\<rparr>"

definition record_provenance ::
    "current_record_kind \<Rightarrow> string \<Rightarrow> record_meta_v2 \<Rightarrow> current_record_provenance" where
  "record_provenance kind i m =
     \<lparr>cp_record_kind = kind, cp_record_id = i, cp_provenance = m2_provenance m\<rparr>"

definition effective_legacy :: "operator_event_v2 list \<Rightarrow> string \<Rightarrow> operator_event option" where
  "effective_legacy events =
     collect_map (map (\<lambda>e. (ev_event_id e, e))
       (List.map_filter project_legacy
         (re_effective_events (reduce_operator_events_v2 Ready events))))"

definition into_current_v2 :: "'j bundle_v2_contents \<Rightarrow> 'j current_bundle_contents" where
  "into_current_v2 b =
     \<lparr>cb_bundle =
        \<lparr>bc_manifest =
           \<lparr>bm_schema_version = SCHEMA_VERSION_V2, bm_session_id = n2_session_id (b2_manifest b),
            bm_created_at = n2_created_at (b2_manifest b),
            bm_app_version = n2_app_version (b2_manifest b), bm_files = default_bundle_files\<rparr>,
         bc_station = b2_station b, bc_antennas = b2_antennas b, bc_schedule = b2_schedule b,
         bc_events = current_events (effective_legacy (b2_events b)) (b2_events b),
         bc_observations = map current_observation (b2_observations b), bc_wsjtx = [],
         bc_rig = map current_rig (b2_rig b),
         bc_propagation = map current_propagation (b2_propagation b),
         bc_analysis = b2_analysis b\<rparr>,
      cb_record_provenance =
        map (\<lambda>e. record_provenance CurrentEvent (oe_event_id e) (oe_meta e)) (b2_events b) @
        map (\<lambda>r. record_provenance CurrentObservation (o2_observation_id r) (o2_meta r)) (b2_observations b) @
        map (\<lambda>r. record_provenance CurrentRig (r2_record_id r) (r2_meta r)) (b2_rig b) @
        map (\<lambda>r. record_provenance CurrentPropagation (q2_record_id r) (q2_meta r)) (b2_propagation b),
      cb_adapter_records = b2_adapter_records b,
      cb_session_state = Some (b2_session_state b)\<rparr>"

section \<open>The repair of WSPR.live observations\<close>

definition wspr_direction :: "string \<Rightarrow> wspr_cycle_direction option" where
  "wspr_direction v =
     (if v = ''receive'' then Some Receive else if v = ''transmit'' then Some Transmit else None)"

definition source_times :: "adapter_record_v2 list \<Rightarrow> string \<Rightarrow> timestamp option" where
  "source_times adapter_records =
     collect_map (List.map_filter
       (\<lambda>record.
         Option.bind (ar_source_time record) (\<lambda>source_time.
           map_option (\<lambda>link. (nl_record_id link, source_time))
             (find (\<lambda>link. nl_record_kind link = NormalizedObservation) (ar_normalized_records record))))
       (filter (\<lambda>record. ar_disposition record = Accepted \<and> ar_record_type record = ''wspr_live_spot'' \<and>
           provider_str (pv_provider_id (m2_provenance (ar_meta record))) = ''wspr-live'')
         adapter_records))"

definition confirmed_cycle ::
    "(timestamp \<Rightarrow> bool) \<Rightarrow> (string \<Rightarrow> wspr_cycle_direction option option) \<Rightarrow> armed_wspr_cycle list
       \<Rightarrow> band \<Rightarrow> wspr_cycle_direction \<Rightarrow> timestamp \<Rightarrow> armed_wspr_cycle option" where
  "confirmed_cycle rep directions cycles observed direction source_time =
     find (\<lambda>cycle.
         ac_covered cycle \<and> ac_band cycle = observed \<and>
         flatten_option (directions (ac_intent_id cycle)) = Some direction \<and>
         (case checked_add_signed rep (cw_starts_at (ac_window cycle))
                 (- seconds WSPR_NOMINAL_START_OFFSET_SECONDS) of
            None \<Rightarrow> False
          | Some canonical_start \<Rightarrow> canonical_start \<le> source_time) \<and>
         source_time < cw_transmission_ends_at (ac_window cycle))
       cycles"

definition repaired :: "'j observation_record_v2 \<Rightarrow> armed_wspr_cycle \<Rightarrow> 'j observation_record_v2" where
  "repaired ob cycle =
     ob\<lparr>o2_meta := (o2_meta ob)\<lparr>m2_recorded_at := cw_starts_at (ac_window cycle)\<rparr>,
        o2_slot_id := Some (ac_intent_id cycle),
        o2_slot_label := Some (ac_antenna_label cycle),
        o2_slot_confidence := Some (Finite (15938355 / 16777216))\<rparr>"

definition repair_confirmed_wspr_live_observations ::
    "('j \<Rightarrow> string option) \<Rightarrow> (timestamp \<Rightarrow> bool) \<Rightarrow> nat \<Rightarrow> schedule_v3 \<Rightarrow> operator_event_v3 list
       \<Rightarrow> 'j observation_record_v2 list \<Rightarrow> adapter_record_v2 list \<Rightarrow> 'j observation_record_v2 list" where
  "repair_confirmed_wspr_live_observations direction_of rep schema_version sched events observations
     adapter_records =
     (if schema_version < SCHEMA_VERSION_V4 then observations
      else
        let directions = collect_map
              (map (\<lambda>intent. (wi_intent_id intent, wi_direction intent)) (s3_wspr_cycle_intents sched));
            projection = project_wspr_run_v3 rep sched events;
            times = source_times adapter_records
        in map (\<lambda>observation.
             case times (o2_observation_id observation) of
               None \<Rightarrow> observation
             | Some source_time \<Rightarrow>
                 (case Option.bind (direction_of (o2_raw observation)) wspr_direction of
                    None \<Rightarrow> observation
                  | Some direction \<Rightarrow>
                      (case confirmed_cycle rep directions (wp_cycles projection) (o2_band observation)
                              direction source_time of
                         None \<Rightarrow> observation
                       | Some cycle \<Rightarrow> repaired observation cycle)))
           observations)"

section \<open>Schemas v3 to v6\<close>

definition project_slot_v3 :: "planned_slot_v3 \<Rightarrow> planned_slot" where
  "project_slot_v3 slot =
     \<lparr>ps_slot_id = p3_slot_id slot, ps_sequence_number = p3_sequence_number slot,
      ps_starts_at = p3_starts_at slot, ps_duration_seconds = p3_duration_seconds slot,
      ps_guard_seconds = p3_guard_seconds slot, ps_band = p3_band slot,
      ps_antenna_label = p3_antenna_label slot\<rparr>"

definition add_armed_slot ::
    "schedule_v3 \<Rightarrow> planned_slot list \<Rightarrow> operator_event_v3 \<Rightarrow> planned_slot list" where
  "add_armed_slot sched projected_slots event =
     (case oe_payload event of
        WsprCycleArmed3 antenna_label cycle_starts_at _ \<Rightarrow>
          (case oe_slot_id event of
             None \<Rightarrow> projected_slots
           | Some intent_id \<Rightarrow>
               (case find (\<lambda>intent. wi_intent_id intent = intent_id) (s3_wspr_cycle_intents sched) of
                  None \<Rightarrow> projected_slots
                | Some intent \<Rightarrow>
                    if list_ex (\<lambda>slot. ps_slot_id slot = wi_intent_id intent) projected_slots
                    then projected_slots
                    else projected_slots @
                      [\<lparr>ps_slot_id = wi_intent_id intent, ps_sequence_number = wi_sequence_number intent,
                        ps_starts_at = cycle_starts_at, ps_duration_seconds = 120, ps_guard_seconds = 0,
                        ps_band = wi_band intent, ps_antenna_label = antenna_label\<rparr>]))
      | _ \<Rightarrow> projected_slots)"

definition slot_order :: "planned_slot \<Rightarrow> nat \<times> timestamp" where
  "slot_order slot = (ps_sequence_number slot, ps_starts_at slot)"

definition project_schedule_v3 :: "schedule_v3 \<Rightarrow> operator_event_v3 list \<Rightarrow> schedule" where
  "project_schedule_v3 sched events =
     \<lparr>sc_schema_version = SCHEMA_VERSION_V2, sc_session_id = s3_session_id sched,
      sc_mode = s3_mode sched, sc_goal = s3_goal sched,
      sc_slots = sort_key slot_order
        (foldl (add_armed_slot sched) (map project_slot_v3 (s3_slots sched)) events)\<rparr>"

definition project_v3_rig_to_v2 :: "'j rig_record_v3 \<Rightarrow> 'j rig_record_v2" where
  "project_v3_rig_to_v2 r =
     \<lparr>r2_meta = project_v3_meta_to_v2 (r3_meta r), r2_record_id = r3_record_id r,
      r2_adapter_record_ids = r3_adapter_record_ids r, r2_status = r3_status r,
      r2_frequency_hz = r3_frequency_hz r, r2_mode = r3_mode r, r2_raw = r3_raw r\<rparr>"

definition project_v3_bundle_to_v2 ::
    "('j \<Rightarrow> string option) \<Rightarrow> (timestamp \<Rightarrow> bool) \<Rightarrow> 'j bundle_v3_contents \<Rightarrow> 'j bundle_v2_contents" where
  "project_v3_bundle_to_v2 direction_of rep b =
     (let observations = repair_confirmed_wspr_live_observations direction_of rep
            (n2_schema_version (b3_manifest b)) (b3_schedule b) (b3_events b) (b3_observations b)
            (b3_adapter_records b) in
      \<lparr>b2_manifest = (b3_manifest b)\<lparr>n2_schema_version := SCHEMA_VERSION_V2\<rparr>,
       b2_session_state = (b3_session_state b)\<lparr>ss_schema_version := SCHEMA_VERSION_V2\<rparr>,
       b2_station = (b3_station b)\<lparr>st_schema_version := SCHEMA_VERSION_V2\<rparr>,
       b2_antennas = (b3_antennas b)\<lparr>af_schema_version := SCHEMA_VERSION_V2\<rparr>,
       b2_schedule = project_schedule_v3 (b3_schedule b) (b3_events b),
       b2_events = List.map_filter project_v3_event_to_v2 (b3_events b),
       b2_observations = map (\<lambda>r. r\<lparr>o2_meta := project_v3_meta_to_v2 (o2_meta r)\<rparr>) observations,
       b2_adapter_records =
         map (\<lambda>r. r\<lparr>ar_meta := project_v3_meta_to_v2 (ar_meta r)\<rparr>) (b3_adapter_records b),
       b2_rig = map project_v3_rig_to_v2 (b3_rig b),
       b2_propagation =
         map (\<lambda>r. r\<lparr>q2_meta := project_v3_meta_to_v2 (q2_meta r)\<rparr>) (b3_propagation b),
       b2_analysis = (b3_analysis b)\<lparr>al_schema_version := SCHEMA_VERSION_V2\<rparr>\<rparr>)"

definition into_current_v3 ::
    "('j \<Rightarrow> string option) \<Rightarrow> (timestamp \<Rightarrow> bool) \<Rightarrow> 'j bundle_v3_contents
       \<Rightarrow> 'j current_bundle_contents" where
  "into_current_v3 direction_of rep b =
     (let all_event_provenance =
            map (\<lambda>e. record_provenance CurrentEvent (oe_event_id e) (oe_meta e)) (b3_events b);
          current = into_current_v2 (project_v3_bundle_to_v2 direction_of rep b);
          projected_event_ids = set (map cp_record_id
            (filter (\<lambda>r. cp_record_kind r = CurrentEvent) (cb_record_provenance current)))
      in current\<lparr>cb_record_provenance := cb_record_provenance current @
           filter (\<lambda>r. cp_record_id r \<notin> projected_event_ids) all_event_provenance\<rparr>)"

section \<open>Properties\<close>

lemma those_legacy_provenance:
  "those (map (\<lambda>x. legacy_record_provenance kind (i x) (src x)) xs) =
     Some (map (\<lambda>x. \<lparr>cp_record_kind = kind, cp_record_id = i x,
       cp_provenance = legacy_provenance (src x) ''legacy-v1''\<rparr>) xs)"
  by (induction xs) (simp_all add: legacy_record_provenance_def from_legacy_eq)

lemma those_append: "those xs = Some xs' \<Longrightarrow> those ys = Some ys' \<Longrightarrow> those (xs @ ys) = Some (xs' @ ys')"
  by (induction xs arbitrary: xs') (auto split: option.splits)

text \<open>The legacy sources a schema-v1 bundle's records report, in the order of the projection.\<close>

definition v1_sources :: "'j bundle_contents \<Rightarrow> record_source list" where
  "v1_sources b =
     map (\<lambda>r. rm_source (ev_meta r)) (bc_events b) @ map (\<lambda>r. rm_source (ob_meta r)) (bc_observations b) @
     map (\<lambda>r. rm_source (rg_meta r)) (bc_rig b) @ map (\<lambda>r. rm_source (pr_meta r)) (bc_propagation b)"

text \<open>
  Reading a schema-v1 bundle never panics on its static identities, keeps the bundle
  itself, and gives every event, observation, rig and propagation record a provenance from
  which its legacy source can be read back.
\<close>

theorem from_v1_total:
  "\<exists>c. from_v1 b = Some c \<and> cb_bundle c = b \<and>
     map (\<lambda>r. legacy_source (cp_provenance r)) (cb_record_provenance c) = v1_sources b \<and>
     map cp_record_id (cb_record_provenance c) =
       map ev_event_id (bc_events b) @ map ob_observation_id (bc_observations b) @
       map rg_record_id (bc_rig b) @ map pr_record_id (bc_propagation b)"
  by (simp add: from_v1_def those_append [OF those_legacy_provenance
        those_append [OF those_legacy_provenance
          those_append [OF those_legacy_provenance those_legacy_provenance]]]
      v1_sources_def comp_def)

section \<open>The events of the current model\<close>

lemma reduce_step_v2_originals:
  "rd_originals (reduce_step_v2 s e) i \<noteq> None \<Longrightarrow>
     rd_originals s i \<noteq> None \<or> oe_event_id e = i \<and> correctable_payload (oe_payload e) \<noteq> None"
  by (auto simp: reduce_step_v2_def Let_def
      split: if_splits option.splits sum.splits payload_v2.splits correction_action.splits)

lemma originals_are_evidence:
  "rd_originals (foldl reduce_step_v2 (init_reducer l) es) i \<noteq> None \<Longrightarrow>
     \<exists>e \<in> set es. oe_event_id e = i \<and> correctable_payload (oe_payload e) \<noteq> None"
proof (induction es rule: rev_induct)
  case (snoc e es)
  then show ?case using reduce_step_v2_originals by fastforce
qed simp

lemma correctable_not_lifecycle:
  "correctable_payload (oe_payload e) \<noteq> None \<Longrightarrow> project_legacy_lifecycle e = None"
  by (cases "oe_payload e") (simp_all add: project_legacy_lifecycle_def)

lemma effective_are_evidence:
  assumes "v \<in> set (re_effective_events (reduce_operator_events_v2 l es))"
  shows "\<exists>e \<in> set es. oe_event_id e = ef_source_event_id v \<and> project_legacy_lifecycle e = None"
proof -
  let ?s = "foldl reduce_step_v2 (init_reducer l) es"
  obtain ks where ks: "keyed ?s ks" using v2.run_keyed by blast
  from assms have "Some v \<in> set (rd_effective ?s)"
    by (simp add: reduce_operator_events_v2_def finish_reducer_def)
  then obtain n where n: "n < length (rd_effective ?s)" "rd_effective ?s ! n = Some v"
    by (auto simp: in_set_conv_nth)
  with ks have "rd_originals ?s (ef_source_event_id v) = Some n" by (simp add: keyed_def)
  then show ?thesis using originals_are_evidence correctable_not_lifecycle by fastforce
qed

lemma effective_sources_distinct:
  "distinct (map ef_source_event_id (re_effective_events (reduce_operator_events_v2 l es)))"
  using v2.run_effective_order [of es l]
  by (auto simp: reduce_operator_events_v2_def finish_reducer_def intro: subseq_distinctI)

lemma collect_map_eq: "collect_map entries = map_of (rev entries)"
proof -
  have "foldl (\<lambda>m (k, v). m(k \<mapsto> v)) m entries = m ++ map_of (rev entries)" for m
    by (induction entries arbitrary: m) (auto simp: map_add_def split: option.splits)
  then show ?thesis by (simp add: collect_map_def flip: empty_def)
qed

lemma project_legacy_total: "\<exists>x. project_legacy v = Some x"
  by (cases "ef_payload v") (simp_all add: project_legacy_def)

lemma project_legacy_id [simp]: "ev_event_id (the (project_legacy v)) = ef_source_event_id v"
  by (cases "ef_payload v") (simp_all add: project_legacy_def)

lemma map_filter_legacy: "List.map_filter project_legacy vs = map (\<lambda>v. the (project_legacy v)) vs"
proof (induction vs)
  case (Cons v vs)
  obtain x where "project_legacy v = Some x" using project_legacy_total by blast
  with Cons show ?case by (simp add: List.map_filter_simps)
qed simp

lemma effective_legacy_Some:
  "effective_legacy es i = Some x \<longleftrightarrow>
     (\<exists>v \<in> set (re_effective_events (reduce_operator_events_v2 Ready es)).
        i = ef_source_event_id v \<and> x = the (project_legacy v))"
proof -
  let ?vs = "re_effective_events (reduce_operator_events_v2 Ready es)"
  have "distinct (map fst (rev (map (\<lambda>v. (ef_source_event_id v, the (project_legacy v))) ?vs)))"
    using effective_sources_distinct [of Ready es] by (simp add: comp_def rev_map [symmetric])
  then show ?thesis
    by (auto simp: effective_legacy_def collect_map_eq map_filter_legacy comp_def image_iff)
qed

lemma current_events_set:
  "x \<in> set (current_events m es) \<longleftrightarrow>
     (\<exists>e \<in> set es. project_legacy_lifecycle e = Some x) \<or>
     (\<exists>e \<in> set es. project_legacy_lifecycle e = None \<and> m (oe_event_id e) = Some x)"
proof (induction es arbitrary: m)
  case (Cons e es)
  show ?case
    by (cases "project_legacy_lifecycle e"; cases "m (oe_event_id e)")
      (auto simp: Cons.IH simp del: fun_upd_apply split: if_splits, auto split: if_splits)
qed simp

lemma lifecycle_event_id: "project_legacy_lifecycle e = Some x \<Longrightarrow> ev_event_id x = oe_event_id e"
  by (auto simp: project_legacy_lifecycle_def)

lemma current_events_subseq:
  "(\<And>i x. m i = Some x \<Longrightarrow> ev_event_id x = i) \<Longrightarrow>
     subseq (map ev_event_id (current_events m es)) (map oe_event_id es)"
proof (induction es arbitrary: m)
  case (Cons e es)
  have "\<And>i x. (m(oe_event_id e := None)) i = Some x \<Longrightarrow> ev_event_id x = i"
    using Cons.prems by (auto split: if_splits)
  note removed = Cons.IH [OF this] and kept = Cons.IH [OF Cons.prems]
  from removed kept Cons.prems show ?case
    by (cases "project_legacy_lifecycle e"; cases "m (oe_event_id e)")
      (auto simp: lifecycle_event_id simp del: fun_upd_apply)
qed simp

text \<open>
  The analysis model of a schema-v2 bundle holds exactly the effective evidence: its
  events are the session starts and ends of the history together with the legacy form of
  every effective event of the reduction, no more and no less, in the order in which the
  original events were appended.
\<close>

theorem current_events_are_effective:
  "set (bc_events (cb_bundle (into_current_v2 b))) =
     set (List.map_filter project_legacy_lifecycle (b2_events b)) \<union>
     set (List.map_filter project_legacy
       (re_effective_events (reduce_operator_events_v2 Ready (b2_events b)))) \<and>
   subseq (map ev_event_id (bc_events (cb_bundle (into_current_v2 b)))) (map oe_event_id (b2_events b))"
proof
  let ?vs = "re_effective_events (reduce_operator_events_v2 Ready (b2_events b))"
  have "(\<exists>e \<in> set (b2_events b). project_legacy_lifecycle e = None \<and>
        effective_legacy (b2_events b) (oe_event_id e) = Some x) \<longleftrightarrow>
      x \<in> set (List.map_filter project_legacy ?vs)" for x
    using effective_are_evidence [of _ Ready "b2_events b"]
    by (auto simp: effective_legacy_Some map_filter_legacy) blast
  moreover have "(\<exists>e \<in> set (b2_events b). project_legacy_lifecycle e = Some x) \<longleftrightarrow>
      x \<in> set (List.map_filter project_legacy_lifecycle (b2_events b))" for x
    by (auto simp: List.map_filter_def image_iff)
  ultimately show "set (bc_events (cb_bundle (into_current_v2 b))) =
     set (List.map_filter project_legacy_lifecycle (b2_events b)) \<union>
     set (List.map_filter project_legacy ?vs)"
    by (auto simp: into_current_v2_def current_events_set)
  show "subseq (map ev_event_id (bc_events (cb_bundle (into_current_v2 b)))) (map oe_event_id (b2_events b))"
    by (simp add: into_current_v2_def) (rule current_events_subseq, auto simp: effective_legacy_Some)
qed

section \<open>The repair\<close>

lemma confirmed_cycleD:
  "confirmed_cycle rep directions cycles observed direction t = Some c \<Longrightarrow>
     c \<in> set cycles \<and> ac_covered c \<and> ac_band c = observed \<and>
     cw_starts_at (ac_window c) - seconds 1 \<le> t \<and> t < cw_transmission_ends_at (ac_window c)"
  by (auto simp: confirmed_cycle_def checked_add_signed_def dest!: find_SomeD
      split: option.splits if_splits)

text \<open>
  C33. The repair of WSPR.live observations changes an observation only on confirmed evidence:
  it keeps every observation, and each one is either untouched or placed in an armed cycle of
  its own band whose transmission the antenna provably covered and in whose window the
  provider's time falls, with that cycle's start, intent and antenna label.
\<close>

theorem repair_needs_confirmed_cycle:
  "list_all2 (\<lambda>ob ob'. ob' = ob \<or>
       (\<exists>c \<in> set (wp_cycles (project_wspr_run_v3 rep sched events)). \<exists>t.
          ob' = repaired ob c \<and> ac_covered c \<and> uninterrupted events c \<and> ac_band c = o2_band ob \<and>
          source_times adapter_records (o2_observation_id ob) = Some t \<and>
          cw_starts_at (ac_window c) - seconds 1 \<le> t \<and> t < cw_transmission_ends_at (ac_window c)))
     observations
     (repair_confirmed_wspr_live_observations direction_of rep version sched events observations
        adapter_records)"
proof -
  have covered: "uninterrupted events c" if "c \<in> set (wp_cycles (project_wspr_run_v3 rep sched events))"
    "ac_covered c" for c
    using that projected_cycle_covered by blast
  show ?thesis
    by (auto simp: repair_confirmed_wspr_live_observations_def Let_def list_all2_map2 list_all2_refl
        list_all2_same list.rel_refl split: option.split dest!: confirmed_cycleD intro: covered)
qed

section \<open>Upgrading does not change the analysis\<close>

definition meta_v2 :: "record_meta_v2 \<Rightarrow> bool" where
  "meta_v2 m \<longleftrightarrow> m2_schema_version m = SCHEMA_VERSION_V2"

definition is_v2_bundle :: "'j bundle_v2_contents \<Rightarrow> bool" where
  "is_v2_bundle b \<longleftrightarrow>
     n2_schema_version (b2_manifest b) = SCHEMA_VERSION_V2 \<and>
     ss_schema_version (b2_session_state b) = SCHEMA_VERSION_V2 \<and>
     st_schema_version (b2_station b) = SCHEMA_VERSION_V2 \<and>
     af_schema_version (b2_antennas b) = SCHEMA_VERSION_V2 \<and>
     sc_schema_version (b2_schedule b) = SCHEMA_VERSION_V2 \<and>
     al_schema_version (b2_analysis b) = SCHEMA_VERSION_V2 \<and>
     list_all meta_v2 (map oe_meta (b2_events b) @ map o2_meta (b2_observations b) @
       map ar_meta (b2_adapter_records b) @ map r2_meta (b2_rig b) @ map q2_meta (b2_propagation b)) \<and>
     sorted (map slot_order (sc_slots (b2_schedule b)))"

lemma project_upgrade_meta: "meta_v2 m \<Longrightarrow> project_v3_meta_to_v2 (upgrade_v2_meta m) = m"
  by (simp add: meta_v2_def project_v3_meta_to_v2_def upgrade_v2_meta_def)

lemma map_id_on: "list_all P xs \<Longrightarrow> (\<And>x. P x \<Longrightarrow> f x = x) \<Longrightarrow> map f xs = xs"
  by (induction xs) auto

lemma project_upgrade_slots: "map project_slot_v3 (map upgrade_v2_slot slots) = slots"
  by (induction slots) (simp_all add: project_slot_v3_def upgrade_v2_slot_def)

lemma no_armed_slots: "foldl (add_armed_slot (upgrade_v2_schedule s)) slots es = slots"
proof -
  have "add_armed_slot (upgrade_v2_schedule s) slots e = slots" for slots e
    by (simp add: add_armed_slot_def upgrade_v2_schedule_def split: payload_v3.split option.split)
  then show ?thesis by (induction es arbitrary: slots) simp_all
qed

lemma project_upgrade_schedule:
  "sc_schema_version s = SCHEMA_VERSION_V2 \<Longrightarrow> sorted (map slot_order (sc_slots s)) \<Longrightarrow>
     project_schedule_v3 (upgrade_v2_schedule s) es = s"
  unfolding project_schedule_v3_def no_armed_slots
  using project_upgrade_slots [of "sc_slots s"]
  by (simp add: upgrade_v2_schedule_def comp_def sort_key_sorted)

lemma project_upgrade_bundle:
  assumes "is_v2_bundle b"
  shows "project_v3_bundle_to_v2 direction_of rep (upgrade_v2_bundle_model b) = b"
proof -
  from assms have v: "n2_schema_version (b2_manifest b) = SCHEMA_VERSION_V2"
      "ss_schema_version (b2_session_state b) = SCHEMA_VERSION_V2"
      "st_schema_version (b2_station b) = SCHEMA_VERSION_V2"
      "af_schema_version (b2_antennas b) = SCHEMA_VERSION_V2"
      "sc_schema_version (b2_schedule b) = SCHEMA_VERSION_V2"
      "al_schema_version (b2_analysis b) = SCHEMA_VERSION_V2"
      "sorted (map slot_order (sc_slots (b2_schedule b)))"
    and metas: "list_all is_v2_event (b2_events b)" "list_all (\<lambda>r. meta_v2 (o2_meta r)) (b2_observations b)"
      "list_all (\<lambda>r. meta_v2 (ar_meta r)) (b2_adapter_records b)"
      "list_all (\<lambda>r. meta_v2 (r2_meta r)) (b2_rig b)" "list_all (\<lambda>r. meta_v2 (q2_meta r)) (b2_propagation b)"
    by (simp_all add: is_v2_bundle_def list.pred_map comp_def is_v2_event_def [abs_def] meta_v2_def)
  have "List.map_filter project_v3_event_to_v2 (map upgrade_v2_event (b2_events b)) = b2_events b"
    using metas(1) by (rule v2_v3.history_kept)
  moreover have "map (\<lambda>r. r\<lparr>o2_meta := project_v3_meta_to_v2 (upgrade_v2_meta (o2_meta r))\<rparr>)
      (b2_observations b) = b2_observations b"
    using metas(2) by (rule map_id_on) (simp add: project_upgrade_meta)
  moreover have "map (\<lambda>r. r\<lparr>ar_meta := project_v3_meta_to_v2 (upgrade_v2_meta (ar_meta r))\<rparr>)
      (b2_adapter_records b) = b2_adapter_records b"
    using metas(3) by (rule map_id_on) (simp add: project_upgrade_meta)
  moreover have "map (\<lambda>r. project_v3_rig_to_v2 (upgrade_v2_rig r)) (b2_rig b) = b2_rig b"
    using metas(4) by (rule map_id_on)
      (simp add: project_upgrade_meta project_v3_rig_to_v2_def upgrade_v2_rig_def)
  moreover have "map (\<lambda>r. r\<lparr>q2_meta := project_v3_meta_to_v2 (upgrade_v2_meta (q2_meta r))\<rparr>)
      (b2_propagation b) = b2_propagation b"
    using metas(5) by (rule map_id_on) (simp add: project_upgrade_meta)
  moreover have "(b2_manifest b)\<lparr>n2_schema_version := SCHEMA_VERSION_V2\<rparr> = b2_manifest b"
    "(b2_session_state b)\<lparr>ss_schema_version := SCHEMA_VERSION_V2\<rparr> = b2_session_state b"
    "(b2_station b)\<lparr>st_schema_version := SCHEMA_VERSION_V2\<rparr> = b2_station b"
    "(b2_antennas b)\<lparr>af_schema_version := SCHEMA_VERSION_V2\<rparr> = b2_antennas b"
    "(b2_analysis b)\<lparr>al_schema_version := SCHEMA_VERSION_V2\<rparr> = b2_analysis b"
    using v by simp_all
  moreover have "\<not> SCHEMA_VERSION_V4 \<le> SCHEMA_VERSION_V3" by (simp add: schema_version_defs)
  ultimately show ?thesis
    using project_upgrade_schedule [OF v(5,7)]
    by (simp add: project_v3_bundle_to_v2_def upgrade_v2_bundle_model_def Let_def comp_def
        repair_confirmed_wspr_live_observations_def)
qed

lemma event_provenance_ids:
  "set (map cp_record_id (filter (\<lambda>r. cp_record_kind r = CurrentEvent)
     (cb_record_provenance (into_current_v2 b)))) = oe_event_id ` set (b2_events b)"
  by (auto simp: into_current_v2_def record_provenance_def image_iff)

text \<open>
  C13. Upgrading a schema-v2 bundle to schema v3 does not change what is analysed: the current
  model of the upgraded bundle, with its provenance, adapter records and session state, is
  that of the bundle itself, provided the bundle is schema v2 throughout and its slots are
  stored in the order of their sequence numbers and starts.
\<close>

theorem upgrade_keeps_current_model:
  assumes "is_v2_bundle b"
  shows "into_current_v3 direction_of rep (upgrade_v2_bundle_model b) = into_current_v2 b"
proof -
  let ?p = "map (\<lambda>e. record_provenance CurrentEvent (oe_event_id e) (oe_meta e))
    (b3_events (upgrade_v2_bundle_model b))"
  have "filter (\<lambda>r. cp_record_id r \<notin> oe_event_id ` set (b2_events b)) ?p = []"
    by (auto simp: filter_empty_conv upgrade_v2_bundle_model_def record_provenance_def)
  then show ?thesis
    unfolding into_current_v3_def Let_def project_upgrade_bundle [OF assms] event_provenance_ids
    by simp
qed

definition empty_v2_bundle :: "unit bundle_v2_contents" where
  "empty_v2_bundle =
     \<lparr>b2_manifest = \<lparr>n2_schema_version = 2, n2_session_id = ''session'', n2_created_at = 0,
        n2_app_version = ''0'', n2_files = default_bundle_files_v2, n2_creator_runtime_context_id = None\<rparr>,
      b2_session_state = \<lparr>ss_schema_version = 2, ss_session_id = ''session'', ss_revision = 1,
        ss_lifecycle = Ready, ss_wspr_live_acquisition_enabled = False,
        ss_active_plan = \<lparr>pg_generation_id = ''g'', pg_station_sha256 = [], pg_antennas_sha256 = [],
          pg_schedule_sha256 = [], pg_root_sha256 = []\<rparr>,
        ss_streams = (\<lambda>_. None), ss_last_committed_mutation_id = None,
        ss_active_runtime_context_id = None, ss_diagnostics_status = None\<rparr>,
      b2_station = \<lparr>st_schema_version = 2, st_session_id = ''session'', st_callsign = ''N1RWJ'',
        st_grid = ''FN42'', st_power_watts = None, st_operator_notes = None\<rparr>,
      b2_antennas = \<lparr>af_schema_version = 2, af_session_id = ''session'', af_antennas = []\<rparr>,
      b2_schedule = \<lparr>sc_schema_version = 2, sc_session_id = ''session'', sc_mode = WholeStationAb,
        sc_goal = GeneralCoverage, sc_slots = []\<rparr>,
      b2_events = [as_v2 note_event], b2_observations = [], b2_adapter_records = [], b2_rig = [],
      b2_propagation = [],
      b2_analysis = \<lparr>al_schema_version = 2, al_session_id = ''session'', al_generated_at = None,
        al_status = NotRun, al_notes = []\<rparr>\<rparr>"

theorem upgrade_keeps_current_model_witness:
  "into_current_v3 (\<lambda>_. None) (\<lambda>_. True) (upgrade_v2_bundle_model empty_v2_bundle) =
     into_current_v2 empty_v2_bundle"
  by (rule upgrade_keeps_current_model)
    (simp add: is_v2_bundle_def empty_v2_bundle_def schema_version_defs meta_v2_def as_v2_def
      project_v3_meta_to_v2_def)

text \<open>The provenance of every record of a bundle of schema v3 or later.\<close>

definition event_provenance :: "'p operator_event_record \<Rightarrow> current_record_provenance" where
  "event_provenance e = record_provenance CurrentEvent (oe_event_id e) (oe_meta e)"

definition records_provenance :: "'j bundle_v3_contents \<Rightarrow> current_record_provenance list" where
  "records_provenance b =
     map event_provenance (b3_events b) @
     map (\<lambda>r. record_provenance CurrentObservation (o2_observation_id r) (o2_meta r)) (b3_observations b) @
     map (\<lambda>r. record_provenance CurrentRig (r3_record_id r) (r3_meta r)) (b3_rig b) @
     map (\<lambda>r. record_provenance CurrentPropagation (q2_record_id r) (q2_meta r)) (b3_propagation b)"

lemma record_provenance_project [simp]:
  "record_provenance kind i (project_v3_meta_to_v2 m) = record_provenance kind i m"
  by (simp add: record_provenance_def project_v3_meta_to_v2_def)

lemma project_v3_event_fields:
  "project_v3_event_to_v2 e = Some e' \<Longrightarrow>
     oe_event_id e' = oe_event_id e \<and> event_provenance e' = event_provenance e"
  by (auto simp: project_v3_event_to_v2_def with_payload_def event_provenance_def)

lemma repair_keeps_provenance:
  "map (\<lambda>r. record_provenance k (o2_observation_id r) (o2_meta r))
     (repair_confirmed_wspr_live_observations d rep v sched events obs adapters) =
   map (\<lambda>r. record_provenance k (o2_observation_id r) (o2_meta r)) obs"
  by (auto simp: repair_confirmed_wspr_live_observations_def Let_def repaired_def record_provenance_def
      split: option.splits)

text \<open>
  Where the event ids are distinct, the provenance added for the events is that of the
  events the projection drops.
\<close>

lemma added_provenance_mset:
  assumes "distinct (map oe_event_id es)"
  shows "mset (map event_provenance (List.map_filter project_v3_event_to_v2 es)) +
    mset (filter (\<lambda>r. cp_record_id r \<notin> oe_event_id ` set (List.map_filter project_v3_event_to_v2 es))
      (map event_provenance es)) = mset (map event_provenance es)"
proof -
  have dropped: "oe_event_id e \<notin> oe_event_id ` set (List.map_filter project_v3_event_to_v2 es) \<longleftrightarrow>
      project_v3_event_to_v2 e = None" if "e \<in> set es" for e
    using assms that project_v3_event_fields
    by (cases "project_v3_event_to_v2 e")
      (force simp: List.map_filter_def distinct_map inj_on_def image_iff)+
  have "filter (\<lambda>r. cp_record_id r \<notin> oe_event_id ` set (List.map_filter project_v3_event_to_v2 es))
      (map event_provenance es) =
    map event_provenance (filter (\<lambda>e. project_v3_event_to_v2 e = None) es)"
    unfolding filter_map comp_def using dropped
    by (intro arg_cong [where f = "map event_provenance"] filter_cong)
      (simp_all add: event_provenance_def record_provenance_def)
  moreover have "mset (map event_provenance (List.map_filter project_v3_event_to_v2 xs)) +
      mset (map event_provenance (filter (\<lambda>e. project_v3_event_to_v2 e = None) xs)) =
      mset (map event_provenance xs)" for xs
    by (induction xs) (auto simp: List.map_filter_def dest: project_v3_event_fields)
  ultimately show ?thesis by simp
qed

lemma current_v3_provenance:
  "cb_record_provenance (into_current_v3 direction_of rep b) =
     map event_provenance (List.map_filter project_v3_event_to_v2 (b3_events b)) @
     drop (length (b3_events b)) (records_provenance b) @
     filter (\<lambda>r. cp_record_id r \<notin> oe_event_id ` set (List.map_filter project_v3_event_to_v2 (b3_events b)))
       (map event_provenance (b3_events b))"
  unfolding into_current_v3_def Let_def event_provenance_ids
  by (simp add: records_provenance_def into_current_v2_def project_v3_bundle_to_v2_def Let_def
      repair_keeps_provenance project_v3_rig_to_v2_def comp_def event_provenance_def [abs_def])

text \<open>
  C34. Projecting a bundle of schema v3 or later loses no provenance: although the projection
  drops some events and rejects others, and repairs observations, the current model records
  the provenance of every event, observation, rig and propagation record of the bundle,
  each exactly once and unchanged, whenever the event ids are distinct.  The adapter records
  keep theirs, and the manifest, station, antennas, schedule, analysis and all records of
  the current model are of schema version 2.
\<close>

theorem projection_keeps_provenance:
  assumes "distinct (map oe_event_id (b3_events b))"
  shows "mset (cb_record_provenance (into_current_v3 direction_of rep b)) = mset (records_provenance b) \<and>
   map (m2_provenance \<circ> ar_meta) (cb_adapter_records (into_current_v3 direction_of rep b)) =
     map (m2_provenance \<circ> ar_meta) (b3_adapter_records b) \<and>
   (let c = cb_bundle (into_current_v3 direction_of rep b) in
      {bm_schema_version (bc_manifest c), st_schema_version (bc_station c),
       af_schema_version (bc_antennas c), sc_schema_version (bc_schedule c),
       al_schema_version (bc_analysis c)} \<union>
      rm_schema_version ` set (map ev_meta (bc_events c) @ map ob_meta (bc_observations c) @
        map rg_meta (bc_rig c) @ map pr_meta (bc_propagation c)) = {SCHEMA_VERSION_V2})"
proof (intro conjI)
  let ?b = "project_v3_bundle_to_v2 direction_of rep b"
  show "mset (cb_record_provenance (into_current_v3 direction_of rep b)) = mset (records_provenance b)"
    using added_provenance_mset [OF assms] unfolding current_v3_provenance
    by (simp add: records_provenance_def)
  show "map (m2_provenance \<circ> ar_meta) (cb_adapter_records (into_current_v3 direction_of rep b)) =
      map (m2_provenance \<circ> ar_meta) (b3_adapter_records b)"
    by (simp add: into_current_v3_def into_current_v2_def project_v3_bundle_to_v2_def Let_def
        project_v3_meta_to_v2_def)
  let ?c = "cb_bundle (into_current_v2 ?b)"
  have roots: "bm_schema_version (bc_manifest ?c) = SCHEMA_VERSION_V2"
    "st_schema_version (bc_station ?c) = SCHEMA_VERSION_V2" "af_schema_version (bc_antennas ?c) = SCHEMA_VERSION_V2"
    "sc_schema_version (bc_schedule ?c) = SCHEMA_VERSION_V2" "al_schema_version (bc_analysis ?c) = SCHEMA_VERSION_V2"
    by (simp_all add: into_current_v2_def project_v3_bundle_to_v2_def project_schedule_v3_def Let_def)
  have events: "rm_schema_version (ev_meta x) = SCHEMA_VERSION_V2" if "x \<in> set (bc_events ?c)" for x
    using that by (auto simp: into_current_v2_def current_events_set effective_legacy_Some
        project_legacy_lifecycle_def project_legacy_def split: correctable_v2.split)
  have records: "rm_schema_version (ob_meta (current_observation o')) = SCHEMA_VERSION_V2"
    "rm_schema_version (rg_meta (current_rig r')) = SCHEMA_VERSION_V2"
    "rm_schema_version (pr_meta (current_propagation q')) = SCHEMA_VERSION_V2" for o' r' q'
    by (simp_all add: current_observation_def current_rig_def current_propagation_def project_meta_def)
  have maps: "bc_observations ?c = map current_observation (b2_observations ?b)"
    "bc_rig ?c = map current_rig (b2_rig ?b)" "bc_propagation ?c = map current_propagation (b2_propagation ?b)"
    by (simp_all add: into_current_v2_def)
  have "rm_schema_version ` set (map ev_meta (bc_events ?c) @ map ob_meta (bc_observations ?c) @
      map rg_meta (bc_rig ?c) @ map pr_meta (bc_propagation ?c)) \<subseteq> {SCHEMA_VERSION_V2}"
    unfolding maps by (auto simp: events records)
  moreover have "cb_bundle (into_current_v3 direction_of rep b) = ?c"
    by (simp add: into_current_v3_def Let_def)
  ultimately show "let c = cb_bundle (into_current_v3 direction_of rep b) in
      {bm_schema_version (bc_manifest c), st_schema_version (bc_station c),
       af_schema_version (bc_antennas c), sc_schema_version (bc_schedule c),
       al_schema_version (bc_analysis c)} \<union>
      rm_schema_version ` set (map ev_meta (bc_events c) @ map ob_meta (bc_observations c) @
        map rg_meta (bc_rig c) @ map pr_meta (bc_propagation c)) = {SCHEMA_VERSION_V2}"
    unfolding Let_def by (simp only: roots) blast
qed

definition sent_as_planned :: signal_state_confirmation where
  "sent_as_planned = \<lparr>sg_frequency_hz = Some 14030000, sg_mode = Some Cw, sg_power_watts = None,
     sg_transmitted_callsign = Some ''N1RWJ'', sg_cadence_followed = Some True, sg_note = None\<rparr>"

definition signal_replacement :: replacement_v3 where
  "signal_replacement = \<lparr>rp_occurred_at = 0, rp_time_basis = ObservedNow, rp_uncertainty_seconds = None,
     rp_slot_id = Some ''slot'', rp_payload = CSignalStateConfirmed3 sent_as_planned\<rparr>"

definition replaced_history :: "operator_event_v3 list" where
  "replaced_history =
     [started_event, sample_event ''ready'' (Some ''slot'') (AntennaStateConfirmed3 ''A'' None)]"

definition replace_event :: operator_event_v3 where
  "replace_event =
     sample_event ''replace'' None (EventCorrected3 ''ready'' (Replace signal_replacement) ''not switched'')"

definition projected_event :: "string \<Rightarrow> string option \<Rightarrow> payload_v2 \<Rightarrow> operator_event_v2" where
  "projected_event i slot p =
     (sample_event i slot p)\<lparr>oe_meta := project_v3_meta_to_v2 sample_meta\<rparr>"

lemma projected_event_fields [simp]:
  "oe_event_id (projected_event i slot p) = i" "oe_slot_id (projected_event i slot p) = slot"
  "oe_payload (projected_event i slot p) = p"
  by (simp_all add: projected_event_def sample_event_def)

lemma projected_replaced_history:
  "List.map_filter project_v3_event_to_v2 replaced_history =
     [projected_event ''start'' None (SessionStarted2 None),
      projected_event ''ready'' (Some ''slot'') (AntennaStateConfirmed2 ''A'' None)]"
  by (simp add: replaced_history_def started_event_def project_v3_event_to_v2_def with_payload_def
      sample_event_def projected_event_def signal_replacement_def List.map_filter_def)

definition replaced_bundle :: "unit bundle_v3_contents" where
  "replaced_bundle =
     (upgrade_v2_bundle_model empty_v2_bundle)\<lparr>b3_events := replaced_history @ [replace_event]\<rparr>"

theorem projection_keeps_provenance_witness:
  "project_v3_event_to_v2 replace_event = None \<and>
   mset (cb_record_provenance (into_current_v3 (\<lambda>_. None) (\<lambda>_. True) replaced_bundle)) =
     mset (map event_provenance (replaced_history @ [replace_event]))"
proof
  show "project_v3_event_to_v2 replace_event = None"
    by (simp add: replace_event_def project_v3_event_to_v2_def signal_replacement_def)
  have "distinct (map oe_event_id (b3_events replaced_bundle))"
    by (simp add: replaced_bundle_def replaced_history_def replace_event_def started_event_def)
  from projection_keeps_provenance [OF this, THEN conjunct1]
  show "mset (cb_record_provenance (into_current_v3 (\<lambda>_. None) (\<lambda>_. True) replaced_bundle)) =
      mset (map event_provenance (replaced_history @ [replace_event]))"
    by (simp add: records_provenance_def replaced_bundle_def upgrade_v2_bundle_model_def empty_v2_bundle_def)
qed

lemmas sample_step_defs = Let_def event_shape_error_def event_shape_error_v3_def slot_required_def is_terminal_def
  trim_printable init_reducer_def

lemma replaced_steps_v2:
  "reduce_step_v2 (init_reducer Ready) (projected_event ''start'' None (SessionStarted2 None)) =
     set_lifecycle Running (see ''start'' (init_reducer Ready))"
  "''ready'' \<notin> rd_seen_ids s \<Longrightarrow> rd_lifecycle s = Running \<Longrightarrow>
   reduce_step_v2 s (projected_event ''ready'' (Some ''slot'') (AntennaStateConfirmed2 ''A'' n)) =
     add_original ''ready'' (effective_from_event (projected_event ''ready'' (Some ''slot'')
       (AntennaStateConfirmed2 ''A'' n)) (CAntennaStateConfirmed2 ''A'' n)) (see ''ready'' s)"
  by (simp_all add: reduce_step_v2_def sample_step_defs)

lemma replaced_steps_v3:
  "reduce_step_v3 (init_reducer Ready) started_event =
     set_lifecycle Running (see ''start'' (init_reducer Ready))"
  "''ready'' \<notin> rd_seen_ids s \<Longrightarrow> rd_lifecycle s = Running \<Longrightarrow>
   e = sample_event ''ready'' (Some ''slot'') (AntennaStateConfirmed3 ''A'' None) \<Longrightarrow>
   reduce_step_v3 s e =
     add_original ''ready'' (effective_from_event e (CAntennaStateConfirmed3 ''A'' None)) (see ''ready'' s)"
  "''replace'' \<notin> rd_seen_ids s \<Longrightarrow> rd_lifecycle s = Running \<Longrightarrow> rd_originals s ''ready'' = Some i \<Longrightarrow>
   reduce_step_v3 s replace_event =
     set_effective i (Some (effective_from_replacement ''ready'' replace_event signal_replacement))
       (see ''replace'' s)"
  by (simp_all add: reduce_step_v3_def sample_step_defs started_event_def sample_event_def signal_replacement_def
      replace_event_def)

text \<open>
  C38. The two readings of a schema-v3 history can differ.  An operator may replace any
  recorded event by a signal-state confirmation: where the schema-v3 reducer accepts the
  correction, the confirmation is what is in force for its target.  The projection to schema
  v2, from which the current model is built, cannot express the replacement and drops the
  whole correction, so the current model analyses the withdrawn event as if nothing had
  been corrected.
\<close>

theorem replaced_confirmation_survives_projection:
  assumes "oe_payload e = EventCorrected3 t (Replace r) reason"
    and "rp_payload r = CSignalStateConfirmed3 x"
    and "re_diagnostics (reduce_operator_events_v3 l (es @ [e])) =
      re_diagnostics (reduce_operator_events_v3 l es)"
  shows "effective_lookup t (reduce_operator_events_v3 l (es @ [e])) =
      Some (effective_from_replacement t e r) \<and>
    reduce_operator_events_v2 l (List.map_filter project_v3_event_to_v2 (es @ [e])) =
      reduce_operator_events_v2 l (List.map_filter project_v3_event_to_v2 es)"
proof
  have "project_v3_event_to_v2 e = None"
    using assms(1,2) by (simp add: project_v3_event_to_v2_def)
  then show "reduce_operator_events_v2 l (List.map_filter project_v3_event_to_v2 (es @ [e])) =
      reduce_operator_events_v2 l (List.map_filter project_v3_event_to_v2 es)"
    by (simp add: List.map_filter_def)
next
  let ?s = "foldl reduce_step_v3 (init_reducer l) es"
  obtain ks where ks: "keyed ?s ks" using v3.run_keyed by blast
  have "rd_diagnostics (reduce_step_v3 ?s e) = rd_diagnostics ?s"
    using assms(3) by (simp add: reduce_operator_events_v3_def finish_reducer_def)
  then obtain n where n: "rd_originals ?s t = Some n"
    and "reduce_step_v3 ?s e =
      set_effective n (case Replace r of Retract \<Rightarrow> None
                       | Replace r \<Rightarrow> Some (effective_from_replacement t e r)) (see (oe_event_id e) ?s)"
    using accepted_correction_v3 [OF assms(1)] by blast
  then have step: "reduce_step_v3 ?s e =
      set_effective n (Some (effective_from_replacement t e r)) (see (oe_event_id e) ?s)"
    by (simp only: correction_action.case)
  show "effective_lookup t (reduce_operator_events_v3 l (es @ [e])) =
      Some (effective_from_replacement t e r)"
    using lookup_after_set_effective [OF ks n, of "Some (effective_from_replacement t e r)" t]
    by (simp add: reduce_operator_events_v3_def step)
qed

theorem replaced_confirmation_survives_projection_witness:
  "map ef_payload (re_effective_events (reduce_operator_events_v3 Ready
     (replaced_history @ [replace_event]))) = [CSignalStateConfirmed3 sent_as_planned] \<and>
   effective_lookup ''ready'' (reduce_operator_events_v3 Ready (replaced_history @ [replace_event])) =
     Some (effective_from_replacement ''ready'' replace_event signal_replacement) \<and>
   map ef_payload (re_effective_events (reduce_operator_events_v2 Ready
     (List.map_filter project_v3_event_to_v2 (replaced_history @ [replace_event])))) =
     [CAntennaStateConfirmed2 ''A'' None]"
proof (intro conjI)
  have payload: "oe_payload replace_event =
      EventCorrected3 ''ready'' (Replace signal_replacement) ''not switched''"
    by (simp add: replace_event_def)
  have signal: "rp_payload signal_replacement = CSignalStateConfirmed3 sent_as_planned"
    by (simp add: signal_replacement_def)
  have accepted: "re_diagnostics (reduce_operator_events_v3 Ready (replaced_history @ [replace_event])) =
      re_diagnostics (reduce_operator_events_v3 Ready replaced_history)"
    unfolding reduce_operator_events_v3_def replaced_history_def
    by (simp add: replaced_steps_v3 finish_reducer_def)
  note survives = replaced_confirmation_survives_projection [OF payload signal accepted]
  show "map ef_payload (re_effective_events (reduce_operator_events_v3 Ready
      (replaced_history @ [replace_event]))) = [CSignalStateConfirmed3 sent_as_planned]"
    unfolding reduce_operator_events_v3_def replaced_history_def
    by (simp add: replaced_steps_v3 finish_reducer_def effective_from_replacement_def signal_replacement_def)
  show "effective_lookup ''ready'' (reduce_operator_events_v3 Ready (replaced_history @ [replace_event])) =
      Some (effective_from_replacement ''ready'' replace_event signal_replacement)"
    using survives by blast
  show "map ef_payload (re_effective_events (reduce_operator_events_v2 Ready
      (List.map_filter project_v3_event_to_v2 (replaced_history @ [replace_event])))) =
      [CAntennaStateConfirmed2 ''A'' None]"
    unfolding survives [THEN conjunct2] projected_replaced_history
    unfolding reduce_operator_events_v2_def
    by (simp add: replaced_steps_v2 finish_reducer_def effective_from_event_def)
qed

end
