(* ===== verification/UpgradeInvariance.thy ===== *)
theory UpgradeInvariance
  imports CurrentBundle
begin

text \<open>
  What a schema upgrade must not change.  An upgrade rewrites the metadata and the readiness
  basis of records; the reductions, the run projection and the current model read only the
  session, the recording time and the provenance of a record's metadata, and of a readiness
  basis only whether it continues an earlier one.  The locale \<open>evidence_preserving\<close> states
  that contract of an upgrade; inside it the current model of an upgraded bundle is proved
  to be the one of the bundle.  The upgrades to schema v5 and v6 are its interpretations.
\<close>

section \<open>Records that are the same evidence\<close>

definition same_meta :: "record_meta_v2 \<Rightarrow> record_meta_v2 \<Rightarrow> bool" where
  "same_meta m m' \<longleftrightarrow> m2_session_id m' = m2_session_id m \<and> m2_recorded_at m' = m2_recorded_at m \<and>
     m2_provenance m' = m2_provenance m"

definition own_readiness :: "wspr_readiness_basis option \<Rightarrow> bool" where
  "own_readiness r \<longleftrightarrow> (case r of Some (Continued _) \<Rightarrow> False | _ \<Rightarrow> True)"

fun same_payload :: "payload_v3 \<Rightarrow> payload_v3 \<Rightarrow> bool" where
  "same_payload (WsprCycleArmed3 l t r) p' \<longleftrightarrow>
     (\<exists>r'. p' = WsprCycleArmed3 l t r' \<and> (r' = r \<or> own_readiness r \<and> own_readiness r'))"
| "same_payload p p' \<longleftrightarrow> p' = p"

definition same_event ::
    "('p \<Rightarrow> 'p \<Rightarrow> bool) \<Rightarrow> 'p operator_event_record \<Rightarrow> 'p operator_event_record \<Rightarrow> bool" where
  "same_event payloads e e' \<longleftrightarrow> same_meta (oe_meta e) (oe_meta e') \<and> oe_event_id e' = oe_event_id e \<and>
     oe_occurred_at e' = oe_occurred_at e \<and> oe_time_basis e' = oe_time_basis e \<and>
     oe_uncertainty_seconds e' = oe_uncertainty_seconds e \<and> oe_slot_id e' = oe_slot_id e \<and>
     payloads (oe_payload e) (oe_payload e')"

abbreviation "same_v2 \<equiv> same_event ((=) :: payload_v2 \<Rightarrow> payload_v2 \<Rightarrow> bool)"
abbreviation "same_v3 \<equiv> same_event same_payload"

lemma same_payload_cases:
  assumes "same_payload p p'"
  obtains (equal) "p' = p"
    | (armed) l t r r' where "p = WsprCycleArmed3 l t r" and "p' = WsprCycleArmed3 l t r'"
        and "own_readiness r" and "own_readiness r'"
  using assms by (cases p) auto

lemma same_event_views:
  assumes "same_event payloads e e'"
  shows "oe_event_id e' = oe_event_id e" and "oe_slot_id e' = oe_slot_id e"
    and "oe_occurred_at e' = oe_occurred_at e"
    and "effective_from_event e' = (effective_from_event e :: 'c \<Rightarrow> 'c effective_event)"
    and "effective_from_replacement t e' = (effective_from_replacement t e :: 'd replacement_event \<Rightarrow> 'd effective_event)"
    and "diagnostic e' = diagnostic e"
  using assms by (simp_all add: same_event_def same_meta_def effective_from_event_def [abs_def]
      effective_from_replacement_def [abs_def] diagnostic_def [abs_def] fun_eq_iff)

lemma foldl_cong_rel:
  "list_all2 R xs ys \<Longrightarrow> (\<And>s x y. R x y \<Longrightarrow> f s y = f s x) \<Longrightarrow> foldl f s ys = foldl f s xs"
  by (induction arbitrary: s rule: list_all2_induct) simp_all

section \<open>The reductions and the run projection\<close>

lemma reduce_step_v2_same:
  assumes "same_v2 e e'"
  shows "reduce_step_v2 s e' = reduce_step_v2 s e"
proof -
  from assms have payload: "oe_payload e' = oe_payload e" by (simp add: same_event_def)
  have shape: "event_shape_error e' = event_shape_error e"
    unfolding event_shape_error_def same_event_views [OF assms] payload by (rule refl)
  show ?thesis
    unfolding reduce_step_v2_def same_event_views [OF assms] payload shape by (rule refl)
qed

lemma reduce_step_v3_same:
  assumes "same_v3 e e'"
  shows "reduce_step_v3 s e' = reduce_step_v3 s e"
proof -
  note views = same_event_views [OF assms]
  from assms have "same_payload (oe_payload e) (oe_payload e')" by (simp add: same_event_def)
  then show ?thesis
  proof (cases rule: same_payload_cases)
    case equal
    have shape: "event_shape_error_v3 e' = event_shape_error_v3 e"
      unfolding event_shape_error_v3_def views equal by (rule refl)
    show ?thesis unfolding reduce_step_v3_def views equal shape by (rule refl)
  next
    case (armed l t r r')
    then have shape: "event_shape_error_v3 e' = event_shape_error_v3 e"
      by (simp add: event_shape_error_v3_def views)
    show ?thesis
      unfolding reduce_step_v3_def Let_def views shape armed(1,2) is_lifecycle_payload_v3.simps
        is_operational_payload_v3.simps if_True if_False simp_thms
      by (rule TrueI)
  qed
qed

lemma reduce_v2_same:
  "list_all2 same_v2 es es' \<Longrightarrow> reduce_operator_events_v2 l es' = reduce_operator_events_v2 l es"
  by (simp add: reduce_operator_events_v2_def foldl_cong_rel [OF _ reduce_step_v2_same])

lemma reduce_v3_same:
  "list_all2 same_v3 es es' \<Longrightarrow> reduce_operator_events_v3 l es' = reduce_operator_events_v3 l es"
  by (simp add: reduce_operator_events_v3_def foldl_cong_rel [OF _ reduce_step_v3_same])

lemma run_parts_same:
  assumes "same_v3 e e'"
  shows "close_occupancy e' = close_occupancy e" and "open_occupancy e' = open_occupancy e"
    and "push_run_diagnostic c e' = push_run_diagnostic c e"
    and "arm_intent rep sc sk e' = arm_intent rep sc sk e"
proof -
  show push: "push_run_diagnostic c e' = push_run_diagnostic c e" for c
    by (simp add: fun_eq_iff push_run_diagnostic_def same_event_views [OF assms])
  show "close_occupancy e' = close_occupancy e" and "open_occupancy e' = open_occupancy e"
    unfolding fun_eq_iff close_occupancy_def open_occupancy_def push same_event_views [OF assms]
    by simp_all
  show "arm_intent rep sc sk e' = arm_intent rep sc sk e"
    unfolding fun_eq_iff arm_intent_def push same_event_views [OF assms] by simp
qed

lemma own_readiness_run:
  "own_readiness r \<Longrightarrow> oe_payload e = WsprCycleArmed3 l t r \<Longrightarrow>
     run_step rep sc sk s e =
       arm_intent rep sc sk e l t None (open_occupancy e l (close_occupancy e s))"
  by (simp add: run_step_def own_readiness_def split: option.splits wspr_readiness_basis.splits)

lemma run_step_same:
  assumes "same_v3 e e'"
  shows "run_step rep sc sk s e' = run_step rep sc sk s e"
proof -
  note parts = run_parts_same [OF assms]
  from assms have "same_payload (oe_payload e) (oe_payload e')" by (simp add: same_event_def)
  then show ?thesis
  proof (cases rule: same_payload_cases)
    case equal
    show ?thesis unfolding run_step_def parts equal by (rule refl)
  next
    case (armed l t r r')
    then show ?thesis by (simp add: own_readiness_run parts)
  qed
qed

text \<open>The run projection reads the events, and of the schedule only its intents.\<close>

lemma arm_intent_schedule:
  assumes "s3_wspr_cycle_intents sc' = s3_wspr_cycle_intents sc"
  shows "arm_intent rep sc' sk = arm_intent rep sc sk"
  unfolding fun_eq_iff arm_intent_def assms by simp

lemma project_wspr_run_same:
  assumes "list_all2 same_v3 es es'" and "s3_wspr_cycle_intents sc' = s3_wspr_cycle_intents sc"
  shows "project_wspr_run_v3 rep sc' es' = project_wspr_run_v3 rep sc es"
proof -
  have "run_step rep sc' sk s e = run_step rep sc sk s e" for sk s e
    unfolding run_step_def arm_intent_schedule [OF assms(2)] by (rule refl)
  then have "foldl (run_step rep sc' sk) s es' = foldl (run_step rep sc sk) s es" for sk s
    by (simp add: foldl_cong_rel [OF assms(1) run_step_same] cong: foldl_cong)
  moreover have "skipped_intents sc' es' = skipped_intents sc es"
    by (simp add: skipped_intents_def assms(2) reduce_v3_same [OF assms(1)])
  ultimately show ?thesis
    by (simp add: project_wspr_run_v3_def init_run_def assms(2))
qed

section \<open>The current model\<close>

lemma project_v3_event_same:
  assumes "same_v3 e e'"
  shows "rel_option same_v2 (project_v3_event_to_v2 e) (project_v3_event_to_v2 e')"
proof -
  from assms have p: "project_v3_payload (oe_payload e') = project_v3_payload (oe_payload e)"
    by (auto simp: same_event_def elim!: same_payload_cases)
  show ?thesis
    using assms by (auto simp: project_v3_event_to_v2_def p option.rel_map same_event_def same_meta_def
        with_payload_def project_v3_meta_to_v2_def intro: option.rel_refl_strong)
qed

lemma project_events_same:
  "list_all2 same_v3 es es' \<Longrightarrow>
     list_all2 same_v2 (List.map_filter project_v3_event_to_v2 es)
       (List.map_filter project_v3_event_to_v2 es')"
proof (induction rule: list_all2_induct)
  case (Cons e es e' es')
  from project_v3_event_same [OF Cons(1)] Cons(3) show ?case
    by (cases rule: option.rel_cases) (simp_all add: List.map_filter_simps)
qed (simp add: List.map_filter_simps)

lemma project_legacy_lifecycle_same:
  "same_v2 e e' \<Longrightarrow> project_legacy_lifecycle e' = project_legacy_lifecycle e"
  by (simp add: project_legacy_lifecycle_def same_event_def same_meta_def)

lemma current_events_same:
  assumes "list_all2 same_v2 es es'"
  shows "current_events f es' = current_events f es"
  using assms
proof (induction arbitrary: f rule: list_all2_induct)
  case (Cons e es e' es')
  then show ?case
    by (simp add: project_legacy_lifecycle_same same_event_views(1) del: fun_upd_apply split: option.split)
qed simp

lemma event_provenance_same:
  "list_all2 (same_event payloads) es es' \<Longrightarrow>
     map (\<lambda>e. record_provenance CurrentEvent (oe_event_id e) (oe_meta e)) es' =
     map (\<lambda>e. record_provenance CurrentEvent (oe_event_id e) (oe_meta e)) es"
  by (induction rule: list_all2_induct) (simp_all add: same_event_def same_meta_def record_provenance_def)

lemma event_ids_same:
  "list_all2 (same_event payloads) es es' \<Longrightarrow> map oe_event_id es' = map oe_event_id es"
  by (induction rule: list_all2_induct) (simp_all add: same_event_def)

lemma add_armed_slot_same:
  assumes "same_v3 e e'" and "s3_wspr_cycle_intents sc' = s3_wspr_cycle_intents sc"
  shows "add_armed_slot sc' slots e' = add_armed_slot sc slots e"
proof -
  from assms(1) have "same_payload (oe_payload e) (oe_payload e')" by (simp add: same_event_def)
  then show ?thesis
    unfolding add_armed_slot_def assms(2) same_event_views [OF assms(1)]
    by (cases rule: same_payload_cases) simp_all
qed

lemma add_armed_slots_same:
  assumes "list_all2 same_v3 es es'" and "s3_wspr_cycle_intents sc' = s3_wspr_cycle_intents sc"
  shows "foldl (add_armed_slot sc') slots es' = foldl (add_armed_slot sc) slots es"
  using assms(1)
  by (induction arbitrary: slots rule: list_all2_induct) (simp_all add: add_armed_slot_same [OF _ assms(2)])

section \<open>The contract of an upgrade\<close>

text \<open>
  The fields of the upgraded bundle that the current model reads: every record has the upgraded
  metadata, every event the upgraded payload, and nothing else differs but schema versions.
\<close>

definition upgraded_bundle ::
    "(record_meta_v2 \<Rightarrow> record_meta_v2) \<Rightarrow> (payload_v3 \<Rightarrow> payload_v3)
       \<Rightarrow> 'j bundle_v3_contents \<Rightarrow> 'j bundle_v3_contents \<Rightarrow> bool" where
  "upgraded_bundle up_meta up_payload b b' \<longleftrightarrow>
     b3_events b' = map (\<lambda>e. e\<lparr>oe_meta := up_meta (oe_meta e), oe_payload := up_payload (oe_payload e)\<rparr>)
       (b3_events b) \<and>
     b3_observations b' = map (\<lambda>r. r\<lparr>o2_meta := up_meta (o2_meta r)\<rparr>) (b3_observations b) \<and>
     b3_adapter_records b' = map (\<lambda>r. r\<lparr>ar_meta := up_meta (ar_meta r)\<rparr>) (b3_adapter_records b) \<and>
     map project_v3_rig_to_v2 (b3_rig b') =
       map (\<lambda>r. project_v3_rig_to_v2 (r\<lparr>r3_meta := up_meta (r3_meta r)\<rparr>)) (b3_rig b) \<and>
     b3_propagation b' = map (\<lambda>r. r\<lparr>q2_meta := up_meta (q2_meta r)\<rparr>) (b3_propagation b) \<and>
     (b3_station b')\<lparr>st_schema_version := SCHEMA_VERSION_V2\<rparr> =
       (b3_station b)\<lparr>st_schema_version := SCHEMA_VERSION_V2\<rparr> \<and>
     (b3_antennas b')\<lparr>af_schema_version := SCHEMA_VERSION_V2\<rparr> =
       (b3_antennas b)\<lparr>af_schema_version := SCHEMA_VERSION_V2\<rparr> \<and>
     (b3_analysis b')\<lparr>al_schema_version := SCHEMA_VERSION_V2\<rparr> =
       (b3_analysis b)\<lparr>al_schema_version := SCHEMA_VERSION_V2\<rparr> \<and>
     s3_session_id (b3_schedule b') = s3_session_id (b3_schedule b) \<and>
     s3_mode (b3_schedule b') = s3_mode (b3_schedule b) \<and>
     s3_goal (b3_schedule b') = s3_goal (b3_schedule b) \<and>
     s3_slots (b3_schedule b') = s3_slots (b3_schedule b) \<and>
     s3_wspr_cycle_intents (b3_schedule b') = s3_wspr_cycle_intents (b3_schedule b) \<and>
     n2_session_id (b3_manifest b') = n2_session_id (b3_manifest b) \<and>
     n2_created_at (b3_manifest b') = n2_created_at (b3_manifest b) \<and>
     n2_app_version (b3_manifest b') = n2_app_version (b3_manifest b)"

locale evidence_preserving =
  fixes up_meta :: "record_meta_v2 \<Rightarrow> record_meta_v2" and up_payload :: "payload_v3 \<Rightarrow> payload_v3"
    and admissible :: "payload_v3 \<Rightarrow> bool"
  assumes meta_kept: "same_meta m (up_meta m)"
    and payload_kept: "admissible p \<Longrightarrow> same_payload p (up_payload p)"
begin

lemma meta_fields [simp]:
  "m2_session_id (up_meta m) = m2_session_id m" "m2_recorded_at (up_meta m) = m2_recorded_at m"
  "m2_provenance (up_meta m) = m2_provenance m"
  using meta_kept by (simp_all add: same_meta_def)

lemma project_meta_kept [simp]:
  "project_meta (project_v3_meta_to_v2 (up_meta m)) = project_meta (project_v3_meta_to_v2 m)"
  by (simp add: project_meta_def project_v3_meta_to_v2_def)

lemma events_kept:
  "list_all (admissible \<circ> oe_payload) es \<Longrightarrow>
     list_all2 same_v3 es
       (map (\<lambda>e. e\<lparr>oe_meta := up_meta (oe_meta e), oe_payload := up_payload (oe_payload e)\<rparr>) es)"
  by (induction es) (simp_all add: same_event_def same_meta_def payload_kept)

lemma source_times_kept:
  "source_times (map (\<lambda>r. r\<lparr>ar_meta := up_meta (ar_meta r)\<rparr>) rs) = source_times rs"
proof -
  let ?P = "\<lambda>record. ar_disposition record = Accepted \<and> ar_record_type record = ''wspr_live_spot'' \<and>
    provider_str (pv_provider_id (m2_provenance (ar_meta record))) = ''wspr-live''"
  have "List.map_filter f (filter ?P (map (\<lambda>r. r\<lparr>ar_meta := up_meta (ar_meta r)\<rparr>) rs)) =
      List.map_filter f (filter ?P rs)" if "\<And>r m. f (r\<lparr>ar_meta := m\<rparr>) = f r" for f :: "_ \<Rightarrow> (string \<times> timestamp) option"
    by (induction rs) (auto simp: that split: option.split)
  then show ?thesis
    unfolding source_times_def by simp
qed

text \<open>The repair changes an observation the same way before and after the upgrade.\<close>

lemma repair_kept:
  assumes "list_all2 same_v3 es es'" and "s3_wspr_cycle_intents sc' = s3_wspr_cycle_intents sc"
    and "v < SCHEMA_VERSION_V4 \<longleftrightarrow> v' < SCHEMA_VERSION_V4"
  shows "map (\<lambda>r. current_observation (r\<lparr>o2_meta := project_v3_meta_to_v2 (o2_meta r)\<rparr>))
      (repair_confirmed_wspr_live_observations dir rep v' sc' es'
        (map (\<lambda>r. r\<lparr>o2_meta := up_meta (o2_meta r)\<rparr>) obs) (map (\<lambda>r. r\<lparr>ar_meta := up_meta (ar_meta r)\<rparr>) rs)) =
    map (\<lambda>r. current_observation (r\<lparr>o2_meta := project_v3_meta_to_v2 (o2_meta r)\<rparr>))
      (repair_confirmed_wspr_live_observations dir rep v sc es obs rs)"
  using assms(3)
  by (simp add: repair_confirmed_wspr_live_observations_def Let_def assms(2) source_times_kept
      project_wspr_run_same [OF assms(1,2)] current_observation_def repaired_def project_meta_def
      project_v3_meta_to_v2_def split: option.split)

lemma observation_provenance_kept:
  "map (\<lambda>r. record_provenance CurrentObservation (o2_observation_id r) (o2_meta r))
     (map (\<lambda>r. r\<lparr>o2_meta := project_v3_meta_to_v2 (o2_meta r)\<rparr>)
       (repair_confirmed_wspr_live_observations dir rep v' sc' es'
         (map (\<lambda>r. r\<lparr>o2_meta := up_meta (o2_meta r)\<rparr>) obs) rs')) =
   map (\<lambda>r. record_provenance CurrentObservation (o2_observation_id r) (o2_meta r))
     (map (\<lambda>r. r\<lparr>o2_meta := project_v3_meta_to_v2 (o2_meta r)\<rparr>)
       (repair_confirmed_wspr_live_observations dir rep v sc es obs rs))"
  by (simp add: repair_confirmed_wspr_live_observations_def Let_def repaired_def
      record_provenance_def project_v3_meta_to_v2_def split: option.split)

lemma keeps_current_model:
  assumes "upgraded_bundle up_meta up_payload b b'"
    and "list_all (admissible \<circ> oe_payload) (b3_events b)"
    and "n2_schema_version (b3_manifest b) < SCHEMA_VERSION_V4 \<longleftrightarrow>
      n2_schema_version (b3_manifest b') < SCHEMA_VERSION_V4"
  shows "cb_bundle (into_current_v3 dir rep b') = cb_bundle (into_current_v3 dir rep b) \<and>
    cb_record_provenance (into_current_v3 dir rep b') = cb_record_provenance (into_current_v3 dir rep b)"
proof -
  let ?c = "project_v3_bundle_to_v2 dir rep b" and ?c' = "project_v3_bundle_to_v2 dir rep b'"
  note up = assms(1) [unfolded upgraded_bundle_def]
  have events: "list_all2 same_v3 (b3_events b) (b3_events b')"
    using up events_kept [OF assms(2)] by simp
  have intents: "s3_wspr_cycle_intents (b3_schedule b') = s3_wspr_cycle_intents (b3_schedule b)"
    using up by simp
  have observations: "b3_observations b' = map (\<lambda>r. r\<lparr>o2_meta := up_meta (o2_meta r)\<rparr>) (b3_observations b)"
    using up by simp
  have v2: "list_all2 same_v2 (b2_events ?c) (b2_events ?c')"
    by (simp add: project_v3_bundle_to_v2_def Let_def project_events_same [OF events])
  have obs: "map current_observation (b2_observations ?c') = map current_observation (b2_observations ?c)"
    using repair_kept [OF events intents assms(3)] up
    by (simp add: project_v3_bundle_to_v2_def Let_def comp_def)
  have obs_provenance: "map (\<lambda>r. record_provenance CurrentObservation (o2_observation_id r) (o2_meta r))
        (b2_observations ?c') =
      map (\<lambda>r. record_provenance CurrentObservation (o2_observation_id r) (o2_meta r)) (b2_observations ?c)"
    unfolding project_v3_bundle_to_v2_def Let_def bundle_v2_contents.select_convs observations
    by (rule observation_provenance_kept)
  have records: "map current_rig (b2_rig ?c') = map current_rig (b2_rig ?c)"
    "map current_propagation (b2_propagation ?c') = map current_propagation (b2_propagation ?c)"
    "map (\<lambda>r. record_provenance CurrentRig (r2_record_id r) (r2_meta r)) (b2_rig ?c') =
      map (\<lambda>r. record_provenance CurrentRig (r2_record_id r) (r2_meta r)) (b2_rig ?c)"
    "map (\<lambda>r. record_provenance CurrentPropagation (q2_record_id r) (q2_meta r)) (b2_propagation ?c') =
      map (\<lambda>r. record_provenance CurrentPropagation (q2_record_id r) (q2_meta r)) (b2_propagation ?c)"
    using up by (simp_all add: project_v3_bundle_to_v2_def Let_def project_v3_rig_to_v2_def
        current_rig_def current_propagation_def record_provenance_def project_v3_meta_to_v2_def
        project_meta_def)
  have roots: "b2_station ?c' = b2_station ?c" "b2_antennas ?c' = b2_antennas ?c"
    "b2_analysis ?c' = b2_analysis ?c"
    "n2_session_id (b2_manifest ?c') = n2_session_id (b2_manifest ?c)"
    "n2_created_at (b2_manifest ?c') = n2_created_at (b2_manifest ?c)"
    "n2_app_version (b2_manifest ?c') = n2_app_version (b2_manifest ?c)"
    using up by (simp_all add: project_v3_bundle_to_v2_def Let_def)
  have slots: "s3_slots (b3_schedule b') = s3_slots (b3_schedule b)"
      "s3_session_id (b3_schedule b') = s3_session_id (b3_schedule b)"
      "s3_mode (b3_schedule b') = s3_mode (b3_schedule b)"
      "s3_goal (b3_schedule b') = s3_goal (b3_schedule b)"
    using up by simp_all
  have sched: "b2_schedule ?c' = b2_schedule ?c"
    by (simp add: project_v3_bundle_to_v2_def Let_def project_schedule_v3_def slots
        add_armed_slots_same [OF events intents])
  have v2_model: "cb_bundle (into_current_v2 ?c') = cb_bundle (into_current_v2 ?c)"
    "cb_record_provenance (into_current_v2 ?c') = cb_record_provenance (into_current_v2 ?c)"
    by (simp_all add: into_current_v2_def obs obs_provenance records roots sched effective_legacy_def
        reduce_v2_same [OF v2] current_events_same [OF v2] event_provenance_same [OF v2])
  show ?thesis
    by (simp add: into_current_v3_def Let_def v2_model event_provenance_same [OF events])
qed

end

end
