(* ===== verification/RuntimeContext.thy ===== *)
theory RuntimeContext
  imports UpgradeInvariance
begin

text \<open>
  Runtime identities and the upgrade to schema v6 (\<open>crates/core/src/v6.rs\<close>).  The digest
  (\<open>sha2::Sha256\<close>) is the parameter \<open>sha256\<close>, a function from bytes to bytes, and chrono's
  rendering of an instant to the second (\<open>to_rfc3339_opts\<close>) the parameter \<open>rfc3339\<close>.
  The preimage of an identity is proved uniquely decodable, so two different builds or
  platforms share an identity only if the digest collides; and the upgrade is proved to
  attribute every record to a listed context and to leave the current model alone.
\<close>

section \<open>The identity of a runtime\<close>

definition RUNTIME_CONTEXT_SCHEMA_V1 :: string where
  "RUNTIME_CONTEXT_SCHEMA_V1 = ''runtime_context.v1''"

definition u32_max :: nat where "u32_max = 2 ^ 32 - 1"

definition be_bytes :: "nat \<Rightarrow> string" where
  "be_bytes n = map char_of [n div 2 ^ 24 mod 256, n div 2 ^ 16 mod 256, n div 2 ^ 8 mod 256, n mod 256]"

definition hex_digit :: "nat \<Rightarrow> char" where
  "hex_digit n = (if n < 10 then char_of (48 + n) else char_of (87 + n))"

definition hex_byte :: "char \<Rightarrow> string" where
  "hex_byte c = [hex_digit (of_char c div 16), hex_digit (of_char c mod 16)]"

definition hex_text :: "string \<Rightarrow> string" where
  "hex_text bytes = concat (map hex_byte bytes)"

definition identity_field :: "string option \<Rightarrow> string" where
  "identity_field field =
     (case field of
        Some v \<Rightarrow> be_bytes (min (length v) u32_max) @ v
      | None \<Rightarrow> be_bytes u32_max)"

fun source_state_text :: "source_state \<Rightarrow> string" where
  "source_state_text Clean = ''clean''"
| "source_state_text Dirty = ''dirty''"
| "source_state_text UnknownSource = ''unknown''"

fun build_channel_text :: "build_channel \<Rightarrow> string" where
  "build_channel_text OfficialRelease = ''official_release''"
| "build_channel_text Development = ''development''"
| "build_channel_text LocalBuild = ''local''"
| "build_channel_text UnknownChannel = ''unknown''"

fun timestamp_source_text :: "build_timestamp_source \<Rightarrow> string" where
  "timestamp_source_text SourceDateEpoch = ''source_date_epoch''"

definition identity_fields ::
    "(timestamp \<Rightarrow> string) \<Rightarrow> build_identity \<Rightarrow> runtime_platform \<Rightarrow> string option list" where
  "identity_fields rfc3339 build platform =
     [bi_app_version build,
      bi_source_commit build,
      Some (source_state_text (bi_source_state build)),
      Some (build_channel_text (bi_build_channel build)),
      bi_release_tag build,
      bi_target_triple build,
      bi_build_architecture build,
      map_option (\<lambda>t. rfc3339 (bt_value t)) (bi_build_timestamp build),
      map_option (\<lambda>t. timestamp_source_text (bt_source t)) (bi_build_timestamp build),
      pl_os_family platform,
      pl_os_version platform,
      pl_runtime_architecture platform,
      pl_application_id platform]"

definition context_preimage :: "string option list \<Rightarrow> string" where
  "context_preimage fs =
     ''antennabench.runtime-context.v1'' @ [char_of (0 :: nat)] @ concat (map identity_field fs)"

definition runtime_context_id_v6 ::
    "(string \<Rightarrow> string) \<Rightarrow> (timestamp \<Rightarrow> string) \<Rightarrow> build_identity \<Rightarrow> runtime_platform \<Rightarrow> string" where
  "runtime_context_id_v6 sha256 rfc3339 build platform =
     ''ctx_'' @ hex_text (sha256 (context_preimage (identity_fields rfc3339 build platform)))"

definition new_runtime_context ::
    "(string \<Rightarrow> string) \<Rightarrow> (timestamp \<Rightarrow> string) \<Rightarrow> timestamp \<Rightarrow> mutation_member \<Rightarrow> build_identity
       \<Rightarrow> runtime_platform \<Rightarrow> runtime_context" where
  "new_runtime_context sha256 rfc3339 first_recorded_at mutation build platform =
     \<lparr>rc_schema = RUNTIME_CONTEXT_SCHEMA_V1,
      rc_context_id = runtime_context_id_v6 sha256 rfc3339 build platform,
      rc_first_recorded_at = first_recorded_at, rc_mutation = mutation, rc_build = build,
      rc_platform = platform\<rparr>"

definition has_valid_identity ::
    "(string \<Rightarrow> string) \<Rightarrow> (timestamp \<Rightarrow> string) \<Rightarrow> runtime_context \<Rightarrow> bool" where
  "has_valid_identity sha256 rfc3339 c \<longleftrightarrow>
     rc_schema c = RUNTIME_CONTEXT_SCHEMA_V1 \<and>
     rc_context_id c = runtime_context_id_v6 sha256 rfc3339 (rc_build c) (rc_platform c)"

definition legacy_creator_context_v6 ::
    "(string \<Rightarrow> string) \<Rightarrow> (timestamp \<Rightarrow> string) \<Rightarrow> string option \<Rightarrow> timestamp \<Rightarrow> mutation_member
       \<Rightarrow> runtime_context" where
  "legacy_creator_context_v6 sha256 rfc3339 app_version first_recorded_at mutation =
     new_runtime_context sha256 rfc3339 first_recorded_at mutation
       \<lparr>bi_app_version = app_version, bi_source_commit = None, bi_source_state = UnknownSource,
        bi_build_channel = UnknownChannel, bi_release_tag = None, bi_target_triple = None,
        bi_build_architecture = None, bi_build_timestamp = None\<rparr>
       \<lparr>pl_os_family = None, pl_os_version = None, pl_runtime_architecture = None,
        pl_application_id = None\<rparr>"

section \<open>The upgrade of schema v5 to schema v6\<close>

definition upgrade_identity :: "(string \<Rightarrow> string) \<Rightarrow> string \<Rightarrow> string \<Rightarrow> string" where
  "upgrade_identity sha256 kind session_id =
     ''upgrade-'' @ kind @ ''-'' @
     hex_text (sha256 (''antennabench.schema-v6-upgrade'' @ [char_of (0 :: nat)] @ kind @
       [char_of (0 :: nat)] @ session_id))"

definition upgrade_meta_v6 :: "string \<Rightarrow> record_meta_v2 \<Rightarrow> record_meta_v2" where
  "upgrade_meta_v6 legacy_id m =
     m\<lparr>m2_schema_version := SCHEMA_VERSION_V6, m2_runtime_context_id := Some legacy_id\<rparr>"

definition upgrade_mutation :: "nat \<Rightarrow> mutation_member" where
  "upgrade_mutation i =
     \<lparr>mm_mutation_id = ''upgrade-runtime-context'', mm_member_index = i, mm_member_count = 2\<rparr>"

definition upgrade_diagnostic ::
    "(string \<Rightarrow> string) \<Rightarrow> string \<Rightarrow> string \<Rightarrow> timestamp \<Rightarrow> nat \<Rightarrow> operational_diagnostic" where
  "upgrade_diagnostic sha256 session_id active_id occurred_at source_revision =
     \<lparr>od_schema = ''operational_diagnostic.v1'',
      od_diagnostic_id = upgrade_identity sha256 ''diagnostic'' session_id,
      od_correlation_id = upgrade_identity sha256 ''correlation'' session_id,
      od_attempt_id = upgrade_identity sha256 ''attempt'' session_id,
      od_mutation = upgrade_mutation 1,
      od_runtime_context_id = active_id,
      od_occurred_at = occurred_at,
      od_operation = CheckpointRecovery,
      od_phase = Recover,
      od_code = ''bundle.legacy_history_unavailable'',
      od_summary = ''Earlier operational history is unavailable for this upgraded bundle.'',
      od_outcome = Recovered,
      od_severity = WarningLevel,
      od_revision_before = Some source_revision,
      od_revision_after = Some source_revision,
      od_diagnostic_revision = u64_saturating_add source_revision 1,
      od_evidence_effect = EarlierEvidenceRetained,
      od_retry = \<lparr>dr_disposition = NotRetryable, dr_guidance_code = ''legacy_history_unavailable''\<rparr>,
      od_targets = [TargetSource ''schema-v5''],
      od_causes = [\<lparr>dc_code = ''bundle.legacy_history_unavailable'', dc_phase = Recover,
        dc_facts = [\<lparr>df_name = ''source_schema'', df_value = FactU64 (SCHEMA_VERSION_V6 - 1)\<rparr>]\<rparr>],
      od_detail_status = \<lparr>de_state = DetailComplete, de_omitted_fact_count = 0\<rparr>\<rparr>"

definition upgrade_v5_bundle_model_to_v6 ::
    "(string \<Rightarrow> string) \<Rightarrow> (timestamp \<Rightarrow> string) \<Rightarrow> 'j bundle_v3_contents \<Rightarrow> runtime_context
       \<Rightarrow> 'j bundle_v3_contents" where
  "upgrade_v5_bundle_model_to_v6 sha256 rfc3339 b upgrader =
     (let source_revision = ss_revision (b3_session_state b);
          legacy = legacy_creator_context_v6 sha256 rfc3339 (Some (n2_app_version (b3_manifest b)))
            (n2_created_at (b3_manifest b))
            \<lparr>mm_mutation_id = ''upgrade-legacy-creator-context'', mm_member_index = 0,
             mm_member_count = 1\<rparr>;
          legacy_id = rc_context_id legacy;
          upgrader = upgrader\<lparr>rc_mutation := upgrade_mutation 0\<rparr>;
          active_id = rc_context_id upgrader;
          contexts = (if legacy_id = active_id then [legacy] else [legacy, upgrader])
      in b\<lparr>b3_manifest := (b3_manifest b)
               \<lparr>n2_schema_version := SCHEMA_VERSION_V6,
                n2_files := (n2_files (b3_manifest b))
                  \<lparr>f2_runtime_contexts := Some ''runtime-contexts.jsonl'',
                   f2_diagnostics := Some ''diagnostics.jsonl''\<rparr>,
                n2_creator_runtime_context_id := Some legacy_id\<rparr>,
           b3_session_state := (b3_session_state b)
               \<lparr>ss_schema_version := SCHEMA_VERSION_V6,
                ss_active_runtime_context_id := Some active_id,
                ss_diagnostics_status := Some diagnostics_status_complete,
                ss_revision := u64_saturating_add source_revision 1,
                ss_last_committed_mutation_id := Some ''upgrade-runtime-context''\<rparr>,
           b3_station := (b3_station b)\<lparr>st_schema_version := SCHEMA_VERSION_V6\<rparr>,
           b3_antennas := (b3_antennas b)\<lparr>af_schema_version := SCHEMA_VERSION_V6\<rparr>,
           b3_schedule := (b3_schedule b)\<lparr>s3_schema_version := SCHEMA_VERSION_V6\<rparr>,
           b3_analysis := (b3_analysis b)\<lparr>al_schema_version := SCHEMA_VERSION_V6\<rparr>,
           b3_events := map (\<lambda>e. e\<lparr>oe_meta := upgrade_meta_v6 legacy_id (oe_meta e)\<rparr>) (b3_events b),
           b3_rig := map (\<lambda>r. r\<lparr>r3_meta := upgrade_meta_v6 legacy_id (r3_meta r)\<rparr>) (b3_rig b),
           b3_observations :=
             map (\<lambda>r. r\<lparr>o2_meta := upgrade_meta_v6 legacy_id (o2_meta r)\<rparr>) (b3_observations b),
           b3_adapter_records :=
             map (\<lambda>r. r\<lparr>ar_meta := upgrade_meta_v6 legacy_id (ar_meta r)\<rparr>) (b3_adapter_records b),
           b3_propagation :=
             map (\<lambda>r. r\<lparr>q2_meta := upgrade_meta_v6 legacy_id (q2_meta r)\<rparr>) (b3_propagation b),
           b3_runtime_contexts := contexts,
           b3_diagnostics :=
             [upgrade_diagnostic sha256 (n2_session_id (b3_manifest b)) active_id
                (rc_first_recorded_at (last contexts)) source_revision]\<rparr>)"

section \<open>Unique decoding of the preimage\<close>

lemma be_bytes_length [simp]: "length (be_bytes n) = 4"
  by (simp add: be_bytes_def)

fun from_be_bytes :: "string \<Rightarrow> nat" where
  "from_be_bytes [a, b, c, d] =
     of_char a * 2 ^ 24 + of_char b * 2 ^ 16 + of_char c * 2 ^ 8 + of_char d"
| "from_be_bytes _ = 0"

lemma from_be_bytes:
  assumes "n < 2 ^ 32"
  shows "from_be_bytes (be_bytes n) = n"
proof -
  have parts: "n div 65536 = n div 256 div 256" "n div 16777216 = n div 256 div 256 div 256"
    by (simp_all add: div_mult2_eq [symmetric])
  have "n div 256 div 256 div 256 * 16777216 + n div 256 div 256 mod 256 * 65536 +
      n div 256 mod 256 * 256 + n mod 256 = n"
    using div_mult_mod_eq [of n 256] div_mult_mod_eq [of "n div 256" 256]
      div_mult_mod_eq [of "n div 256 div 256" 256] by linarith
  with assms show ?thesis by (simp add: be_bytes_def parts)
qed

lemma be_bytes_inject: "m < 2 ^ 32 \<Longrightarrow> n < 2 ^ 32 \<Longrightarrow> be_bytes m = be_bytes n \<longleftrightarrow> m = n"
  by (metis from_be_bytes)

text \<open>A field the four length bytes can describe without meeting the marker of an absent one.\<close>

definition short_field :: "string option \<Rightarrow> bool" where
  "short_field f \<longleftrightarrow> (case f of None \<Rightarrow> True | Some v \<Rightarrow> length v < u32_max)"

definition field_length :: "string option \<Rightarrow> nat" where
  "field_length f = (case f of None \<Rightarrow> u32_max | Some v \<Rightarrow> min (length v) u32_max)"

definition field_bytes :: "string option \<Rightarrow> string" where
  "field_bytes f = (case f of None \<Rightarrow> [] | Some v \<Rightarrow> v)"

lemma identity_field_split: "identity_field f = be_bytes (field_length f) @ field_bytes f"
  by (simp add: identity_field_def field_length_def field_bytes_def split: option.split)

lemma field_length_bound: "field_length f < 2 ^ 32"
  by (simp add: field_length_def u32_max_def split: option.split) linarith

lemma short_field_determined:
  assumes "short_field f" and "short_field g" and "field_length f = field_length g"
    and "field_bytes f @ r = field_bytes g @ s"
  shows "f = g \<and> r = s"
  using assms by (cases f; cases g) (auto simp: short_field_def field_length_def field_bytes_def)

lemma identity_field_append:
  assumes "short_field f" and "short_field g" and "identity_field f @ r = identity_field g @ s"
  shows "f = g \<and> r = s"
proof -
  from assms(3) have "be_bytes (field_length f) = be_bytes (field_length g)"
    and rest: "field_bytes f @ r = field_bytes g @ s"
    by (simp_all add: identity_field_split append_eq_append_conv)
  then have "field_length f = field_length g"
    using be_bytes_inject [OF field_length_bound field_length_bound] by blast
  from short_field_determined [OF assms(1,2) this rest] show ?thesis .
qed

lemma identity_fields_decodable:
  "list_all short_field fs \<Longrightarrow> list_all short_field gs \<Longrightarrow> length fs = length gs \<Longrightarrow>
   concat (map identity_field fs) = concat (map identity_field gs) \<Longrightarrow> fs = gs"
proof (induction fs arbitrary: gs)
  case (Cons f fs)
  then obtain g gs' where "gs = g # gs'" by (cases gs) auto
  with Cons identity_field_append [of f g] show ?case by fastforce
qed simp

lemma context_preimage_inject:
  assumes "list_all short_field fs" and "list_all short_field gs" and "length fs = length gs"
  shows "context_preimage fs = context_preimage gs \<longleftrightarrow> fs = gs"
  using identity_fields_decodable [OF assms] by (auto simp: context_preimage_def)

lemma hex_digit_inject: "m < 16 \<Longrightarrow> n < 16 \<Longrightarrow> hex_digit m = hex_digit n \<Longrightarrow> m = n"
  by (auto simp: hex_digit_def dest!: arg_cong [where f = "of_char :: char \<Rightarrow> nat"] split: if_splits)

lemma hex_byte_inject: "hex_byte c = hex_byte d \<longleftrightarrow> c = d"
proof
  assume eq: "hex_byte c = hex_byte d"
  have bound: "of_char x div 16 < (16 :: nat)" "of_char x mod 16 < (16 :: nat)" for x :: char
    using nat_of_char_less_256 [of x] by (simp_all add: div_less_iff_less_mult)
  from eq have "of_char c div 16 = (of_char d div 16 :: nat)" and "of_char c mod 16 = (of_char d mod 16 :: nat)"
    using hex_digit_inject bound by (auto simp: hex_byte_def)
  then have "of_char c = (of_char d :: nat)"
    by (metis div_mult_mod_eq)
  then show "c = d" by simp
qed simp

lemma hex_text_inject: "hex_text s = hex_text t \<longleftrightarrow> s = t"
proof
  show "hex_text s = hex_text t \<Longrightarrow> s = t"
  proof (induction s arbitrary: t)
    case Nil
    then show ?case by (cases t) (simp_all add: hex_text_def hex_byte_def)
  next
    case (Cons c s)
    then obtain d t' where t: "t = d # t'"
      by (cases t) (simp_all add: hex_text_def hex_byte_def)
    with Cons.prems have "hex_byte c = hex_byte d" and "hex_text s = hex_text t'"
      by (simp_all add: hex_text_def hex_byte_def)
    with Cons.IH t show ?case by (simp add: hex_byte_inject)
  qed
qed simp

lemma context_id_fields:
  assumes "list_all short_field (identity_fields rfc3339 b p)"
    and "list_all short_field (identity_fields rfc3339 b' p')"
    and "inj_on sha256 {context_preimage (identity_fields rfc3339 b p),
      context_preimage (identity_fields rfc3339 b' p')}"
  shows "runtime_context_id_v6 sha256 rfc3339 b p = runtime_context_id_v6 sha256 rfc3339 b' p' \<longleftrightarrow>
    identity_fields rfc3339 b p = identity_fields rfc3339 b' p'"
proof -
  have "length (identity_fields rfc3339 b p) = length (identity_fields rfc3339 b' p')"
    by (simp add: identity_fields_def)
  then show ?thesis
    using context_preimage_inject [OF assms(1,2)] inj_on_eq_iff [OF assms(3)]
    by (simp add: runtime_context_id_v6_def hex_text_inject)
qed

lemma state_text_inject [simp]:
  "source_state_text x = source_state_text y \<longleftrightarrow> x = y"
  "build_channel_text c = build_channel_text d \<longleftrightarrow> c = d"
  by (cases x; cases y; simp) (cases c; cases d; simp)

lemma timestamp_source_text_eq: "timestamp_source_text s = ''source_date_epoch''"
  by (cases s) simp

text \<open>
  C20. Two runtimes have the same context id exactly when they agree on every fact of build and
  platform, the build timestamp being compared as it is printed, to the second: the preimage
  is uniquely decodable for fields shorter than the marker of an absent field, so only a
  collision of the digest could confuse two runtimes.
\<close>

theorem context_id_identifies_runtime:
  assumes "list_all short_field (identity_fields rfc3339 b p)"
    and "list_all short_field (identity_fields rfc3339 b' p')"
    and "inj_on sha256 {context_preimage (identity_fields rfc3339 b p),
      context_preimage (identity_fields rfc3339 b' p')}"
  shows "runtime_context_id_v6 sha256 rfc3339 b p = runtime_context_id_v6 sha256 rfc3339 b' p' \<longleftrightarrow>
    p = p' \<and> b\<lparr>bi_build_timestamp := None\<rparr> = b'\<lparr>bi_build_timestamp := None\<rparr> \<and>
    map_option (\<lambda>t. rfc3339 (bt_value t)) (bi_build_timestamp b) =
      map_option (\<lambda>t. rfc3339 (bt_value t)) (bi_build_timestamp b')"
proof -
  have src: "map_option (\<lambda>t. timestamp_source_text (bt_source t)) x =
      map_option (\<lambda>t. timestamp_source_text (bt_source t)) y \<longleftrightarrow> (x = None \<longleftrightarrow> y = None)" for x y :: "build_timestamp option"
    by (cases x; cases y) (simp_all add: timestamp_source_text_eq)
  show ?thesis
    unfolding context_id_fields [OF assms] identity_fields_def
    by (cases b; cases b'; cases p; cases p') (auto simp: src)
qed

definition bare_build :: build_identity where
  "bare_build =
     \<lparr>bi_app_version = Some ''0.1.0'', bi_source_commit = None, bi_source_state = Clean,
      bi_build_channel = LocalBuild, bi_release_tag = None, bi_target_triple = None,
      bi_build_architecture = None, bi_build_timestamp = None\<rparr>"

definition platform_on :: "string \<Rightarrow> runtime_platform" where
  "platform_on os =
     \<lparr>pl_os_family = Some os, pl_os_version = None, pl_runtime_architecture = None,
      pl_application_id = None\<rparr>"

theorem context_id_identifies_runtime_witness:
  "runtime_context_id_v6 (\<lambda>bytes. bytes) (\<lambda>_. []) bare_build (platform_on ''linux'') \<noteq>
     runtime_context_id_v6 (\<lambda>bytes. bytes) (\<lambda>_. []) bare_build (platform_on ''macos'')"
  by (subst context_id_identifies_runtime)
    (simp_all add: identity_fields_def bare_build_def platform_on_def short_field_def u32_max_def)

section \<open>The upgraded bundle\<close>

lemma new_runtime_context_valid: "has_valid_identity sha256 rfc3339 (new_runtime_context sha256 rfc3339 t m b p)"
  by (simp add: has_valid_identity_def new_runtime_context_def)

definition record_metas :: "'j bundle_v3_contents \<Rightarrow> record_meta_v2 list" where
  "record_metas b =
     map oe_meta (b3_events b) @ map r3_meta (b3_rig b) @ map o2_meta (b3_observations b) @
     map ar_meta (b3_adapter_records b) @ map q2_meta (b3_propagation b)"

text \<open>The evidence of a bundle apart from what an upgrade may rewrite in a record's metadata.\<close>

definition bare_meta :: "record_meta_v2 \<Rightarrow> record_meta_v2" where
  "bare_meta m = m\<lparr>m2_schema_version := 0, m2_runtime_context_id := None\<rparr>"

definition bare_evidence ::
    "'j bundle_v3_contents \<Rightarrow> operator_event_v3 list \<times> 'j rig_record_v3 list \<times> 'j observation_record_v2 list
       \<times> adapter_record_v2 list \<times> 'j propagation_record_v2 list" where
  "bare_evidence b =
     (map (\<lambda>e. e\<lparr>oe_meta := bare_meta (oe_meta e)\<rparr>) (b3_events b),
      map (\<lambda>r. r\<lparr>r3_meta := bare_meta (r3_meta r)\<rparr>) (b3_rig b),
      map (\<lambda>r. r\<lparr>o2_meta := bare_meta (o2_meta r)\<rparr>) (b3_observations b),
      map (\<lambda>r. r\<lparr>ar_meta := bare_meta (ar_meta r)\<rparr>) (b3_adapter_records b),
      map (\<lambda>r. r\<lparr>q2_meta := bare_meta (q2_meta r)\<rparr>) (b3_propagation b))"

text \<open>
  C21. The upgrade to schema v6 attributes the old evidence to the legacy creator and the new
  state to the upgrader.  The creator is the context made of the application version the old
  manifest names; every record is attributed to it, never to the upgrader, and differs from the
  old record in its attribution and schema version only, in the same order; the active context is
  the upgrader; exactly these two contexts are listed (once, when they are the same) and have
  valid identities when the upgrader's was valid; the one diagnostic is the active context's, and
  the revision grows by one (saturating) to the revision of that diagnostic.
\<close>

theorem v6_upgrade_attributes_records:
  assumes "has_valid_identity sha256 rfc3339 upgrader"
    and "c = upgrade_v5_bundle_model_to_v6 sha256 rfc3339 b upgrader"
    and "creator = rc_context_id (legacy_creator_context_v6 sha256 rfc3339 (Some (n2_app_version (b3_manifest b))) t m)"
  shows "n2_creator_runtime_context_id (b3_manifest c) = Some creator \<and>
    map (\<lambda>m. (m2_runtime_context_id m, m2_schema_version m)) (record_metas c) =
      replicate (length (record_metas b)) (Some creator, 6) \<and>
    bare_evidence c = bare_evidence b \<and>
    ss_active_runtime_context_id (b3_session_state c) = Some (rc_context_id upgrader) \<and>
    map rc_context_id (b3_runtime_contexts c) = remdups [creator, rc_context_id upgrader] \<and>
    list_all (has_valid_identity sha256 rfc3339) (b3_runtime_contexts c) \<and>
    map (\<lambda>d. (od_runtime_context_id d, od_diagnostic_revision d)) (b3_diagnostics c) =
      [(rc_context_id upgrader, ss_revision (b3_session_state c))] \<and>
    ss_revision (b3_session_state c) = min (ss_revision (b3_session_state b) + 1) (2 ^ 64 - 1)"
proof -
  have metas: "m2_runtime_context_id (upgrade_meta_v6 i m) = Some i" "m2_schema_version (upgrade_meta_v6 i m) = 6"
    "bare_meta (upgrade_meta_v6 i m) = bare_meta m" for i m
    by (simp_all add: upgrade_meta_v6_def bare_meta_def schema_version_defs)
  have valid: "has_valid_identity sha256 rfc3339 (upgrader\<lparr>rc_mutation := x\<rparr>)" for x
    using assms(1) by (simp add: has_valid_identity_def)
  have creator: "rc_context_id (legacy_creator_context_v6 sha256 rfc3339 (Some (n2_app_version (b3_manifest b))) t' m') = creator"
    for t' m'
    by (simp add: assms(3) legacy_creator_context_v6_def new_runtime_context_def)
  note up = assms(2) [unfolded upgrade_v5_bundle_model_to_v6_def Let_def creator]
  have same: "map f xs = replicate (length xs) y" if "\<And>x. x \<in> set xs \<Longrightarrow> f x = y" for f :: "'z \<Rightarrow> 'y" and xs y
    using that by (induction xs) auto
  have "map (\<lambda>m. (m2_runtime_context_id m, m2_schema_version m)) (record_metas c) =
      replicate (length (record_metas c)) (Some creator, 6)"
    by (rule same) (auto simp: up record_metas_def metas)
  moreover have "length (record_metas c) = length (record_metas b)"
    by (simp add: up record_metas_def)
  moreover have "bare_evidence c = bare_evidence b"
    by (simp add: up bare_evidence_def metas comp_def)
  moreover have "list_all (has_valid_identity sha256 rfc3339) (b3_runtime_contexts c)"
    by (simp add: up valid legacy_creator_context_v6_def new_runtime_context_valid)
  moreover have "map rc_context_id (b3_runtime_contexts c) = remdups [creator, rc_context_id upgrader]"
    by (simp add: up creator)
  ultimately show ?thesis
    by (simp add: up upgrade_diagnostic_def u64_saturating_add_def u64_max_def)
qed

text \<open>The upgrade as an instance of the contract of an upgrade.\<close>

interpretation v6: evidence_preserving "upgrade_meta_v6 i" "\<lambda>p. p" "\<lambda>_. True" for i
proof
  show "same_payload p p" for p by (cases p) simp_all
qed (simp add: same_meta_def upgrade_meta_v6_def)

lemma v6_upgraded_bundle:
  "\<exists>i. upgraded_bundle (upgrade_meta_v6 i) (\<lambda>p. p) b (upgrade_v5_bundle_model_to_v6 sha256 rfc3339 b upgrader)"
  by (simp add: upgraded_bundle_def upgrade_v5_bundle_model_to_v6_def Let_def comp_def) blast

text \<open>
  C22. Upgrading to schema v6 does not change what is analysed: the current model of the upgraded
  bundle, with the provenance of its records, is that of the bundle, provided the bundle is
  of schema v4 or later, so that the repair of observations applied to it already.
\<close>

theorem v6_upgrade_keeps_analysis:
  assumes "4 \<le> n2_schema_version (b3_manifest b)"
    and "c = upgrade_v5_bundle_model_to_v6 sha256 rfc3339 b upgrader"
  shows "cb_bundle (into_current_v3 dir rep c) = cb_bundle (into_current_v3 dir rep b) \<and>
    cb_record_provenance (into_current_v3 dir rep c) = cb_record_provenance (into_current_v3 dir rep b)"
proof -
  from v6_upgraded_bundle [of b sha256 rfc3339 upgrader] obtain i
    where up: "upgraded_bundle (upgrade_meta_v6 i) (\<lambda>p. p) b c" unfolding assms(2) by blast
  have "n2_schema_version (b3_manifest c) = 6"
    by (simp add: assms(2) upgrade_v5_bundle_model_to_v6_def Let_def schema_version_defs)
  with assms(1) v6.keeps_current_model [OF up] show ?thesis
    by (simp add: list_all_def schema_version_defs)
qed

definition fresh_v3_bundle :: "unit bundle_v3_contents" where
  "fresh_v3_bundle = upgrade_v3_bundle_model_to_v5 (upgrade_v2_bundle_model empty_v2_bundle)"

definition local_upgrader :: runtime_context where
  "local_upgrader = new_runtime_context (\<lambda>bytes. bytes) (\<lambda>_. []) 7
     \<lparr>mm_mutation_id = ''m'', mm_member_index = 0, mm_member_count = 1\<rparr> bare_build (platform_on ''linux'')"

definition upgraded_v6 :: "unit bundle_v3_contents" where
  "upgraded_v6 = upgrade_v5_bundle_model_to_v6 (\<lambda>bytes. bytes) (\<lambda>_. []) fresh_v3_bundle local_upgrader"

theorem v6_upgrade_attributes_records_witness:
  "map m2_runtime_context_id (record_metas upgraded_v6) = [n2_creator_runtime_context_id (b3_manifest upgraded_v6)] \<and>
   ss_active_runtime_context_id (b3_session_state upgraded_v6) = Some (rc_context_id local_upgrader) \<and>
   ss_revision (b3_session_state upgraded_v6) = 2"
proof -
  have "has_valid_identity (\<lambda>bytes. bytes) (\<lambda>_. []) local_upgrader"
    by (simp add: local_upgrader_def new_runtime_context_valid)
  note up = v6_upgrade_attributes_records [OF this upgraded_v6_def refl, of 0 "upgrade_mutation 0"]
  have "length (record_metas fresh_v3_bundle) = 1" "ss_revision (b3_session_state fresh_v3_bundle) = 1"
    by (simp_all add: fresh_v3_bundle_def record_metas_def upgrade_v3_bundle_model_to_v5_def
        upgrade_v2_bundle_model_def empty_v2_bundle_def)
  with up show ?thesis by (auto simp: map_eq_Cons_conv)
qed

theorem v6_upgrade_keeps_analysis_witness:
  "cb_bundle (into_current_v3 (\<lambda>_. None) (\<lambda>_. True) upgraded_v6) =
     cb_bundle (into_current_v3 (\<lambda>_. None) (\<lambda>_. True) fresh_v3_bundle)"
proof -
  have "4 \<le> n2_schema_version (b3_manifest fresh_v3_bundle)"
    by (simp add: fresh_v3_bundle_def upgrade_v3_bundle_model_to_v5_def schema_version_defs)
  from v6_upgrade_keeps_analysis [OF this upgraded_v6_def] show ?thesis by blast
qed

definition upgrade_members :: "'j bundle_v3_contents \<Rightarrow> nat list" where
  "upgrade_members c =
     map mm_member_index (filter (\<lambda>m. mm_mutation_id m = ''upgrade-runtime-context'')
       (map rc_mutation (b3_runtime_contexts c) @ map od_mutation (b3_diagnostics c)))"

text \<open>
  C37. The mutation the upgrade commits has two members, the upgrader's context and the
  diagnostic; it is written in full exactly when the upgrader is not itself identified as the
  legacy creator.  Otherwise the diagnostic stays behind as member 1 of a mutation that has
  no member 0.
\<close>

theorem v6_upgrade_mutation_complete:
  "upgrade_members (upgrade_v5_bundle_model_to_v6 sha256 rfc3339 b upgrader) =
     (if rc_context_id upgrader = rc_context_id (legacy_creator_context_v6 sha256 rfc3339
           (Some (n2_app_version (b3_manifest b))) t m)
      then [1] else [0, 1])"
  by (simp add: upgrade_members_def upgrade_v5_bundle_model_to_v6_def Let_def
      legacy_creator_context_v6_def new_runtime_context_def upgrade_diagnostic_def
      upgrade_mutation_def)

end
