(* ===== verification/Results.thy ===== *)
theory Results
  imports Prelude
begin

text \<open>
  Rust's \<open>Result\<close> as a sum: the operator \<open>?\<close> is \<open>and_then\<close>, an early \<open>return Err(e)\<close> under a
  condition is \<open>refuse_if\<close>, \<open>ok_or_else\<close> is \<open>ok_or\<close>, and a \<open>for\<close> loop whose body may return an
  error is \<open>try_each\<close> (no state) or \<open>try_fold\<close> (with the state of the loop).  The collection
  \<open>result_simps\<close> says when each of them succeeds.
\<close>

named_theorems result_simps \<open>when a sequence of checks succeeds\<close>

definition and_then :: "'e + 'a \<Rightarrow> ('a \<Rightarrow> 'e + 'b) \<Rightarrow> 'e + 'b" where
  "and_then r f = (case r of Inl e \<Rightarrow> Inl e | Inr x \<Rightarrow> f x)"

definition refuse_if :: "bool \<Rightarrow> 'e \<Rightarrow> 'e + unit" where
  "refuse_if c e = (if c then Inl e else Inr ())"

definition ok_or :: "'a option \<Rightarrow> 'e \<Rightarrow> 'e + 'a" where
  "ok_or x e = (case x of None \<Rightarrow> Inl e | Some y \<Rightarrow> Inr y)"

fun try_each :: "('a \<Rightarrow> 'e + unit) \<Rightarrow> 'a list \<Rightarrow> 'e + unit" where
  "try_each f [] = Inr ()"
| "try_each f (x # xs) = and_then (f x) (\<lambda>_. try_each f xs)"

fun try_fold :: "('s \<Rightarrow> 'a \<Rightarrow> 'e + 's) \<Rightarrow> 's \<Rightarrow> 'a list \<Rightarrow> 'e + 's" where
  "try_fold f s [] = Inr s"
| "try_fold f s (x # xs) = and_then (f s x) (\<lambda>s'. try_fold f s' xs)"

lemma and_then_simps [simp]: "and_then (Inl e) f = Inl e" "and_then (Inr x) f = f x"
  by (simp_all add: and_then_def)

lemma and_then_Inr [result_simps]: "and_then r f = Inr y \<longleftrightarrow> (\<exists>x. r = Inr x \<and> f x = Inr y)"
  by (cases r) simp_all

lemma refuse_if_Inr [result_simps]: "refuse_if c e = Inr u \<longleftrightarrow> \<not> c"
  by (simp add: refuse_if_def)

lemma ok_or_Inr [result_simps]: "ok_or x e = Inr y \<longleftrightarrow> x = Some y"
  by (simp add: ok_or_def split: option.split)

lemma try_each_Inr [result_simps]: "try_each f xs = Inr u \<longleftrightarrow> list_all (\<lambda>x. f x = Inr ()) xs"
  by (induction xs) (simp_all add: and_then_Inr)

lemma refuse_if_simps [simp]: "refuse_if True e = Inl e" "refuse_if False e = Inr ()"
  by (simp_all add: refuse_if_def)

lemma ok_or_simps [simp]: "ok_or None e = Inl e" "ok_or (Some x) e = Inr x"
  by (simp_all add: ok_or_def)

text \<open>An invariant of a fallible loop: what every successful step keeps, the loop keeps.\<close>

lemma try_fold_invariant:
  assumes "try_fold f s xs = Inr s'" and "P s []"
    and "\<And>s ys x t. P s ys \<Longrightarrow> x \<in> set xs \<Longrightarrow> f s x = Inr t \<Longrightarrow> P t (ys @ [x])"
  shows "P s' xs"
proof -
  have "try_fold f s zs = Inr s' \<Longrightarrow> P s ys \<Longrightarrow> set zs \<subseteq> set xs \<Longrightarrow> P s' (ys @ zs)" for zs ys
  proof (induction zs arbitrary: s ys)
    case (Cons z zs)
    from Cons.prems(1) obtain t where t: "f s z = Inr t" "try_fold f t zs = Inr s'"
      by (auto simp: and_then_Inr)
    with assms(3) Cons.prems have "P t (ys @ [z])" by simp
    with Cons.IH [OF t(2), of "ys @ [z]"] Cons.prems(3) show ?case by simp
  qed simp
  from this [of xs "[]"] assms(1,2) show ?thesis by simp
qed

fun find_map :: "('a \<Rightarrow> 'b option) \<Rightarrow> 'a list \<Rightarrow> 'b option" where
  "find_map f [] = None"
| "find_map f (x # xs) = (case f x of None \<Rightarrow> find_map f xs | Some y \<Rightarrow> Some y)"

end
