(* ===== verification/AntennaControl.thy ===== *)
theory AntennaControl
  imports Results UpgradeInvariance
begin

text \<open>
  The validation of antenna-control evidence (\<open>crates/core/src/v5_antenna_control.rs\<close>):
  command invocations, command-verified readiness and continued readiness.  Decoding base64 is
  the parameter \<open>decode\<close> (crate \<open>base64\<close>), whether a JSON payload is null the parameter
  \<open>is_null\<close> (\<open>serde_json\<close>), and \<open>rep\<close> says which instants chrono can represent.
\<close>

section \<open>Bounds\<close>

definition COMMAND_OUTPUT_MAX_BYTES :: nat where "COMMAND_OUTPUT_MAX_BYTES = 64 * 1024"
definition COMMAND_TEMPLATE_MAX_BYTES :: nat where "COMMAND_TEMPLATE_MAX_BYTES = 16 * 1024"
definition COMMAND_PROGRAM_MAX_BYTES :: nat where "COMMAND_PROGRAM_MAX_BYTES = 4 * 1024"
definition COMMAND_ARGUMENT_MAX_BYTES :: nat where "COMMAND_ARGUMENT_MAX_BYTES = 16 * 1024"
definition COMMAND_ARGUMENT_COUNT_MAX :: nat where "COMMAND_ARGUMENT_COUNT_MAX = 128"
definition COMMAND_INVOCATION_MAX_BYTES :: nat where "COMMAND_INVOCATION_MAX_BYTES = 32 * 1024"

section \<open>Invocations\<close>

definition validate_output_v5 ::
    "(string \<Rightarrow> string option) \<Rightarrow> antenna_control_output \<Rightarrow> message + unit" where
  "validate_output_v5 decode output =
     and_then
       (case ou_encoding output of
          Utf8 \<Rightarrow> Inr (length (ou_data output))
        | Base64 \<Rightarrow>
            ok_or (map_option length (decode (ou_data output)))
              [Lit ''antenna-control output contains invalid base64''])
       (\<lambda>byte_len. refuse_if (COMMAND_OUTPUT_MAX_BYTES < byte_len)
          [Lit ''antenna-control output exceeds the 64 KiB capture limit''])"

definition invocation_bounds_violated ::
    "('j \<Rightarrow> bool) \<Rightarrow> 'j rig_record_v3 \<Rightarrow> antenna_control_invocation \<Rightarrow> string \<Rightarrow> bool" where
  "invocation_bounds_violated is_null rec i session_id \<longleftrightarrow>
     (let command = iv_command i in
      r3_adapter_record_ids rec \<noteq> [] \<or>
      r3_status rec \<noteq> ''antenna_control_attempt'' \<or>
      r3_frequency_hz rec \<noteq> None \<or>
      r3_mode rec \<noteq> None \<or>
      r3_power_watts rec \<noteq> None \<or>
      \<not> is_null (r3_raw rec) \<or>
      cx_session_id (iv_context i) \<noteq> session_id \<or>
      iv_completed_at i < iv_started_at i \<or>
      m2_recorded_at (r3_meta rec) < iv_completed_at i \<or>
      iv_controller_profile_name i = [] \<or>
      256 < length (iv_controller_profile_name i) \<or>
      iv_controller_profile_revision i = [] \<or>
      256 < length (iv_controller_profile_revision i) \<or>
      cc_program_template command = [] \<or>
      COMMAND_TEMPLATE_MAX_BYTES < length (cc_program_template command) \<or>
      cc_resolved_program command = [] \<or>
      COMMAND_PROGRAM_MAX_BYTES < length (cc_resolved_program command) \<or>
      COMMAND_ARGUMENT_COUNT_MAX < length (cc_argument_templates command) \<or>
      length (cc_resolved_arguments command) \<noteq> length (cc_argument_templates command) \<or>
      list_ex (\<lambda>argument. COMMAND_ARGUMENT_MAX_BYTES < length argument) (cc_argument_templates command) \<or>
      list_ex (\<lambda>argument. COMMAND_ARGUMENT_MAX_BYTES < length argument) (cc_resolved_arguments command) \<or>
      cx_target (iv_context i) = [] \<or>
      COMMAND_ARGUMENT_MAX_BYTES < length (cx_target (iv_context i)) \<or>
      (case iv_disposition i of
         SpawnError message \<Rightarrow> COMMAND_ARGUMENT_MAX_BYTES < length message
       | _ \<Rightarrow> False))"

definition find_intent :: "'j bundle_v3_contents \<Rightarrow> string \<Rightarrow> wspr_cycle_intent option" where
  "find_intent b intent_id =
     find (\<lambda>intent. wi_intent_id intent = intent_id) (s3_wspr_cycle_intents (b3_schedule b))"

definition invocation_bytes :: "antenna_control_command \<Rightarrow> nat" where
  "invocation_bytes command =
     length (cc_program_template command) + sum_list (map length (cc_argument_templates command)) +
     length (cc_resolved_program command) + sum_list (map length (cc_resolved_arguments command))"

definition validate_invocation_v5 ::
    "(string \<Rightarrow> string option) \<Rightarrow> ('j \<Rightarrow> bool) \<Rightarrow> 'j bundle_v3_contents \<Rightarrow> 'j rig_record_v3
       \<Rightarrow> antenna_control_invocation \<Rightarrow> message + unit" where
  "validate_invocation_v5 decode is_null b rec i =
     (let about = (\<lambda>text. [Lit ''rig record '', DbgStr (r3_record_id rec), Lit text]);
          context = iv_context i in
      and_then (refuse_if (invocation_bounds_violated is_null rec i (n2_session_id (b3_manifest b)))
        (about '' has an invalid bounded command invocation'')) (\<lambda>_.
      and_then (ok_or (find_intent b (cx_intent_id context))
        (about '' references an unknown command intention'')) (\<lambda>intent.
      and_then (refuse_if
         (cx_antenna context \<noteq> wi_antenna_label intent \<or>
          cx_mode context \<noteq> s3_mode (b3_schedule b) \<or>
          Some (cx_direction context) \<noteq> wi_direction intent \<or>
          cx_band context \<noteq> wi_band intent \<or>
          cx_frequency_hz context \<noteq> map_option sa_frequency_hz (wi_signal intent) \<or>
          cx_sequence context \<noteq> wi_sequence_number intent \<or>
          cx_callsign context \<noteq> st_callsign (b3_station b))
        (about '' has command context that does not match its intention'')) (\<lambda>_.
      and_then (refuse_if (COMMAND_INVOCATION_MAX_BYTES < invocation_bytes (iv_command i))
        (about '' exceeds the expanded invocation limit'')) (\<lambda>_.
      let elapsed = num_milliseconds (iv_completed_at i - iv_started_at i) in
      and_then (refuse_if (elapsed < 0 \<or> nat elapsed \<noteq> iv_elapsed_milliseconds i)
        (about '' has inconsistent command timing'')) (\<lambda>_.
      and_then (validate_output_v5 decode (iv_stdout i)) (\<lambda>_.
      validate_output_v5 decode (iv_stderr i))))))))"

definition referenced_invocation ::
    "'j bundle_v3_contents \<Rightarrow> string \<Rightarrow> antenna_control_role
       \<Rightarrow> message + ('j rig_record_v3 \<times> antenna_control_invocation)" where
  "referenced_invocation b record_id role =
     and_then (ok_or (find (\<lambda>r. r3_record_id r = record_id) (b3_rig b))
       [Lit ''command-verified readiness references missing rig record '', DbgStr record_id]) (\<lambda>rec.
     and_then (ok_or (r3_antenna_control rec)
       [Lit ''referenced rig record '', DbgStr record_id,
        Lit '' is not an antenna-control invocation'']) (\<lambda>i.
     and_then (refuse_if (iv_role i \<noteq> role)
       [Lit ''referenced rig record '', DbgStr record_id, Lit '' has the wrong role'']) (\<lambda>_.
     Inr (rec, i))))"

section \<open>Continued readiness\<close>

definition is_continued :: "wspr_readiness_basis option \<Rightarrow> bool" where
  "is_continued r \<longleftrightarrow> (case r of Some (Continued _) \<Rightarrow> True | _ \<Rightarrow> False)"

definition ends_open_occupancy :: "operator_event_v3 \<Rightarrow> bool" where
  "ends_open_occupancy e \<longleftrightarrow>
     (case oe_payload e of
        AntennaSwitchStarted3 _ \<Rightarrow> True
      | SessionInterrupted3 _ \<Rightarrow> True
      | InterruptionDetected3 _ \<Rightarrow> True
      | SessionEnded3 _ \<Rightarrow> True
      | SessionAbandoned3 _ \<Rightarrow> True
      | WsprCycleArmed3 _ _ readiness \<Rightarrow>
          (case readiness of
             Some OperatorConfirmed \<Rightarrow> True
           | Some (CommandVerified _ _) \<Rightarrow> True
           | Some (Continued _) \<Rightarrow> False
           | None \<Rightarrow> True)
      | _ \<Rightarrow> False)"

definition armed_window ::
    "(timestamp \<Rightarrow> bool) \<Rightarrow> operator_event_v3 \<Rightarrow> wspr_cycle_window option" where
  "armed_window rep e =
     (case oe_payload e of
        WsprCycleArmed3 _ cycle_starts_at _ \<Rightarrow>
          (case from_start rep cycle_starts_at of Inl _ \<Rightarrow> None | Inr w \<Rightarrow> Some w)
      | _ \<Rightarrow> None)"

definition armed_parts ::
    "payload_v3 \<Rightarrow> message + (string \<times> timestamp \<times> wspr_readiness_basis option)" where
  "armed_parts payload =
     (case payload of
        WsprCycleArmed3 l t r \<Rightarrow> Inr (l, t, r)
      | _ \<Rightarrow> Inl [Lit ''continued readiness source is not an armed WSPR cycle''])"

lemma armed_parts_Inr [result_simps]: "armed_parts p = Inr x \<longleftrightarrow> (case x of (l, t, r) \<Rightarrow> p = WsprCycleArmed3 l t r)"
  by (cases p) (auto simp: armed_parts_def)

definition validate_continued_readiness ::
    "(timestamp \<Rightarrow> bool) \<Rightarrow> 'j bundle_v3_contents \<Rightarrow> operator_event_v3 \<Rightarrow> string \<Rightarrow> string
       \<Rightarrow> message + unit" where
  "validate_continued_readiness rep b event antenna_label source_id =
     (let events = b3_events b in
      and_then (refuse_if (n2_schema_version (b3_manifest b) < SCHEMA_VERSION_V6)
        [Lit ''continued readiness requires schema v6'']) (\<lambda>_.
      and_then (ok_or (position (\<lambda>c. oe_event_id c = oe_event_id event) events)
        [Lit ''continued readiness event is missing from its bundle'']) (\<lambda>event_index.
      and_then (ok_or (position (\<lambda>c. oe_event_id c = source_id) events)
        [Lit ''continued readiness references an unknown source event'']) (\<lambda>source_index.
      and_then (refuse_if (event_index \<le> source_index)
        [Lit ''continued readiness must reference earlier readiness'']) (\<lambda>_.
      let src = events ! source_index in
      and_then (armed_parts (oe_payload src)) (\<lambda>(source_antenna, source_starts_at, source_readiness).
      and_then (refuse_if (is_continued source_readiness)
        [Lit ''continued readiness must reference original readiness evidence'']) (\<lambda>_.
      and_then (refuse_if (source_antenna \<noteq> antenna_label)
        [Lit ''continued readiness cannot change the antenna'']) (\<lambda>_.
      and_then (ok_or (oe_slot_id src) [Lit ''continued readiness source has no intention'']) (\<lambda>source_intent_id.
      and_then (ok_or (oe_slot_id event) [Lit ''continued readiness has no intention'']) (\<lambda>intent_id.
      and_then (ok_or (find_intent b source_intent_id)
        [Lit ''continued readiness source intention is unknown'']) (\<lambda>source_intent.
      and_then (ok_or (find_intent b intent_id)
        [Lit ''continued readiness intention is unknown'']) (\<lambda>intent.
      and_then (refuse_if
         (wi_antenna_label source_intent \<noteq> wi_antenna_label intent \<or>
          wi_direction source_intent \<noteq> wi_direction intent \<or>
          wi_band source_intent \<noteq> wi_band intent \<or>
          wi_signal source_intent \<noteq> wi_signal intent)
        [Lit ''continued readiness cannot change antenna, direction, band, or signal context'']) (\<lambda>_.
      and_then (case from_start rep source_starts_at of
          Inl _ \<Rightarrow> Inl [Lit ''continued readiness source has invalid WSPR timing'']
        | Inr w \<Rightarrow> Inr w) (\<lambda>source_window.
      and_then (refuse_if (oe_occurred_at event < cw_transmission_ends_at source_window)
        [Lit ''continued readiness cannot be recorded during an active transmission'']) (\<lambda>_.
      and_then (ok_or (find_map (armed_window rep) (rev (take event_index events)))
        [Lit ''continued readiness has no prior armed cycle'']) (\<lambda>latest_prior_window.
      and_then (refuse_if (oe_occurred_at event < cw_transmission_ends_at latest_prior_window)
        [Lit ''continued readiness cannot be recorded during an active transmission'']) (\<lambda>_.
      refuse_if (list_ex ends_open_occupancy (drop (source_index + 1) (take event_index events)))
        [Lit ''continued readiness source no longer owns an open antenna occupancy''])))))))))))))))))"

section \<open>The whole check\<close>

definition mismatched_invocation ::
    "'j bundle_v3_contents \<Rightarrow> operator_event_v3 \<Rightarrow> string \<Rightarrow> wspr_cycle_intent
       \<Rightarrow> 'j rig_record_v3 \<times> antenna_control_invocation \<Rightarrow> message + unit" where
  "mismatched_invocation b event antenna_label intent = (\<lambda>(rec, i).
     let context = iv_context i;
         failed = [Lit ''command-verified readiness has a failed, future, or mismatched invocation reference'']
     in
     and_then (refuse_if
        (\<not> is_exit_zero (iv_disposition i) \<or>
         cx_session_id context \<noteq> n2_session_id (b3_manifest b) \<or>
         cx_intent_id context \<noteq> wi_intent_id intent \<or>
         cx_antenna context \<noteq> antenna_label \<or>
         cx_antenna context \<noteq> wi_antenna_label intent \<or>
         cx_mode context \<noteq> s3_mode (b3_schedule b)) failed) (\<lambda>_.
     and_then (ok_or (wi_direction intent)
       [Lit ''command-verified intention requires a direction'']) (\<lambda>direction.
     and_then (refuse_if
        (cx_direction context \<noteq> direction \<or>
         cx_band context \<noteq> wi_band intent \<or>
         cx_frequency_hz context \<noteq> map_option sa_frequency_hz (wi_signal intent) \<or>
         cx_sequence context \<noteq> wi_sequence_number intent \<or>
         cx_callsign context \<noteq> st_callsign (b3_station b) \<or>
         m2_recorded_at (oe_meta event) < m2_recorded_at (r3_meta rec) \<or>
         m2_recorded_at (oe_meta event) < iv_completed_at i) failed) (\<lambda>_.
     refuse_if
        (mm_mutation_id (m2_mutation (r3_meta rec)) \<noteq> mm_mutation_id (m2_mutation (oe_meta event)) \<or>
         mm_member_count (m2_mutation (r3_meta rec)) \<noteq> 3 \<or>
         mm_member_count (m2_mutation (oe_meta event)) \<noteq> 3)
        [Lit ''command-verified rig records and armed event must share one three-member mutation'']))))"

definition validate_command_verified ::
    "'j bundle_v3_contents \<Rightarrow> string set \<Rightarrow> operator_event_v3 \<Rightarrow> string \<Rightarrow> string \<Rightarrow> string
       \<Rightarrow> message + string set" where
  "validate_command_verified b referenced event antenna_label switch_id verification_id =
     and_then (refuse_if
        (switch_id = verification_id \<or> switch_id \<in> referenced \<or>
         verification_id \<in> insert switch_id referenced)
        [Lit ''command-verified readiness references must be distinct and used once'']) (\<lambda>_.
     and_then (refuse_if
        (case s3_antenna_control (b3_schedule b) of
           Some (CommandControlled _ manual_review_required) \<Rightarrow> manual_review_required
         | _ \<Rightarrow> True)
        [Lit ''command-verified readiness is incompatible with the session antenna-control policy'']) (\<lambda>_.
     and_then (ok_or (oe_slot_id event)
        [Lit ''command-verified readiness requires an intention reference'']) (\<lambda>intent_id.
     and_then (ok_or (find_intent b intent_id)
        [Lit ''command-verified readiness references an unknown intention'']) (\<lambda>intent.
     and_then (referenced_invocation b switch_id SwitchRole) (\<lambda>switch.
     and_then (referenced_invocation b verification_id VerificationRole) (\<lambda>verification.
     and_then (try_each (mismatched_invocation b event antenna_label intent) [switch, verification]) (\<lambda>_.
     and_then (refuse_if
        (cx_target (iv_context (snd switch)) \<noteq> cx_target (iv_context (snd verification)) \<or>
         iv_controller_profile_name (snd switch) \<noteq> iv_controller_profile_name (snd verification) \<or>
         iv_controller_profile_revision (snd switch) \<noteq> iv_controller_profile_revision (snd verification) \<or>
         mm_member_index (m2_mutation (r3_meta (fst switch))) \<noteq> 0 \<or>
         mm_member_index (m2_mutation (r3_meta (fst verification))) \<noteq> 1 \<or>
         mm_member_index (m2_mutation (oe_meta event)) \<noteq> 2 \<or>
         iv_started_at (snd verification) < iv_completed_at (snd switch))
        [Lit ''command-verified mutation order or target context is invalid'']) (\<lambda>_.
     Inr (insert verification_id (insert switch_id referenced))))))))))"

definition validate_readiness ::
    "(timestamp \<Rightarrow> bool) \<Rightarrow> 'j bundle_v3_contents \<Rightarrow> string set \<Rightarrow> operator_event_v3
       \<Rightarrow> message + string set" where
  "validate_readiness rep b referenced event =
     (case oe_payload event of
        WsprCycleArmed3 antenna_label _ readiness \<Rightarrow>
          (case readiness of
             None \<Rightarrow> Inl [Lit ''schema-v5 armed WSPR cycles require an explicit readiness basis'']
           | Some (Continued source_id) \<Rightarrow>
               and_then (validate_continued_readiness rep b event antenna_label source_id)
                 (\<lambda>_. Inr referenced)
           | Some (CommandVerified switch_id verification_id) \<Rightarrow>
               validate_command_verified b referenced event antenna_label switch_id
                 verification_id
           | Some OperatorConfirmed \<Rightarrow> Inr referenced)
      | _ \<Rightarrow> Inr referenced)"

definition has_v5_fields :: "'j bundle_v3_contents \<Rightarrow> bool" where
  "has_v5_fields b \<longleftrightarrow>
     s3_antenna_control (b3_schedule b) \<noteq> None \<or>
     list_ex (\<lambda>r. r3_antenna_control r \<noteq> None) (b3_rig b) \<or>
     list_ex (\<lambda>e. case oe_payload e of WsprCycleArmed3 _ _ readiness \<Rightarrow> readiness \<noteq> None | _ \<Rightarrow> False)
       (b3_events b)"

definition validate_antenna_control_v5 ::
    "(string \<Rightarrow> string option) \<Rightarrow> ('j \<Rightarrow> bool) \<Rightarrow> (timestamp \<Rightarrow> bool) \<Rightarrow> 'j bundle_v3_contents
       \<Rightarrow> message + unit" where
  "validate_antenna_control_v5 decode is_null rep b =
     (if n2_schema_version (b3_manifest b) < SCHEMA_VERSION_V5 then
        refuse_if (has_v5_fields b)
          [Lit ''schema-v3/v4 bundles cannot contain schema-v5 antenna-control fields'']
      else
        and_then (refuse_if (s3_antenna_control (b3_schedule b) = None)
          [Lit ''schema-v5 schedules require an explicit antenna-control policy'']) (\<lambda>_.
        and_then (refuse_if
           (list_ex (\<lambda>r. r3_antenna_control r \<noteq> None) (b3_rig b) \<and>
            \<not> (case s3_antenna_control (b3_schedule b) of
                 Some (CommandControlled _ _) \<Rightarrow> True | _ \<Rightarrow> False))
          [Lit ''antenna-control invocation evidence requires a command-controlled session policy'']) (\<lambda>_.
        and_then (try_each
           (\<lambda>r. case r3_antenna_control r of
                  None \<Rightarrow> Inr ()
                | Some i \<Rightarrow> validate_invocation_v5 decode is_null b r i) (b3_rig b)) (\<lambda>_.
        and_then (try_fold (validate_readiness rep b) {} (b3_events b)) (\<lambda>_. Inr ())))))"

section \<open>The upgrade to schema v5\<close>

lemma try_fold_const: "(\<And>x. x \<in> set xs \<Longrightarrow> f s x = Inr s) \<Longrightarrow> try_fold f s xs = Inr s"
  by (induction xs) simp_all

lemma upgraded_readiness: "validate_readiness rep b referenced (upgrade_event_v5 e) = Inr referenced"
  by (cases "oe_payload e") (simp_all add: validate_readiness_def upgrade_event_v5_def)

text \<open>
  What the upgrade to schema v5 produces always passes the antenna-control check, whatever
  the bundle contained.
\<close>

theorem v5_upgrade_passes_validation:
  "validate_antenna_control_v5 decode is_null rep (upgrade_v3_bundle_model_to_v5 b) = Inr ()"
proof -
  let ?c = "upgrade_v3_bundle_model_to_v5 b"
  have "try_fold (validate_readiness rep ?c) {} (b3_events ?c) = Inr {}"
    by (rule try_fold_const) (auto simp: upgrade_v3_bundle_model_to_v5_def upgraded_readiness)
  moreover have "list_all (\<lambda>r. r3_antenna_control r = None) (b3_rig ?c)"
    by (simp add: upgrade_v3_bundle_model_to_v5_def list_all_iff)
  then have "try_each (\<lambda>r. case r3_antenna_control r of None \<Rightarrow> Inr ()
      | Some i \<Rightarrow> validate_invocation_v5 decode is_null ?c r i) (b3_rig ?c) = Inr ()"
    "\<not> list_ex (\<lambda>r. r3_antenna_control r \<noteq> None) (b3_rig ?c)"
    by (auto simp: result_simps list_all_iff list_ex_iff)
  moreover have "n2_schema_version (b3_manifest ?c) = SCHEMA_VERSION_V5"
    "s3_antenna_control (b3_schedule ?c) = Some Manual"
    by (simp_all add: upgrade_v3_bundle_model_to_v5_def)
  ultimately show ?thesis by (simp add: validate_antenna_control_v5_def)
qed

definition armed_on_own_readiness :: "payload_v3 \<Rightarrow> bool" where
  "armed_on_own_readiness p \<longleftrightarrow> (case p of WsprCycleArmed3 _ _ r \<Rightarrow> own_readiness r | _ \<Rightarrow> True)"

interpretation v5: evidence_preserving upgrade_meta_v5 confirm_readiness armed_on_own_readiness
proof
  show "armed_on_own_readiness p \<Longrightarrow> same_payload p (confirm_readiness p)" for p
    by (cases p) (simp_all add: armed_on_own_readiness_def own_readiness_def)
qed (simp add: same_meta_def upgrade_meta_v5_def)

lemma v5_upgraded_bundle:
  "upgraded_bundle upgrade_meta_v5 confirm_readiness b (upgrade_v3_bundle_model_to_v5 b)"
  by (simp add: upgraded_bundle_def upgrade_v3_bundle_model_to_v5_def upgrade_event_v5_def
      project_v3_rig_to_v2_def)

lemma pre_v5_readiness:
  assumes "validate_antenna_control_v5 decode is_null rep b = Inr ()"
    and "n2_schema_version (b3_manifest b) < SCHEMA_VERSION_V5"
  shows "list_all (armed_on_own_readiness \<circ> oe_payload) (b3_events b)"
proof -
  have "armed_on_own_readiness (oe_payload e)" if "e \<in> set (b3_events b)" for e
  proof (cases "oe_payload e")
    case (WsprCycleArmed3 l t r)
    with assms that have "r = None"
      by (force simp: validate_antenna_control_v5_def result_simps has_v5_fields_def list_ex_iff)
    with WsprCycleArmed3 show ?thesis by (simp add: armed_on_own_readiness_def own_readiness_def)
  qed (simp_all add: armed_on_own_readiness_def)
  then show ?thesis by (simp add: list_all_iff)
qed

text \<open>
  C23. Upgrading a valid schema-v4 bundle to schema v5 does not change what is analysed.  (From
  schema v3 the upgrade also switches on the repair of observations, which starts at v4.)
\<close>

theorem v5_upgrade_keeps_analysis:
  assumes "validate_antenna_control_v5 decode is_null rep' b = Inr ()"
    and "n2_schema_version (b3_manifest b) = 4"
  shows "cb_bundle (into_current_v3 dir rep (upgrade_v3_bundle_model_to_v5 b)) =
      cb_bundle (into_current_v3 dir rep b) \<and>
    cb_record_provenance (into_current_v3 dir rep (upgrade_v3_bundle_model_to_v5 b)) =
      cb_record_provenance (into_current_v3 dir rep b)"
proof -
  have "n2_schema_version (b3_manifest (upgrade_v3_bundle_model_to_v5 b)) = 5"
    by (simp add: upgrade_v3_bundle_model_to_v5_def schema_version_defs)
  moreover have "list_all (armed_on_own_readiness \<circ> oe_payload) (b3_events b)"
    by (rule pre_v5_readiness [OF assms(1)]) (simp add: assms(2) schema_version_defs)
  ultimately show ?thesis
    using v5.keeps_current_model [OF v5_upgraded_bundle, of b dir rep] assms(2)
    by (simp add: schema_version_defs)
qed

section \<open>Continued readiness owns an open occupancy\<close>

lemma ends_open_occupancy_boundary: "ends_open_occupancy e \<longleftrightarrow> boundary e"
  by (cases "oe_payload e") (auto simp: ends_open_occupancy_def boundary_def ready_label_def
      split: option.splits wspr_readiness_basis.splits)

lemma try_fold_each:
  assumes "try_fold f s xs = Inr s'" and "x \<in> set xs"
  shows "\<exists>t t'. f t x = Inr t'"
  using assms by (induction xs arbitrary: s) (auto simp: and_then_Inr)

lemma continued_source:
  assumes "validate_continued_readiness rep b event l source_id = Inr ()"
  obtains i j where "position (\<lambda>c. oe_event_id c = oe_event_id event) (b3_events b) = Some i"
    and "position (\<lambda>c. oe_event_id c = source_id) (b3_events b) = Some j" and "j < i"
    and "ready_label (b3_events b ! j) = Some l"
    and "\<not> list_ex boundary (drop (j + 1) (take i (b3_events b)))"
proof -
  from assms have "\<exists>i j. position (\<lambda>c. oe_event_id c = oe_event_id event) (b3_events b) = Some i \<and>
      position (\<lambda>c. oe_event_id c = source_id) (b3_events b) = Some j \<and> \<not> i \<le> j \<and>
      (\<exists>t r. oe_payload (b3_events b ! j) = WsprCycleArmed3 l t r \<and> \<not> is_continued r) \<and>
      \<not> list_ex ends_open_occupancy (drop (j + 1) (take i (b3_events b)))"
    unfolding validate_continued_readiness_def Let_def
    by (clarsimp simp: result_simps)
  then obtain i j t r where *: "position (\<lambda>c. oe_event_id c = oe_event_id event) (b3_events b) = Some i"
      "position (\<lambda>c. oe_event_id c = source_id) (b3_events b) = Some j" "j < i"
      "\<not> list_ex ends_open_occupancy (drop (j + 1) (take i (b3_events b)))"
    and src: "oe_payload (b3_events b ! j) = WsprCycleArmed3 l t r" "\<not> is_continued r"
    by auto
  moreover from src have "ready_label (b3_events b ! j) = Some l"
    by (simp add: ready_label_def is_continued_def split: option.splits wspr_readiness_basis.splits)
  moreover have "ends_open_occupancy = boundary"
    by (simp add: fun_eq_iff ends_open_occupancy_boundary)
  ultimately show ?thesis by (intro that) simp_all
qed

lemma occ_steps_without_boundary:
  "\<not> list_ex boundary es \<Longrightarrow> foldl occ_step v es = v"
  by (induction es arbitrary: v) (simp_all add: occ_step_def)

lemma position_distinct:
  assumes "distinct (map f xs)" and "n < length xs"
  shows "position (\<lambda>c. f c = f (xs ! n)) xs = Some n"
proof -
  obtain i where i: "position (\<lambda>c. f c = f (xs ! n)) xs = Some i"
    using assms(2) by (cases "position (\<lambda>c. f c = f (xs ! n)) xs") auto
  from position_SomeD [OF i] assms have "i = n"
    by (metis distinct_conv_nth length_map nth_map)
  with i show ?thesis by simp
qed

text \<open>The open occupancy just before an event whose continued readiness was accepted.\<close>

lemma continued_occupancy_open:
  assumes valid: "validate_continued_readiness rep b (b3_events b ! n) l source_id = Inr ()"
    and ids: "distinct (map oe_event_id (b3_events b))" and n: "n < length (b3_events b)"
  shows "\<exists>o'. ru_open (foldl (run_step rep' sc sk) (init_run sc sk) (take n (b3_events b))) = Some o' \<and>
    ao_antenna_label o' = l \<and> ao_ready_event_id o' = source_id"
proof -
  let ?es = "b3_events b"
  from continued_source [OF valid] position_distinct [OF ids n] obtain j
    where j: "position (\<lambda>c. oe_event_id c = source_id) ?es = Some j" "j < n"
      "ready_label (?es ! j) = Some l" and quiet: "\<not> list_ex boundary (drop (j + 1) (take n ?es))"
    by (metis option.inject)
  have split: "take n ?es = (take j ?es @ [?es ! j]) @ drop (j + 1) (take n ?es)"
    using id_take_nth_drop [of j "take n ?es"] j(2) n by (simp add: min_absorb1)
  from position_SomeD [OF j(1)] have "oe_event_id (?es ! j) = source_id" by simp
  moreover from j(3) have "boundary (?es ! j)" by (simp add: boundary_def)
  ultimately have opened: "\<exists>os. occ_step w (?es ! j) = (Some \<lparr>ao_antenna_label = l,
      ao_starts_at = oe_occurred_at (?es ! j), ao_ends_at = None, ao_ready_event_id = source_id\<rparr>, os)" for w
    using j(3) by (simp add: occ_step_def)
  have "foldl occ_step v (take n ?es) = occ_step (foldl occ_step v (take j ?es)) (?es ! j)" for v
    by (subst split) (simp add: occ_steps_without_boundary [OF quiet, simplified])
  with opened have "\<exists>os. foldl occ_step v (take n ?es) = (Some \<lparr>ao_antenna_label = l,
      ao_starts_at = oe_occurred_at (?es ! j), ao_ends_at = None, ao_ready_event_id = source_id\<rparr>, os)" for v
    by simp
  from this [of "occ_view (init_run sc sk)"] occ_view_fold [of rep' sc sk "init_run sc sk" "take n ?es"]
  show ?thesis by (auto simp: occ_view_def [of "foldl f a xs" for f a xs])
qed

section \<open>Validated bundles run without a readiness diagnostic\<close>

abbreviation invalid_continued :: string where
  "invalid_continued \<equiv> ''wspr_run.invalid_continued_readiness''"

definition run_codes :: "run_state \<Rightarrow> string set" where
  "run_codes s = wd_code ` set (wp_diagnostics (ru_projection s))"

lemma run_codes_simps [simp]:
  "run_codes (push_run_diagnostic c e m s) = insert c (run_codes s)"
  "run_codes (push_occupancy i s) = run_codes s"
  "run_codes (open_occupancy e l s) = run_codes s"
  "run_codes (s\<lparr>ru_open := x\<rparr>) = run_codes s"
  "run_codes (s\<lparr>ru_seen_intents := y\<rparr>) = run_codes s"
  "run_codes (s\<lparr>ru_projection := (ru_projection s)\<lparr>wp_cycles := z\<rparr>\<rparr>) = run_codes s"
  by (auto simp: run_codes_def push_run_diagnostic_def push_occupancy_def open_occupancy_def)

lemma close_occupancy_codes: "invalid_continued \<in> run_codes (close_occupancy e s) \<longleftrightarrow> invalid_continued \<in> run_codes s"
  by (simp add: close_occupancy_def Let_def split: option.split)

lemma arm_intent_codes:
  "invalid_continued \<in> run_codes (arm_intent rep sc sk e l t c s) \<longleftrightarrow> invalid_continued \<in> run_codes s"
  by (simp add: arm_intent_def Let_def split: option.split sum.split) (simp add: run_codes_def)

lemma run_step_codes:
  assumes "\<And>l t source_id. oe_payload e = WsprCycleArmed3 l t (Some (Continued source_id)) \<Longrightarrow>
      \<exists>o'. ru_open s = Some o' \<and> ao_antenna_label o' = l \<and> ao_ready_event_id o' = source_id"
  shows "invalid_continued \<in> run_codes (run_step rep sc sk s e) \<longleftrightarrow> invalid_continued \<in> run_codes s"
proof (cases "oe_payload e")
  case (WsprCycleArmed3 l t r)
  show ?thesis
  proof (cases "own_readiness r")
    case True
    from own_readiness_run [OF True WsprCycleArmed3] show ?thesis
      by (simp add: arm_intent_codes close_occupancy_codes)
  next
    case False
    then obtain source_id where r: "r = Some (Continued source_id)"
      by (auto simp: own_readiness_def split: option.splits wspr_readiness_basis.splits)
    with WsprCycleArmed3 assms show ?thesis
      by (fastforce simp: run_step_def arm_intent_codes)
  qed
qed (simp_all add: run_step_def close_occupancy_codes)

lemma finish_run_diagnostics: "wp_diagnostics (finish_run s) = wp_diagnostics (ru_projection s)"
  by (simp add: finish_run_def Let_def push_occupancy_def split: option.split)

text \<open>
  C19. Validation and run projection agree on continued readiness: in a bundle that passes the
  antenna-control check and whose events have distinct ids, every continued readiness
  continues the occupancy that is still open when the run projection reaches it, so the
  projection never reports an invalid one.
\<close>

theorem validated_continued_readiness:
  assumes "validate_antenna_control_v5 decode is_null rep b = Inr ()"
    and "5 \<le> n2_schema_version (b3_manifest b)"
    and "distinct (map oe_event_id (b3_events b))"
  shows "''wspr_run.invalid_continued_readiness'' \<notin>
    wd_code ` set (wp_diagnostics (project_wspr_run_v3 rep' (b3_schedule b) (b3_events b)))"
proof -
  let ?es = "b3_events b" and ?sc = "b3_schedule b"
  let ?run = "\<lambda>n. foldl (run_step rep' ?sc (skipped_intents ?sc ?es)) (init_run ?sc (skipped_intents ?sc ?es)) (take n ?es)"
  from assms(1,2) obtain ref where each: "try_fold (validate_readiness rep b) {} ?es = Inr ref"
    by (auto simp: validate_antenna_control_v5_def result_simps schema_version_defs)
  have "invalid_continued \<notin> run_codes (?run n)" if "n \<le> length ?es" for n
    using that
  proof (induction n)
    case 0
    then show ?case by (simp add: run_codes_def init_run_def)
  next
    case (Suc n)
    then have n: "n < length ?es" by simp
    have "\<exists>o'. ru_open (?run n) = Some o' \<and> ao_antenna_label o' = l \<and> ao_ready_event_id o' = source_id"
      if "oe_payload (?es ! n) = WsprCycleArmed3 l t (Some (Continued source_id))" for l t source_id
    proof -
      from try_fold_each [OF each nth_mem [OF n]] that
      have "validate_continued_readiness rep b (?es ! n) l source_id = Inr ()"
        by (auto simp: validate_readiness_def and_then_Inr)
      from continued_occupancy_open [OF this assms(3) n] show ?thesis .
    qed
    from run_step_codes [OF this] Suc n show ?case
      by (simp add: take_Suc_conv_app_nth)
  qed
  from this [of "length ?es"] show ?thesis
    by (simp add: project_wspr_run_v3_def Let_def finish_run_diagnostics run_codes_def)
qed


section \<open>Command-verified readiness rests on evidence of its own\<close>

definition command_references :: "operator_event_v3 \<Rightarrow> string list" where
  "command_references e =
     (case oe_payload e of
        WsprCycleArmed3 _ _ (Some (CommandVerified switch_id verification_id)) \<Rightarrow> [switch_id, verification_id]
      | _ \<Rightarrow> [])"

text \<open>A rig record that shows a successful command in a role, for an antenna and an intention.\<close>

definition proves_command ::
    "'j bundle_v3_contents \<Rightarrow> operator_event_v3 \<Rightarrow> string \<Rightarrow> antenna_control_role \<Rightarrow> string
       \<Rightarrow> antenna_control_invocation \<Rightarrow> bool" where
  "proves_command b e l role record_id i \<longleftrightarrow>
     (\<exists>r \<in> set (b3_rig b). r3_record_id r = record_id \<and> r3_antenna_control r = Some i \<and>
        m2_recorded_at (r3_meta r) \<le> m2_recorded_at (oe_meta e) \<and>
        mm_mutation_id (m2_mutation (r3_meta r)) = mm_mutation_id (m2_mutation (oe_meta e))) \<and>
     iv_role i = role \<and> iv_disposition i = Exit 0 \<and> cx_antenna (iv_context i) = l \<and>
     Some (cx_intent_id (iv_context i)) = oe_slot_id e \<and>
     iv_completed_at i \<le> m2_recorded_at (oe_meta e)"

definition command_verified :: "'j bundle_v3_contents \<Rightarrow> operator_event_v3 \<Rightarrow> bool" where
  "command_verified b e \<longleftrightarrow>
     (case oe_payload e of
        WsprCycleArmed3 l _ (Some (CommandVerified switch_id verification_id)) \<Rightarrow>
          (\<exists>switch verification. proves_command b e l SwitchRole switch_id switch \<and>
             proves_command b e l VerificationRole verification_id verification \<and>
             iv_completed_at switch \<le> iv_started_at verification)
      | _ \<Rightarrow> True)"

lemma find_intent_id: "find_intent b x = Some intent \<Longrightarrow> wi_intent_id intent = x"
  by (auto simp: find_intent_def find_Some_iff)

lemma referenced_invocation_Inr [result_simps]:
  "referenced_invocation b record_id role = Inr x \<longleftrightarrow>
     find (\<lambda>r. r3_record_id r = record_id) (b3_rig b) = Some (fst x) \<and>
     r3_antenna_control (fst x) = Some (snd x) \<and> iv_role (snd x) = role"
  by (cases x) (auto simp: referenced_invocation_def result_simps)

lemma mismatched_invocation_proves:
  assumes "mismatched_invocation b e l intent x = Inr ()"
    and "referenced_invocation b record_id role = Inr x"
    and "oe_slot_id e = Some (wi_intent_id intent)"
  shows "proves_command b e l role record_id (snd x)"
proof -
  obtain r i where x: "x = (r, i)" by (cases x)
  with assms(2) have "r \<in> set (b3_rig b)" "r3_record_id r = record_id"
    by (auto simp: referenced_invocation_Inr find_Some_iff)
  with assms x show ?thesis
    by (auto simp: mismatched_invocation_def proves_command_def Let_def result_simps is_exit_zero_def)
qed

lemma command_verified_step:
  assumes "validate_command_verified b ref e l switch_id verification_id = Inr ref'"
  shows "ref' = {switch_id, verification_id} \<union> ref \<and> switch_id \<noteq> verification_id \<and>
    {switch_id, verification_id} \<inter> ref = {} \<and>
    (\<exists>switch verification. proves_command b e l SwitchRole switch_id switch \<and>
       proves_command b e l VerificationRole verification_id verification \<and>
       iv_completed_at switch \<le> iv_started_at verification)"
proof -
  from assms have used_once: "\<not> (switch_id = verification_id \<or> switch_id \<in> ref \<or> verification_id \<in> insert switch_id ref)"
    and "\<exists>intent_id intent switch verification u. oe_slot_id e = Some intent_id \<and>
      find_intent b intent_id = Some intent \<and>
      referenced_invocation b switch_id SwitchRole = Inr switch \<and>
      referenced_invocation b verification_id VerificationRole = Inr verification \<and>
      try_each (mismatched_invocation b e l intent) [switch, verification] = Inr u \<and>
      \<not> iv_started_at (snd verification) < iv_completed_at (snd switch) \<and>
      insert verification_id (insert switch_id ref) = ref'"
    unfolding validate_command_verified_def and_then_Inr refuse_if_Inr ok_or_Inr sum.inject by blast+
  then obtain intent_id intent switch verification
    where slot: "oe_slot_id e = Some intent_id" "find_intent b intent_id = Some intent"
      and found: "referenced_invocation b switch_id SwitchRole = Inr switch"
        "referenced_invocation b verification_id VerificationRole = Inr verification"
      and each: "try_each (mismatched_invocation b e l intent) [switch, verification] = Inr ()"
      and order: "iv_completed_at (snd switch) \<le> iv_started_at (snd verification)"
      and ref': "ref' = insert verification_id (insert switch_id ref)"
    by auto
  from slot have "oe_slot_id e = Some (wi_intent_id intent)" by (simp add: find_intent_id)
  moreover from each have "mismatched_invocation b e l intent switch = Inr ()"
    "mismatched_invocation b e l intent verification = Inr ()"
    by (simp_all add: result_simps)
  ultimately have "proves_command b e l SwitchRole switch_id (snd switch)"
    "proves_command b e l VerificationRole verification_id (snd verification)"
    using found by (blast intro: mismatched_invocation_proves)+
  with used_once order ref' show ?thesis by auto
qed

text \<open>
  C18. In a valid bundle no rig record backs two command-verified readiness reports, nor both of
  the commands of one; and each report is backed by a switch command and a later verification
  command that both exited with code 0, for the antenna and the intention of the report, no
  later than it was recorded.
\<close>

theorem command_verified_evidence:
  assumes "validate_antenna_control_v5 decode is_null rep b = Inr ()"
    and "5 \<le> n2_schema_version (b3_manifest b)"
  shows "distinct (concat (map command_references (b3_events b))) \<and>
    list_all (command_verified b) (b3_events b)"
proof -
  let ?refs = "\<lambda>es. concat (map command_references es)"
  from assms obtain ref where "try_fold (validate_readiness rep b) {} (b3_events b) = Inr ref"
    by (auto simp: validate_antenna_control_v5_def result_simps schema_version_defs)
  then have "ref = set (?refs (b3_events b)) \<and> distinct (?refs (b3_events b)) \<and>
      list_all (command_verified b) (b3_events b)"
  proof (rule try_fold_invariant)
    fix s ys e t
    assume inv: "s = set (?refs ys) \<and> distinct (?refs ys) \<and> list_all (command_verified b) ys"
      and step: "validate_readiness rep b s e = Inr t"
    show "t = set (?refs (ys @ [e])) \<and> distinct (?refs (ys @ [e])) \<and> list_all (command_verified b) (ys @ [e])"
    proof (cases "\<exists>l time s v. oe_payload e = WsprCycleArmed3 l time (Some (CommandVerified s v))")
      case True
      then obtain l time switch_id verification_id
        where p: "oe_payload e = WsprCycleArmed3 l time (Some (CommandVerified switch_id verification_id))"
        by blast
      with step have "validate_command_verified b s e l switch_id verification_id = Inr t"
        by (simp add: validate_readiness_def)
      from command_verified_step [OF this] inv p show ?thesis
        by (auto simp: command_references_def command_verified_def)
    next
      case False
      with step have "t = s" "command_references e = []" "command_verified b e"
        by (auto simp: validate_readiness_def command_references_def command_verified_def result_simps
            split: payload_v3.splits option.splits wspr_readiness_basis.splits)
      with inv show ?thesis by simp
    qed
  qed simp
  then show ?thesis by simp
qed

section \<open>Instances\<close>

definition v4_bundle :: "unit bundle_v3_contents" where
  "v4_bundle = (upgrade_v2_bundle_model empty_v2_bundle)
     \<lparr>b3_manifest := (b2_manifest empty_v2_bundle)\<lparr>n2_schema_version := 4\<rparr>\<rparr>"

theorem v5_upgrade_keeps_analysis_witness:
  "cb_bundle (into_current_v3 (\<lambda>_. None) (\<lambda>_. True) (upgrade_v3_bundle_model_to_v5 v4_bundle)) =
     cb_bundle (into_current_v3 (\<lambda>_. None) (\<lambda>_. True) v4_bundle)"
proof -
  have "validate_antenna_control_v5 Some (\<lambda>_. True) (\<lambda>_. True) v4_bundle = Inr ()"
    by (simp add: validate_antenna_control_v5_def v4_bundle_def schema_version_defs has_v5_fields_def
        upgrade_v2_bundle_model_def upgrade_v2_schedule_def empty_v2_bundle_def refuse_if_def
        upgrade_v2_event_def as_v2_def with_payload_def)
  moreover have "n2_schema_version (b3_manifest v4_bundle) = 4"
    by (simp add: v4_bundle_def)
  ultimately show ?thesis
    using v5_upgrade_keeps_analysis [of Some "\<lambda>_. True" "\<lambda>_. True" v4_bundle "\<lambda>_. None" "\<lambda>_. True"]
    by blast
qed

definition cycle_intent_a :: "string \<Rightarrow> nat \<Rightarrow> wspr_cycle_intent" where
  "cycle_intent_a i n = \<lparr>wi_intent_id = i, wi_sequence_number = n, wi_band = M20,
     wi_antenna_label = ''A'', wi_direction = None, wi_signal = None\<rparr>"

definition continued_events :: "operator_event_v3 list" where
  "continued_events =
     [sample_event ''ready-1'' (Some ''intent-1'')
        (WsprCycleArmed3 ''A'' (seconds 1) (Some OperatorConfirmed)),
      at_time (seconds 115) (sample_event ''ready-2'' (Some ''intent-2'')
        (WsprCycleArmed3 ''A'' (seconds 121) (Some (Continued ''ready-1''))))]"

lemma first_window:
  "from_start (\<lambda>_. True) (seconds 1) = Inr \<lparr>cw_starts_at = seconds 1,
     cw_transmission_ends_at = seconds 1 + milliseconds 110592,
     cw_next_cycle_starts_at = seconds 1 + seconds 120\<rparr>"
proof -
  have "is_wspr_cycle_start (seconds 1)" by code_simp
  then show ?thesis by (simp add: from_start_Inr_iff)
qed

lemma within_first_cycle: "\<not> seconds 115 < seconds 1 + milliseconds 110592"
  by (simp add: seconds_def milliseconds_def)

definition continued_bundle :: "unit bundle_v3_contents" where
  "continued_bundle = v4_bundle
     \<lparr>b3_manifest := (b3_manifest v4_bundle)\<lparr>n2_schema_version := 6\<rparr>,
      b3_schedule := sample_schedule\<lparr>s3_antenna_control := Some Manual,
        s3_wspr_cycle_intents := [cycle_intent_a ''intent-1'' 1, cycle_intent_a ''intent-2'' 2]\<rparr>,
      b3_events := continued_events\<rparr>"

theorem validated_continued_readiness_witness:
  "''wspr_run.invalid_continued_readiness'' \<notin>
    wd_code ` set (wp_diagnostics (project_wspr_run_v3 (\<lambda>_. True) (b3_schedule continued_bundle)
      (b3_events continued_bundle)))"
proof (rule validated_continued_readiness)
  have "validate_continued_readiness (\<lambda>_. True) continued_bundle (continued_events ! 1) ''A'' ''ready-1'' = Inr ()"
    by (simp add: validate_continued_readiness_def continued_bundle_def continued_events_def sample_event_def at_time_def
        find_intent_def cycle_intent_a_def armed_parts_def is_continued_def schema_version_defs
        armed_window_def first_window within_first_cycle Let_def ends_open_occupancy_def)
  moreover have "b3_events continued_bundle = [continued_events ! 0, continued_events ! 1]"
    "oe_payload (continued_events ! 0) = WsprCycleArmed3 ''A'' (seconds 1) (Some OperatorConfirmed)"
    "oe_payload (continued_events ! 1) = WsprCycleArmed3 ''A'' (seconds 121) (Some (Continued ''ready-1''))"
    by (simp_all add: continued_bundle_def continued_events_def sample_event_def at_time_def)
  ultimately have "try_fold (validate_readiness (\<lambda>_. True) continued_bundle) {} (b3_events continued_bundle) = Inr {}"
    by (simp only: try_fold.simps) (simp add: validate_readiness_def)
  moreover have "b3_rig continued_bundle = []" "n2_schema_version (b3_manifest continued_bundle) = 6"
    "s3_antenna_control (b3_schedule continued_bundle) = Some Manual"
    by (simp_all add: continued_bundle_def v4_bundle_def upgrade_v2_bundle_model_def empty_v2_bundle_def)
  ultimately show "validate_antenna_control_v5 Some (\<lambda>_. True) (\<lambda>_. True) continued_bundle = Inr ()"
    by (simp add: validate_antenna_control_v5_def schema_version_defs)
qed (simp_all add: continued_bundle_def continued_events_def sample_event_def at_time_def)

definition sample_invocation :: "antenna_control_role \<Rightarrow> int \<Rightarrow> antenna_control_invocation" where
  "sample_invocation role t =
     \<lparr>iv_role = role, iv_controller_profile_name = ''switch'', iv_controller_profile_revision = ''1'',
      iv_command = \<lparr>cc_program_template = ''ant'', cc_argument_templates = [],
        cc_resolved_program = ''/bin/ant'', cc_resolved_arguments = []\<rparr>,
      iv_context = \<lparr>cx_antenna = ''A'', cx_target = ''1'', cx_mode = WholeStationAb,
        cx_direction = Transmit, cx_band = M20, cx_frequency_hz = None, cx_sequence = 1,
        cx_intent_id = ''intent-1'', cx_session_id = ''session'', cx_callsign = ''N1RWJ''\<rparr>,
      iv_started_at = t, iv_completed_at = t, iv_elapsed_milliseconds = 0, iv_disposition = Exit 0,
      iv_stdout = \<lparr>ou_encoding = Utf8, ou_data = [], ou_truncated = False\<rparr>,
      iv_stderr = \<lparr>ou_encoding = Utf8, ou_data = [], ou_truncated = False\<rparr>\<rparr>"

definition member_meta :: "nat \<Rightarrow> record_meta_v2" where
  "member_meta n = sample_meta\<lparr>m2_recorded_at := seconds 10,
     m2_mutation := \<lparr>mm_mutation_id = ''m'', mm_member_index = n, mm_member_count = 3\<rparr>\<rparr>"

definition invocation_record :: "string \<Rightarrow> nat \<Rightarrow> antenna_control_invocation \<Rightarrow> unit rig_record_v3" where
  "invocation_record i n invocation =
     \<lparr>r3_meta = member_meta n, r3_record_id = i, r3_adapter_record_ids = [],
      r3_status = ''antenna_control_attempt'', r3_frequency_hz = None, r3_mode = None,
      r3_power_watts = None, r3_antenna_control = Some invocation, r3_raw = ()\<rparr>"

definition commanded_event :: operator_event_v3 where
  "commanded_event = (sample_event ''ready'' (Some ''intent-1'')
     (WsprCycleArmed3 ''A'' (seconds 121) (Some (CommandVerified ''switch'' ''verify''))))
     \<lparr>oe_meta := member_meta 2\<rparr>"

definition commanded_bundle :: "unit bundle_v3_contents" where
  "commanded_bundle = v4_bundle
     \<lparr>b3_manifest := (b3_manifest v4_bundle)\<lparr>n2_schema_version := 5\<rparr>,
      b3_schedule := sample_schedule\<lparr>s3_antenna_control := Some (CommandControlled Automatic False),
        s3_wspr_cycle_intents := [(cycle_intent_a ''intent-1'' 1)\<lparr>wi_direction := Some Transmit\<rparr>]\<rparr>,
      b3_rig := [invocation_record ''switch'' 0 (sample_invocation SwitchRole (seconds 5)),
        invocation_record ''verify'' 1 (sample_invocation VerificationRole (seconds 6))],
      b3_events := [commanded_event]\<rparr>"

lemmas commanded_parts = commanded_bundle_def v4_bundle_def upgrade_v2_bundle_model_def
  empty_v2_bundle_def invocation_record_def sample_invocation_def member_meta_def
  sample_schedule_def cycle_intent_a_def find_intent_def

lemma commanded_invocations:
  "try_each (\<lambda>r. case r3_antenna_control r of None \<Rightarrow> Inr ()
     | Some i \<Rightarrow> validate_invocation_v5 Some (\<lambda>_. True) commanded_bundle r i) (b3_rig commanded_bundle) = Inr ()"
  by (simp add: commanded_parts validate_invocation_v5_def Let_def invocation_bounds_violated_def
      COMMAND_TEMPLATE_MAX_BYTES_def COMMAND_PROGRAM_MAX_BYTES_def COMMAND_ARGUMENT_COUNT_MAX_def
      COMMAND_ARGUMENT_MAX_BYTES_def COMMAND_INVOCATION_MAX_BYTES_def COMMAND_OUTPUT_MAX_BYTES_def
      invocation_bytes_def validate_output_v5_def num_milliseconds_def trunc_div_def seconds_def)

lemma commanded_readiness:
  "try_fold (validate_readiness (\<lambda>_. True) commanded_bundle) {} (b3_events commanded_bundle) =
     Inr {''verify'', ''switch''}"
  by (simp add: commanded_parts commanded_event_def sample_event_def validate_readiness_def
      validate_command_verified_def referenced_invocation_def mismatched_invocation_def
      is_exit_zero_def seconds_def)

theorem command_verified_evidence_witness:
  "distinct (concat (map command_references (b3_events commanded_bundle))) \<and>
    list_all (command_verified commanded_bundle) (b3_events commanded_bundle)"
proof (rule command_verified_evidence)
  have "n2_schema_version (b3_manifest commanded_bundle) = 5"
    "s3_antenna_control (b3_schedule commanded_bundle) = Some (CommandControlled Automatic False)"
    by (simp_all add: commanded_parts)
  then show "validate_antenna_control_v5 Some (\<lambda>_. True) (\<lambda>_. True) commanded_bundle = Inr ()"
    "5 \<le> n2_schema_version (b3_manifest commanded_bundle)"
    by (simp_all add: validate_antenna_control_v5_def schema_version_defs commanded_invocations
        commanded_readiness)
qed

end
