(* ===== verification/OrderedMaps.thy ===== *)
theory OrderedMaps
  imports Prelude
begin

text \<open>
  \<open>BTreeMap\<close> of the standard library, as the list of its entries in the order of the keys.
  \<open>bt_entry k f\<close> is \<open>entry(k)\<close> followed by an update of the value (\<open>or_default\<close>, \<open>push\<close>,
  \<open>+=\<close>, \<open>insert\<close>): \<open>f\<close> gets the value present, if any, and gives the new one.  The locale
  \<open>entry_map\<close> states what its clients rely on and proves once what a loop of updates builds.
\<close>

fun bt_entry :: "'k::linorder \<Rightarrow> ('v option \<Rightarrow> 'v) \<Rightarrow> ('k \<times> 'v) list \<Rightarrow> ('k \<times> 'v) list" where
  "bt_entry k f [] = [(k, f None)]"
| "bt_entry k f ((l, v) # m) =
     (if k < l then (k, f None) # (l, v) # m
      else if k = l then (l, f (Some v)) # m
      else (l, v) # bt_entry k f m)"

definition bt_ok :: "('k::linorder \<times> 'v) list \<Rightarrow> bool" where
  "bt_ok m \<longleftrightarrow> sorted_wrt (<) (map fst m)"

section \<open>The contract\<close>

locale entry_map =
  fixes ok :: "'m \<Rightarrow> bool"
    and empty :: 'm
    and lookup :: "'m \<Rightarrow> 'k \<Rightarrow> 'v option"
    and entry :: "'k \<Rightarrow> ('v option \<Rightarrow> 'v) \<Rightarrow> 'm \<Rightarrow> 'm"
  assumes ok_empty: "ok empty"
    and lookup_empty: "lookup empty k = None"
    and ok_entry: "ok m \<Longrightarrow> ok (entry k f m)"
    and lookup_entry: "ok m \<Longrightarrow> lookup (entry k f m) = (lookup m)(k \<mapsto> f (lookup m k))"
begin

definition collected :: "('x \<Rightarrow> 'k) \<Rightarrow> ('x \<Rightarrow> 'v option \<Rightarrow> 'v) \<Rightarrow> 'm \<Rightarrow> 'x list \<Rightarrow> 'm" where
  "collected key upd m xs = foldl (\<lambda>m x. entry (key x) (upd x) m) m xs"

lemma ok_collected: "ok m \<Longrightarrow> ok (collected key upd m xs)"
  unfolding collected_def by (rule foldl_invariant) (auto intro: ok_entry)

lemma lookup_collected:
  "ok m \<Longrightarrow> lookup (collected key upd m xs) k =
     foldl (\<lambda>v x. Some (upd x v)) (lookup m k) (filter (\<lambda>x. key x = k) xs)"
  unfolding collected_def
  by (induction xs arbitrary: m) (simp_all add: ok_entry lookup_entry)

end

section \<open>Sorted entry lists meet it\<close>

lemma bt_entry_keys: "set (map fst (bt_entry k f m)) = insert k (set (map fst m))"
  by (induction k f m rule: bt_entry.induct) auto

lemma bt_ok_entry: "bt_ok m \<Longrightarrow> bt_ok (bt_entry k f m)"
proof (induction k f m rule: bt_entry.induct)
  case (2 k f l v m)
  then show ?case
    using bt_entry_keys [of k f m] by (auto simp: bt_ok_def)
qed (simp add: bt_ok_def)

lemma bt_lookup_entry: "bt_ok m \<Longrightarrow> map_of (bt_entry k f m) = (map_of m)(k \<mapsto> f (map_of m k))"
proof (induction k f m rule: bt_entry.induct)
  case (2 k f l v m)
  have "map_of m k = None" if "k < l"
    using that "2.prems" by (force simp: bt_ok_def map_of_eq_None_iff)
  with 2 show ?case by (auto simp: bt_ok_def fun_eq_iff)
qed (simp add: fun_eq_iff)

interpretation bt: entry_map bt_ok "[]" map_of bt_entry
  by unfold_locales (simp_all add: bt_ok_def [of "[]"] bt_ok_entry bt_lookup_entry)

lemma bt_ok_distinct: "bt_ok m \<Longrightarrow> distinct (map fst m)"
  by (simp add: bt_ok_def strict_sorted_iff)

lemma bt_member: "bt_ok m \<Longrightarrow> (k, v) \<in> set m \<longleftrightarrow> map_of m k = Some v"
  by (simp add: bt_ok_distinct map_of_eq_Some_iff)

section \<open>Groups and totals\<close>

text \<open>A loop that pushes every element on the list of its key.\<close>

definition pushed :: "'x \<Rightarrow> 'x list option \<Rightarrow> 'x list" where
  "pushed x v = (case v of None \<Rightarrow> [x] | Some xs \<Rightarrow> xs @ [x])"

definition groups :: "('x \<Rightarrow> 'k::linorder) \<Rightarrow> 'x list \<Rightarrow> ('k \<times> 'x list) list" where
  "groups key xs = foldl (\<lambda>m x. bt_entry (key x) (pushed x) m) [] xs"

lemma pushed_loop:
  "foldl (\<lambda>v x. Some (pushed x v)) (Some ys) xs = Some (ys @ xs)"
  by (induction xs arbitrary: ys) (simp_all add: pushed_def)

lemma groups_ok: "bt_ok (groups key xs)"
  using bt.ok_collected [of "[]" key pushed xs] by (simp add: groups_def bt.collected_def bt_ok_def)

lemma map_of_groups:
  "map_of (groups key xs) k = (case filter (\<lambda>x. key x = k) xs of [] \<Rightarrow> None | ys \<Rightarrow> Some ys)"
  using bt.lookup_collected [of "[]" key pushed xs k]
  by (simp add: groups_def bt.collected_def bt_ok_def split: list.split)
    (simp add: pushed_loop pushed_def [of _ None])

lemma in_groups:
  "(k, ys) \<in> set (groups key xs) \<longleftrightarrow> ys = filter (\<lambda>x. key x = k) xs \<and> k \<in> key ` set xs"
proof -
  have "k \<in> key ` set xs \<longleftrightarrow> filter (\<lambda>x. key x = k) xs \<noteq> []"
    by (auto simp: filter_empty_conv)
  then show ?thesis
    unfolding bt_member [OF groups_ok] map_of_groups by (auto split: list.split)
qed

text \<open>A loop that counts the elements of every key and adds up a weight of them.\<close>

definition added :: "nat \<Rightarrow> (nat \<times> nat) option \<Rightarrow> nat \<times> nat" where
  "added w v = (case v of None \<Rightarrow> (w, 1) | Some (s, n) \<Rightarrow> (s + w, n + 1))"

definition totals :: "('x \<Rightarrow> 'k::linorder) \<Rightarrow> ('x \<Rightarrow> nat) \<Rightarrow> 'x list \<Rightarrow> ('k \<times> nat \<times> nat) list" where
  "totals key weight xs = foldl (\<lambda>m x. bt_entry (key x) (added (weight x)) m) [] xs"

lemma added_loop:
  "foldl (\<lambda>v x. Some (added (weight x) v)) (Some (s, c)) xs =
     Some (s + sum_list (map weight xs), c + length xs)"
  by (induction xs arbitrary: s c) (simp_all add: added_def)

lemma in_totals:
  "(k, s, c) \<in> set (totals key weight xs) \<longleftrightarrow>
     k \<in> key ` set xs \<and> c = length (filter (\<lambda>x. key x = k) xs) \<and>
     s = sum_list (map weight (filter (\<lambda>x. key x = k) xs))"
proof -
  have ok: "bt_ok (totals key weight xs)"
    using bt.ok_collected [of "[]" key "\<lambda>x. added (weight x)" xs]
    by (simp add: totals_def bt.collected_def bt_ok_def)
  have "map_of (totals key weight xs) k =
      (case filter (\<lambda>x. key x = k) xs of [] \<Rightarrow> None
       | ys \<Rightarrow> Some (sum_list (map weight ys), length ys))"
    using bt.lookup_collected [of "[]" key "\<lambda>x. added (weight x)" xs k]
    by (simp add: totals_def bt.collected_def bt_ok_def split: list.split)
      (simp add: added_loop added_def [of _ None])
  moreover have "k \<in> key ` set xs \<longleftrightarrow> filter (\<lambda>x. key x = k) xs \<noteq> []"
    by (auto simp: filter_empty_conv)
  ultimately show ?thesis
    unfolding bt_member [OF ok] by (auto split: list.split)
qed

end
