(* ===== verification/SignalPlan.thy ===== *)
theory SignalPlan
  imports EventData OrderedMaps "HOL-Library.List_Lexorder" "HOL-Library.Char_ord"
begin

text \<open>
  The validation of signal plans and of signal-state confirmations
  (\<open>crates/core/src/v3.rs\<close>): the plans of a schedule, the allocations of its slots and cycle
  intents, the suppression rule of the Reverse Beacon Network, and the counterbalance of
  antennas and frequency variants.  Counters of type \<open>u64\<close> and \<open>usize\<close> are naturals: a sum of
  16-bit positions over the slots of a schedule stays far below \<open>2 ^ 64\<close>.
\<close>

section \<open>The order of the identities\<close>

text \<open>Derived \<open>Ord\<close> of the newtypes: the order of the strings they hold.\<close>

instantiation signal_plan_id :: linorder
begin

definition less_eq_signal_plan_id :: "signal_plan_id \<Rightarrow> signal_plan_id \<Rightarrow> bool" where
  "less_eq_signal_plan_id a b \<longleftrightarrow> plan_str a \<le> plan_str b"

definition less_signal_plan_id :: "signal_plan_id \<Rightarrow> signal_plan_id \<Rightarrow> bool" where
  "less_signal_plan_id a b \<longleftrightarrow> plan_str a < plan_str b"

instance
proof
  show "a \<le> b \<Longrightarrow> b \<le> a \<Longrightarrow> a = b" for a b :: signal_plan_id
    by (cases a; cases b) (simp add: less_eq_signal_plan_id_def)
qed (auto simp: less_eq_signal_plan_id_def less_signal_plan_id_def)

end

instantiation signal_variant_id :: linorder
begin

definition less_eq_signal_variant_id :: "signal_variant_id \<Rightarrow> signal_variant_id \<Rightarrow> bool" where
  "less_eq_signal_variant_id a b \<longleftrightarrow> variant_str a \<le> variant_str b"

definition less_signal_variant_id :: "signal_variant_id \<Rightarrow> signal_variant_id \<Rightarrow> bool" where
  "less_signal_variant_id a b \<longleftrightarrow> variant_str a < variant_str b"

instance
proof
  show "a \<le> b \<Longrightarrow> b \<le> a \<Longrightarrow> a = b" for a b :: signal_variant_id
    by (cases a; cases b) (simp add: less_eq_signal_variant_id_def)
qed (auto simp: less_eq_signal_variant_id_def less_signal_variant_id_def)

end

instantiation counterbalance_block_id :: linorder
begin

definition less_eq_counterbalance_block_id ::
    "counterbalance_block_id \<Rightarrow> counterbalance_block_id \<Rightarrow> bool" where
  "less_eq_counterbalance_block_id a b \<longleftrightarrow> block_str a \<le> block_str b"

definition less_counterbalance_block_id ::
    "counterbalance_block_id \<Rightarrow> counterbalance_block_id \<Rightarrow> bool" where
  "less_counterbalance_block_id a b \<longleftrightarrow> block_str a < block_str b"

instance
proof
  show "a \<le> b \<Longrightarrow> b \<le> a \<Longrightarrow> a = b" for a b :: counterbalance_block_id
    by (cases a; cases b) (simp add: less_eq_counterbalance_block_id_def)
qed (auto simp: less_eq_counterbalance_block_id_def less_counterbalance_block_id_def)

end

section \<open>The plans of a schedule\<close>

record signal_plan_diagnostic =
  sd_code :: string
  sd_path :: message
  sd_message :: message

definition signal_diagnostic :: "string \<Rightarrow> message \<Rightarrow> message \<Rightarrow> signal_plan_diagnostic" where
  "signal_diagnostic code path message = \<lparr>sd_code = code, sd_path = path, sd_message = message\<rparr>"

definition unusable_power :: "fl option \<Rightarrow> bool" where
  "unusable_power watts \<longleftrightarrow>
     (case watts of None \<Rightarrow> False | Some v \<Rightarrow> \<not> is_finite v \<or> fl_le v (Finite 0))"

definition incoherent_cadence :: "signal_plan \<Rightarrow> bool" where
  "incoherent_cadence plan \<longleftrightarrow>
     (let cadence = sp_cadence plan in
      trim (cd_message cadence) = [] \<or>
      cd_repetition_count cadence = 0 \<or>
      cd_transmit_seconds cadence = 0 \<or>
      cd_interval_seconds cadence < cd_transmit_seconds cadence \<or>
      (sp_mode plan = Cw \<and> cd_key_speed_wpm cadence = None))"

definition plan_diagnostics ::
    "string \<Rightarrow> bool \<Rightarrow> nat \<Rightarrow> signal_plan \<Rightarrow> signal_plan_diagnostic list" where
  "plan_diagnostics station_callsign duplicate index plan =
     (let loc = (\<lambda>field. [Lit ''/signal_plans/'', ShowNat index, Lit field]) in
      (if duplicate
       then [signal_diagnostic ''signal_plan.duplicate_id'' (loc ''/signal_plan_id'')
               [Lit ''signal plan identity must be unique'']] else []) @
      (if unusable_power (sp_planned_power_watts plan)
       then [signal_diagnostic ''signal_plan.invalid_power'' (loc ''/planned_power_watts'')
               [Lit ''planned power must be finite and greater than zero'']] else []) @
      (if incoherent_cadence plan
       then [signal_diagnostic ''signal_plan.invalid_cadence'' (loc ''/cadence'')
               [Lit ''cadence must contain a message, repetitions, coherent timing, and CW key speed'']]
       else []) @
      (if \<not> eq_ignore_ascii_case (sp_transmitted_callsign plan) station_callsign \<and>
          \<not> sp_differing_identity_validated plan
       then [signal_diagnostic ''signal_plan.unvalidated_identity'' (loc ''/transmitted_callsign'')
               [Lit ''a transmitted identity differing from the station callsign requires explicit validation'']]
       else []) @
      (if sp_mode plan = Rtty \<and> sp_collection_profile plan = RbnCwV1
       then [signal_diagnostic ''signal_plan.profile_mode_mismatch'' (loc ''/collection_profile'')
               [Lit ''the RBN CW collection profile cannot be applied to RTTY'']] else []))"

text \<open>The first loop: the plans by identity, the last one of an identity winning.\<close>

fun plans_loop ::
    "string \<Rightarrow> nat \<Rightarrow> (signal_plan_id \<rightharpoonup> signal_plan) \<Rightarrow> signal_plan list
       \<Rightarrow> signal_plan_diagnostic list \<times> (signal_plan_id \<rightharpoonup> signal_plan)" where
  "plans_loop station_callsign index plans [] = ([], plans)"
| "plans_loop station_callsign index plans (plan # rest) =
     (let here = plan_diagnostics station_callsign (plans (sp_signal_plan_id plan) \<noteq> None) index plan;
          (diagnostics, plans') = plans_loop station_callsign (index + 1)
            (plans(sp_signal_plan_id plan \<mapsto> plan)) rest
      in (here @ diagnostics, plans'))"

section \<open>Allocations\<close>

type_synonym allocated_slot = "nat \<times> planned_slot_v3 \<times> signal_allocation"

definition allocation_diagnostics ::
    "(signal_plan_id \<rightharpoonup> signal_plan) \<Rightarrow> message \<Rightarrow> string \<Rightarrow> signal_allocation
       \<Rightarrow> signal_plan_diagnostic list" where
  "allocation_diagnostics plans loc unknown allocation =
     (if sa_frequency_hz allocation = 0
      then [signal_diagnostic ''signal_plan.invalid_frequency'' (loc @ [Lit ''/signal/frequency_hz''])
              [Lit ''planned frequency must be greater than zero'']] else []) @
     (if plans (sa_signal_plan_id allocation) = None
      then [signal_diagnostic ''signal_plan.unknown_reference'' (loc @ [Lit ''/signal/signal_plan_id''])
              [Lit unknown]] else [])"

text \<open>The loop over the slots, with the map of allocations it fills.\<close>

fun slot_allocations_loop ::
    "(signal_plan_id \<rightharpoonup> signal_plan) \<Rightarrow> nat \<Rightarrow> (signal_plan_id \<times> allocated_slot list) list
       \<Rightarrow> planned_slot_v3 list
       \<Rightarrow> signal_plan_diagnostic list \<times> (signal_plan_id \<times> allocated_slot list) list" where
  "slot_allocations_loop plans index allocations [] = ([], allocations)"
| "slot_allocations_loop plans index allocations (slot # slots) =
     (case p3_signal slot of
        None \<Rightarrow> slot_allocations_loop plans (index + 1) allocations slots
      | Some allocation \<Rightarrow>
          (let here = allocation_diagnostics plans [Lit ''/slots/'', ShowNat index]
                 ''slot references an unknown signal plan'' allocation;
               allocations' =
                 (if plans (sa_signal_plan_id allocation) = None then allocations
                  else bt_entry (sa_signal_plan_id allocation) (pushed (index, slot, allocation))
                         allocations);
               (diagnostics, result) = slot_allocations_loop plans (index + 1) allocations' slots
           in (here @ diagnostics, result)))"

definition intent_allocation_diagnostics ::
    "(signal_plan_id \<rightharpoonup> signal_plan) \<Rightarrow> nat \<times> wspr_cycle_intent \<Rightarrow> signal_plan_diagnostic list" where
  "intent_allocation_diagnostics plans = (\<lambda>(index, intent).
     case wi_signal intent of
       None \<Rightarrow> []
     | Some allocation \<Rightarrow>
         allocation_diagnostics plans [Lit ''/wspr_cycle_intents/'', ShowNat index]
           ''cycle intent references an unknown signal plan'' allocation)"

section \<open>The suppression rule\<close>

definition abs_diff :: "nat \<Rightarrow> nat \<Rightarrow> nat" where
  "abs_diff a b = (if a < b then b - a else a - b)"

fun suppression_inner ::
    "allocated_slot \<Rightarrow> allocated_slot list \<Rightarrow> signal_plan_diagnostic list" where
  "suppression_inner left [] = []"
| "suppression_inner (left_index, left_slot, left) ((right_index, right_slot, right) # rest) =
     (let separation_seconds = num_seconds (p3_starts_at right_slot - p3_starts_at left_slot) in
      if 600 \<le> separation_seconds then []
      else
        let frequency_delta = abs_diff (sa_frequency_hz left) (sa_frequency_hz right) in
        (if 0 \<le> separation_seconds \<and> frequency_delta < 300
         then [signal_diagnostic ''signal_plan.rbn_suppression_risk''
                 [Lit ''/slots/'', ShowNat right_index, Lit ''/signal/frequency_hz'']
                 [Lit ''RBN CW slots '', ShowNat left_index, Lit '' and '', ShowNat right_index,
                  Lit '' are '', ShowInt separation_seconds, Lit ''s and '', ShowNat frequency_delta,
                  Lit ''Hz apart; require at least 600s or 300Hz'']]
         else []) @ suppression_inner (left_index, left_slot, left) rest)"

fun validate_rbn_suppression :: "allocated_slot list \<Rightarrow> signal_plan_diagnostic list" where
  "validate_rbn_suppression [] = []"
| "validate_rbn_suppression (left # rest) =
     suppression_inner left rest @ validate_rbn_suppression rest"

section \<open>Counterbalance\<close>

abbreviation slot_antenna :: "allocated_slot \<Rightarrow> string" where
  "slot_antenna x \<equiv> p3_antenna_label (fst (snd x))"

abbreviation slot_allocation :: "allocated_slot \<Rightarrow> signal_allocation" where
  "slot_allocation x \<equiv> snd (snd x)"

abbreviation slot_variant :: "allocated_slot \<Rightarrow> signal_variant_id" where
  "slot_variant x \<equiv> sa_frequency_variant_id (slot_allocation x)"

abbreviation slot_position :: "allocated_slot \<Rightarrow> nat" where
  "slot_position x \<equiv> sa_counterbalance_position (slot_allocation x)"

abbreviation slot_block :: "allocated_slot \<Rightarrow> counterbalance_block_id" where
  "slot_block x \<equiv> sa_counterbalance_block_id (slot_allocation x)"

abbreviation slot_frequency :: "allocated_slot \<Rightarrow> nat" where
  "slot_frequency x \<equiv> sa_frequency_hz (slot_allocation x)"

definition balanced_average_position :: "(nat \<times> nat) list \<Rightarrow> bool" where
  "balanced_average_position vs =
     (case vs of
        [] \<Rightarrow> True
      | (first_sum, first_count) # _ \<Rightarrow>
          list_all (\<lambda>(s, c). first_count \<noteq> 0 \<and> c \<noteq> 0 \<and> s * first_count = first_sum * c) vs)"

fun variant_frequency_loop ::
    "(signal_variant_id \<rightharpoonup> nat) \<Rightarrow> allocated_slot list \<Rightarrow> signal_plan_diagnostic list" where
  "variant_frequency_loop variant_frequencies [] = []"
| "variant_frequency_loop variant_frequencies (slot # slots) =
     (case variant_frequencies (slot_variant slot) of
        None \<Rightarrow> []
      | Some frequency \<Rightarrow>
          if frequency \<noteq> slot_frequency slot
          then [signal_diagnostic ''signal_plan.variant_frequency_mismatch''
                  [Lit ''/slots/'', ShowNat (fst slot), Lit ''/signal/frequency_hz'']
                  [Lit ''one frequency variant must map to one exact frequency'']]
          else []) @
     variant_frequency_loop (variant_frequencies(slot_variant slot \<mapsto> slot_frequency slot)) slots"

definition unbalanced_block :: "nat \<Rightarrow> allocated_slot list \<Rightarrow> bool" where
  "unbalanced_block expected_pairs block \<longleftrightarrow>
     (let pairs = (\<lambda>x. (slot_antenna x, slot_variant x)) ` set block;
          positions = slot_position ` set block
      in length block \<noteq> expected_pairs \<or> card pairs \<noteq> expected_pairs \<or>
         card positions \<noteq> length block)"

definition validate_counterbalance :: "allocated_slot list \<Rightarrow> signal_plan_diagnostic list" where
  "validate_counterbalance slots =
     (let antennas = slot_antenna ` set slots;
          variants = slot_variant ` set slots;
          expected_pairs = card antennas * card variants;
          antenna_positions = totals slot_antenna slot_position slots;
          variant_positions = totals slot_variant slot_position slots;
          blocks = groups slot_block slots
      in variant_frequency_loop Map.empty slots @
         concat (map (\<lambda>(block_id, block).
           if unbalanced_block expected_pairs block
           then [signal_diagnostic ''signal_plan.unbalanced_block'' [Lit ''/slots'']
                   [Lit ''counterbalance block '', Lit (block_str block_id),
                    Lit '' must contain each antenna/frequency pair once with unique positions'']]
           else []) blocks) @
         (if \<not> balanced_average_position (map snd antenna_positions) \<or>
             \<not> balanced_average_position (map snd variant_positions)
          then [signal_diagnostic ''signal_plan.unbalanced_order'' [Lit ''/slots'']
                  [Lit ''antenna and frequency variants must have equal average positions across complete blocks'']]
          else []))"

section \<open>The whole schedule\<close>

text \<open>The last loop's body: the slots of one plan, in time order.\<close>

definition plan_slots_diagnostics ::
    "(signal_plan_id \<rightharpoonup> signal_plan) \<Rightarrow> signal_plan_id \<times> allocated_slot list
       \<Rightarrow> signal_plan_diagnostic list" where
  "plan_slots_diagnostics plans = (\<lambda>(plan_id, allocated).
     let slots = sort_key (\<lambda>x. p3_starts_at (fst (snd x))) allocated in
     (case plans plan_id of
        Some plan \<Rightarrow>
          if sp_collection_profile plan = RbnCwV1 then validate_rbn_suppression slots else []
      | None \<Rightarrow> []) @
     validate_counterbalance slots)"

definition validate_signal_plan_schedule_v3 ::
    "string \<Rightarrow> schedule_v3 \<Rightarrow> signal_plan_diagnostic list" where
  "validate_signal_plan_schedule_v3 station_callsign sched =
     (let (plan_diags, plans) = plans_loop station_callsign 0 Map.empty (s3_signal_plans sched);
          (slot_diags, allocations) = slot_allocations_loop plans 0 [] (s3_slots sched)
      in plan_diags @ slot_diags @
         concat (map (intent_allocation_diagnostics plans)
           (enumerate 0 (s3_wspr_cycle_intents sched))) @
         concat (map (plan_slots_diagnostics plans) allocations))"

section \<open>Confirmed signal states\<close>

definition slot_or_intent_allocation :: "schedule_v3 \<Rightarrow> string \<Rightarrow> signal_allocation option" where
  "slot_or_intent_allocation sched slot_id =
     or_else
       (Option.bind (find (\<lambda>slot. p3_slot_id slot = slot_id) (s3_slots sched)) p3_signal)
       (Option.bind (find (\<lambda>intent. wi_intent_id intent = slot_id) (s3_wspr_cycle_intents sched)) wi_signal)"

definition known_slot_reference :: "schedule_v3 \<Rightarrow> string \<Rightarrow> bool" where
  "known_slot_reference sched slot_id \<longleftrightarrow>
     list_ex (\<lambda>slot. p3_slot_id slot = slot_id) (s3_slots sched) \<or>
     list_ex (\<lambda>intent. wi_intent_id intent = slot_id) (s3_wspr_cycle_intents sched)"

definition confirmation_field :: "string \<Rightarrow> message" where
  "confirmation_field field = [Lit ''/payload/confirmation/'', Lit field]"

definition missing_facts :: "signal_state_confirmation \<Rightarrow> signal_plan_diagnostic list" where
  "missing_facts confirmation =
     concat (map (\<lambda>(present, field).
       if \<not> present
       then [signal_diagnostic ''signal_state.missing_actual_fact'' (confirmation_field field)
               [Lit ''actual '', Lit field, Lit '' was not confirmed'']]
       else [])
       [(sg_frequency_hz confirmation \<noteq> None, ''frequency_hz''),
        (sg_mode confirmation \<noteq> None, ''mode''),
        (sg_transmitted_callsign confirmation \<noteq> None, ''transmitted_callsign''),
        (sg_cadence_followed confirmation \<noteq> None, ''cadence_followed'')])"

definition confirmation_mismatches ::
    "signal_state_confirmation \<Rightarrow> signal_allocation \<Rightarrow> signal_plan \<Rightarrow> signal_plan_diagnostic list" where
  "confirmation_mismatches confirmation allocation plan =
     (if sg_frequency_hz confirmation = Some 0
      then [signal_diagnostic ''signal_state.invalid_frequency'' (confirmation_field ''frequency_hz'')
              [Lit ''confirmed frequency must be greater than zero'']]
      else if (case sg_frequency_hz confirmation of
                 None \<Rightarrow> False | Some v \<Rightarrow> v \<noteq> sa_frequency_hz allocation)
      then [signal_diagnostic ''signal_state.frequency_mismatch'' (confirmation_field ''frequency_hz'')
              [Lit ''confirmed frequency differs from the planned slot frequency'']]
      else []) @
     (if (case sg_mode confirmation of None \<Rightarrow> False | Some v \<Rightarrow> v \<noteq> sp_mode plan)
      then [signal_diagnostic ''signal_state.mode_mismatch'' (confirmation_field ''mode'')
              [Lit ''confirmed mode differs from the signal plan'']]
      else []) @
     (if unusable_power (sg_power_watts confirmation)
      then [signal_diagnostic ''signal_state.invalid_power'' (confirmation_field ''power_watts'')
              [Lit ''confirmed power must be finite and greater than zero'']]
      else if (case (sg_power_watts confirmation, sp_planned_power_watts plan) of
                 (Some actual, Some planned) \<Rightarrow> \<not> fl_eq actual planned | _ \<Rightarrow> False)
      then [signal_diagnostic ''signal_state.power_mismatch'' (confirmation_field ''power_watts'')
              [Lit ''confirmed power differs from the signal plan'']]
      else []) @
     (if (case sg_transmitted_callsign confirmation of
            None \<Rightarrow> False | Some v \<Rightarrow> \<not> eq_ignore_ascii_case v (sp_transmitted_callsign plan))
      then [signal_diagnostic ''signal_state.identity_mismatch'' (confirmation_field ''transmitted_callsign'')
              [Lit ''confirmed transmitted identity differs from the signal plan'']]
      else []) @
     (if sg_cadence_followed confirmation = Some False
      then [signal_diagnostic ''signal_state.cadence_mismatch'' (confirmation_field ''cadence_followed'')
              [Lit ''operator reported that the planned cadence was not followed'']]
      else [])"

definition validate_signal_state_confirmation_v3 ::
    "schedule_v3 \<Rightarrow> string option \<Rightarrow> signal_state_confirmation \<Rightarrow> signal_plan_diagnostic list" where
  "validate_signal_state_confirmation_v3 sched slot_id confirmation =
     (let at_slot = (\<lambda>code text. [signal_diagnostic code [Lit ''/slot_id''] [Lit text]]) in
      case slot_id of
        None \<Rightarrow> at_slot ''signal_state.missing_slot''
                  ''signal-state confirmation must identify one planned slot''
      | Some slot_id \<Rightarrow>
          if \<not> known_slot_reference sched slot_id
          then at_slot ''signal_state.unknown_slot''
                 ''signal-state confirmation references an unknown cycle intent''
          else case slot_or_intent_allocation sched slot_id of
            None \<Rightarrow> at_slot ''signal_state.slot_without_plan''
              ''signal-state confirmation references a cycle intent without a signal allocation''
          | Some allocation \<Rightarrow>
              (case find (\<lambda>plan. sp_signal_plan_id plan = sa_signal_plan_id allocation)
                  (s3_signal_plans sched) of
                 None \<Rightarrow> at_slot ''signal_state.unknown_plan''
                   ''signal-state confirmation cannot resolve the slot's signal plan''
               | Some plan \<Rightarrow>
                   missing_facts confirmation @
                   confirmation_mismatches confirmation allocation plan))"

definition validate_signal_state_event_v3 ::
    "schedule_v3 \<Rightarrow> operator_event_v3 \<Rightarrow> signal_plan_diagnostic list" where
  "validate_signal_state_event_v3 sched event =
     (case oe_payload event of
        SignalStateConfirmed3 confirmation \<Rightarrow>
          validate_signal_state_confirmation_v3 sched (oe_slot_id event) confirmation
      | _ \<Rightarrow> [])"

section \<open>What a signal plan promises\<close>

definition plan_ok :: "string \<Rightarrow> signal_plan \<Rightarrow> bool" where
  "plan_ok station_callsign plan \<longleftrightarrow>
     (case sp_planned_power_watts plan of None \<Rightarrow> True | Some v \<Rightarrow> \<exists>q > 0. v = Finite q) \<and>
     trim (cd_message (sp_cadence plan)) \<noteq> [] \<and> 0 < cd_repetition_count (sp_cadence plan) \<and>
     0 < cd_transmit_seconds (sp_cadence plan) \<and>
     cd_transmit_seconds (sp_cadence plan) \<le> cd_interval_seconds (sp_cadence plan) \<and>
     (sp_mode plan = Cw \<longrightarrow> cd_key_speed_wpm (sp_cadence plan) \<noteq> None) \<and>
     (eq_ignore_ascii_case (sp_transmitted_callsign plan) station_callsign \<or>
        sp_differing_identity_validated plan) \<and>
     (sp_collection_profile plan = RbnCwV1 \<longrightarrow> sp_mode plan = Cw)"

text \<open>The slots of a schedule that carry an allocation, with their index.\<close>

definition allocated_slots :: "nat \<Rightarrow> planned_slot_v3 list \<Rightarrow> allocated_slot list" where
  "allocated_slots n slots =
     List.map_filter (\<lambda>(i, slot). map_option (\<lambda>a. (i, slot, a)) (p3_signal slot)) (enumerate n slots)"

definition slots_of_plan :: "schedule_v3 \<Rightarrow> signal_plan_id \<Rightarrow> allocated_slot list" where
  "slots_of_plan sched plan_id =
     filter (\<lambda>x. sa_signal_plan_id (slot_allocation x) = plan_id) (allocated_slots 0 (s3_slots sched))"

text \<open>Two transmissions a skimmer reports both: ten minutes or 300 Hz apart.\<close>

definition apart :: "allocated_slot \<Rightarrow> allocated_slot \<Rightarrow> bool" where
  "apart x y \<longleftrightarrow>
     seconds 600 \<le> \<bar>p3_starts_at (fst (snd x)) - p3_starts_at (fst (snd y))\<bar> \<or>
     300 \<le> \<bar>int (slot_frequency x) - int (slot_frequency y)\<bar>"

definition average_equal :: "('x \<Rightarrow> 'k) \<Rightarrow> ('x \<Rightarrow> nat) \<Rightarrow> 'x list \<Rightarrow> bool" where
  "average_equal key w xs \<longleftrightarrow> (\<forall>k \<in> key ` set xs. \<forall>l \<in> key ` set xs.
     sum_list (map w (filter (\<lambda>x. key x = k) xs)) * length (filter (\<lambda>x. key x = l) xs) =
     sum_list (map w (filter (\<lambda>x. key x = l) xs)) * length (filter (\<lambda>x. key x = k) xs))"

definition complete_block :: "string set \<Rightarrow> signal_variant_id set \<Rightarrow> allocated_slot list \<Rightarrow> bool" where
  "complete_block antennas variants block \<longleftrightarrow>
     distinct (map (\<lambda>x. (slot_antenna x, slot_variant x)) block) \<and>
     (\<lambda>x. (slot_antenna x, slot_variant x)) ` set block = antennas \<times> variants \<and>
     distinct (map slot_position block)"

definition counterbalanced :: "allocated_slot list \<Rightarrow> bool" where
  "counterbalanced xs \<longleftrightarrow>
     (\<forall>x \<in> set xs. \<forall>y \<in> set xs. slot_variant x = slot_variant y \<longrightarrow> slot_frequency x = slot_frequency y) \<and>
     (\<forall>b \<in> slot_block ` set xs.
        complete_block (slot_antenna ` set xs) (slot_variant ` set xs) (filter (\<lambda>x. slot_block x = b) xs)) \<and>
     average_equal slot_antenna slot_position xs \<and> average_equal slot_variant slot_position xs"

definition allocation_ok :: "schedule_v3 \<Rightarrow> signal_allocation \<Rightarrow> bool" where
  "allocation_ok sched a \<longleftrightarrow>
     0 < sa_frequency_hz a \<and> sa_signal_plan_id a \<in> sp_signal_plan_id ` set (s3_signal_plans sched)"

lemma allocation_ok_abs:
  "(\<lambda>a. 0 < sa_frequency_hz a \<and> sa_signal_plan_id a \<in> sp_signal_plan_id ` set (s3_signal_plans sched)) =
     allocation_ok sched"
  by (simp add: fun_eq_iff allocation_ok_def)

definition signal_schedule_ok :: "string \<Rightarrow> schedule_v3 \<Rightarrow> bool" where
  "signal_schedule_ok station_callsign sched \<longleftrightarrow>
     distinct (map sp_signal_plan_id (s3_signal_plans sched)) \<and>
     list_all (plan_ok station_callsign) (s3_signal_plans sched) \<and>
     (\<forall>slot \<in> set (s3_slots sched). pred_option (allocation_ok sched) (p3_signal slot)) \<and>
     (\<forall>intent \<in> set (s3_wspr_cycle_intents sched). pred_option (allocation_ok sched) (wi_signal intent)) \<and>
     (\<forall>plan \<in> set (s3_signal_plans sched).
        let xs = slots_of_plan sched (sp_signal_plan_id plan) in
        (sp_collection_profile plan = RbnCwV1 \<longrightarrow> sorted_wrt apart xs) \<and> counterbalanced xs)"

section \<open>The loops\<close>

lemma plan_diagnostics_Nil:
  "plan_diagnostics cs duplicate i plan = [] \<longleftrightarrow> \<not> duplicate \<and> plan_ok cs plan"
proof -
  have "unusable_power w \<longleftrightarrow> \<not> (case w of None \<Rightarrow> True | Some v \<Rightarrow> \<exists>q > 0. v = Finite q)" for w
    by (cases w; cases "the w") (auto simp: unusable_power_def)
  then show ?thesis
    by (cases "sp_mode plan")
      (auto simp: plan_diagnostics_def Let_def plan_ok_def incoherent_cadence_def)
qed

lemma plans_loop_map:
  "snd (plans_loop cs i m plans) = foldl (\<lambda>m p. m(sp_signal_plan_id p \<mapsto> p)) m plans"
  by (induction plans arbitrary: i m) (simp_all add: Let_def case_prod_unfold)

lemma plans_loop_Nil:
  "fst (plans_loop cs i m plans) = [] \<longleftrightarrow>
     distinct (map sp_signal_plan_id plans) \<and> sp_signal_plan_id ` set plans \<inter> dom m = {} \<and>
     list_all (plan_ok cs) plans"
  by (induction plans arbitrary: i m)
    (auto simp: Let_def case_prod_unfold plan_diagnostics_Nil)

lemma plans_map_dom: "dom (foldl (\<lambda>m p. m(sp_signal_plan_id p \<mapsto> p)) m plans) = dom m \<union> sp_signal_plan_id ` set plans"
  by (induction plans arbitrary: m) auto

lemma plans_map_unique:
  assumes "distinct (map sp_signal_plan_id plans)" and "plan \<in> set plans"
  shows "foldl (\<lambda>m p. m(sp_signal_plan_id p \<mapsto> p)) m plans (sp_signal_plan_id plan) = Some plan"
proof -
  have keep: "k \<notin> sp_signal_plan_id ` set ps \<Longrightarrow>
      foldl (\<lambda>m p. m(sp_signal_plan_id p \<mapsto> p)) m ps k = m k" for k m ps
    by (induction ps arbitrary: m) auto
  from assms show ?thesis
    by (induction plans arbitrary: m) (auto simp: keep)
qed

lemma allocation_diagnostics_Nil:
  "allocation_diagnostics plans loc u a = [] \<longleftrightarrow> 0 < sa_frequency_hz a \<and> sa_signal_plan_id a \<in> dom plans"
  by (auto simp: allocation_diagnostics_def)

lemma slot_allocations_loop_Nil:
  "fst (slot_allocations_loop plans n m slots) = [] \<longleftrightarrow>
     (\<forall>slot \<in> set slots. pred_option (\<lambda>a. 0 < sa_frequency_hz a \<and> sa_signal_plan_id a \<in> dom plans) (p3_signal slot))"
  by (induction slots arbitrary: n m)
    (auto simp: Let_def case_prod_unfold allocation_diagnostics_Nil split: option.split)

lemma slot_allocations_loop_map:
  "snd (slot_allocations_loop plans n m slots) =
     foldl (\<lambda>m x. bt_entry (sa_signal_plan_id (slot_allocation x)) (pushed x) m) m
       (filter (\<lambda>x. sa_signal_plan_id (slot_allocation x) \<in> dom plans) (allocated_slots n slots))"
proof (induction slots arbitrary: n m)
  case (Cons slot slots)
  then show ?case
    by (cases "p3_signal slot")
      (auto simp: allocated_slots_def map_filter_simps Let_def case_prod_unfold)
qed (simp add: allocated_slots_def map_filter_simps)

section \<open>Suppression\<close>

lemma num_seconds_ge: "0 \<le> d \<Longrightarrow> 600 \<le> num_seconds d \<longleftrightarrow> seconds 600 \<le> d"
  using num_seconds_le_iff [of d 599] by simp linarith

lemma suppression_inner_Nil:
  assumes "sorted (map (\<lambda>x. p3_starts_at (fst (snd x))) (left # rest))"
  shows "suppression_inner left rest = [] \<longleftrightarrow> (\<forall>x \<in> set rest. apart left x)"
  using assms
proof (induction left rest rule: suppression_inner.induct)
  case (2 li ls l ri rs r rest)
  let ?d = "p3_starts_at rs - p3_starts_at ls"
  from "2.prems" have d: "0 \<le> ?d" and later: "\<And>x. x \<in> set rest \<Longrightarrow> p3_starts_at rs \<le> p3_starts_at (fst (snd x))"
    by auto
  then have nonneg: "0 \<le> num_seconds ?d" by (simp add: num_seconds_def)
  have delta: "abs_diff (sa_frequency_hz l) (sa_frequency_hz r) < 300 \<longleftrightarrow>
      \<not> 300 \<le> \<bar>int (sa_frequency_hz l) - int (sa_frequency_hz r)\<bar>"
    by (auto simp: abs_diff_def)
  show ?case
  proof (cases "seconds 600 \<le> ?d")
    case True
    with d later have "\<forall>x \<in> set ((ri, rs, r) # rest). apart (li, ls, l) x"
      by (force simp: apart_def)
    with True num_seconds_ge [OF d] show ?thesis by simp
  next
    case False
    with d have "apart (li, ls, l) (ri, rs, r) \<longleftrightarrow> \<not> abs_diff (sa_frequency_hz l) (sa_frequency_hz r) < 300"
      by (simp add: apart_def delta)
    with False num_seconds_ge [OF d] nonneg "2.IH" "2.prems" show ?thesis
      by (simp add: Let_def)
  qed
qed simp

lemma suppression_Nil:
  "sorted (map (\<lambda>x. p3_starts_at (fst (snd x))) xs) \<Longrightarrow>
     validate_rbn_suppression xs = [] \<longleftrightarrow> sorted_wrt apart xs"
  by (induction xs) (simp_all add: suppression_inner_Nil)

lemma apart_sym: "apart x y \<longleftrightarrow> apart y x"
  by (auto simp: apart_def)

lemma sorted_wrt_insort:
  assumes "\<And>x y. R x y \<longleftrightarrow> R y x"
  shows "sorted_wrt R (insort_key f x xs) \<longleftrightarrow> (\<forall>y \<in> set xs. R x y) \<and> sorted_wrt R xs"
  using assms by (induction xs) (auto simp: set_insort_key)

lemma sorted_wrt_sort_key:
  assumes "\<And>x y. R x y \<longleftrightarrow> R y x"
  shows "sorted_wrt R (sort_key f xs) \<longleftrightarrow> sorted_wrt R xs"
  by (induction xs) (simp_all add: sorted_wrt_insort [OF assms])

section \<open>Balance\<close>

lemma balanced_pairs:
  assumes "\<forall>(s, c) \<in> set vs. c \<noteq> 0"
  shows "balanced_average_position vs \<longleftrightarrow>
    (\<forall>(s, c) \<in> set vs. \<forall>(s', c') \<in> set vs. s * c' = s' * c)"
proof (cases vs)
  case (Cons v rest)
  obtain s1 c1 where v: "v = (s1, c1)" by (cases v)
  have c1: "c1 \<noteq> 0" using assms Cons v by simp
  have trans_step: "s * c' = s' * c" if "s * c1 = s1 * c" "s' * c1 = s1 * c'" for s c s' c'
  proof -
    have "(s * c') * c1 = (s' * c) * c1"
      using that by (metis mult.assoc mult.commute)
    with c1 show ?thesis by simp
  qed
  have "(\<forall>(s, c) \<in> set vs. s * c1 = s1 * c) \<longleftrightarrow>
      (\<forall>(s, c) \<in> set vs. \<forall>(s', c') \<in> set vs. s * c' = s' * c)"
  proof
    assume all: "\<forall>(s, c) \<in> set vs. s * c1 = s1 * c"
    have "fst p * snd q = fst q * snd p" if "p \<in> set vs" "q \<in> set vs" for p q
      by (rule trans_step) (use all that in \<open>auto simp: case_prod_unfold\<close>)
    then show "\<forall>(s, c) \<in> set vs. \<forall>(s', c') \<in> set vs. s * c' = s' * c"
      by (simp add: case_prod_unfold)
  next
    assume all: "\<forall>(s, c) \<in> set vs. \<forall>(s', c') \<in> set vs. s * c' = s' * c"
    have "(s1, c1) \<in> set vs" using Cons v by simp
    with all show "\<forall>(s, c) \<in> set vs. s * c1 = s1 * c" by blast
  qed
  with assms c1 have "list_all (\<lambda>(s, c). c1 \<noteq> 0 \<and> c \<noteq> 0 \<and> s * c1 = s1 * c) vs \<longleftrightarrow>
      (\<forall>(s, c) \<in> set vs. \<forall>(s', c') \<in> set vs. s * c' = s' * c)"
    by (simp add: list_all_iff case_prod_unfold)
  with c1 show ?thesis by (simp add: balanced_average_position_def Cons v)
qed (simp add: balanced_average_position_def)

lemma balanced_totals:
  "balanced_average_position (map snd (totals key w xs)) \<longleftrightarrow> average_equal key w xs"
proof -
  let ?t = "\<lambda>k. (sum_list (map w (filter (\<lambda>x. key x = k) xs)), length (filter (\<lambda>x. key x = k) xs))"
  have entries: "set (map snd (totals key w xs)) = ?t ` (key ` set xs)"
  proof -
    have "set (totals key w xs) = (\<lambda>k. (k, ?t k)) ` (key ` set xs)"
      by (auto simp: in_totals)
    then show ?thesis by (simp only: set_map image_image snd_conv)
  qed
  have "length (filter (\<lambda>x. key x = k) xs) \<noteq> 0" if "k \<in> key ` set xs" for k
    using that by (auto simp: filter_empty_conv)
  then have "\<forall>(s, c) \<in> set (map snd (totals key w xs)). c \<noteq> 0"
    unfolding entries by auto
  from balanced_pairs [OF this] show ?thesis
    unfolding entries average_equal_def by (simp add: ball_simps)
qed

lemma consistent_step:
  "(m (v x) = None \<or> m (v x) = Some (f x)) \<and>
     (\<forall>y \<in> set xs. (m(v x \<mapsto> f x)) (v y) = None \<or> (m(v x \<mapsto> f x)) (v y) = Some (f y)) \<longleftrightarrow>
   (\<forall>y \<in> set (x # xs). m (v y) = None \<or> m (v y) = Some (f y)) \<and>
     (\<forall>y \<in> set xs. v x = v y \<longrightarrow> f x = f y)"
proof -
  have "(m(v x \<mapsto> f x)) (v y) = None \<or> (m(v x \<mapsto> f x)) (v y) = Some (f y) \<longleftrightarrow>
      (if v x = v y then f x = f y else m (v y) = None \<or> m (v y) = Some (f y))" for y
    by auto
  then show ?thesis by (simp only: list.set ball_simps) (cases "m (v x)"; auto split: if_splits)
qed

lemma agree_insert:
  "(\<forall>a \<in> insert x X. \<forall>b \<in> insert x X. v a = v b \<longrightarrow> f a = f b) \<longleftrightarrow>
   (\<forall>b \<in> X. v x = v b \<longrightarrow> f x = f b) \<and> (\<forall>a \<in> X. \<forall>b \<in> X. v a = v b \<longrightarrow> f a = f b)"
proof (intro iffI ballI impI)
  fix a b
  assume agree: "(\<forall>b \<in> X. v x = v b \<longrightarrow> f x = f b) \<and> (\<forall>a \<in> X. \<forall>b \<in> X. v a = v b \<longrightarrow> f a = f b)"
    and ab: "a \<in> insert x X" "b \<in> insert x X" and same: "v a = v b"
  from ab consider "a = b" | "a = x" "b \<in> X" | "b = x" "a \<in> X" | "a \<in> X" "b \<in> X" by blast
  then show "f a = f b"
  proof cases
    case 3
    from same [symmetric] 3(1) have "v x = v a" by (simp only:)
    with agree 3 have "f x = f a" by blast
    from this [symmetric] 3(1) show ?thesis by (simp only:)
  qed (use agree same in blast)+
qed blast

lemma variant_frequency_loop_Nil:
  "variant_frequency_loop m xs = [] \<longleftrightarrow>
     (\<forall>x \<in> set xs. m (slot_variant x) = None \<or> m (slot_variant x) = Some (slot_frequency x)) \<and>
     (\<forall>x \<in> set xs. \<forall>y \<in> set xs. slot_variant x = slot_variant y \<longrightarrow> slot_frequency x = slot_frequency y)"
proof (induction xs arbitrary: m)
  case (Cons x xs)
  have "variant_frequency_loop m (x # xs) = [] \<longleftrightarrow>
      (m (slot_variant x) = None \<or> m (slot_variant x) = Some (slot_frequency x)) \<and>
      variant_frequency_loop (m(slot_variant x \<mapsto> slot_frequency x)) xs = []"
    by (cases "m (slot_variant x)") simp_all
  also have "\<dots> \<longleftrightarrow>
      (\<forall>y \<in> set (x # xs). m (slot_variant y) = None \<or> m (slot_variant y) = Some (slot_frequency y)) \<and>
      (\<forall>y \<in> set xs. slot_variant x = slot_variant y \<longrightarrow> slot_frequency x = slot_frequency y) \<and>
      (\<forall>x \<in> set xs. \<forall>y \<in> set xs. slot_variant x = slot_variant y \<longrightarrow> slot_frequency x = slot_frequency y)"
    using consistent_step [of m slot_variant x slot_frequency xs] unfolding Cons.IH by blast
  finally show ?case unfolding list.set by (subst agree_insert)
qed simp

lemma unbalanced_block_complete:
  assumes "(\<lambda>x. (slot_antenna x, slot_variant x)) ` set block \<subseteq> A \<times> V" and "finite A" and "finite V"
  shows "\<not> unbalanced_block (card A * card V) block \<longleftrightarrow> complete_block A V block"
proof -
  let ?f = "\<lambda>x. (slot_antenna x, slot_variant x)"
  have fin: "finite (A \<times> V)" and card: "card (A \<times> V) = card A * card V"
    using assms(2,3) by (simp_all add: card_cartesian_product)
  have "length block = card (A \<times> V) \<and> card (?f ` set block) = card (A \<times> V) \<longleftrightarrow>
      distinct (map ?f block) \<and> ?f ` set block = A \<times> V"
    using card_subset_eq [OF fin assms(1)] distinct_card [of "map ?f block"] card_distinct [of "map ?f block"]
    by (auto simp del: distinct_map)
  moreover have "card (slot_position ` set block) = length block \<longleftrightarrow> distinct (map slot_position block)"
    using distinct_card [of "map slot_position block"] card_distinct [of "map slot_position block"]
    by (auto simp del: distinct_map)
  ultimately show ?thesis
    by (auto simp: unbalanced_block_def Let_def complete_block_def card simp del: distinct_map)
qed

lemma counterbalance_Nil: "validate_counterbalance xs = [] \<longleftrightarrow> counterbalanced xs"
proof -
  let ?A = "slot_antenna ` set xs" and ?V = "slot_variant ` set xs"
  have "(\<forall>(b, ys) \<in> set (groups slot_block xs). \<not> unbalanced_block (card ?A * card ?V) ys) \<longleftrightarrow>
      (\<forall>b \<in> slot_block ` set xs. complete_block ?A ?V (filter (\<lambda>x. slot_block x = b) xs))"
  proof -
    have "\<not> unbalanced_block (card ?A * card ?V) (filter P xs) \<longleftrightarrow> complete_block ?A ?V (filter P xs)" for P
      by (rule unbalanced_block_complete) auto
    then show ?thesis by (force simp: in_groups)
  qed
  then show ?thesis
    by (auto simp: validate_counterbalance_def Let_def variant_frequency_loop_Nil balanced_totals
        counterbalanced_def split: if_splits)
qed

section \<open>The contract\<close>

lemma length_filter_sort_key: "length (filter P (sort_key f xs)) = length (filter P xs)"
  by (metis mset_filter mset_sort size_mset)

lemma sum_filter_sort_key:
  fixes w :: "'a \<Rightarrow> nat"
  shows "sum_list (map w (filter P (sort_key f xs))) = sum_list (map w (filter P xs))"
  by (metis mset_filter mset_map mset_sort sum_mset_sum_list)

lemma distinct_filter_sort_key:
  "distinct (map g (filter P (sort_key f xs))) \<longleftrightarrow> distinct (map g (filter P xs))"
  by (metis mset_eq_imp_distinct_iff mset_filter mset_map mset_sort)

lemma complete_block_sort_key:
  "complete_block A V (filter P (sort_key f xs)) \<longleftrightarrow> complete_block A V (filter P xs)"
  by (simp add: complete_block_def distinct_filter_sort_key del: distinct_map)

lemma counterbalanced_sort_key: "counterbalanced (sort_key f xs) \<longleftrightarrow> counterbalanced xs"
  by (simp add: counterbalanced_def complete_block_sort_key average_equal_def length_filter_sort_key
      sum_filter_sort_key)

lemma counterbalanced_Nil [simp]: "counterbalanced []"
  by (simp add: counterbalanced_def average_equal_def)

lemma in_allocated_slots:
  "x \<in> set (allocated_slots n slots) \<Longrightarrow> fst (snd x) \<in> set slots \<and> p3_signal (fst (snd x)) = Some (slot_allocation x)"
  by (auto simp: allocated_slots_def map_filter_def in_set_enumerate_eq)

lemma all_allocations:
  "(\<forall>slot \<in> set slots. pred_option P (p3_signal slot)) \<Longrightarrow> x \<in> set (allocated_slots n slots) \<Longrightarrow>
     P (slot_allocation x)"
  using in_allocated_slots [of x n slots] by force

lemma intent_allocations_Nil:
  "concat (map (intent_allocation_diagnostics plans) (enumerate n intents)) = [] \<longleftrightarrow>
     (\<forall>intent \<in> set intents.
        pred_option (\<lambda>a. 0 < sa_frequency_hz a \<and> sa_signal_plan_id a \<in> dom plans) (wi_signal intent))"
  by (induction intents arbitrary: n)
    (simp_all add: intent_allocation_diagnostics_def allocation_diagnostics_Nil split: option.split)

lemma plan_slots_Nil:
  "plans k = Some plan \<Longrightarrow> plan_slots_diagnostics plans (k, xs) = [] \<longleftrightarrow>
     (sp_collection_profile plan = RbnCwV1 \<longrightarrow> sorted_wrt apart xs) \<and> counterbalanced xs"
  by (simp add: plan_slots_diagnostics_def Let_def suppression_Nil counterbalance_Nil
      counterbalanced_sort_key sorted_wrt_sort_key [of apart, OF apart_sym])

text \<open>The last loop looks at the plans that have a slot; the others have nothing to check.\<close>

lemma plan_groups_Nil:
  assumes plans: "\<And>plan. plan \<in> set ps \<Longrightarrow> m (sp_signal_plan_id plan) = Some plan"
    and known: "\<forall>x \<in> set xs. sa_signal_plan_id (slot_allocation x) \<in> sp_signal_plan_id ` set ps"
  shows "(\<forall>g \<in> set (groups (\<lambda>x. sa_signal_plan_id (slot_allocation x)) xs). plan_slots_diagnostics m g = []) \<longleftrightarrow>
    (\<forall>plan \<in> set ps.
       let ys = filter (\<lambda>x. sa_signal_plan_id (slot_allocation x) = sp_signal_plan_id plan) xs in
       (sp_collection_profile plan = RbnCwV1 \<longrightarrow> sorted_wrt apart ys) \<and> counterbalanced ys)"
proof -
  let ?key = "\<lambda>x. sa_signal_plan_id (slot_allocation x)"
  let ?of = "\<lambda>k. filter (\<lambda>x. ?key x = k) xs"
  let ?good = "\<lambda>plan. (sp_collection_profile plan = RbnCwV1 \<longrightarrow> sorted_wrt apart (?of (sp_signal_plan_id plan))) \<and>
      counterbalanced (?of (sp_signal_plan_id plan))"
  have check: "plan_slots_diagnostics m (sp_signal_plan_id plan, ?of (sp_signal_plan_id plan)) = [] \<longleftrightarrow> ?good plan"
    if "plan \<in> set ps" for plan
    by (rule plan_slots_Nil [of m "sp_signal_plan_id plan" plan, OF plans [OF that]])
  have "(\<forall>g \<in> set (groups ?key xs). plan_slots_diagnostics m g = []) \<longleftrightarrow>
      (\<forall>k \<in> ?key ` set xs. plan_slots_diagnostics m (k, ?of k) = [])"
    by (force simp: in_groups)
  also have "\<dots> \<longleftrightarrow> (\<forall>plan \<in> set ps. sp_signal_plan_id plan \<in> ?key ` set xs \<longrightarrow> ?good plan)"
  proof (intro iffI ballI impI)
    fix plan
    assume all: "\<forall>k \<in> ?key ` set xs. plan_slots_diagnostics m (k, ?of k) = []"
      and plan: "plan \<in> set ps" and used: "sp_signal_plan_id plan \<in> ?key ` set xs"
    from check [OF plan] bspec [OF all used] show "?good plan" by (rule iffD1)
  next
    fix k
    assume all: "\<forall>plan \<in> set ps. sp_signal_plan_id plan \<in> ?key ` set xs \<longrightarrow> ?good plan"
      and k: "k \<in> ?key ` set xs"
    from k known obtain plan where plan: "plan \<in> set ps" "k = sp_signal_plan_id plan" by blast
    from bspec [OF all plan(1)] k have "?good plan" unfolding plan(2) by (rule mp)
    with check [OF plan(1)] show "plan_slots_diagnostics m (k, ?of k) = []" unfolding plan(2) by (rule iffD2)
  qed
  also have "\<dots> \<longleftrightarrow> (\<forall>plan \<in> set ps. ?good plan)"
  proof -
    have "?of k = []" if "k \<notin> ?key ` set xs" for k
      using that by (auto simp: filter_empty_conv)
    then show ?thesis by (metis counterbalanced_Nil sorted_wrt.simps(1))
  qed
  finally show ?thesis unfolding Let_def .
qed

text \<open>The loops together: silence is the contract.\<close>

lemma signal_schedule_Nil:
  "validate_signal_plan_schedule_v3 cs sched = [] \<longleftrightarrow> signal_schedule_ok cs sched"
proof -
  let ?ps = "s3_signal_plans sched" and ?xs = "allocated_slots 0 (s3_slots sched)"
  let ?m = "foldl (\<lambda>m p. m(sp_signal_plan_id p \<mapsto> p)) Map.empty ?ps"
  let ?key = "\<lambda>x. sa_signal_plan_id (slot_allocation x)"
  have dom: "dom ?m = sp_signal_plan_id ` set ?ps"
    by (simp add: plans_map_dom)
  have groups: "snd (slot_allocations_loop ?m 0 [] (s3_slots sched)) =
      groups ?key (filter (\<lambda>x. ?key x \<in> dom ?m) ?xs)"
    by (simp add: slot_allocations_loop_map groups_def)
  have checks: "fst (plans_loop cs 0 Map.empty ?ps) = [] \<longleftrightarrow>
        distinct (map sp_signal_plan_id ?ps) \<and> list_all (plan_ok cs) ?ps"
    "fst (slot_allocations_loop ?m 0 [] (s3_slots sched)) = [] \<longleftrightarrow>
        (\<forall>slot \<in> set (s3_slots sched). pred_option (allocation_ok sched) (p3_signal slot))"
    by (simp_all add: plans_loop_Nil slot_allocations_loop_Nil dom allocation_ok_abs)
  have plans: "(\<forall>g \<in> set (groups ?key (filter (\<lambda>x. ?key x \<in> dom ?m) ?xs)). plan_slots_diagnostics ?m g = []) \<longleftrightarrow>
      (\<forall>plan \<in> set ?ps. let xs = slots_of_plan sched (sp_signal_plan_id plan) in
        (sp_collection_profile plan = RbnCwV1 \<longrightarrow> sorted_wrt apart xs) \<and> counterbalanced xs)"
    if "distinct (map sp_signal_plan_id ?ps)"
      and ok: "\<forall>slot \<in> set (s3_slots sched). pred_option (allocation_ok sched) (p3_signal slot)"
  proof -
    have known: "\<forall>x \<in> set ?xs. ?key x \<in> sp_signal_plan_id ` set ?ps"
      using all_allocations [OF ok, of _ 0] by (simp add: allocation_ok_def)
    then have all: "filter (\<lambda>x. ?key x \<in> dom ?m) ?xs = ?xs"
      by (simp add: dom)
    show ?thesis unfolding all slots_of_plan_def
      by (rule plan_groups_Nil [OF plans_map_unique [OF that(1)] known])
  qed
  show ?thesis
    unfolding validate_signal_plan_schedule_v3_def Let_def case_prod_unfold plans_loop_map groups
      append_is_Nil_conv checks intent_allocations_Nil signal_schedule_ok_def dom allocation_ok_abs
    using plans [unfolded Let_def dom] by (auto simp: concat_eq_Nil_conv)
qed

text \<open>
  C26. A schedule passes the signal-plan check exactly when it is sound: plans have distinct
  identities and usable power, cadence, identity and mode; every slot and every cycle intent
  allocates a positive frequency to a known plan; the slots of a plan for the RBN are pairwise
  ten minutes or 300 Hz apart; and the slots of every plan are counterbalanced.  In particular
  the early exit of the suppression loop skips no pair.
\<close>

theorem signal_schedule_contract:
  "validate_signal_plan_schedule_v3 cs sched = [] \<longleftrightarrow> signal_schedule_ok cs sched"
  by (rule signal_schedule_Nil)

section \<open>What counterbalance buys\<close>

lemma length_filter_by_key:
  assumes "finite K" and "key ` set xs \<subseteq> K"
  shows "length (filter P xs) = (\<Sum>k\<in>K. length (filter (\<lambda>x. P x \<and> key x = k) xs))"
  using assms(2)
proof (induction xs)
  case (Cons x xs)
  have "length (filter (\<lambda>y. P y \<and> key y = k) (x # xs)) =
      (if key x = k then (if P x then 1 else 0) else 0) + length (filter (\<lambda>y. P y \<and> key y = k) xs)" for k
    by simp
  with Cons assms(1) show ?case by (simp only: sum.distrib sum.delta) simp
qed simp

lemma distinct_map_filter_one:
  assumes "distinct (map f xs)" and "y \<in> f ` set xs"
  shows "length (filter (\<lambda>x. f x = y) xs) = 1"
  using assms
proof (induction xs)
  case (Cons x xs)
  show ?case
  proof (cases "f x = y")
    case True
    with Cons.prems(1) have "y \<notin> f ` set xs" by auto
    then have "filter (\<lambda>z. f z = y) xs = []" by (auto simp: filter_empty_conv)
    with True show ?thesis by simp
  qed (use Cons in auto)
qed simp

lemma pair_count:
  assumes "counterbalanced xs" and "a \<in> slot_antenna ` set xs" and "v \<in> slot_variant ` set xs"
  shows "length (filter (\<lambda>x. slot_antenna x = a \<and> slot_variant x = v) xs) = card (slot_block ` set xs)"
proof -
  let ?pair = "\<lambda>x. (slot_antenna x, slot_variant x)"
  have "length (filter (\<lambda>x. ?pair x = (a, v)) (filter (\<lambda>x. slot_block x = b) xs)) = 1"
    if "b \<in> slot_block ` set xs" for b
  proof (rule distinct_map_filter_one)
    from that assms(1) have "complete_block (slot_antenna ` set xs) (slot_variant ` set xs)
        (filter (\<lambda>x. slot_block x = b) xs)"
      unfolding counterbalanced_def by blast
    with assms(2,3) show "distinct (map ?pair (filter (\<lambda>x. slot_block x = b) xs))"
      "(a, v) \<in> ?pair ` set (filter (\<lambda>x. slot_block x = b) xs)"
      unfolding complete_block_def by blast+
  qed
  moreover have "length (filter (\<lambda>x. ?pair x = (a, v)) xs) =
      (\<Sum>b\<in>slot_block ` set xs. length (filter (\<lambda>x. ?pair x = (a, v)) (filter (\<lambda>x. slot_block x = b) xs)))"
    by (subst length_filter_by_key [of "slot_block ` set xs" slot_block]) (simp_all add: conj_ac)
  ultimately show ?thesis by simp
qed

lemma antenna_count:
  assumes "counterbalanced xs" and "a \<in> slot_antenna ` set xs"
  shows "length (filter (\<lambda>x. slot_antenna x = a) xs) =
    card (slot_variant ` set xs) * card (slot_block ` set xs)"
  using pair_count [OF assms]
  by (subst length_filter_by_key [of "slot_variant ` set xs" slot_variant]) simp_all

text \<open>
  C27. In an accepted schedule no antenna is favoured: within a signal plan every antenna transmits
  on every frequency variant equally often, once per counterbalance block, and the positions
  of any two antennas within the blocks add up to the same total.
\<close>

theorem accepted_plan_balanced:
  assumes "validate_signal_plan_schedule_v3 cs sched = []"
    and "plan \<in> set (s3_signal_plans sched)"
    and "xs = slots_of_plan sched (sp_signal_plan_id plan)"
    and "a \<in> slot_antenna ` set xs" and "a' \<in> slot_antenna ` set xs"
    and "v \<in> slot_variant ` set xs"
  shows "length (filter (\<lambda>x. slot_antenna x = a \<and> slot_variant x = v) xs) = card (slot_block ` set xs) \<and>
    sum_list (map slot_position (filter (\<lambda>x. slot_antenna x = a) xs)) =
      sum_list (map slot_position (filter (\<lambda>x. slot_antenna x = a') xs))"
proof -
  from assms(1-3) have balanced: "counterbalanced xs"
    by (auto simp: signal_schedule_Nil signal_schedule_ok_def Let_def)
  let ?n = "card (slot_variant ` set xs) * card (slot_block ` set xs)"
  from assms(6) have "?n > 0" by (auto simp: card_gt_0_iff)
  moreover have "sum_list (map slot_position (filter (\<lambda>x. slot_antenna x = a) xs)) * ?n =
      sum_list (map slot_position (filter (\<lambda>x. slot_antenna x = a') xs)) * ?n"
  proof -
    from balanced have "average_equal slot_antenna slot_position xs"
      by (simp add: counterbalanced_def)
    with assms(4,5) have "sum_list (map slot_position (filter (\<lambda>x. slot_antenna x = a) xs)) *
          length (filter (\<lambda>x. slot_antenna x = a') xs) =
        sum_list (map slot_position (filter (\<lambda>x. slot_antenna x = a') xs)) *
          length (filter (\<lambda>x. slot_antenna x = a) xs)"
      unfolding average_equal_def by blast
    then show ?thesis
      by (simp only: antenna_count [OF balanced assms(4)] antenna_count [OF balanced assms(5)])
  qed
  ultimately show ?thesis
    using pair_count [OF balanced assms(4,6)] by auto
qed

section \<open>Confirmations\<close>

definition confirms_plan ::
    "signal_state_confirmation \<Rightarrow> signal_allocation \<Rightarrow> signal_plan \<Rightarrow> bool" where
  "confirms_plan c a plan \<longleftrightarrow>
     0 < sa_frequency_hz a \<and> sg_frequency_hz c = Some (sa_frequency_hz a) \<and>
     sg_mode c = Some (sp_mode plan) \<and>
     pred_option (\<lambda>s. eq_ignore_ascii_case s (sp_transmitted_callsign plan)) (sg_transmitted_callsign c) \<and>
     sg_transmitted_callsign c \<noteq> None \<and> sg_cadence_followed c = Some True \<and>
     (case sg_power_watts c of
        None \<Rightarrow> True
      | Some w \<Rightarrow> \<exists>q > 0. w = Finite q \<and> pred_option (\<lambda>p. p = Finite q) (sp_planned_power_watts plan))"

lemma confirmation_Nil:
  "missing_facts c @ confirmation_mismatches c a plan = [] \<longleftrightarrow> confirms_plan c a plan"
proof -
  have watts: "\<not> unusable_power w \<and>
      \<not> (case (w, p) of (Some actual, Some planned) \<Rightarrow> \<not> fl_eq actual planned | _ \<Rightarrow> False) \<longleftrightarrow>
      (case w of None \<Rightarrow> True
       | Some w \<Rightarrow> \<exists>q > 0. w = Finite q \<and> pred_option (\<lambda>p. p = Finite q) p)" for w p
    by (cases w; cases "the w"; cases p; cases "the p") (auto simp: unusable_power_def)
  show ?thesis
    using watts [of "sg_power_watts c" "sp_planned_power_watts plan"]
    by (auto simp: missing_facts_def confirmation_mismatches_def confirms_plan_def
        split: option.splits if_splits)
qed

text \<open>
  C28. A signal-state confirmation raises no diagnostic exactly when it names a slot or cycle
  intent whose allocation belongs to a known plan, and confirms every fact of the plan: the
  frequency, the mode, the transmitted identity and the cadence.  The power may be left out;
  one that is given must be positive, and equal to the planned power where one is planned.
\<close>

theorem signal_state_adherence:
  "validate_signal_state_confirmation_v3 sched slot_id c = [] \<longleftrightarrow>
     (\<exists>i a plan. slot_id = Some i \<and> slot_or_intent_allocation sched i = Some a \<and>
        find (\<lambda>p. sp_signal_plan_id p = sa_signal_plan_id a) (s3_signal_plans sched) = Some plan \<and>
        confirms_plan c a plan)"
proof (cases slot_id)
  case (Some i)
  have "slot_or_intent_allocation sched i = None" if "\<not> known_slot_reference sched i"
  proof -
    from that have "find (\<lambda>slot. p3_slot_id slot = i) (s3_slots sched) = None"
      "find (\<lambda>intent. wi_intent_id intent = i) (s3_wspr_cycle_intents sched) = None"
      by (auto simp: known_slot_reference_def find_None_iff list_ex_iff)
    then show ?thesis by (simp add: slot_or_intent_allocation_def)
  qed
  with Some show ?thesis
    by (auto simp: validate_signal_state_confirmation_v3_def Let_def signal_diagnostic_def
        confirmation_Nil simp del: append_is_Nil_conv split: option.split)
qed (simp add: validate_signal_state_confirmation_v3_def)

section \<open>Instances\<close>

definition sample_plan :: "string \<Rightarrow> signal_plan" where
  "sample_plan i =
     \<lparr>sp_signal_plan_id = SignalPlanId i, sp_mode = Cw, sp_planned_power_watts = Some (Finite 5),
      sp_transmitted_callsign = ''N1RWJ'', sp_differing_identity_validated = False,
      sp_cadence = \<lparr>cd_message = ''TEST N1RWJ'', cd_repetition_count = 3, cd_key_speed_wpm = Some 22,
        cd_transmit_seconds = 30, cd_interval_seconds = 60\<rparr>,
      sp_collection_profile = RbnCwV1\<rparr>"

definition signal_slot ::
    "string \<Rightarrow> string \<Rightarrow> int \<Rightarrow> string \<Rightarrow> nat \<Rightarrow> string \<Rightarrow> nat \<Rightarrow> planned_slot_v3" where
  "signal_slot i plan n antenna freq block place =
     \<lparr>p3_slot_id = i, p3_sequence_number = nat n, p3_starts_at = seconds (600 * n),
      p3_duration_seconds = 60, p3_guard_seconds = 5, p3_band = M20, p3_antenna_label = antenna,
      p3_signal = Some \<lparr>sa_signal_plan_id = SignalPlanId plan, sa_frequency_hz = freq,
        sa_frequency_variant_id = SignalVariantId (if freq = 14030000 then ''low'' else ''high''),
        sa_counterbalance_block_id = CounterbalanceBlockId block,
        sa_counterbalance_position = place\<rparr>\<rparr>"

definition signal_schedule :: "signal_plan list \<Rightarrow> planned_slot_v3 list \<Rightarrow> schedule_v3" where
  "signal_schedule plans slots =
     \<lparr>s3_schema_version = 3, s3_session_id = ''session'', s3_mode = TxFocused,
      s3_goal = GeneralCoverage, s3_antenna_control = None, s3_signal_plans = plans,
      s3_wspr_cycle_intents = [], s3_slots = slots\<rparr>"

definition balanced_schedule :: schedule_v3 where
  "balanced_schedule = signal_schedule [sample_plan ''p'']
     [signal_slot ''1'' ''p'' 1 ''A'' 14030000 ''b1'' 1, signal_slot ''2'' ''p'' 2 ''B'' 14030000 ''b1'' 2,
      signal_slot ''3'' ''p'' 3 ''B'' 14030300 ''b1'' 3, signal_slot ''4'' ''p'' 4 ''A'' 14030300 ''b1'' 4,
      signal_slot ''5'' ''p'' 5 ''A'' 14030300 ''b2'' 1, signal_slot ''6'' ''p'' 6 ''B'' 14030300 ''b2'' 2,
      signal_slot ''7'' ''p'' 7 ''B'' 14030000 ''b2'' 3, signal_slot ''8'' ''p'' 8 ''A'' 14030000 ''b2'' 4]"

lemma sample_plan_ok: "plan_ok ''N1RWJ'' (sample_plan i)" "sp_signal_plan_id (sample_plan i) = SignalPlanId i"
  "sp_collection_profile (sample_plan i) = RbnCwV1"
proof -
  have "trim ''TEST N1RWJ'' = ''TEST N1RWJ''" by (rule trim_printable) simp_all
  then show "plan_ok ''N1RWJ'' (sample_plan i)"
    by (simp add: plan_ok_def sample_plan_def eq_ignore_ascii_case_def)
qed (simp_all add: sample_plan_def)

lemma signal_schedule_simps:
  "s3_signal_plans (signal_schedule plans slots) = plans" "s3_slots (signal_schedule plans slots) = slots"
  "s3_wspr_cycle_intents (signal_schedule plans slots) = []"
  by (simp_all add: signal_schedule_def)

lemmas sample_evaluation = slots_of_plan_def allocated_slots_def signal_schedule_simps signal_slot_def
  map_filter_simps sample_plan_ok

lemma balanced_accepted: "validate_signal_plan_schedule_v3 ''N1RWJ'' balanced_schedule = []"
proof -
  have "counterbalanced (slots_of_plan balanced_schedule (SignalPlanId ''p''))"
    by (simp add: counterbalanced_def complete_block_def average_equal_def balanced_schedule_def
        sample_evaluation del: set_filter) blast
  moreover have "sorted_wrt apart (slots_of_plan balanced_schedule (SignalPlanId ''p''))"
    by (simp add: balanced_schedule_def sample_evaluation apart_def seconds_def)
  ultimately show ?thesis
    by (simp add: signal_schedule_Nil signal_schedule_ok_def balanced_schedule_def signal_schedule_simps
       sample_plan_ok allocation_ok_def signal_slot_def)
qed

theorem accepted_plan_balanced_witness:
  "length (filter (\<lambda>x. slot_antenna x = ''A'' \<and> slot_variant x = SignalVariantId ''low'')
      (slots_of_plan balanced_schedule (SignalPlanId ''p''))) = 2 \<and>
   sum_list (map slot_position (filter (\<lambda>x. slot_antenna x = ''A'')
      (slots_of_plan balanced_schedule (SignalPlanId ''p'')))) =
   sum_list (map slot_position (filter (\<lambda>x. slot_antenna x = ''B'')
      (slots_of_plan balanced_schedule (SignalPlanId ''p''))))"
proof -
  let ?xs = "slots_of_plan balanced_schedule (SignalPlanId ''p'')"
  have "''A'' \<in> slot_antenna ` set ?xs" "''B'' \<in> slot_antenna ` set ?xs"
    "SignalVariantId ''low'' \<in> slot_variant ` set ?xs" "card (slot_block ` set ?xs) = 2"
    by (simp_all add: balanced_schedule_def sample_evaluation)
  moreover have "sample_plan ''p'' \<in> set (s3_signal_plans balanced_schedule)"
    "SignalPlanId ''p'' = sp_signal_plan_id (sample_plan ''p'')"
    by (simp_all add: balanced_schedule_def signal_schedule_def sample_plan_def)
  ultimately show ?thesis
    using accepted_plan_balanced [OF balanced_accepted, of "sample_plan ''p''" ?xs "''A''" "''B''" "SignalVariantId ''low''"]
    by simp
qed

section \<open>Composition\<close>

text \<open>The checks of a plan's slots look at the slots and not at their indices.\<close>

abbreviation reindexed :: "nat \<Rightarrow> allocated_slot \<Rightarrow> allocated_slot" where
  "reindexed n x \<equiv> (fst x + n, snd x)"

lemma allocated_slots_shift: "allocated_slots (m + n) slots = map (reindexed n) (allocated_slots m slots)"
  by (induction slots arbitrary: m)
    (auto simp: allocated_slots_def map_filter_simps split: option.split simp flip: add_Suc)

lemma allocated_slots_append:
  "allocated_slots 0 (xs @ ys) = allocated_slots 0 xs @ map (reindexed (length xs)) (allocated_slots 0 ys)"
  using allocated_slots_shift [of 0 "length xs" ys]
  by (simp add: allocated_slots_def enumerate_append_eq List.map_filter_def)

lemma sorted_apart_reindexed: "sorted_wrt apart (map (reindexed n) xs) \<longleftrightarrow> sorted_wrt apart xs"
  by (simp add: sorted_wrt_map apart_def [abs_def])

lemma counterbalanced_reindexed: "counterbalanced (map (reindexed n) xs) \<longleftrightarrow> counterbalanced xs"
  by (simp add: counterbalanced_def complete_block_def average_equal_def filter_map comp_def image_image)

definition merged_schedule :: "schedule_v3 \<Rightarrow> schedule_v3 \<Rightarrow> schedule_v3" where
  "merged_schedule s s' =
     s\<lparr>s3_signal_plans := s3_signal_plans s @ s3_signal_plans s',
       s3_wspr_cycle_intents := s3_wspr_cycle_intents s @ s3_wspr_cycle_intents s',
       s3_slots := s3_slots s @ s3_slots s'\<rparr>"

lemma merged_slots_of_plan:
  "slots_of_plan (merged_schedule s s') i =
     slots_of_plan s i @ map (reindexed (length (s3_slots s))) (slots_of_plan s' i)"
  by (simp add: slots_of_plan_def merged_schedule_def allocated_slots_append filter_map comp_def)

lemma accepted_slots_of_plan:
  assumes "signal_schedule_ok cs s" and "i \<notin> sp_signal_plan_id ` set (s3_signal_plans s)"
  shows "slots_of_plan s i = []"
proof -
  have "\<forall>slot \<in> set (s3_slots s). pred_option (allocation_ok s) (p3_signal slot)"
    using assms(1) by (simp add: signal_schedule_ok_def)
  from all_allocations [OF this, of _ 0] assms(2) show ?thesis
    by (auto simp: slots_of_plan_def filter_empty_conv allocation_ok_def)
qed

text \<open>
  C29. The signal-plan checks are separate for each plan: when two schedules are accepted and share
  no plan, the schedule that has the plans, slots and cycle intents of both is accepted,
  whatever its plans are and however their transmissions coincide.  In particular the
  suppression boundary is not applied across plans, even where they transmit the same
  identity in the same mode, and not to cycle intents at all.
\<close>

theorem suppression_within_plan_only:
  assumes "validate_signal_plan_schedule_v3 cs s = []" and "validate_signal_plan_schedule_v3 cs s' = []"
    and "sp_signal_plan_id ` set (s3_signal_plans s) \<inter> sp_signal_plan_id ` set (s3_signal_plans s') = {}"
  shows "validate_signal_plan_schedule_v3 cs (merged_schedule s s') = []"
proof -
  let ?M = "merged_schedule s s'"
  have ok: "signal_schedule_ok cs s" "signal_schedule_ok cs s'"
    using assms(1,2) by (simp_all add: signal_schedule_Nil)
  have own: "slots_of_plan ?M (sp_signal_plan_id plan) = slots_of_plan s (sp_signal_plan_id plan)"
    if "plan \<in> set (s3_signal_plans s)" for plan
    using that assms(3) accepted_slots_of_plan [OF ok(2)] unfolding merged_slots_of_plan by blast
  have other: "slots_of_plan ?M (sp_signal_plan_id plan) =
      map (reindexed (length (s3_slots s))) (slots_of_plan s' (sp_signal_plan_id plan))"
    if "plan \<in> set (s3_signal_plans s')" for plan
    using that assms(3) accepted_slots_of_plan [OF ok(1)] unfolding merged_slots_of_plan by fastforce
  have weaker: "pred_option (allocation_ok ?M) a" if "pred_option (allocation_ok s) a \<or> pred_option (allocation_ok s') a" for a
    using that by (cases a) (auto simp: allocation_ok_def merged_schedule_def)
  have parts: "s3_signal_plans ?M = s3_signal_plans s @ s3_signal_plans s'"
    "s3_slots ?M = s3_slots s @ s3_slots s'"
    "s3_wspr_cycle_intents ?M = s3_wspr_cycle_intents s @ s3_wspr_cycle_intents s'"
    by (simp_all add: merged_schedule_def)
  show ?thesis
    using ok assms(3) unfolding signal_schedule_Nil signal_schedule_ok_def parts
    by (auto simp: Let_def own other weaker sorted_apart_reindexed counterbalanced_reindexed)
qed

definition coinciding_schedule :: "string \<Rightarrow> schedule_v3" where
  "coinciding_schedule i = signal_schedule [sample_plan i] [signal_slot i i 1 ''A'' 14030000 ''b1'' 1]"

lemma coinciding_accepted: "validate_signal_plan_schedule_v3 ''N1RWJ'' (coinciding_schedule i) = []"
proof -
  have "counterbalanced (slots_of_plan (coinciding_schedule i) (SignalPlanId i))"
    "sorted_wrt apart (slots_of_plan (coinciding_schedule i) (SignalPlanId i))"
    by (simp_all add: counterbalanced_def complete_block_def average_equal_def coinciding_schedule_def
        sample_evaluation del: set_filter)
  then show ?thesis
    by (simp add: signal_schedule_Nil signal_schedule_ok_def coinciding_schedule_def signal_schedule_simps
       sample_plan_ok allocation_ok_def signal_slot_def)
qed

theorem suppression_within_plan_only_witness:
  "validate_signal_plan_schedule_v3 ''N1RWJ''
     (merged_schedule (coinciding_schedule ''p'') (coinciding_schedule ''q'')) = [] \<and>
   \<not> sorted_wrt apart (allocated_slots 0
      (s3_slots (merged_schedule (coinciding_schedule ''p'') (coinciding_schedule ''q'')))) \<and>
   map (\<lambda>p. (sp_transmitted_callsign p, sp_mode p, sp_collection_profile p))
     (s3_signal_plans (merged_schedule (coinciding_schedule ''p'') (coinciding_schedule ''q''))) =
     [(''N1RWJ'', Cw, RbnCwV1), (''N1RWJ'', Cw, RbnCwV1)]"
proof (intro conjI)
  have "sp_signal_plan_id ` set (s3_signal_plans (coinciding_schedule ''p'')) \<inter>
      sp_signal_plan_id ` set (s3_signal_plans (coinciding_schedule ''q'')) = {}"
    by (simp add: coinciding_schedule_def signal_schedule_simps sample_plan_ok)
  then show "validate_signal_plan_schedule_v3 ''N1RWJ''
      (merged_schedule (coinciding_schedule ''p'') (coinciding_schedule ''q'')) = []"
    by (rule suppression_within_plan_only [OF coinciding_accepted coinciding_accepted])
qed (simp_all add: merged_schedule_def coinciding_schedule_def sample_evaluation apart_def seconds_def sample_plan_def)

end
