(* ===== verification/StoreV3.thy ===== *)
theory StoreV3
  imports AntennaControl RuntimeContext SignalPlan Semantics
begin

text \<open>
  What the store demands of a bundle of schema v3 to v6 before it reads or writes it
  (\<open>crates/storage/src/v3.rs\<close>, \<open>validate_v3_model\<close> and the checks it calls).  The record
  \<open>externals\<close> holds the functions of other crates the check uses: the digest (\<open>sha2\<close>), the
  RFC 3339 printer and the representable instants (\<open>chrono\<close>), the JSON printers, which may fail
  with a message, and the test for a JSON null (\<open>serde_json\<close>), and base64 decoding.  Sums of
  \<open>usize\<close> saturate at 64 bits.
\<close>

record 'j externals =
  ex_sha256 :: "string \<Rightarrow> string"
  ex_rfc3339 :: "timestamp \<Rightarrow> string"
  ex_representable :: "timestamp \<Rightarrow> bool"
  ex_context_json :: "runtime_context \<Rightarrow> string + string"
  ex_diagnostic_json :: "operational_diagnostic \<Rightarrow> string + string"
  ex_is_null :: "'j \<Rightarrow> bool"
  ex_base64 :: "string \<Rightarrow> string option"

section \<open>Errors\<close>

text \<open>The variants of \<open>BundleStoreError\<close> the model check returns.\<close>

datatype bundle_store_error =
    UnsupportedSchemaVersion nat
  | InvalidV3Bundle message

definition invalid_v3 :: "message \<Rightarrow> bundle_store_error" where
  "invalid_v3 m = InvalidV3Bundle m"

section \<open>Build identities\<close>

definition bounded_text :: "string \<Rightarrow> bool" where
  "bounded_text v \<longleftrightarrow> \<not> (v = [] \<or> 256 < length v \<or> has_control v)"

definition build_texts :: "runtime_context \<Rightarrow> string option list" where
  "build_texts context =
     [bi_app_version (rc_build context), bi_source_commit (rc_build context),
      bi_release_tag (rc_build context), bi_target_triple (rc_build context),
      bi_build_architecture (rc_build context), pl_os_family (rc_platform context),
      pl_os_version (rc_platform context), pl_runtime_architecture (rc_platform context),
      pl_application_id (rc_platform context)]"

definition validate_build_identity_v6 :: "runtime_context \<Rightarrow> bundle_store_error + unit" where
  "validate_build_identity_v6 context =
     (let build = rc_build context in
      and_then (refuse_if (list_ex (\<lambda>v. \<not> bounded_text v) (flatten (build_texts context)))
        (invalid_v3 [Lit ''runtime build and platform values must be bounded nonempty text''])) (\<lambda>_.
      and_then (refuse_if
         (case bi_source_commit build of
            None \<Rightarrow> False
          | Some commit \<Rightarrow> length commit \<notin> {40, 64} \<or> \<not> list_all is_lower_hex commit)
        (invalid_v3 [Lit ''source commit must be a full lowercase hexadecimal identity''])) (\<lambda>_.
      case bi_build_channel build of
        OfficialRelease \<Rightarrow>
          refuse_if
            (bi_source_state build \<noteq> Clean \<or> bi_source_commit build = None \<or>
             bi_release_tag build = None \<or> bi_target_triple build = None \<or>
             bi_build_architecture build = None \<or> bi_app_version build = None \<or>
             bi_release_tag build \<noteq> map_option (\<lambda>version. ''v'' @ version) (bi_app_version build))
            (invalid_v3 [Lit ''official release context requires agreeing version, tag, clean commit, target, and architecture''])
      | _ \<Rightarrow>
          refuse_if (bi_release_tag build \<noteq> None)
            (invalid_v3 [Lit ''non-official build contexts cannot claim a release tag'']))))"

section \<open>Operational diagnostics\<close>

definition DIAGNOSTIC_RECORD_MAX_BYTES :: nat where "DIAGNOSTIC_RECORD_MAX_BYTES = 8 * 1024"
definition DIAGNOSTIC_MAX_RECORDS :: nat where "DIAGNOSTIC_MAX_RECORDS = 2048"
definition DIAGNOSTIC_STREAM_MAX_BYTES :: nat where "DIAGNOSTIC_STREAM_MAX_BYTES = 16 * 1024 * 1024"
definition DIAGNOSTIC_SUMMARY_MAX_BYTES :: nat where "DIAGNOSTIC_SUMMARY_MAX_BYTES = 256"
definition DIAGNOSTIC_MACHINE_VALUE_MAX_BYTES :: nat where "DIAGNOSTIC_MACHINE_VALUE_MAX_BYTES = 64"
definition DIAGNOSTIC_IDENTIFIER_MAX_BYTES :: nat where "DIAGNOSTIC_IDENTIFIER_MAX_BYTES = 128"
definition DIAGNOSTIC_TARGET_MAX_COUNT :: nat where "DIAGNOSTIC_TARGET_MAX_COUNT = 8"
definition DIAGNOSTIC_CAUSE_MAX_DEPTH :: nat where "DIAGNOSTIC_CAUSE_MAX_DEPTH = 4"
definition DIAGNOSTIC_FACT_MAX_COUNT :: nat where "DIAGNOSTIC_FACT_MAX_COUNT = 24"

lemmas diagnostic_bounds = DIAGNOSTIC_RECORD_MAX_BYTES_def DIAGNOSTIC_MAX_RECORDS_def
  DIAGNOSTIC_STREAM_MAX_BYTES_def DIAGNOSTIC_SUMMARY_MAX_BYTES_def
  DIAGNOSTIC_MACHINE_VALUE_MAX_BYTES_def DIAGNOSTIC_IDENTIFIER_MAX_BYTES_def
  DIAGNOSTIC_TARGET_MAX_COUNT_def DIAGNOSTIC_CAUSE_MAX_DEPTH_def DIAGNOSTIC_FACT_MAX_COUNT_def

definition valid_diagnostic_machine_value :: "string \<Rightarrow> bool" where
  "valid_diagnostic_machine_value v \<longleftrightarrow>
     v \<noteq> [] \<and> length v \<le> DIAGNOSTIC_MACHINE_VALUE_MAX_BYTES \<and>
     list_all (\<lambda>byte. is_ascii_lowercase byte \<or> is_ascii_digit byte \<or>
       byte = CHR ''.'' \<or> byte = CHR ''_'' \<or> byte = CHR ''-'') v"

definition valid_diagnostic_identifier :: "string \<Rightarrow> bool" where
  "valid_diagnostic_identifier v \<longleftrightarrow>
     v \<noteq> [] \<and> length v \<le> DIAGNOSTIC_IDENTIFIER_MAX_BYTES \<and> \<not> has_control v"

definition validate_status :: "diagnostics_status \<Rightarrow> bundle_store_error + unit" where
  "validate_status status =
     (if ds_state status = StateComplete then
        refuse_if (ds_omitted_count status \<noteq> 0 \<or> ds_first_omitted_at status \<noteq> None \<or>
            ds_reason_code status \<noteq> None)
          (invalid_v3 [Lit ''complete diagnostics status cannot claim omitted records''])
      else
        refuse_if (ds_omitted_count status = 0 \<or> ds_first_omitted_at status = None \<or>
            \<not> (case ds_reason_code status of None \<Rightarrow> False | Some r \<Rightarrow> valid_diagnostic_machine_value r))
          (invalid_v3 [Lit ''incomplete diagnostics status requires an omitted record, time, and reason'']))"

fun validate_target :: "diagnostic_target \<Rightarrow> bundle_store_error + unit" where
  "validate_target (TargetAcquisitionWindow starts ends) =
     refuse_if (ends \<le> starts) (invalid_v3 [Lit ''diagnostic acquisition window is empty''])"
| "validate_target (TargetAdapter i) =
     refuse_if (\<not> valid_diagnostic_identifier i) (invalid_v3 [Lit ''diagnostic target identity is invalid''])"
| "validate_target (TargetSource i) =
     refuse_if (\<not> valid_diagnostic_identifier i) (invalid_v3 [Lit ''diagnostic target identity is invalid''])"
| "validate_target (TargetMutation i) =
     refuse_if (\<not> valid_diagnostic_identifier i) (invalid_v3 [Lit ''diagnostic target identity is invalid''])"
| "validate_target (TargetRecord i) =
     refuse_if (\<not> valid_diagnostic_identifier i) (invalid_v3 [Lit ''diagnostic target identity is invalid''])"
| "validate_target (TargetSlot i) =
     refuse_if (\<not> valid_diagnostic_identifier i) (invalid_v3 [Lit ''diagnostic target identity is invalid''])"
| "validate_target (TargetIntent i) =
     refuse_if (\<not> valid_diagnostic_identifier i) (invalid_v3 [Lit ''diagnostic target identity is invalid''])"

definition fact_invalid :: "diagnostic_fact \<Rightarrow> bool" where
  "fact_invalid f \<longleftrightarrow>
     \<not> valid_diagnostic_machine_value (df_name f) \<or>
     (case df_value f of
        FactEnum v \<Rightarrow> \<not> valid_diagnostic_machine_value v
      | FactIdentifier v \<Rightarrow> \<not> valid_diagnostic_identifier v
      | _ \<Rightarrow> False)"

definition validate_cause :: "diagnostic_cause \<Rightarrow> bundle_store_error + unit" where
  "validate_cause cause =
     and_then (refuse_if (\<not> valid_diagnostic_machine_value (dc_code cause))
       (invalid_v3 [Lit ''diagnostic cause code is invalid''])) (\<lambda>_.
     try_each (\<lambda>f. refuse_if (fact_invalid f) (invalid_v3 [Lit ''diagnostic fact is invalid'']))
       (dc_facts cause))"

definition detail_valid :: "diagnostic_detail_status \<Rightarrow> bool" where
  "detail_valid status \<longleftrightarrow>
     de_state status = DetailComplete \<and> de_omitted_fact_count status = 0 \<or>
     de_state status = DetailTruncated \<and> 0 < de_omitted_fact_count status"

text \<open>The fields of one diagnostic, identities aside.\<close>

definition validate_diagnostic_fields ::
    "nat \<Rightarrow> operational_diagnostic \<Rightarrow> bundle_store_error + unit" where
  "validate_diagnostic_fields revision d =
     and_then (refuse_if
        (\<not> valid_diagnostic_machine_value (od_code d) \<or>
         \<not> valid_diagnostic_machine_value (dr_guidance_code (od_retry d)) \<or>
         od_summary d = [] \<or> DIAGNOSTIC_SUMMARY_MAX_BYTES < length (od_summary d) \<or>
         has_control (od_summary d))
        (invalid_v3 [Lit ''diagnostic code, guidance, or summary is outside its bound''])) (\<lambda>_.
     and_then (refuse_if
        (mm_member_count (od_mutation d) = 0 \<or>
         mm_member_count (od_mutation d) \<le> mm_member_index (od_mutation d) \<or>
         revision < od_diagnostic_revision d \<or>
         (case (od_revision_before d, od_revision_after d) of
            (Some before, Some after) \<Rightarrow> after < before \<or> od_diagnostic_revision d \<le> after
          | _ \<Rightarrow> False))
        (invalid_v3 [Lit ''diagnostic revision or mutation membership is inconsistent''])) (\<lambda>_.
     and_then (refuse_if
        (DIAGNOSTIC_TARGET_MAX_COUNT < length (od_targets d) \<or>
         DIAGNOSTIC_CAUSE_MAX_DEPTH < length (od_causes d))
        (invalid_v3 [Lit ''diagnostic target or cause bound exceeded''])) (\<lambda>_.
     and_then (try_each validate_target (od_targets d)) (\<lambda>_.
     and_then (refuse_if
        (DIAGNOSTIC_FACT_MAX_COUNT < sum_list (map (\<lambda>cause. length (dc_facts cause)) (od_causes d)))
        (invalid_v3 [Lit ''diagnostic fact bound exceeded''])) (\<lambda>_.
     and_then (try_each validate_cause (od_causes d)) (\<lambda>_.
     refuse_if (\<not> detail_valid (od_detail_status d))
       (invalid_v3 [Lit ''diagnostic detail status is inconsistent''])))))))"

text \<open>The length of the line of a record, the newline included.\<close>

definition line_bytes :: "string \<Rightarrow> ('r \<Rightarrow> string + string) \<Rightarrow> 'r \<Rightarrow> bundle_store_error + nat" where
  "line_bytes what json x =
     (case json x of
        Inl e \<Rightarrow> Inl (invalid_v3 [Lit what, Lit '' cannot serialize: '', Lit e])
      | Inr bytes \<Rightarrow> Inr (u64_saturating_add (length bytes) 1))"

definition validate_diagnostic ::
    "'j externals \<Rightarrow> nat \<Rightarrow> string set \<times> string set \<times> nat
       \<Rightarrow> operational_diagnostic \<Rightarrow> bundle_store_error + (string set \<times> string set \<times> nat)" where
  "validate_diagnostic ex revision = (\<lambda>(ids, attempts, stream_bytes) d.
     and_then (refuse_if
        (od_schema d \<noteq> ''operational_diagnostic.v1'' \<or>
         \<not> valid_diagnostic_identifier (od_diagnostic_id d) \<or>
         \<not> valid_diagnostic_identifier (od_correlation_id d) \<or>
         \<not> valid_diagnostic_identifier (od_attempt_id d) \<or>
         od_diagnostic_id d \<in> ids \<or> od_attempt_id d \<in> attempts)
        (invalid_v3 [Lit ''diagnostics require unique bounded identities and attempt IDs''])) (\<lambda>_.
     and_then (validate_diagnostic_fields revision d) (\<lambda>_.
     and_then (line_bytes ''diagnostic'' (ex_diagnostic_json ex) d) (\<lambda>n.
     and_then (refuse_if (DIAGNOSTIC_RECORD_MAX_BYTES < n)
       (invalid_v3 [Lit ''diagnostic exceeds the 8 KiB record bound''])) (\<lambda>_.
     Inr (insert (od_diagnostic_id d) ids, insert (od_attempt_id d) attempts,
          u64_saturating_add stream_bytes n))))))"

definition validate_diagnostics_v6 ::
    "'j externals \<Rightarrow> 'j bundle_v3_contents \<Rightarrow> bundle_store_error + unit" where
  "validate_diagnostics_v6 ex b =
     and_then (ok_or (ss_diagnostics_status (b3_session_state b))
       (invalid_v3 [Lit ''schema-v6 checkpoint is missing diagnostics status''])) (\<lambda>status.
     and_then (validate_status status) (\<lambda>_.
     and_then (refuse_if (DIAGNOSTIC_MAX_RECORDS < length (b3_diagnostics b))
       (invalid_v3 [Lit ''diagnostic stream exceeds the record bound''])) (\<lambda>_.
     and_then (try_fold (validate_diagnostic ex (ss_revision (b3_session_state b)))
       ({}, {}, 0) (b3_diagnostics b)) (\<lambda>(_, _, stream_bytes).
     refuse_if (DIAGNOSTIC_STREAM_MAX_BYTES < stream_bytes)
       (invalid_v3 [Lit ''diagnostic stream exceeds the 16 MiB bound''])))))"

section \<open>Runtime contexts\<close>

definition RUNTIME_CONTEXT_RECORD_MAX_BYTES :: nat where "RUNTIME_CONTEXT_RECORD_MAX_BYTES = 4 * 1024"
definition RUNTIME_CONTEXT_MAX_RECORDS :: nat where "RUNTIME_CONTEXT_MAX_RECORDS = 256"
definition RUNTIME_CONTEXT_STREAM_MAX_BYTES :: nat where "RUNTIME_CONTEXT_STREAM_MAX_BYTES = 1024 * 1024"

lemmas context_bounds = RUNTIME_CONTEXT_RECORD_MAX_BYTES_def RUNTIME_CONTEXT_MAX_RECORDS_def
  RUNTIME_CONTEXT_STREAM_MAX_BYTES_def

definition has_v6_fields :: "'j bundle_v3_contents \<Rightarrow> bool" where
  "has_v6_fields b \<longleftrightarrow>
     b3_runtime_contexts b \<noteq> [] \<or> b3_diagnostics b \<noteq> [] \<or>
     n2_creator_runtime_context_id (b3_manifest b) \<noteq> None \<or>
     ss_active_runtime_context_id (b3_session_state b) \<noteq> None \<or>
     ss_diagnostics_status (b3_session_state b) \<noteq> None \<or>
     f2_runtime_contexts (n2_files (b3_manifest b)) \<noteq> None \<or>
     f2_diagnostics (n2_files (b3_manifest b)) \<noteq> None"

definition validate_context ::
    "'j externals \<Rightarrow> string set \<times> nat
       \<Rightarrow> runtime_context \<Rightarrow> bundle_store_error + (string set \<times> nat)" where
  "validate_context ex = (\<lambda>(ids, stream_bytes) c.
     and_then (refuse_if (\<not> has_valid_identity (ex_sha256 ex) (ex_rfc3339 ex) c \<or> rc_context_id c \<in> ids)
       (invalid_v3 [Lit ''runtime contexts require unique canonical context identities''])) (\<lambda>_.
     and_then (validate_build_identity_v6 c) (\<lambda>_.
     and_then (line_bytes ''runtime context'' (ex_context_json ex) c) (\<lambda>n.
     and_then (refuse_if (RUNTIME_CONTEXT_RECORD_MAX_BYTES < n)
       (invalid_v3 [Lit ''runtime context exceeds the 4 KiB record bound''])) (\<lambda>_.
     Inr (insert (rc_context_id c) ids, u64_saturating_add stream_bytes n))))))"

definition referenced_contexts :: "'j bundle_v3_contents \<Rightarrow> string option list" where
  "referenced_contexts b =
     map (\<lambda>r. m2_runtime_context_id (oe_meta r)) (b3_events b) @
     map (\<lambda>r. m2_runtime_context_id (o2_meta r)) (b3_observations b) @
     map (\<lambda>r. m2_runtime_context_id (ar_meta r)) (b3_adapter_records b) @
     map (\<lambda>r. m2_runtime_context_id (r3_meta r)) (b3_rig b) @
     map (\<lambda>r. m2_runtime_context_id (q2_meta r)) (b3_propagation b) @
     map (\<lambda>d. Some (od_runtime_context_id d)) (b3_diagnostics b)"

definition validate_runtime_contexts_v6 ::
    "'j externals \<Rightarrow> 'j bundle_v3_contents \<Rightarrow> bundle_store_error + unit" where
  "validate_runtime_contexts_v6 ex b =
     (if n2_schema_version (b3_manifest b) \<noteq> SCHEMA_VERSION_V6 then
        refuse_if (has_v6_fields b)
          (invalid_v3 [Lit ''schema-v3 through v5 cannot declare schema-v6 runtime context fields''])
      else
        and_then (refuse_if
           (f2_runtime_contexts (n2_files (b3_manifest b)) \<noteq> Some ''runtime-contexts.jsonl'' \<or>
            f2_diagnostics (n2_files (b3_manifest b)) \<noteq> Some ''diagnostics.jsonl'')
           (invalid_v3 [Lit ''schema-v6 requires the canonical runtime context and diagnostics stream paths''])) (\<lambda>_.
        and_then (refuse_if
           (b3_runtime_contexts b = [] \<or>
            RUNTIME_CONTEXT_MAX_RECORDS < length (b3_runtime_contexts b))
           (invalid_v3 [Lit ''schema-v6 requires between one and 256 runtime contexts''])) (\<lambda>_.
        and_then (ok_or (n2_creator_runtime_context_id (b3_manifest b))
          (invalid_v3 [Lit ''schema-v6 manifest is missing creator runtime context''])) (\<lambda>creator.
        and_then (ok_or (ss_active_runtime_context_id (b3_session_state b))
          (invalid_v3 [Lit ''schema-v6 checkpoint is missing active runtime context''])) (\<lambda>active.
        and_then (refuse_if (rc_context_id (hd (b3_runtime_contexts b)) \<noteq> creator)
          (invalid_v3 [Lit ''schema-v6 creator must reference the first runtime context''])) (\<lambda>_.
        and_then (try_fold (validate_context ex) ({}, 0) (b3_runtime_contexts b))
          (\<lambda>(ids, stream_bytes).
        and_then (refuse_if (RUNTIME_CONTEXT_STREAM_MAX_BYTES < stream_bytes)
          (invalid_v3 [Lit ''runtime context stream exceeds the 1 MiB bound''])) (\<lambda>_.
        and_then (refuse_if (active \<notin> ids)
          (invalid_v3 [Lit ''active runtime context does not exist in the committed stream''])) (\<lambda>_.
        and_then (try_each
           (\<lambda>context_id. refuse_if (\<not> (case context_id of None \<Rightarrow> False | Some i \<Rightarrow> i \<in> ids))
              (invalid_v3 [Lit ''every schema-v6 record must reference a committed runtime context'']))
           (referenced_contexts b)) (\<lambda>_.
        validate_diagnostics_v6 ex b))))))))))"

section \<open>Cycle intents\<close>

definition direction_required :: "'j bundle_v3_contents \<Rightarrow> bool" where
  "direction_required b \<longleftrightarrow>
     (let schema_version = n2_schema_version (b3_manifest b) in
      schema_version = SCHEMA_VERSION_V4 \<or>
      (SCHEMA_VERSION_V5 \<le> schema_version \<and> s3_antenna_control (b3_schedule b) \<noteq> Some Manual))"

definition validate_intent ::
    "'j bundle_v3_contents \<Rightarrow> string set \<times> nat set \<Rightarrow> nat \<times> wspr_cycle_intent
       \<Rightarrow> bundle_store_error + (string set \<times> nat set)" where
  "validate_intent b = (\<lambda>(intent_ids, intent_sequences) (index, intent).
     and_then (refuse_if (direction_required b \<and> wi_direction intent = None)
       (invalid_v3 [Lit ''current command-controlled WSPR cycle intentions require an explicit direction''])) (\<lambda>_.
     and_then (refuse_if
        (trim (wi_intent_id intent) = [] \<or> trim (wi_intent_id intent) \<noteq> wi_intent_id intent \<or>
         \<not> is_ascii (wi_intent_id intent) \<or> wi_intent_id intent \<in> intent_ids)
        (invalid_v3 [Lit ''WSPR cycle intent identities must be unique, nonempty, trimmed ASCII''])) (\<lambda>_.
     and_then (refuse_if
        (wi_sequence_number intent \<noteq> min (index + 1) u32_max \<or>
         wi_sequence_number intent \<in> intent_sequences)
        (invalid_v3 [Lit ''WSPR cycle intentions must be stored in contiguous sequence-number order''])) (\<lambda>_.
     and_then (refuse_if
        (wi_antenna_label intent \<notin> an_label ` set (af_antennas (b3_antennas b)))
        (invalid_v3 [Lit ''WSPR cycle intent '', Lit (wi_intent_id intent),
           Lit '' references unknown antenna '', DbgStr (wi_antenna_label intent)])) (\<lambda>_.
     and_then (refuse_if
        (wi_signal intent \<noteq> None \<and> wi_direction intent = Some Receive)
        (invalid_v3 [Lit ''controlled signal intentions must have transmit direction''])) (\<lambda>_.
     Inr (insert (wi_intent_id intent) intent_ids,
          insert (wi_sequence_number intent) intent_sequences)))))))"

definition mode_directions :: "experiment_mode \<Rightarrow> wspr_cycle_direction set" where
  "mode_directions mode =
     (case mode of
        TxFocused \<Rightarrow> {Transmit}
      | RxFocused \<Rightarrow> {Receive}
      | WholeStationAb \<Rightarrow> {Receive, Transmit}
      | SingleAntennaProfilingMode \<Rightarrow> {Receive, Transmit})"

definition validate_directions :: "'j bundle_v3_contents \<Rightarrow> bundle_store_error + unit" where
  "validate_directions b =
     (let intents = s3_wspr_cycle_intents (b3_schedule b) in
      refuse_if
        (SCHEMA_VERSION_V4 \<le> n2_schema_version (b3_manifest b) \<and>
         s3_signal_plans (b3_schedule b) = [] \<and> intents \<noteq> [] \<and>
         list_all (\<lambda>intent. wi_direction intent \<noteq> None) intents \<and>
         set (List.map_filter wi_direction intents) \<noteq> mode_directions (s3_mode (b3_schedule b)))
        (invalid_v3 [Lit ''schema-v4 WSPR directions do not match the experiment mode'']))"

section \<open>The model check\<close>

definition root_files :: "'j bundle_v3_contents \<Rightarrow> (nat \<times> string \<times> string) list" where
  "root_files b =
     [(n2_schema_version (b3_manifest b), n2_session_id (b3_manifest b), ''manifest''),
      (ss_schema_version (b3_session_state b), ss_session_id (b3_session_state b), ''session state''),
      (st_schema_version (b3_station b), st_session_id (b3_station b), ''station''),
      (af_schema_version (b3_antennas b), af_session_id (b3_antennas b), ''antennas''),
      (s3_schema_version (b3_schedule b), s3_session_id (b3_schedule b), ''schedule''),
      (al_schema_version (b3_analysis b), al_session_id (b3_analysis b), ''analysis'')]"

definition record_files :: "'j bundle_v3_contents \<Rightarrow> (nat \<times> string \<times> string) list" where
  "record_files b =
     (let of_meta = (\<lambda>name m. (m2_schema_version m, m2_session_id m, name)) in
      map (\<lambda>r. of_meta ''observation'' (o2_meta r)) (b3_observations b) @
      map (\<lambda>r. of_meta ''adapter record'' (ar_meta r)) (b3_adapter_records b) @
      map (\<lambda>r. of_meta ''rig record'' (r3_meta r)) (b3_rig b) @
      map (\<lambda>r. of_meta ''propagation record'' (q2_meta r)) (b3_propagation b))"

definition of_session :: "'j bundle_v3_contents \<Rightarrow> string \<Rightarrow> nat \<times> string \<times> string \<Rightarrow> bundle_store_error + unit" where
  "of_session b text = (\<lambda>(schema, session_id, name).
     refuse_if (schema \<noteq> n2_schema_version (b3_manifest b) \<or> session_id \<noteq> n2_session_id (b3_manifest b))
       (invalid_v3 [Lit name, Lit '' schema/session identity does not match '', Lit text]))"

definition blocking_signal_codes :: "string set" where
  "blocking_signal_codes =
     {''signal_state.missing_slot'', ''signal_state.unknown_slot'', ''signal_state.slot_without_plan'',
      ''signal_state.unknown_plan'', ''signal_state.invalid_frequency'', ''signal_state.invalid_power''}"

definition first_blocking :: "signal_plan_diagnostic list \<Rightarrow> bundle_store_error + unit" where
  "first_blocking diagnostics =
     (case find (\<lambda>d. sd_code d \<in> blocking_signal_codes) diagnostics of
        None \<Rightarrow> Inr ()
      | Some d \<Rightarrow> Inl (invalid_v3 (Lit (sd_code d) # Lit '': '' # sd_message d)))"

definition validate_effective_signal ::
    "'j bundle_v3_contents \<Rightarrow> correctable_v3 effective_event \<Rightarrow> bundle_store_error + unit" where
  "validate_effective_signal b effective =
     (case ef_payload effective of
        CSignalStateConfirmed3 confirmation \<Rightarrow>
          first_blocking (validate_signal_state_confirmation_v3 (b3_schedule b)
            (ef_slot_id effective) confirmation)
      | _ \<Rightarrow> Inr ())"

definition validate_armed_antenna :: "'j bundle_v3_contents \<Rightarrow> operator_event_v3 \<Rightarrow> bundle_store_error + unit" where
  "validate_armed_antenna b event =
     (case oe_payload event of
        WsprCycleArmed3 antenna_label _ _ \<Rightarrow>
          refuse_if (antenna_label \<notin> an_label ` set (af_antennas (b3_antennas b)))
            (invalid_v3 [Lit ''armed WSPR cycle references unknown antenna '', DbgStr antenna_label])
      | _ \<Rightarrow> Inr ())"

definition validate_event_identity :: "'j bundle_v3_contents \<Rightarrow> operator_event_v3 \<Rightarrow> bundle_store_error + unit" where
  "validate_event_identity b event =
     and_then (refuse_if
        (m2_schema_version (oe_meta event) \<noteq> n2_schema_version (b3_manifest b) \<or>
         m2_session_id (oe_meta event) \<noteq> n2_session_id (b3_manifest b))
        (invalid_v3 [Lit ''event schema/session identity does not match manifest''])) (\<lambda>_.
     first_blocking (validate_signal_state_event_v3 (b3_schedule b) event))"

definition validate_operation ::
    "(timestamp \<Rightarrow> bool) \<Rightarrow> 'j bundle_v3_contents \<Rightarrow> bundle_store_error + unit" where
  "validate_operation rep b =
     and_then (case wp_diagnostics (project_wspr_run_v3 rep (b3_schedule b) (b3_events b)) of
         [] \<Rightarrow> Inr ()
       | d # _ \<Rightarrow> Inl (invalid_v3
           ([Lit (wd_code d), Lit '' at event '', Lit (wd_event_id d), Lit '': ''] @ wd_message d))) (\<lambda>_.
     and_then (try_each (validate_armed_antenna b) (b3_events b)) (\<lambda>_.
     let reduction = reduce_operator_events_v3 Ready (b3_events b) in
     and_then (case re_diagnostics reduction of
         [] \<Rightarrow> Inr ()
       | d # _ \<Rightarrow> Inl (invalid_v3
           ([Lit ''operator event '', Lit (ed_event_id d), Lit '' is invalid: ''] @ ed_message d))) (\<lambda>_.
     and_then (refuse_if (re_lifecycle reduction \<noteq> ss_lifecycle (b3_session_state b))
       (invalid_v3 [Lit ''operator event lifecycle does not match the session checkpoint''])) (\<lambda>_.
     try_each (validate_effective_signal b) (re_effective_events reduction)))))"

definition validate_v3_model ::
    "'j externals \<Rightarrow> 'j bundle_v3_contents \<Rightarrow> bundle_store_error + unit" where
  "validate_v3_model ex b =
     and_then (refuse_if
        (n2_schema_version (b3_manifest b) \<notin>
           {SCHEMA_VERSION_V3, SCHEMA_VERSION_V4, SCHEMA_VERSION_V5, SCHEMA_VERSION_V6})
        (UnsupportedSchemaVersion (n2_schema_version (b3_manifest b)))) (\<lambda>_.
     and_then (validate_runtime_contexts_v6 ex b) (\<lambda>_.
     and_then (try_each (of_session b ''the v3 manifest'') (root_files b)) (\<lambda>_.
     and_then (case validate_signal_plan_schedule_v3 (st_callsign (b3_station b)) (b3_schedule b) of
         [] \<Rightarrow> Inr ()
       | d # _ \<Rightarrow> Inl (invalid_v3 (Lit (sd_code d) # Lit '': '' # sd_message d))) (\<lambda>_.
     and_then (try_fold (validate_intent b) ({}, {})
       (enumerate 0 (s3_wspr_cycle_intents (b3_schedule b)))) (\<lambda>_.
     and_then (validate_directions b) (\<lambda>_.
     and_then (validate_operation (ex_representable ex) b) (\<lambda>_.
     and_then (try_each (validate_event_identity b) (b3_events b)) (\<lambda>_.
     and_then (try_each (of_session b ''manifest'') (record_files b)) (\<lambda>_.
     (case validate_antenna_control_v5 (ex_base64 ex) (ex_is_null ex) (ex_representable ex) b of
        Inl m \<Rightarrow> Inl (invalid_v3 m)
      | Inr _ \<Rightarrow> Inr ()))))))))))"

section \<open>What a valid bundle satisfies\<close>

lemma first_error_Inr [result_simps]: "(case ds of [] \<Rightarrow> Inr () | d # _ \<Rightarrow> Inl (f d)) = Inr u \<longleftrightarrow> ds = []"
  by (cases ds) simp_all

lemma of_session_Inr [result_simps]:
  "of_session b text p = Inr u \<longleftrightarrow>
     fst p = n2_schema_version (b3_manifest b) \<and> fst (snd p) = n2_session_id (b3_manifest b)"
  by (cases p) (auto simp: of_session_def result_simps)

lemma validate_operation_Inr:
  "validate_operation rep b = Inr () \<longleftrightarrow>
     wp_diagnostics (project_wspr_run_v3 rep (b3_schedule b) (b3_events b)) = [] \<and>
     list_all (\<lambda>e. validate_armed_antenna b e = Inr ()) (b3_events b) \<and>
     re_diagnostics (reduce_operator_events_v3 Ready (b3_events b)) = [] \<and>
     re_lifecycle (reduce_operator_events_v3 Ready (b3_events b)) = ss_lifecycle (b3_session_state b) \<and>
     list_all (\<lambda>e. validate_effective_signal b e = Inr ())
       (re_effective_events (reduce_operator_events_v3 Ready (b3_events b)))"
  by (auto simp: validate_operation_def Let_def result_simps)

lemma validate_v3_Inr:
  "validate_v3_model ex b = Inr () \<longleftrightarrow>
     n2_schema_version (b3_manifest b) \<in> {3, 4, 5, 6} \<and>
     validate_runtime_contexts_v6 ex b = Inr () \<and>
     list_all (\<lambda>p. of_session b ''the v3 manifest'' p = Inr ()) (root_files b) \<and>
     validate_signal_plan_schedule_v3 (st_callsign (b3_station b)) (b3_schedule b) = [] \<and>
     (\<exists>s. try_fold (validate_intent b) ({}, {}) (enumerate 0 (s3_wspr_cycle_intents (b3_schedule b))) = Inr s) \<and>
     validate_directions b = Inr () \<and>
     validate_operation (ex_representable ex) b = Inr () \<and>
     list_all (\<lambda>e. validate_event_identity b e = Inr ()) (b3_events b) \<and>
     list_all (\<lambda>p. of_session b ''manifest'' p = Inr ()) (record_files b) \<and>
     validate_antenna_control_v5 (ex_base64 ex) (ex_is_null ex) (ex_representable ex) b = Inr ()"
  unfolding validate_v3_model_def schema_version_defs and_then_Inr refuse_if_Inr try_each_Inr first_error_Inr
  by (auto split: sum.splits)

end
