(* ===== verification/StoreUpgrade.thy ===== *)
theory StoreUpgrade
  imports StoreV3
begin

text \<open>
  Schema upgrades and the store: upgrading a bundle the store accepts gives a bundle it accepts.
  The upgrades are those of \<open>crates/core\<close> (theories \<open>Upgrade\<close> and \<open>RuntimeContext\<close>), the
  acceptance is \<open>validate_v3_model\<close> of theory \<open>StoreV3\<close>.
\<close>

section \<open>What an upgrade keeps of it\<close>

definition same_plan :: "schedule_v3 \<Rightarrow> schedule_v3 \<Rightarrow> bool" where
  "same_plan s s' \<longleftrightarrow> s3_slots s' = s3_slots s \<and> s3_wspr_cycle_intents s' = s3_wspr_cycle_intents s \<and>
     s3_signal_plans s' = s3_signal_plans s \<and> s3_mode s' = s3_mode s"

lemma same_plan_checks:
  assumes "same_plan s s'"
  shows "validate_signal_plan_schedule_v3 cs s' = validate_signal_plan_schedule_v3 cs s"
    and "validate_signal_state_confirmation_v3 s' = validate_signal_state_confirmation_v3 s"
proof -
  note [simp] = assms [unfolded same_plan_def]
  show "validate_signal_plan_schedule_v3 cs s' = validate_signal_plan_schedule_v3 cs s"
    by (simp add: validate_signal_plan_schedule_v3_def)
  have refs: "known_slot_reference s' = known_slot_reference s"
    "slot_or_intent_allocation s' = slot_or_intent_allocation s" "s3_signal_plans s' = s3_signal_plans s"
    by (simp_all add: fun_eq_iff known_slot_reference_def slot_or_intent_allocation_def)
  show "validate_signal_state_confirmation_v3 s' = validate_signal_state_confirmation_v3 s"
    unfolding fun_eq_iff validate_signal_state_confirmation_v3_def refs by simp
qed

lemma same_signal_event:
  assumes "same_plan (b3_schedule b) (b3_schedule b')" and "same_v3 e e'"
  shows "validate_signal_state_event_v3 (b3_schedule b') e' = validate_signal_state_event_v3 (b3_schedule b) e"
proof -
  from assms(2) have "same_payload (oe_payload e) (oe_payload e')" by (simp add: same_event_def)
  then show ?thesis
    unfolding validate_signal_state_event_v3_def same_event_views [OF assms(2)] same_plan_checks [OF assms(1)]
    by (cases rule: same_payload_cases) simp_all
qed

lemma same_armed_antenna:
  assumes "same_v3 e e'"
    and "an_label ` set (af_antennas (b3_antennas b')) = an_label ` set (af_antennas (b3_antennas b))"
  shows "validate_armed_antenna b' e' = validate_armed_antenna b e"
proof -
  from assms(1) have "same_payload (oe_payload e) (oe_payload e')" by (simp add: same_event_def)
  then show ?thesis
    unfolding validate_armed_antenna_def assms(2) by (cases rule: same_payload_cases) simp_all
qed

lemma same_effective_checks:
  assumes "same_plan (b3_schedule b) (b3_schedule b')"
  shows "validate_effective_signal b' e = validate_effective_signal b e"
  unfolding validate_effective_signal_def same_plan_checks [OF assms] by (rule refl)

lemma list_all_list_all2: "list_all P xs \<Longrightarrow> list_all2 R xs ys \<Longrightarrow> (\<And>x y. R x y \<Longrightarrow> P x \<Longrightarrow> Q y) \<Longrightarrow> list_all Q ys"
  by (rotate_tac) (induction rule: list_all2_induct; simp)

lemma validate_operation_same:
  assumes "same_plan (b3_schedule b) (b3_schedule b')" and events: "list_all2 same_v3 (b3_events b) (b3_events b')"
    and "an_label ` set (af_antennas (b3_antennas b')) = an_label ` set (af_antennas (b3_antennas b))"
    and "ss_lifecycle (b3_session_state b') = ss_lifecycle (b3_session_state b)"
    and "validate_operation rep b = Inr ()"
  shows "validate_operation rep b' = Inr ()"
proof -
  have intents: "s3_wspr_cycle_intents (b3_schedule b') = s3_wspr_cycle_intents (b3_schedule b)"
    using assms(1) by (simp add: same_plan_def)
  from assms(5) have "list_all (\<lambda>e. validate_armed_antenna b' e = Inr ()) (b3_events b')"
    using same_armed_antenna [OF _ assms(3)]
    by (auto simp: validate_operation_Inr elim!: list_all_list_all2 [OF _ events])
  with assms(5) show ?thesis
    by (simp add: validate_operation_Inr project_wspr_run_same [OF events intents] reduce_v3_same [OF events]
        assms(4) same_effective_checks [OF assms(1)])
qed

lemma try_fold_mono:
  "(\<And>s x t. f s x = Inr t \<Longrightarrow> g s x = Inr t) \<Longrightarrow> try_fold f s xs = Inr t \<Longrightarrow> try_fold g s xs = Inr t"
  by (induction xs arbitrary: s) (force simp: and_then_Inr)+

lemma validate_intent_mono:
  assumes "direction_required b' \<Longrightarrow> direction_required b"
    and "an_label ` set (af_antennas (b3_antennas b')) = an_label ` set (af_antennas (b3_antennas b))"
    and "validate_intent b s x = Inr t"
  shows "validate_intent b' s x = Inr t"
  using assms(1,3) by (cases s; cases x) (auto simp: validate_intent_def result_simps assms(2))

section \<open>The upgrade to schema v5\<close>

text \<open>
  C25. Upgrading a valid bundle of schema v3 or v4 to schema v5 gives a valid bundle.  For schema
  v3, where directions are optional and unchecked, this takes an intent without a direction,
  or none at all.
\<close>

theorem v5_upgrade_keeps_validity:
  assumes "validate_v3_model ex b = Inr ()"
    and "n2_schema_version (b3_manifest b) = 4 \<or> n2_schema_version (b3_manifest b) = 3 \<and>
      (s3_wspr_cycle_intents (b3_schedule b) = [] \<or>
       list_ex (\<lambda>i. wi_direction i = None) (s3_wspr_cycle_intents (b3_schedule b)))"
  shows "validate_v3_model ex (upgrade_v3_bundle_model_to_v5 b) = Inr ()"
proof -
  let ?c = "upgrade_v3_bundle_model_to_v5 b"
  note valid = assms(1) [unfolded validate_v3_Inr]
  have old: "n2_schema_version (b3_manifest b) < SCHEMA_VERSION_V5"
    using assms(2) by (auto simp: schema_version_defs)
  have plan: "same_plan (b3_schedule b) (b3_schedule ?c)"
    by (simp add: same_plan_def upgrade_v3_bundle_model_to_v5_def)
  have roots: "n2_schema_version (b3_manifest ?c) = 5" "n2_session_id (b3_manifest ?c) = n2_session_id (b3_manifest b)"
    "af_antennas (b3_antennas ?c) = af_antennas (b3_antennas b)" "st_callsign (b3_station ?c) = st_callsign (b3_station b)"
    "ss_lifecycle (b3_session_state ?c) = ss_lifecycle (b3_session_state b)"
    "s3_antenna_control (b3_schedule ?c) = Some Manual"
    "s3_wspr_cycle_intents (b3_schedule ?c) = s3_wspr_cycle_intents (b3_schedule b)"
    by (simp_all add: upgrade_v3_bundle_model_to_v5_def schema_version_defs)
  have "list_all (armed_on_own_readiness \<circ> oe_payload) (b3_events b)"
    using valid old by (blast intro: pre_v5_readiness)
  from v5.events_kept [OF this] have events: "list_all2 same_v3 (b3_events b) (b3_events ?c)"
    by (simp add: upgrade_v3_bundle_model_to_v5_def upgrade_event_v5_def [abs_def])
  from valid have old_files: "list_all (\<lambda>p. of_session b ''the v3 manifest'' p = Inr ()) (root_files b)"
      "list_all (\<lambda>p. of_session b ''manifest'' p = Inr ()) (record_files b)"
    and old_events: "list_all (\<lambda>e. validate_event_identity b e = Inr ()) (b3_events b)"
    by blast+
  have metas: "list_all (\<lambda>p. of_session ?c ''the v3 manifest'' p = Inr ()) (root_files ?c)"
    using old_files(1) by (simp add: root_files_def of_session_Inr upgrade_v3_bundle_model_to_v5_def)
  have records: "list_all (\<lambda>p. of_session ?c ''manifest'' p = Inr ()) (record_files ?c)"
    using old_files(2) by (simp add: record_files_def Let_def of_session_Inr roots list.pred_map comp_def)
      (simp add: upgrade_v3_bundle_model_to_v5_def upgrade_meta_v5_def schema_version_defs list_all_iff)
  have event_metas: "list_all (\<lambda>e. m2_schema_version (oe_meta e) = 5 \<and>
      m2_session_id (oe_meta e) = n2_session_id (b3_manifest b)) (b3_events ?c)"
    using old_events by (simp add: upgrade_v3_bundle_model_to_v5_def list_all_iff validate_event_identity_def
        result_simps upgrade_event_v5_def upgrade_meta_v5_def schema_version_defs)
  have identity: "list_all (\<lambda>e. validate_event_identity ?c e = Inr ()) (b3_events ?c)"
  proof -
    have "list_all (\<lambda>e. first_blocking (validate_signal_state_event_v3 (b3_schedule ?c) e) = Inr ()) (b3_events ?c)"
      using valid same_signal_event [OF plan]
      by (auto simp: validate_event_identity_def result_simps roots elim!: list_all_list_all2 [OF _ events])
    with event_metas show ?thesis
      by (auto simp: validate_event_identity_def result_simps roots list_all_iff)
  qed
  have intents: "\<exists>s. try_fold (validate_intent ?c) ({}, {}) (enumerate 0 (s3_wspr_cycle_intents (b3_schedule ?c))) = Inr s"
  proof -
    have optional: "\<not> direction_required ?c"
      by (simp add: direction_required_def Let_def roots schema_version_defs)
    have "validate_intent ?c s x = Inr t" if "validate_intent b s x = Inr t" for s x t
      by (rule validate_intent_mono [OF _ _ that]) (simp_all add: optional roots(3))
    from try_fold_mono [of "validate_intent b" "validate_intent ?c", OF this] valid
    show ?thesis unfolding roots(7) by blast
  qed
  have "validate_directions ?c = Inr ()"
    using valid assms(2) plan unfolding same_plan_def
    by (auto simp: validate_directions_def Let_def result_simps schema_version_defs roots list_ex_iff list_all_iff)
  moreover have "validate_runtime_contexts_v6 ex ?c = Inr ()"
    using valid assms(2) by (auto simp: validate_runtime_contexts_v6_def has_v6_fields_def result_simps
        upgrade_v3_bundle_model_to_v5_def schema_version_defs)
  ultimately show ?thesis
    unfolding validate_v3_Inr
    using valid roots metas records identity intents v5_upgrade_passes_validation
      validate_operation_same [OF plan events _ roots(5)] same_plan_checks(1) [OF plan]
    by simp
qed

section \<open>Antenna control after the upgrade to schema v6\<close>

abbreviation v6_rig :: "string \<Rightarrow> 'j rig_record_v3 \<Rightarrow> 'j rig_record_v3" where
  "v6_rig i r \<equiv> r\<lparr>r3_meta := upgrade_meta_v6 i (r3_meta r)\<rparr>"

abbreviation v6_event :: "string \<Rightarrow> operator_event_v3 \<Rightarrow> operator_event_v3" where
  "v6_event i e \<equiv> e\<lparr>oe_meta := upgrade_meta_v6 i (oe_meta e)\<rparr>"

text \<open>What antenna control reads of the bundle the upgrade gives.\<close>

definition v6_of :: "string \<Rightarrow> 'j bundle_v3_contents \<Rightarrow> 'j bundle_v3_contents \<Rightarrow> bool" where
  "v6_of i b c \<longleftrightarrow>
     b3_rig c = map (v6_rig i) (b3_rig b) \<and> b3_events c = map (v6_event i) (b3_events b) \<and>
     n2_session_id (b3_manifest c) = n2_session_id (b3_manifest b) \<and>
     n2_schema_version (b3_manifest c) = 6 \<and> st_callsign (b3_station c) = st_callsign (b3_station b) \<and>
     s3_wspr_cycle_intents (b3_schedule c) = s3_wspr_cycle_intents (b3_schedule b) \<and>
     s3_mode (b3_schedule c) = s3_mode (b3_schedule b) \<and>
     s3_antenna_control (b3_schedule c) = s3_antenna_control (b3_schedule b)"

lemma upgrade_meta_v6_fields [simp]:
  "m2_recorded_at (upgrade_meta_v6 i m) = m2_recorded_at m" "m2_mutation (upgrade_meta_v6 i m) = m2_mutation m"
  "m2_session_id (upgrade_meta_v6 i m) = m2_session_id m" "m2_schema_version (upgrade_meta_v6 i m) = 6"
  "m2_runtime_context_id (upgrade_meta_v6 i m) = Some i"
  by (simp_all add: upgrade_meta_v6_def schema_version_defs)

lemma find_of_map: "find P (map f xs) = map_option f (find (\<lambda>x. P (f x)) xs)"
  by (induction xs) simp_all

lemma and_then_map: "and_then (ok_or (map_option f x) e) g = and_then (ok_or x e) (\<lambda>y. g (f y))"
  by (cases x) simp_all

lemma and_then_assoc: "and_then (and_then x f) g = and_then x (\<lambda>y. and_then (f y) g)"
  by (cases x) simp_all

lemma and_then_cong: "x = x' \<Longrightarrow> (\<And>y. x' = Inr y \<Longrightarrow> f y = g y) \<Longrightarrow> and_then x f = and_then x' g"
  by (cases x') simp_all

lemma v6_find_intent: "v6_of i b c \<Longrightarrow> find_intent c = find_intent b"
  by (simp add: fun_eq_iff find_intent_def v6_of_def)

lemma v6_invocation:
  assumes "v6_of i b c"
  shows "validate_invocation_v5 dec nul c (v6_rig i r) iv = validate_invocation_v5 dec nul b r iv"
proof -
  have bounds: "invocation_bounds_violated nul (v6_rig i r) iv s = invocation_bounds_violated nul r iv s" for s
    by (simp add: invocation_bounds_violated_def)
  have fields: "n2_session_id (b3_manifest c) = n2_session_id (b3_manifest b)"
    "s3_mode (b3_schedule c) = s3_mode (b3_schedule b)" "st_callsign (b3_station c) = st_callsign (b3_station b)"
    "r3_record_id (v6_rig i r) = r3_record_id r"
    using assms by (simp_all add: v6_of_def)
  show ?thesis
    unfolding validate_invocation_v5_def Let_def bounds fields v6_find_intent [OF assms] by (rule refl)
qed

lemma v6_mismatched:
  assumes "v6_of i b c"
  shows "mismatched_invocation c (v6_event i e) l intent (v6_rig i (fst x), snd x) = mismatched_invocation b e l intent x"
proof -
  have fields: "n2_session_id (b3_manifest c) = n2_session_id (b3_manifest b)"
    "s3_mode (b3_schedule c) = s3_mode (b3_schedule b)" "st_callsign (b3_station c) = st_callsign (b3_station b)"
    "r3_meta (v6_rig i (fst x)) = upgrade_meta_v6 i (r3_meta (fst x))"
    "oe_meta (v6_event i e) = upgrade_meta_v6 i (oe_meta e)"
    using assms by (simp_all add: v6_of_def)
  show ?thesis
    unfolding mismatched_invocation_def case_prod_unfold fst_conv snd_conv Let_def fields upgrade_meta_v6_fields
    by (rule refl)
qed

lemma v6_referenced:
  assumes "v6_of i b c"
  shows "and_then (referenced_invocation c record_id role) g =
    and_then (referenced_invocation b record_id role) (\<lambda>x. g (v6_rig i (fst x), snd x))"
proof -
  have "find (\<lambda>r. r3_record_id r = record_id) (b3_rig c) =
      map_option (v6_rig i) (find (\<lambda>r. r3_record_id r = record_id) (b3_rig b))"
    using assms by (simp add: v6_of_def find_of_map)
  then show ?thesis
    by (simp add: referenced_invocation_def and_then_map and_then_assoc)
qed

lemma v6_command_verified:
  assumes "v6_of i b c"
  shows "validate_command_verified c ref (v6_event i e) l s v = validate_command_verified b ref e l s v"
proof -
  have policy: "s3_antenna_control (b3_schedule c) = s3_antenna_control (b3_schedule b)"
    and slot: "oe_slot_id (v6_event i e) = oe_slot_id e"
    using assms by (simp_all add: v6_of_def)
  show ?thesis
    unfolding validate_command_verified_def policy slot v6_find_intent [OF assms] v6_referenced [OF assms]
      try_each.simps v6_mismatched [OF assms] fst_conv snd_conv
    by simp
qed

lemma v6_antenna_control:
  assumes "v6_of i b c" and "n2_schema_version (b3_manifest b) = 5"
    and "validate_antenna_control_v5 dec nul rep b = Inr ()"
  shows "validate_antenna_control_v5 dec nul rep c = Inr ()"
proof -
  note up = assms(1) [unfolded v6_of_def]
  have "validate_readiness rep c ref (v6_event i e) = Inr ref'" if "validate_readiness rep b ref e = Inr ref'" for ref e ref'
  proof -
    have "validate_continued_readiness rep b e l src \<noteq> Inr u" for l src u
      by (simp add: validate_continued_readiness_def Let_def assms(2) schema_version_defs)
    with that show ?thesis
      by (auto simp: validate_readiness_def v6_command_verified [OF assms(1)] result_simps
          split: payload_v3.splits option.splits wspr_readiness_basis.splits)
  qed
  then have fold: "try_fold (validate_readiness rep b) ref es = Inr ref' \<Longrightarrow>
      try_fold (validate_readiness rep c) ref (map (v6_event i) es) = Inr ref'" for ref es ref'
    by (induction es arbitrary: ref) (force simp: and_then_Inr)+
  show ?thesis
    using assms(2,3) up fold [of "{}" "b3_events b"]
    by (auto simp: validate_antenna_control_v5_def schema_version_defs result_simps list_all_iff list_ex_iff
        v6_invocation [OF assms(1)] split: option.splits)
qed

section \<open>The upgrade to schema v6\<close>

definition context_accepted :: "'j externals \<Rightarrow> runtime_context \<Rightarrow> bool" where
  "context_accepted ex c \<longleftrightarrow> validate_build_identity_v6 c = Inr () \<and>
     (\<exists>bytes. ex_context_json ex c = Inr bytes \<and> length bytes < RUNTIME_CONTEXT_RECORD_MAX_BYTES)"

definition diagnostic_accepted :: "'j externals \<Rightarrow> operational_diagnostic \<Rightarrow> bool" where
  "diagnostic_accepted ex d \<longleftrightarrow>
     (\<exists>bytes. ex_diagnostic_json ex d = Inr bytes \<and> length bytes < DIAGNOSTIC_RECORD_MAX_BYTES)"

lemma line_bytes_Inr [result_simps]:
  "line_bytes what json x = Inr n \<longleftrightarrow> (\<exists>bytes. json x = Inr bytes \<and> n = u64_saturating_add (length bytes) 1)"
  by (auto simp: line_bytes_def split: sum.split)

lemma line_bound: "k < u64_max \<Longrightarrow> k < u64_saturating_add n (Suc 0) \<longleftrightarrow> \<not> n < k"
  by (auto simp: u64_saturating_add_def)

lemma validate_context_Inr [result_simps]:
  "validate_context ex (ids, n) c = Inr t \<longleftrightarrow>
     has_valid_identity (ex_sha256 ex) (ex_rfc3339 ex) c \<and> rc_context_id c \<notin> ids \<and> context_accepted ex c \<and>
     (\<exists>bytes. ex_context_json ex c = Inr bytes \<and>
        t = (insert (rc_context_id c) ids, u64_saturating_add n (u64_saturating_add (length bytes) 1)))"
  by (auto simp: validate_context_def result_simps context_accepted_def context_bounds line_bound u64_max_def)

lemma printable_no_control: "list_all (\<lambda>c. (32 :: nat) \<le> of_char c \<and> of_char c < (127 :: nat)) s \<Longrightarrow> \<not> has_control s"
  by (induction s) auto

lemma hex_printable: "list_all (\<lambda>c. (32 :: nat) \<le> of_char c \<and> of_char c < (127 :: nat)) (hex_text s)"
proof -
  have "(32 :: nat) \<le> of_char (hex_digit n) \<and> of_char (hex_digit n) < (127 :: nat)" if "n < 16" for n
    using that by (simp add: hex_digit_def)
  moreover have "of_char c div 16 < (16 :: nat)" "of_char c mod 16 < (16 :: nat)" for c :: char
    by (simp_all add: less_mult_imp_div_less)
  ultimately show ?thesis
    by (induction s) (simp_all add: hex_text_def hex_byte_def)
qed

lemma hex_text_length: "length (hex_text s) = 2 * length s"
  by (induction s) (simp_all add: hex_text_def hex_byte_def)

lemma upgrade_identity_valid:
  assumes "length (sha256 (''antennabench.schema-v6-upgrade'' @ [char_of (0 :: nat)] @ kind @
      [char_of (0 :: nat)] @ session_id)) = 32"
    and "list_all (\<lambda>c. (32 :: nat) \<le> of_char c \<and> of_char c < (127 :: nat)) kind" and "length kind \<le> 20"
  shows "valid_diagnostic_identifier (upgrade_identity sha256 kind session_id)"
  using assms by (auto simp: valid_diagnostic_identifier_def upgrade_identity_def hex_text_length diagnostic_bounds
      hex_printable intro!: printable_no_control)

lemma upgrade_diagnostic_valid:
  assumes "\<And>x. length (sha256 x) = 32"
  shows "validate_diagnostic_fields r (upgrade_diagnostic sha256 session_id i t n) = Inr () \<longleftrightarrow>
      n < u64_max \<and> n + 1 \<le> r"
    and "valid_diagnostic_identifier (od_diagnostic_id (upgrade_diagnostic sha256 session_id i t n))"
    and "valid_diagnostic_identifier (od_correlation_id (upgrade_diagnostic sha256 session_id i t n))"
    and "valid_diagnostic_identifier (od_attempt_id (upgrade_diagnostic sha256 session_id i t n))"
proof -
  have machine: "valid_diagnostic_machine_value ''bundle.legacy_history_unavailable''"
    "valid_diagnostic_machine_value ''legacy_history_unavailable''"
    "valid_diagnostic_machine_value ''source_schema''" "valid_diagnostic_identifier ''schema-v5''"
    by (simp_all add: valid_diagnostic_machine_value_def valid_diagnostic_identifier_def diagnostic_bounds
        is_ascii_lowercase_def is_ascii_digit_def)
  show "validate_diagnostic_fields r (upgrade_diagnostic sha256 session_id i t n) = Inr () \<longleftrightarrow>
      n < u64_max \<and> n + 1 \<le> r"
    by (auto simp: validate_diagnostic_fields_def upgrade_diagnostic_def result_simps machine diagnostic_bounds
        upgrade_mutation_def validate_cause_def fact_invalid_def detail_valid_def u64_saturating_add_def)
qed (use assms in \<open>simp_all add: upgrade_diagnostic_def upgrade_identity_valid\<close>)

lemma v6_upgrade_of:
  assumes "c = upgrade_v5_bundle_model_to_v6 sha256 rfc3339 b upgrader"
  obtains i where "v6_of i b c" and "n2_creator_runtime_context_id (b3_manifest c) = Some i"
    and "referenced_contexts c = map (\<lambda>_. Some i) (referenced_contexts (b\<lparr>b3_diagnostics := []\<rparr>)) @
      [ss_active_runtime_context_id (b3_session_state c)]"
proof
  let ?i = "rc_context_id (legacy_creator_context_v6 sha256 rfc3339 (Some (n2_app_version (b3_manifest b)))
      (n2_created_at (b3_manifest b)) \<lparr>mm_mutation_id = ''upgrade-legacy-creator-context'',
        mm_member_index = 0, mm_member_count = 1\<rparr>)"
  show "v6_of ?i b c" "n2_creator_runtime_context_id (b3_manifest c) = Some ?i"
    by (simp_all add: assms v6_of_def upgrade_v5_bundle_model_to_v6_def Let_def schema_version_defs)
  show "referenced_contexts c = map (\<lambda>_. Some ?i) (referenced_contexts (b\<lparr>b3_diagnostics := []\<rparr>)) @
      [ss_active_runtime_context_id (b3_session_state c)]"
    by (simp add: assms referenced_contexts_def upgrade_v5_bundle_model_to_v6_def Let_def upgrade_diagnostic_def)
qed

lemma contexts_fold:
  assumes "list_all (has_valid_identity (ex_sha256 ex) (ex_rfc3339 ex)) cs" and "distinct (map rc_context_id cs)"
  shows "rc_context_id ` set cs \<inter> ids = {} \<Longrightarrow> try_fold (validate_context ex) (ids, n) cs = Inr t \<Longrightarrow>
      list_all (context_accepted ex) cs \<and> fst t = ids \<union> rc_context_id ` set cs \<and> snd t \<le> n + 4096 * length cs"
    and "rc_context_id ` set cs \<inter> ids = {} \<Longrightarrow> list_all (context_accepted ex) cs \<Longrightarrow>
      \<exists>t. try_fold (validate_context ex) (ids, n) cs = Inr t"
proof -
  have step: "u64_saturating_add n (u64_saturating_add k (Suc 0)) \<le> n + 4096" if "k < 4096" for n k
    using that by (simp add: u64_saturating_add_def)
  show "rc_context_id ` set cs \<inter> ids = {} \<Longrightarrow> try_fold (validate_context ex) (ids, n) cs = Inr t \<Longrightarrow>
      list_all (context_accepted ex) cs \<and> fst t = ids \<union> rc_context_id ` set cs \<and> snd t \<le> n + 4096 * length cs"
    using assms
  proof (induction cs arbitrary: ids n)
    case (Cons c cs)
    then obtain bytes where *: "context_accepted ex c" "ex_context_json ex c = Inr bytes"
      "try_fold (validate_context ex) (insert (rc_context_id c) ids,
         u64_saturating_add n (u64_saturating_add (length bytes) (Suc 0))) cs = Inr t"
      by (auto simp: result_simps)
    from *(1,2) step [of "length bytes" n] have "u64_saturating_add n (u64_saturating_add (length bytes) (Suc 0)) \<le> n + 4096"
      by (simp add: context_accepted_def context_bounds)
    with Cons.IH [OF _ *(3)] Cons.prems *(1) show ?case by auto
  qed auto
  show "rc_context_id ` set cs \<inter> ids = {} \<Longrightarrow> list_all (context_accepted ex) cs \<Longrightarrow>
      \<exists>t. try_fold (validate_context ex) (ids, n) cs = Inr t"
    using assms
  proof (induction cs arbitrary: ids n)
    case (Cons c cs)
    then obtain bytes where "ex_context_json ex c = Inr bytes" by (auto simp: context_accepted_def)
    with Cons.prems have "validate_context ex (ids, n) c = Inr (insert (rc_context_id c) ids,
        u64_saturating_add n (u64_saturating_add (length bytes) 1))"
      by (simp add: validate_context_Inr)
    with Cons show ?case by simp
  qed simp
qed

lemma v6_upgrade_contexts:
  assumes digest: "\<And>x. length (ex_sha256 ex x) = 32"
    and upgrader: "has_valid_identity (ex_sha256 ex) (ex_rfc3339 ex) upgrader"
    and c: "c = upgrade_v5_bundle_model_to_v6 (ex_sha256 ex) (ex_rfc3339 ex) b upgrader"
  shows "validate_runtime_contexts_v6 ex c = Inr () \<longleftrightarrow>
    list_all (context_accepted ex) (b3_runtime_contexts c) \<and>
    list_all (diagnostic_accepted ex) (b3_diagnostics c) \<and>
    ss_revision (b3_session_state b) < u64_max"
proof -
  obtain i where i: "n2_creator_runtime_context_id (b3_manifest c) = Some i"
    "referenced_contexts c = map (\<lambda>_. Some i) (referenced_contexts (b\<lparr>b3_diagnostics := []\<rparr>)) @
      [ss_active_runtime_context_id (b3_session_state c)]"
    by (rule v6_upgrade_of [OF c])
  obtain a where a: "ss_active_runtime_context_id (b3_session_state c) = Some a"
    by (simp add: c upgrade_v5_bundle_model_to_v6_def Let_def)
  have cs: "list_all (has_valid_identity (ex_sha256 ex) (ex_rfc3339 ex)) (b3_runtime_contexts c)"
    "distinct (map rc_context_id (b3_runtime_contexts c))" "length (b3_runtime_contexts c) \<le> 2"
    "b3_runtime_contexts c \<noteq> []" "rc_context_id (hd (b3_runtime_contexts c)) = i"
    "rc_context_id ` set (b3_runtime_contexts c) = {i, a}"
    using upgrader i a
    by (auto simp: c upgrade_v5_bundle_model_to_v6_def Let_def has_valid_identity_def
        legacy_creator_context_v6_def new_runtime_context_def)
  have root: "n2_schema_version (b3_manifest c) = 6"
    "f2_runtime_contexts (n2_files (b3_manifest c)) = Some ''runtime-contexts.jsonl''"
    "f2_diagnostics (n2_files (b3_manifest c)) = Some ''diagnostics.jsonl''"
    "ss_diagnostics_status (b3_session_state c) = Some diagnostics_status_complete"
    "ss_revision (b3_session_state c) = u64_saturating_add (ss_revision (b3_session_state b)) 1"
    by (simp_all add: c upgrade_v5_bundle_model_to_v6_def Let_def schema_version_defs)
  obtain t where diag: "b3_diagnostics c = [upgrade_diagnostic (ex_sha256 ex) (n2_session_id (b3_manifest b)) a t
      (ss_revision (b3_session_state b))]"
    using a by (simp add: c upgrade_v5_bundle_model_to_v6_def Let_def)
  have schema: "od_schema (upgrade_diagnostic sha256 s a t n) = ''operational_diagnostic.v1''" for sha256 s n
    by (simp add: upgrade_diagnostic_def)
  have small: "8192 < u64_max" "4096 < u64_max"
    "16777216 < u64_saturating_add 0 (u64_saturating_add n (Suc 0)) \<longleftrightarrow> 16777216 \<le> n"
    "n < u64_max \<Longrightarrow> Suc n \<le> u64_saturating_add n (Suc 0)" for n
    by (auto simp: u64_saturating_add_def u64_max_def)
  have diagnostics: "validate_diagnostics_v6 ex c = Inr () \<longleftrightarrow>
      list_all (diagnostic_accepted ex) (b3_diagnostics c) \<and> ss_revision (b3_session_state b) < u64_max"
    unfolding diag
    by (auto simp: validate_diagnostics_v6_def root diag result_simps validate_status_def diagnostics_status_complete_def
        validate_diagnostic_def upgrade_diagnostic_valid [OF digest] diagnostic_accepted_def diagnostic_bounds
        line_bound small schema)
  let ?fold = "try_fold (validate_context ex) ({}, 0) (b3_runtime_contexts c)"
  have fold: "list_all (context_accepted ex) (b3_runtime_contexts c) \<and> fst s = {i, a} \<and> snd s \<le> 8192" if "?fold = Inr s" for s
    using contexts_fold(1) [OF cs(1,2) _ that] cs(3,6) by force
  have "(\<exists>s. ?fold = Inr s) \<longleftrightarrow> list_all (context_accepted ex) (b3_runtime_contexts c)"
    using fold contexts_fold(2) [OF cs(1,2), of "{}" 0] by blast
  then show ?thesis
    unfolding validate_runtime_contexts_v6_def root i(1) a
    using cs(3,4,5) fold i(2) a
    by (auto simp: result_simps diagnostics schema_version_defs context_bounds list_all_iff)
qed

lemma v6_event_checks:
  assumes up: "v6_of i b c" and plan: "same_plan (b3_schedule b) (b3_schedule c)"
    and events: "list_all2 same_v3 (b3_events b) (b3_events c)"
    and old: "list_all (\<lambda>e. validate_event_identity b e = Inr ()) (b3_events b)"
  shows "list_all (\<lambda>e. validate_event_identity c e = Inr ()) (b3_events c)"
proof -
  have "list_all (\<lambda>e. first_blocking (validate_signal_state_event_v3 (b3_schedule c) e) = Inr ()) (b3_events c)"
    using old same_signal_event [OF plan]
    by (auto simp: validate_event_identity_def result_simps elim!: list_all_list_all2 [OF _ events])
  moreover have "list_all (\<lambda>e. m2_schema_version (oe_meta e) = n2_schema_version (b3_manifest c) \<and>
      m2_session_id (oe_meta e) = n2_session_id (b3_manifest c)) (b3_events c)"
    using up old by (simp add: v6_of_def list_all_iff validate_event_identity_def result_simps)
  ultimately show ?thesis
    by (simp add: validate_event_identity_def result_simps list_all_iff)
qed

lemma v6_upgrade_others:
  assumes valid: "validate_v3_model ex b = Inr ()"
    and v5: "n2_schema_version (b3_manifest b) = 5"
    and c: "c = upgrade_v5_bundle_model_to_v6 (ex_sha256 ex) (ex_rfc3339 ex) b upgrader"
    and contexts: "validate_runtime_contexts_v6 ex c = Inr ()"
  shows "validate_v3_model ex c = Inr ()"
proof -
  note valid = valid [unfolded validate_v3_Inr]
  obtain i where up: "v6_of i b c" by (rule v6_upgrade_of [OF c])
  have plan: "same_plan (b3_schedule b) (b3_schedule c)"
    by (simp add: same_plan_def c upgrade_v5_bundle_model_to_v6_def Let_def)
  have roots: "n2_schema_version (b3_manifest c) = 6" "n2_session_id (b3_manifest c) = n2_session_id (b3_manifest b)"
    "af_antennas (b3_antennas c) = af_antennas (b3_antennas b)" "st_callsign (b3_station c) = st_callsign (b3_station b)"
    "ss_lifecycle (b3_session_state c) = ss_lifecycle (b3_session_state b)"
    "s3_antenna_control (b3_schedule c) = s3_antenna_control (b3_schedule b)"
    "s3_wspr_cycle_intents (b3_schedule c) = s3_wspr_cycle_intents (b3_schedule b)"
    by (simp_all add: c upgrade_v5_bundle_model_to_v6_def Let_def schema_version_defs)
  have events: "list_all2 same_v3 (b3_events b) (b3_events c)"
    using v6.events_kept [of "b3_events b" i] up by (simp add: v6_of_def list_all_iff)
  from valid have old_files: "list_all (\<lambda>p. of_session b ''the v3 manifest'' p = Inr ()) (root_files b)"
      "list_all (\<lambda>p. of_session b ''manifest'' p = Inr ()) (record_files b)"
    and old_events: "list_all (\<lambda>e. validate_event_identity b e = Inr ()) (b3_events b)"
    and old_directions: "validate_directions b = Inr ()"
    by blast+
  have metas: "list_all (\<lambda>p. of_session c ''the v3 manifest'' p = Inr ()) (root_files c)"
    using old_files(1) by (simp add: root_files_def of_session_Inr c upgrade_v5_bundle_model_to_v6_def Let_def)
  have records: "list_all (\<lambda>p. of_session c ''manifest'' p = Inr ()) (record_files c)"
    using old_files(2) by (simp add: record_files_def Let_def of_session_Inr roots list.pred_map comp_def)
      (simp add: c upgrade_v5_bundle_model_to_v6_def Let_def list_all_iff)
  have "direction_required c \<longleftrightarrow> direction_required b"
    by (simp add: direction_required_def Let_def roots v5 schema_version_defs)
  then have "validate_intent c s x = Inr t" if "validate_intent b s x = Inr t" for s x t
    by (intro validate_intent_mono [OF _ _ that]) (simp_all add: roots(3))
  from try_fold_mono [of "validate_intent b" "validate_intent c", OF this] valid
  have intents: "\<exists>s. try_fold (validate_intent c) ({}, {}) (enumerate 0 (s3_wspr_cycle_intents (b3_schedule c))) = Inr s"
    unfolding roots(7) by blast
  have directions: "validate_directions c = Inr ()"
    using old_directions plan unfolding same_plan_def
    by (simp add: validate_directions_def Let_def result_simps schema_version_defs roots v5)
  have operation: "validate_operation (ex_representable ex) c = Inr ()"
    using valid by (intro validate_operation_same [OF plan events _ roots(5)]) (simp_all add: roots(3))
  have antenna: "validate_antenna_control_v5 (ex_base64 ex) (ex_is_null ex) (ex_representable ex) c = Inr ()"
    using valid by (intro v6_antenna_control [OF up v5]) blast
  show ?thesis
    unfolding validate_v3_Inr same_plan_checks(1) [OF plan] roots(4)
    using valid contexts metas records intents directions operation antenna
      v6_event_checks [OF up plan events old_events] roots(1) by simp
qed

text \<open>
  C24. Upgrading a valid bundle of schema v5 to schema v6 gives a valid bundle exactly when the two
  runtime contexts have an acceptable build identity and fit their records, the diagnostic
  fits its record, and the revision can still grow.  Nothing else of the bundle matters: in
  particular the application version of an old manifest, which becomes part of the build
  identity of its creator, must be bounded text, which no older check demands.
\<close>

theorem v6_upgrade_validity:
  assumes valid: "validate_v3_model ex b = Inr ()"
    and v5: "n2_schema_version (b3_manifest b) = 5"
    and digest: "\<And>x. length (ex_sha256 ex x) = 32"
    and upgrader: "has_valid_identity (ex_sha256 ex) (ex_rfc3339 ex) upgrader"
    and c: "c = upgrade_v5_bundle_model_to_v6 (ex_sha256 ex) (ex_rfc3339 ex) b upgrader"
  shows "validate_v3_model ex c = Inr () \<longleftrightarrow>
    list_all (context_accepted ex) (b3_runtime_contexts c) \<and>
    list_all (diagnostic_accepted ex) (b3_diagnostics c) \<and>
    ss_revision (b3_session_state b) < u64_max"
proof -
  have contexts: "validate_runtime_contexts_v6 ex c = Inr () \<longleftrightarrow>
    list_all (context_accepted ex) (b3_runtime_contexts c) \<and>
    list_all (diagnostic_accepted ex) (b3_diagnostics c) \<and>
    ss_revision (b3_session_state b) < u64_max"
    by (rule v6_upgrade_contexts [OF digest upgrader c])
  have others: "validate_v3_model ex c = Inr ()" if "validate_runtime_contexts_v6 ex c = Inr ()"
    by (rule v6_upgrade_others [OF valid v5 c that])
  show ?thesis
  proof
    assume "validate_v3_model ex c = Inr ()"
    then have "validate_runtime_contexts_v6 ex c = Inr ()" unfolding validate_v3_Inr by blast
    then show "list_all (context_accepted ex) (b3_runtime_contexts c) \<and>
      list_all (diagnostic_accepted ex) (b3_diagnostics c) \<and> ss_revision (b3_session_state b) < u64_max"
      unfolding contexts .
  next
    assume "list_all (context_accepted ex) (b3_runtime_contexts c) \<and>
      list_all (diagnostic_accepted ex) (b3_diagnostics c) \<and> ss_revision (b3_session_state b) < u64_max"
    with others show "validate_v3_model ex c = Inr ()" unfolding contexts by blast
  qed
qed

section \<open>Instances\<close>

text \<open>A digest of 32 bytes: the last bytes of the text.\<close>

definition last_bytes :: "string \<Rightarrow> string" where
  "last_bytes s = take 32 (rev s @ replicate 32 (char_of (0 :: nat)))"

definition sample_externals :: "unit externals" where
  "sample_externals = \<lparr>ex_sha256 = last_bytes, ex_rfc3339 = (\<lambda>_. []), ex_representable = (\<lambda>_. True),
     ex_context_json = (\<lambda>_. Inr ''{}''), ex_diagnostic_json = (\<lambda>_. Inr ''{}''), ex_is_null = (\<lambda>_. True),
     ex_base64 = Some\<rparr>"

definition with_schema :: "nat \<Rightarrow> operator_event_v3 \<Rightarrow> operator_event_v3" where
  "with_schema v e = e\<lparr>oe_meta := (oe_meta e)\<lparr>m2_schema_version := v\<rparr>\<rparr>"

definition stored_history :: "nat \<Rightarrow> wspr_readiness_basis option \<Rightarrow> operator_event_v3 list" where
  "stored_history v r = [with_schema v started_event,
     with_schema v (sample_event ''ready'' (Some ''intent-1'') (WsprCycleArmed3 ''A'' (seconds 121) r))]"

definition transmit_intent :: wspr_cycle_intent where
  "transmit_intent = \<lparr>wi_intent_id = ''intent-1'', wi_sequence_number = 1, wi_band = M20,
     wi_antenna_label = ''A'', wi_direction = Some Transmit, wi_signal = None\<rparr>"

definition stored_schedule :: "nat \<Rightarrow> antenna_control_policy option \<Rightarrow> schedule_v3" where
  "stored_schedule v policy =
     \<lparr>s3_schema_version = v, s3_session_id = ''session'', s3_mode = TxFocused,
      s3_goal = GeneralCoverage, s3_antenna_control = policy, s3_signal_plans = [],
      s3_wspr_cycle_intents = [transmit_intent], s3_slots = []\<rparr>"

definition stored :: "nat \<Rightarrow> antenna_control_policy option \<Rightarrow> wspr_readiness_basis option \<Rightarrow> unit bundle_v3_contents" where
  "stored v policy r = (upgrade_v2_bundle_model empty_v2_bundle)
     \<lparr>b3_manifest := (b2_manifest empty_v2_bundle)\<lparr>n2_schema_version := v\<rparr>,
      b3_session_state := (b2_session_state empty_v2_bundle)\<lparr>ss_schema_version := v, ss_lifecycle := Running\<rparr>,
      b3_station := (b2_station empty_v2_bundle)\<lparr>st_schema_version := v\<rparr>,
      b3_antennas := \<lparr>af_schema_version = v, af_session_id = ''session'',
        af_antennas = [\<lparr>an_label = ''A'', an_facets = [], an_height_m = None, an_radial_count = None,
          an_radial_length_m = None, an_orientation_degrees = None, an_tuner = None, an_feedline = None,
          an_notes = None\<rparr>]\<rparr>,
      b3_schedule := stored_schedule v policy, b3_events := stored_history v r,
      b3_analysis := (b2_analysis empty_v2_bundle)\<lparr>al_schema_version := v\<rparr>\<rparr>"

lemma aligned_121: "is_wspr_cycle_start (seconds 121)"
  by code_simp

lemma trim_A: "trim ''A'' = ''A''" "trim ''intent-1'' = ''intent-1''"
  by (rule trim_printable; simp)+

lemma stored_reduction:
  "re_diagnostics (reduce_operator_events_v3 Ready (stored_history v r)) = []"
  "re_lifecycle (reduce_operator_events_v3 Ready (stored_history v r)) = Running"
  "re_effective_events (reduce_operator_events_v3 Ready (stored_history v r)) = []"
  by (simp_all add: stored_history_def reduce_operator_events_v3_def reduce_step_v3_def Let_def with_schema_def started_event_def
     sample_event_def event_shape_error_v3_def init_reducer_def finish_reducer_def is_terminal_def trim_A aligned_121 slot_required_def
     aligned_121 [unfolded seconds_def, simplified] seconds_def see_def set_lifecycle_def)

lemma stored_run:
  assumes "own_readiness r"
  shows "wp_diagnostics (project_wspr_run_v3 (\<lambda>_. True) (stored_schedule v policy) (stored_history w r)) = []"
proof -
  let ?sc = "stored_schedule v policy" and ?run = "run_step (\<lambda>_. True) (stored_schedule v policy) {}"
  let ?e = "with_schema w (sample_event ''ready'' (Some ''intent-1'') (WsprCycleArmed3 ''A'' (seconds 121) r))"
  have skipped: "skipped_intents ?sc (stored_history w r) = {}"
    by (simp add: skipped_intents_def stored_reduction map_filter_simps)
  obtain x where window: "from_start (\<lambda>_. True) (seconds 121) = Inr x" "cw_starts_at x = seconds 121"
    using aligned_121 by (auto simp: from_start_Inr_iff)
  note window = this [unfolded seconds_def, simplified]
  have "?run (init_run ?sc {}) (with_schema w started_event) = init_run ?sc {}"
    by (simp add: run_step_def with_schema_def started_event_def sample_event_def)
  moreover have "?run (init_run ?sc {}) ?e = arm_intent (\<lambda>_. True) ?sc {} ?e ''A'' (seconds 121) None
      (open_occupancy ?e ''A'' (close_occupancy ?e (init_run ?sc {})))"
    by (rule own_readiness_run [OF assms]) (simp add: with_schema_def sample_event_def)
  moreover have "wp_diagnostics (ru_projection (arm_intent (\<lambda>_. True) ?sc {} ?e ''A'' (seconds 121) None
      (open_occupancy ?e ''A'' (close_occupancy ?e (init_run ?sc {}))))) = []"
    by (simp add: window Let_def arm_intent_def with_schema_def sample_event_def stored_schedule_def transmit_intent_def
        init_run_def close_occupancy_def open_occupancy_def seconds_def)
  ultimately show ?thesis
    unfolding project_wspr_run_v3_def Let_def skipped finish_run_diagnostics
    by (simp add: stored_history_def)
qed

lemmas stored_parts = stored_def upgrade_v2_bundle_model_def empty_v2_bundle_def default_bundle_files_v2_def

lemma stored_intents:
  "\<exists>s. try_fold (validate_intent (stored v policy r)) ({}, {})
     (enumerate 0 (s3_wspr_cycle_intents (b3_schedule (stored v policy r)))) = Inr s"
  by (simp add: stored_def stored_schedule_def transmit_intent_def validate_intent_def result_simps trim_A is_ascii_def
      u32_max_def)

text \<open>A stored bundle is valid for every policy and readiness its antenna-control check accepts.\<close>

lemma stored_valid:
  assumes "v \<in> {3, 4, 5}" and "own_readiness r"
    and "validate_antenna_control_v5 Some (\<lambda>_. True) (\<lambda>_. True) (stored v policy r) = Inr ()"
  shows "validate_v3_model sample_externals (stored v policy r) = Inr ()"
proof -
  let ?b = "stored v policy r"
  have parts: "b3_events ?b = stored_history v r" "b3_schedule ?b = stored_schedule v policy"
    "n2_schema_version (b3_manifest ?b) = v" "n2_session_id (b3_manifest ?b) = ''session''"
    by (simp_all add: stored_parts)
  have "validate_operation (\<lambda>_. True) ?b = Inr ()"
    using assms(2)
    by (simp add: validate_operation_Inr parts stored_run stored_reduction)
      (simp add: stored_history_def validate_armed_antenna_def with_schema_def started_event_def sample_event_def
        stored_def)
  moreover have "list_all (\<lambda>e. validate_event_identity ?b e = Inr ()) (b3_events ?b)"
    by (simp add: parts stored_history_def validate_event_identity_def with_schema_def started_event_def sample_event_def
        sample_meta_def validate_signal_state_event_v3_def first_blocking_def)
  moreover have "validate_directions ?b = Inr ()" "validate_signal_plan_schedule_v3 cs (b3_schedule ?b) = []" for cs
    by (simp_all add: parts validate_directions_def stored_schedule_def transmit_intent_def mode_directions_def
        map_filter_simps signal_schedule_Nil signal_schedule_ok_def)
  moreover have "validate_runtime_contexts_v6 sample_externals ?b = Inr ()"
    using assms(1) by (auto simp: validate_runtime_contexts_v6_def has_v6_fields_def stored_parts schema_version_defs)
  moreover have "list_all (\<lambda>p. of_session ?b ''the v3 manifest'' p = Inr ()) (root_files ?b)"
    "list_all (\<lambda>p. of_session ?b ''manifest'' p = Inr ()) (record_files ?b)"
    by (simp_all add: of_session_Inr root_files_def record_files_def stored_parts stored_schedule_def)
  ultimately show ?thesis
    unfolding validate_v3_Inr using assms(1,3) stored_intents [of v policy r]
    by (auto simp: sample_externals_def parts(3))
qed

theorem v5_upgrade_keeps_validity_witness:
  "validate_v3_model sample_externals (upgrade_v3_bundle_model_to_v5 (stored 4 None None)) = Inr ()"
proof (rule v5_upgrade_keeps_validity)
  show "validate_v3_model sample_externals (stored 4 None None) = Inr ()"
    by (rule stored_valid)
      (simp_all add: own_readiness_def validate_antenna_control_v5_def stored_parts stored_schedule_def
        stored_history_def with_schema_def started_event_def sample_event_def has_v5_fields_def schema_version_defs)
qed (simp add: stored_def)

definition stored_upgrader :: runtime_context where
  "stored_upgrader = new_runtime_context last_bytes (\<lambda>_. []) 7
     \<lparr>mm_mutation_id = ''m'', mm_member_index = 0, mm_member_count = 1\<rparr> bare_build (platform_on ''linux'')"

theorem v6_upgrade_validity_witness:
  "validate_v3_model sample_externals (upgrade_v5_bundle_model_to_v6 last_bytes (\<lambda>_. [])
     (stored 5 (Some Manual) (Some OperatorConfirmed)) stored_upgrader) = Inr ()"
proof -
  let ?b = "stored 5 (Some Manual) (Some OperatorConfirmed)"
  let ?c = "upgrade_v5_bundle_model_to_v6 (ex_sha256 sample_externals) (ex_rfc3339 sample_externals) ?b stored_upgrader"
  have "validate_v3_model sample_externals ?b = Inr ()"
    by (rule stored_valid)
      (simp_all add: own_readiness_def validate_antenna_control_v5_def stored_parts stored_schedule_def
        stored_history_def with_schema_def started_event_def sample_event_def validate_readiness_def schema_version_defs)
  moreover have "n2_schema_version (b3_manifest ?b) = 5"
    by (simp add: stored_def)
  moreover have "length (ex_sha256 sample_externals x) = 32" for x
    by (simp add: sample_externals_def last_bytes_def)
  moreover have "has_valid_identity (ex_sha256 sample_externals) (ex_rfc3339 sample_externals) stored_upgrader"
    by (simp add: sample_externals_def stored_upgrader_def new_runtime_context_valid)
  moreover have "list_all (context_accepted sample_externals) (b3_runtime_contexts ?c)"
    by (simp add: upgrade_v5_bundle_model_to_v6_def Let_def context_accepted_def sample_externals_def context_bounds
        validate_build_identity_v6_def legacy_creator_context_v6_def new_runtime_context_def stored_upgrader_def
        build_texts_def bare_build_def platform_on_def bounded_text_def stored_parts)
  moreover have "list_all (diagnostic_accepted sample_externals) (b3_diagnostics ?c)"
    by (simp add: upgrade_v5_bundle_model_to_v6_def Let_def diagnostic_accepted_def sample_externals_def diagnostic_bounds)
  moreover have "ss_revision (b3_session_state ?b) < u64_max"
    by (simp add: stored_parts u64_max_def)
  ultimately have "validate_v3_model sample_externals ?c = Inr ()"
    using v6_upgrade_validity [of sample_externals ?b stored_upgrader ?c] by blast
  then show ?thesis by (simp add: sample_externals_def)
qed

end
