(* ===== verification/Floats.thy ===== *)
theory Floats
  imports Prelude "HOL-Library.Log_Nat"
begin

text \<open>
  The arithmetic of \<open>f64\<close> on the values of \<open>Prelude\<close>: the exact rational result, rounded to the
  nearest representable value, ties to even, with the exceptional cases of IEEE 754; and the
  total order of \<open>f64::total_cmp\<close>.
\<close>

section \<open>Rounding\<close>

definition round_half_even :: "rat \<Rightarrow> int" where
  "round_half_even q =
     (let f = \<lfloor>q\<rfloor>; r = q - of_int f in
      if r < 1 / 2 \<or> r = 1 / 2 \<and> even f then f else f + 1)"

text \<open>The exponent of the leading bit of a nonzero rational.\<close>

definition leading_exponent :: "rat \<Rightarrow> int" where
  "leading_exponent q =
     (let (n, d) = quotient_of \<bar>q\<bar>; e = bitlen n - bitlen d in
      if 2 powi e \<le> \<bar>q\<bar> then e else e - 1)"

text \<open>The distance between the representable values around a rational; the last is that of the subnormals.\<close>

definition f64_unit :: "rat \<Rightarrow> rat" where
  "f64_unit q = 2 powi (max (leading_exponent q - 52) (- 1074))"

text \<open>The nearest multiple of the unit.\<close>

definition nearest :: "rat \<Rightarrow> rat" where
  "nearest q = (if q = 0 then 0 else of_int (round_half_even (q / f64_unit q)) * f64_unit q)"

definition f64_round :: "rat \<Rightarrow> fl" where
  "f64_round q =
     (let r = nearest q in
      if 2 ^ 1024 \<le> r then PosInf
      else if r \<le> - (2 ^ 1024) then NegInf
      else if r = 0 \<and> q < 0 then NegZero
      else Finite r)"

section \<open>Operations\<close>

fun fl_negative :: "fl \<Rightarrow> bool" where
  "fl_negative (Finite q) \<longleftrightarrow> q < 0"
| "fl_negative v \<longleftrightarrow> v = NegZero \<or> v = NegInf"

fun fl_neg :: "fl \<Rightarrow> fl" where
  "fl_neg (Finite q) = (if q = 0 then NegZero else Finite (- q))"
| "fl_neg NegZero = Finite 0"
| "fl_neg PosInf = NegInf"
| "fl_neg NegInf = PosInf"
| "fl_neg NaN = NaN"

definition f64_add :: "fl \<Rightarrow> fl \<Rightarrow> fl" where
  "f64_add a b =
     (if a = NaN \<or> b = NaN \<or> {a, b} = {PosInf, NegInf} then NaN
      else if \<not> is_finite a then a
      else if \<not> is_finite b then b
      else if a = NegZero \<and> b = NegZero then NegZero
      else f64_round (fl_value a + fl_value b))"

definition f64_sub :: "fl \<Rightarrow> fl \<Rightarrow> fl" where
  "f64_sub a b = f64_add a (fl_neg b)"

definition signed :: "bool \<Rightarrow> fl \<Rightarrow> fl" where
  "signed negative v = (if negative then fl_neg v else v)"

definition f64_div :: "fl \<Rightarrow> fl \<Rightarrow> fl" where
  "f64_div a b =
     (let negative = (fl_negative a \<noteq> fl_negative b) in
      if a = NaN \<or> b = NaN then NaN
      else if \<not> is_finite a then (if is_finite b then signed negative PosInf else NaN)
      else if \<not> is_finite b then signed negative (Finite 0)
      else if fl_value b = 0 then (if fl_value a = 0 then NaN else signed negative PosInf)
      else if fl_value a = 0 then signed negative (Finite 0)
      else f64_round (fl_value a / fl_value b))"

definition f64_mul :: "fl \<Rightarrow> fl \<Rightarrow> fl" where
  "f64_mul a b =
     (let negative = (fl_negative a \<noteq> fl_negative b) in
      if a = NaN \<or> b = NaN then NaN
      else if \<not> is_finite a \<or> \<not> is_finite b then
        (if is_finite a \<and> fl_value a = 0 \<or> is_finite b \<and> fl_value b = 0 then NaN else signed negative PosInf)
      else if fl_value a = 0 \<or> fl_value b = 0 then signed negative (Finite 0)
      else f64_round (fl_value a * fl_value b))"

text \<open>The remainder of \<open>%\<close>, which is exact and has the sign of the dividend, and \<open>rem_euclid\<close>.\<close>

definition truncated :: "rat \<Rightarrow> int" where
  "truncated q = (if q < 0 then \<lceil>q\<rceil> else \<lfloor>q\<rfloor>)"

definition f64_rem :: "fl \<Rightarrow> fl \<Rightarrow> fl" where
  "f64_rem a b =
     (if a = NaN \<or> b = NaN \<or> \<not> is_finite a \<or> is_finite b \<and> fl_value b = 0 then NaN
      else if \<not> is_finite b then a
      else
        let r = fl_value a - of_int (truncated (fl_value a / fl_value b)) * fl_value b in
        if r = 0 then signed (fl_negative a) (Finite 0) else Finite r)"

definition f64_abs :: "fl \<Rightarrow> fl" where
  "f64_abs v = (if fl_negative v then fl_neg v else v)"

definition f64_rem_euclid :: "fl \<Rightarrow> fl \<Rightarrow> fl" where
  "f64_rem_euclid a b =
     (let r = f64_rem a b in if fl_lt r (Finite 0) then f64_add r (f64_abs b) else r)"

definition f64_clamp :: "fl \<Rightarrow> fl \<Rightarrow> fl \<Rightarrow> fl" where
  "f64_clamp v lower upper = (if fl_lt v lower then lower else if fl_lt upper v then upper else v)"

definition f64_of_nat :: "nat \<Rightarrow> fl" where
  "f64_of_nat n = f64_round (of_nat n)"

text \<open>\<open>Iterator::sum\<close> over \<open>f64\<close>: a left fold that starts from the negative zero.\<close>

definition f64_sum :: "fl list \<Rightarrow> fl" where
  "f64_sum vs = foldl f64_add NegZero vs"

section \<open>The total order\<close>

text \<open>Negative zero is below zero, and the (positive) NaN is above the infinity.\<close>

fun total_key :: "fl \<Rightarrow> nat \<times> rat \<times> nat" where
  "total_key NegInf = (0, 0, 0)"
| "total_key NegZero = (1, 0, 0)"
| "total_key (Finite q) = (1, q, 1)"
| "total_key PosInf = (2, 0, 0)"
| "total_key NaN = (3, 0, 0)"

section \<open>Rounding is monotone\<close>

lemma round_half_even_int [simp]: "round_half_even (of_int n) = n"
  by (simp add: round_half_even_def)

lemma round_half_even_mono:
  assumes "p \<le> q"
  shows "round_half_even p \<le> round_half_even q"
proof (cases "\<lfloor>p\<rfloor> = \<lfloor>q\<rfloor>")
  case True
  with assms show ?thesis by (auto simp: round_half_even_def Let_def)
next
  case False
  with assms have "\<lfloor>p\<rfloor> + 1 \<le> \<lfloor>q\<rfloor>" using floor_mono [OF assms] by simp
  then show ?thesis by (auto simp: round_half_even_def Let_def)
qed

lemma round_half_even_minus: "round_half_even (- q) = - round_half_even q"
proof (cases "q = of_int \<lfloor>q\<rfloor>")
  case True
  then show ?thesis by (metis of_int_minus round_half_even_int)
next
  case False
  then have "\<lfloor>- q\<rfloor> = - \<lfloor>q\<rfloor> - 1"
    by (simp add: floor_minus ceiling_altdef)
  then show ?thesis
    by (auto simp: round_half_even_def Let_def)
qed

lemma leading_exponent:
  assumes "q \<noteq> 0"
  shows "2 powi leading_exponent q \<le> \<bar>q\<bar>" and "\<bar>q\<bar> < 2 powi (leading_exponent q + 1)"
proof -
  obtain n d where quotient: "quotient_of \<bar>q\<bar> = (n, d)" by (cases "quotient_of \<bar>q\<bar>")
  have d: "0 < d" using quotient_of_denom_pos [OF quotient] .
  have q: "\<bar>q\<bar> = of_int n / of_int d" using quotient_of_div [OF quotient] .
  with assms d have n: "0 < n"
    by (metis abs_ge_zero abs_eq_0 not_less_iff_gr_or_eq of_int_0_less_iff of_int_less_0_iff
        divide_eq_0_iff divide_neg_pos not_less of_int_0)
  have pow: "(2 :: rat) powi (bitlen k - 1) \<le> of_int k" "of_int k < (2 :: rat) powi bitlen k" if "0 < k" for k
  proof -
    have len: "1 \<le> bitlen k" using that by (simp add: bitlen_alt_def)
    have "(of_int (2 ^ nat (bitlen k - 1)) :: rat) \<le> of_int k" "(of_int k :: rat) < of_int (2 ^ nat (bitlen k))"
      using bitlen_bounds [OF that] by (simp_all only: of_int_le_iff of_int_less_iff)
    with len show "(2 :: rat) powi (bitlen k - 1) \<le> of_int k" "of_int k < (2 :: rat) powi bitlen k"
      by (simp_all add: power_int_def)
  qed
  let ?e = "bitlen n - bitlen d"
  have "(2 :: rat) powi (?e - 1) = 2 powi (bitlen n - 1) / 2 powi bitlen d"
    by (simp add: power_int_diff [symmetric] algebra_simps)
  also have "\<dots> \<le> of_int n / of_int d"
    using pow [OF n] pow [OF d] n d by (intro frac_le) simp_all
  finally have lower: "2 powi (?e - 1) \<le> \<bar>q\<bar>" by (simp add: q)
  have "of_int n / of_int d < (2 :: rat) powi bitlen n / 2 powi (bitlen d - 1)"
    using pow [OF n] pow [OF d] n d by (intro frac_less) simp_all
  also have "\<dots> = 2 powi (?e + 1)"
    by (simp add: power_int_diff [symmetric] algebra_simps)
  finally have upper: "\<bar>q\<bar> < 2 powi (?e + 1)" by (simp add: q)
  show "2 powi leading_exponent q \<le> \<bar>q\<bar>" "\<bar>q\<bar> < 2 powi (leading_exponent q + 1)"
    using lower upper by (auto simp: leading_exponent_def quotient Let_def)
qed

lemma f64_unit_pos [simp]: "0 < f64_unit q"
  by (simp add: f64_unit_def)

lemma leading_exponent_minus [simp]: "leading_exponent (- q) = leading_exponent q"
  by (simp add: leading_exponent_def)

lemma f64_unit_minus [simp]: "f64_unit (- q) = f64_unit q"
  by (simp add: f64_unit_def)

lemma nearest_minus: "nearest (- q) = - nearest q"
  by (simp add: nearest_def round_half_even_minus)

lemma leading_exponent_mono:
  assumes "0 < p" and "p \<le> q"
  shows "leading_exponent p \<le> leading_exponent q"
proof (rule ccontr)
  assume "\<not> ?thesis"
  then have "(2 :: rat) powi (leading_exponent q + 1) \<le> 2 powi leading_exponent p"
    by (intro power_int_increasing) simp_all
  with leading_exponent [of p] leading_exponent [of q] assms show False by simp
qed

text \<open>A power of two with an exponent no less than that of the unit is a multiple of the unit.\<close>

lemma power_over_power: "j \<le> (k :: int) \<Longrightarrow> \<exists>n. (2 :: rat) powi k = of_int n * 2 powi j"
proof (rule exI [of _ "2 ^ nat (k - j)"])
  assume "j \<le> k"
  then have "(2 :: rat) ^ nat (k - j) = 2 powi (k - j)" by (simp add: power_int_def)
  then show "(2 :: rat) powi k = of_int (2 ^ nat (k - j)) * 2 powi j"
    by (simp flip: power_int_add)
qed

lemma nearest_le:
  assumes "p \<le> of_int n * f64_unit p" and "p \<noteq> 0"
  shows "nearest p \<le> of_int n * f64_unit p"
proof -
  have "p / f64_unit p \<le> of_int n"
    using assms(1) f64_unit_pos [of p] by (simp add: pos_divide_le_eq)
  from round_half_even_mono [OF this] show ?thesis
    using assms(2) by (simp add: nearest_def)
qed

lemma nearest_ge:
  assumes "of_int n * f64_unit p \<le> p" and "p \<noteq> 0"
  shows "of_int n * f64_unit p \<le> nearest p"
  using nearest_le [of "- p" "- n"] assms by (simp add: nearest_minus)

lemma nearest_mono_pos:
  assumes "0 < p" and "p \<le> q"
  shows "nearest p \<le> nearest q"
proof (cases "f64_unit p = f64_unit q")
  case True
  then have "p / f64_unit p \<le> q / f64_unit q"
    using assms(2) f64_unit_pos [of q] by (metis divide_right_mono less_imp_le)
  with True assms show ?thesis by (simp add: nearest_def round_half_even_mono)
next
  case False
  let ?P = "leading_exponent p" and ?Q = "leading_exponent q"
  have "?P \<le> ?Q" using leading_exponent_mono [OF assms] .
  moreover from False have "max (?P - 52) (- 1074) \<noteq> max (?Q - 52) (- 1074)"
    unfolding f64_unit_def by metis
  ultimately have less: "?P + 1 \<le> ?Q" "- 1074 \<le> ?Q - 52" by (auto simp: max_def split: if_splits)
  have unit: "f64_unit q = 2 powi (?Q - 52)" using less(2) by (simp add: f64_unit_def)
  obtain n where n: "(2 :: rat) powi ?Q = of_int n * f64_unit p"
    using power_over_power [of "max (?P - 52) (- 1074)" ?Q] less by (auto simp: f64_unit_def)
  have "p \<le> 2 powi (?P + 1)" using leading_exponent(2) [of p] assms(1) by simp
  also have "\<dots> \<le> 2 powi ?Q" using less(1) by (intro power_int_increasing) simp_all
  finally have "nearest p \<le> 2 powi ?Q" using nearest_le [of p n] assms(1) n by simp
  also have "\<dots> \<le> nearest q"
  proof -
    obtain m where m: "(2 :: rat) powi ?Q = of_int m * f64_unit q"
      using power_over_power [of "?Q - 52" ?Q] unit by auto
    have "2 powi ?Q \<le> q" using leading_exponent(1) [of q] assms by simp
    then show ?thesis using nearest_ge [of m q] assms m by simp
  qed
  finally show ?thesis .
qed

lemma nearest_sign: "0 \<le> q \<Longrightarrow> 0 \<le> nearest q"
  using nearest_ge [of 0 q] by (cases "q = 0") (simp_all add: nearest_def)

lemma nearest_mono:
  assumes "p \<le> q"
  shows "nearest p \<le> nearest q"
proof -
  consider "0 < p" | "p = 0" | "p < 0" "0 \<le> q" | "p < 0" "q < 0" by linarith
  then show ?thesis
  proof cases
    case 1
    then show ?thesis using nearest_mono_pos assms by simp
  next
    case 2
    then show ?thesis using nearest_sign [of q] assms by (simp add: nearest_def [of 0])
  next
    case 3
    then show ?thesis using nearest_sign [of q] nearest_sign [of "- p"] by (simp add: nearest_minus)
  next
    case 4
    then show ?thesis using nearest_mono_pos [of "- q" "- p"] assms by (simp add: nearest_minus)
  qed
qed

section \<open>Representable numbers\<close>

definition representable :: "rat \<Rightarrow> bool" where
  "representable q \<longleftrightarrow> nearest q = q"

lemma representableI: "q = of_int n * f64_unit q \<Longrightarrow> representable q"
  using nearest_le [of q n] nearest_ge [of n q]
  by (cases "q = 0") (auto simp: representable_def nearest_def)

lemma nearest_representable_bounds:
  "q \<le> b \<Longrightarrow> representable b \<Longrightarrow> nearest q \<le> b"
  "b \<le> q \<Longrightarrow> representable b \<Longrightarrow> b \<le> nearest q"
  using nearest_mono by (fastforce simp: representable_def)+

lemma representable_multiple:
  assumes "q \<noteq> 0" and "\<bar>q\<bar> < 2 powi (k + 53)" and "- 1074 \<le> k" and "q = of_int n * 2 powi k"
  shows "representable q"
proof -
  have "leading_exponent q < k + 53"
  proof (rule ccontr)
    assume "\<not> ?thesis"
    then have "(2 :: rat) powi (k + 53) \<le> 2 powi leading_exponent q" by (intro power_int_increasing) simp_all
    with leading_exponent(1) [OF assms(1)] assms(2) show False by simp
  qed
  with assms(3) have "max (leading_exponent q - 52) (- 1074) \<le> k" by simp
  from power_over_power [OF this] obtain m where "(2 :: rat) powi k = of_int m * f64_unit q"
    by (auto simp: f64_unit_def)
  with assms(4) have "q = of_int (n * m) * f64_unit q" by simp
  then show ?thesis by (rule representableI)
qed

lemma representable_int: "\<bar>n\<bar> < 2 ^ 53 \<Longrightarrow> representable (of_int n)"
proof (cases "n = 0")
  case False
  assume "\<bar>n\<bar> < 2 ^ 53"
  then have "\<bar>of_int n :: rat\<bar> < 2 powi (0 + 53)"
    by (metis add_0 of_int_abs of_int_less_numeral_power_cancel_iff power_int_numeral)
  with False show ?thesis by (intro representable_multiple [of _ 0 n]) simp_all
qed (simp add: representable_def nearest_def)

lemma representable_minus: "representable (- q) \<longleftrightarrow> representable q"
  by (simp add: representable_def nearest_minus)

lemma f64_round_value:
  assumes "\<bar>nearest q\<bar> < 2 ^ 1024"
  shows "is_finite (f64_round q)" and "fl_value (f64_round q) = nearest q"
  using assms by (auto simp: f64_round_def Let_def)

text \<open>A rounded result stays between representable bounds.\<close>

lemma f64_round_between:
  assumes "a \<le> q" and "q \<le> b" and "representable a" and "representable b" and "\<bar>a\<bar> < 2 ^ 1024" and "\<bar>b\<bar> < 2 ^ 1024"
  shows "is_finite (f64_round q)" and "a \<le> fl_value (f64_round q)" and "fl_value (f64_round q) \<le> b"
proof -
  have bounds: "a \<le> nearest q" "nearest q \<le> b"
    using nearest_representable_bounds assms(1-4) by blast+
  then have "\<bar>nearest q\<bar> < 2 ^ 1024" using assms(5,6) by linarith
  from f64_round_value [OF this] bounds
  show "is_finite (f64_round q)" "a \<le> fl_value (f64_round q)" "fl_value (f64_round q) \<le> b" by simp_all
qed

section \<open>Intervals\<close>

text \<open>Finite values between two numbers, and what the operations do to the bounds.\<close>

definition between :: "rat \<Rightarrow> fl \<Rightarrow> rat \<Rightarrow> bool" where
  "between a v b \<longleftrightarrow> is_finite v \<and> a \<le> fl_value v \<and> fl_value v \<le> b"

definition bound :: "rat \<Rightarrow> bool" where
  "bound q \<longleftrightarrow> representable q \<and> \<bar>q\<bar> < 2 ^ 1024"

lemma bound_fraction:
  assumes "\<bar>n\<bar> < 2 ^ 53"
  shows "bound (of_int n / 2048)"
proof -
  have small: "\<bar>of_int n :: rat\<bar> < 2 ^ 53"
    using assms by (metis of_int_abs of_int_less_numeral_power_cancel_iff)
  have "representable (of_int n / 2048)"
  proof (cases "n = 0")
    case False
    with small show ?thesis
      by (intro representable_multiple [of _ "- 11" n]) (simp_all add: power_int_minus)
  qed (simp add: representable_def nearest_def)
  moreover have "\<bar>of_int n / 2048 :: rat\<bar> < 2 ^ 1024"
  proof -
    have "\<bar>of_int n / 2048 :: rat\<bar> \<le> \<bar>of_int n\<bar>" by (simp add: abs_divide)
    also have "\<dots> < 2 ^ 53" by (rule small)
    also have "\<dots> \<le> (2 :: rat) ^ 1024" by (rule power_increasing) simp_all
    finally show ?thesis .
  qed
  ultimately show ?thesis by (simp add: bound_def)
qed

lemma between_round:
  "a \<le> q \<Longrightarrow> q \<le> b \<Longrightarrow> bound a \<Longrightarrow> bound b \<Longrightarrow> between a (f64_round q) b"
  using f64_round_between [of a q b] by (simp add: between_def bound_def)

lemma not_NaN: "is_finite v \<Longrightarrow> v \<noteq> NaN" "is_finite v \<Longrightarrow> v \<noteq> PosInf" "is_finite v \<Longrightarrow> v \<noteq> NegInf"
  by auto

lemma between_zero:
  assumes "a \<le> 0" and "0 \<le> b"
  shows "between a (Finite 0) b" and "between a NegZero b" and "between a (signed n (Finite 0)) b"
  using assms by (simp_all add: between_def signed_def)

lemma between_add:
  assumes "between a v b" and "between c w d" and "bound (a + c)" and "bound (b + d)"
  shows "between (a + c) (f64_add v w) (b + d)"
proof -
  have "f64_add v w = (if v = NegZero \<and> w = NegZero then NegZero else f64_round (fl_value v + fl_value w))"
    using assms(1,2) by (auto simp: between_def f64_add_def not_NaN doubleton_eq_iff)
  moreover have "between (a + c) (f64_round (fl_value v + fl_value w)) (b + d)"
    using assms by (intro between_round) (auto simp: between_def intro: add_mono)
  ultimately show ?thesis
    using assms(1,2) by (auto simp: between_def)
qed

lemma between_mul:
  assumes "between 0 v b" and "between 0 w d" and "bound (b * d)"
  shows "between 0 (f64_mul v w) (b * d)"
proof -
  have pos: "0 \<le> b" "0 \<le> d" using assms(1,2) by (auto simp: between_def)
  have "bound 0" by (simp add: bound_def representable_def nearest_def)
  then have "between 0 (f64_round (fl_value v * fl_value w)) (b * d)"
    using assms pos by (intro between_round) (auto simp: between_def intro: mult_mono)
  with assms(1,2) pos show ?thesis
    by (auto simp: f64_mul_def Let_def between_def not_NaN signed_def)
qed

lemma between_div:
  assumes "between 0 v b" and "0 < d" and "b / d \<le> c" and "bound c"
  shows "between 0 (f64_div v (Finite d)) c"
proof -
  have pos: "0 \<le> b" using assms(1) by (auto simp: between_def)
  then have c: "0 \<le> c" using assms(2,3) by (meson divide_nonneg_pos order_trans)
  have "fl_value v / d \<le> b / d" using assms(1,2) by (auto simp: between_def intro: divide_right_mono)
  with assms(3) have le: "fl_value v / d \<le> c" by simp
  have "bound 0" by (simp add: bound_def representable_def nearest_def)
  then have "between 0 (f64_round (fl_value v / d)) c"
    using assms le by (intro between_round) (auto simp: between_def)
  with assms(1,2) c show ?thesis
    by (auto simp: f64_div_def Let_def between_def not_NaN signed_def)
qed

end
