(* ===== verification/AnalysisModel.thy ===== *)
theory AnalysisModel
  imports Validation Results OrderedMaps Floats
begin

text \<open>
  The data of \<open>crates/analysis\<close> (\<open>model.rs\<close>) and its resource budget (\<open>resource.rs\<close>).  Every
  step of the analysis runs under a budget: limits on the entries it may hold, and a token
  through which another thread may cancel it at any time.
\<close>

section \<open>Signal modes, strata and sides\<close>

definition ascii_upper :: "char \<Rightarrow> char" where
  "ascii_upper c =
     (if (97 :: nat) \<le> of_char c \<and> of_char c \<le> (122 :: nat)
      then char_of (of_char c - 32 :: nat) else c)"

datatype signal_mode_name = SignalMode string

definition mode_str :: "signal_mode_name \<Rightarrow> string" where
  "mode_str m = (case m of SignalMode s \<Rightarrow> s)"

definition normalize_mode :: "string \<Rightarrow> signal_mode_name option" where
  "normalize_mode v =
     (let v = trim v in
      if v = [] \<or> has_control v then None else Some (SignalMode (map ascii_upper v)))"

datatype path_direction = PathTransmit | PathReceive

datatype comparison_side = LeftSide | RightSide

datatype comparison_order = LeftThenRight | RightThenLeft

record comparison_stratum =
  sm_direction :: path_direction
  sm_band :: band
  sm_mode :: signal_mode_name
  sm_observation_kind :: observation_kind
  sm_source :: record_source

section \<open>Evidence\<close>

datatype observation_exclusion_reason =
    ExGuardTime | ExNearBoundary | ExBeforeObservedSwitch | ExMissedSlot | ExBadSlot | ExBandMismatch
  | ExOutsideSchedule | ExMissingEvidence | ExMalformedEvidence | ExContradictoryEvidence
  | ExUnsupportedEvidence | ExDuplicateEvidence

datatype evidence_quality = Insufficient | Weak | Moderate

datatype eligibility_category =
    CatMissing | CatMalformed | CatContradictory | CatUnsupported | CatDuplicate
  | CatDeliberatelyExcluded

datatype eligibility_scope =
    ScopeField | ScopeObservation | ScopeSlot | ScopeComparisonStratum | ScopeComparisonBlock

record eligibility_exclusion_count =
  ee_code :: string
  ee_category :: eligibility_category
  ee_scope :: eligibility_scope
  ee_count :: nat

record observation_counts =
  oc_total :: nat
  oc_usable :: nat
  oc_excluded :: nat

record snr_statistics =
  ns_sample_count :: nat
  ns_min_db :: fl
  ns_median_db :: fl
  ns_mean_db :: fl
  ns_max_db :: fl

record evidence_summary =
  es_observation_counts :: observation_counts
  es_exclusions :: "(observation_exclusion_reason \<times> nat) list"
  es_usable_observation_kinds :: "(observation_kind \<times> nat) list"
  es_snr :: "snr_statistics option"

record antenna_evidence_summary =
  ae_antenna_label :: string
  ae_contributing_slot_count :: nat
  ae_evidence_quality :: evidence_quality
  ae_evidence :: evidence_summary

record band_evidence_summary =
  be_band :: band
  be_evidence :: evidence_summary

record slot_evidence_summary =
  se_slot :: aligned_slot
  se_evidence :: evidence_summary

record observation_exclusion_record =
  xr_observation_id :: string
  xr_reason :: observation_exclusion_reason
  xr_timestamp :: timestamp
  xr_band :: band
  xr_observation_kind :: observation_kind
  xr_source :: record_source
  xr_mode :: "string option"
  xr_slot_id :: "string option"
  xr_assigned_label :: "string option"
  xr_assignment_confidence :: fl

section \<open>The paired comparison\<close>

datatype comparison_availability =
    NotApplicable | UnsupportedComparisonShape | NoEligibleBlocks | NoMatchedPaths
  | DescriptivePairsAvailable

record comparison_diagnostics =
  cd_block_count :: nat
  cd_eligible_block_count :: nat
  cd_invalid_block_count :: nat
  cd_left_then_right_block_count :: nat
  cd_right_then_left_block_count :: nat
  cd_paired_row_count :: nat
  cd_unique_path_count :: nat
  cd_unmatched_left_count :: nat
  cd_unmatched_right_count :: nat
  cd_missing_snr_left_count :: nat
  cd_missing_snr_right_count :: nat
  cd_missing_or_invalid_mode_count :: nat
  cd_missing_mode_count :: nat
  cd_malformed_mode_count :: nat
  cd_ambiguous_path_count :: nat
  cd_exact_duplicate_count :: nat
  cd_conflicting_duplicate_group_count :: nat
  cd_excluded_observation_count :: nat

datatype comparison_block_eligibility =
    Eligible | AmbiguousSequenceOrder | IncompleteSameBandRun | MissingActualLabel | RepeatedLabel
  | UnsupportedLabel

record comparison_block =
  cb_block_index :: nat
  cb_band :: band
  cb_first_slot_id :: string
  cb_first_sequence_number :: nat
  cb_first_starts_at :: timestamp
  cb_first_label :: "string option"
  cb_first_status :: aligned_slot_status
  cb_second_slot_id :: "string option"
  cb_second_sequence_number :: "nat option"
  cb_second_starts_at :: "timestamp option"
  cb_second_label :: "string option"
  cb_second_status :: "aligned_slot_status option"
  cb_order :: "comparison_order option"
  cb_eligibility :: comparison_block_eligibility

record comparison_timeline_row =
  tr_block_index :: nat
  tr_block_eligible :: bool
  tr_sequence_number :: nat
  tr_slot_id :: string
  tr_starts_at :: timestamp
  tr_band :: band
  tr_actual_label :: "string option"
  tr_side :: "comparison_side option"
  tr_status :: aligned_slot_status
  tr_total_observation_count :: nat
  tr_usable_observation_count :: nat
  tr_excluded_observation_count :: nat
  tr_missing_snr_count :: nat
  tr_missing_or_invalid_mode_count :: nat
  tr_ambiguous_path_count :: nat
  tr_exact_duplicate_count :: nat
  tr_conflicting_duplicate_group_count :: nat

record path_overlap_row =
  po_stratum :: comparison_stratum
  po_remote_path :: string
  po_left_finite_count :: nat
  po_right_finite_count :: nat
  po_paired_count :: nat
  po_unmatched_left_count :: nat
  po_unmatched_right_count :: nat
  po_missing_snr_left_count :: nat
  po_missing_snr_right_count :: nat
  po_exact_duplicate_count :: nat
  po_conflicting_duplicate_group_count :: nat

record paired_observation_row =
  pw_stratum :: comparison_stratum
  pw_block_index :: nat
  pw_order :: comparison_order
  pw_remote_path :: string
  pw_left_observation_id :: string
  pw_right_observation_id :: string
  pw_left_slot_id :: string
  pw_right_slot_id :: string
  pw_left_timestamp :: timestamp
  pw_right_timestamp :: timestamp
  pw_elapsed_seconds :: int
  pw_left_snr_db :: fl
  pw_right_snr_db :: fl
  pw_delta_right_minus_left_db :: fl
  pw_left_remote_grid :: "string option"
  pw_right_remote_grid :: "string option"
  pw_left_distance_km :: "fl option"
  pw_right_distance_km :: "fl option"
  pw_left_azimuth_degrees :: "fl option"
  pw_right_azimuth_degrees :: "fl option"

record paired_path_summary =
  pp_stratum :: comparison_stratum
  pp_remote_path :: string
  pp_paired_row_count :: nat
  pp_median_delta_right_minus_left_db :: fl

record paired_stratum_summary =
  ps_stratum :: comparison_stratum
  ps_paired_row_count :: nat
  ps_unique_path_count :: nat
  ps_contributing_block_count :: nat
  ps_left_then_right_block_count :: nat
  ps_right_then_left_block_count :: nat
  ps_unmatched_left_count :: nat
  ps_unmatched_right_count :: nat
  ps_missing_snr_left_count :: nat
  ps_missing_snr_right_count :: nat
  ps_excluded_observation_count :: nat
  ps_exact_duplicate_count :: nat
  ps_conflicting_duplicate_group_count :: nat
  ps_minimum_delta_right_minus_left_db :: "fl option"
  ps_median_path_delta_right_minus_left_db :: "fl option"
  ps_maximum_delta_right_minus_left_db :: "fl option"

datatype observed_path_location =
    LocationAvailable (remote_grid: string) (distance_km: fl) (initial_bearing_degrees: fl)
  | LocationMissing
  | LocationInconsistent

record observed_antenna_path =
  op_remote_path :: string
  op_location :: observed_path_location
  op_block_support_count :: nat
  op_slot_support_count :: nat
  op_observation_count :: nat
  op_block_indices :: "nat list"
  op_slot_ids :: "string list"
  op_observation_ids :: "string list"
  op_snr :: "snr_statistics option"

record observed_antenna_path_profile =
  pf_stratum :: comparison_stratum
  pf_side :: comparison_side
  pf_antenna_label :: string
  pf_unique_path_count :: nat
  pf_located_path_count :: nat
  pf_missing_location_path_count :: nat
  pf_inconsistent_location_path_count :: nat
  pf_paths :: "observed_antenna_path list"

record paired_comparison_analysis =
  pc_availability :: comparison_availability
  pc_left_label :: "string option"
  pc_right_label :: "string option"
  pc_delta_orientation :: "(string \<times> string) option"
  pc_diagnostics :: comparison_diagnostics
  pc_blocks :: "comparison_block list"
  pc_overlap_rows :: "path_overlap_row list"
  pc_timeline_rows :: "comparison_timeline_row list"
  pc_paired_rows :: "paired_observation_row list"
  pc_path_summaries :: "paired_path_summary list"
  pc_strata :: "paired_stratum_summary list"
  pc_observed_path_profiles :: "observed_antenna_path_profile list"

section \<open>The budget\<close>

datatype analysis_resource_stage = StagePlan | StageAlign | StageAggregate | StageCompare

record analysis_resource_diagnostic =
  ad_code :: string
  ad_profile :: string
  ad_profile_version :: nat
  ad_stage :: analysis_resource_stage
  ad_role :: string
  ad_limit :: nat
  ad_observed :: "nat option"
  ad_unit :: string
  ad_retryable_without_input_change :: bool
  ad_complete_result :: bool

datatype analysis_error =
    InvalidBundle bundle_validation_error
  | NonFiniteSnr (observation_id: string)
  | ResourceError analysis_resource_diagnostic

record analysis_resource_limits =
  li_collection_entries :: nat
  li_live_entries :: nat

definition ANALYSIS_RESOURCE_LIMITS :: analysis_resource_limits where
  "ANALYSIS_RESOURCE_LIMITS = \<lparr>li_collection_entries = 500000, li_live_entries = 1000000\<rparr>"

text \<open>
  The token is an atomic flag that another thread sets once.  What the analysis sees of it is
  the number of the read that first finds it set; \<open>None\<close> is a token that is never set.
\<close>

record analysis_budget =
  bu_limits :: analysis_resource_limits
  bu_cancelled_from :: "nat option"

text \<open>
  A computation under a budget: from the number of reads of the token so far to its result and
  the number of reads after it.  A panic is a failure of its own kind, so that a theorem can
  say that it does not occur.
\<close>

datatype analysis_failure = Refused analysis_error | Panicked string

type_synonym 'a analysis = "nat \<Rightarrow> (analysis_failure + 'a) \<times> nat"

definition done_with :: "'a \<Rightarrow> 'a analysis" where
  "done_with x = (\<lambda>n. (Inr x, n))"

definition fail_with :: "analysis_failure \<Rightarrow> 'a analysis" where
  "fail_with e = (\<lambda>n. (Inl e, n))"

definition next_do :: "'a analysis \<Rightarrow> ('a \<Rightarrow> 'b analysis) \<Rightarrow> 'b analysis" where
  "next_do m f = (\<lambda>n. case m n of (Inl e, k) \<Rightarrow> (Inl e, k) | (Inr x, k) \<Rightarrow> f x k)"

definition lifted :: "analysis_failure + 'a \<Rightarrow> 'a analysis" where
  "lifted r = (\<lambda>n. (r, n))"

text \<open>\<open>Option::expect\<close>.\<close>

definition expecting :: "string \<Rightarrow> 'a option \<Rightarrow> analysis_failure + 'a" where
  "expecting message x = ok_or x (Panicked message)"

definition is_cancelled :: "analysis_budget \<Rightarrow> bool analysis" where
  "is_cancelled b =
     (\<lambda>n. (Inr (case bu_cancelled_from b of None \<Rightarrow> False | Some k \<Rightarrow> k \<le> n), n + 1))"

definition cancelled :: "analysis_budget \<Rightarrow> analysis_resource_stage \<Rightarrow> string \<Rightarrow> unit analysis" where
  "cancelled b stage role =
     next_do (is_cancelled b) (\<lambda>c.
       if c then fail_with (Refused (ResourceError
         \<lparr>ad_code = ''resource.operation.cancelled'', ad_profile = ''local-standard-v1'',
          ad_profile_version = 1, ad_stage = stage, ad_role = role, ad_limit = 0,
          ad_observed = None, ad_unit = ''checkpoints'',
          ad_retryable_without_input_change = False, ad_complete_result = False\<rparr>))
       else done_with ())"

definition check_limit ::
    "analysis_budget \<Rightarrow> string \<Rightarrow> analysis_resource_stage \<Rightarrow> string \<Rightarrow> nat \<Rightarrow> nat \<Rightarrow> unit analysis" where
  "check_limit b code stage role limit observed =
     next_do (cancelled b stage role) (\<lambda>_.
       if limit < observed then fail_with (Refused (ResourceError
         \<lparr>ad_code = code, ad_profile = ''local-standard-v1'', ad_profile_version = 1,
          ad_stage = stage, ad_role = role, ad_limit = limit, ad_observed = Some observed,
          ad_unit = ''entries'', ad_retryable_without_input_change = False,
          ad_complete_result = False\<rparr>))
       else done_with ())"

definition collection :: "analysis_budget \<Rightarrow> analysis_resource_stage \<Rightarrow> string \<Rightarrow> nat \<Rightarrow> unit analysis" where
  "collection b stage role entries =
     check_limit b ''resource.analysis.collection_entries'' stage role
       (li_collection_entries (bu_limits b)) entries"

definition live :: "analysis_budget \<Rightarrow> analysis_resource_stage \<Rightarrow> string \<Rightarrow> nat \<Rightarrow> unit analysis" where
  "live b stage role entries =
     check_limit b ''resource.analysis.live_entries'' stage role (li_live_entries (bu_limits b)) entries"

definition checkpoint :: "analysis_budget \<Rightarrow> analysis_resource_stage \<Rightarrow> string \<Rightarrow> nat \<Rightarrow> unit analysis" where
  "checkpoint b stage role work_index =
     (if work_index mod 1000 = 0 then cancelled b stage role else done_with ())"

text \<open>
  \<open>for (index, x) in xs.enumerate() { budget.checkpoint(stage, role, index)?; .. }\<close>, with a body
  that may fail but does not look at the token.
\<close>

fun checked_loop ::
    "(nat \<Rightarrow> unit analysis) \<Rightarrow> ('s \<Rightarrow> 'x \<Rightarrow> analysis_failure + 's) \<Rightarrow> nat \<Rightarrow> 's \<Rightarrow> 'x list \<Rightarrow> 's analysis" where
  "checked_loop check body index s [] = done_with s"
| "checked_loop check body index s (x # xs) =
     next_do (check index) (\<lambda>_.
     next_do (lifted (body s x)) (\<lambda>s'. checked_loop check body (index + 1) s' xs))"

fun each_do :: "('x \<Rightarrow> 'y analysis) \<Rightarrow> 'x list \<Rightarrow> 'y list analysis" where
  "each_do f [] = done_with []"
| "each_do f (x # xs) = next_do (f x) (\<lambda>y. next_do (each_do f xs) (\<lambda>ys. done_with (y # ys)))"

section \<open>What a computation returns, and that it does not panic\<close>

definition returns :: "'a analysis \<Rightarrow> 'a \<Rightarrow> bool" where
  "returns m x \<longleftrightarrow> (\<exists>n k. m n = (Inr x, k))"

definition panics :: "'a analysis \<Rightarrow> bool" where
  "panics m \<longleftrightarrow> (\<exists>n k message. m n = (Inl (Panicked message), k))"

named_theorems returns_simps \<open>when a computation under a budget returns a value\<close>

lemma returns_done [returns_simps]: "returns (done_with x) y \<longleftrightarrow> y = x"
  by (auto simp: returns_def done_with_def)

lemma returns_fail [returns_simps]: "returns (fail_with e) y \<longleftrightarrow> False"
  by (simp add: returns_def fail_with_def)

lemma returns_lifted [returns_simps]: "returns (lifted r) y \<longleftrightarrow> r = Inr y"
  by (auto simp: returns_def lifted_def)

lemma returns_nextD: "returns (next_do m f) y \<Longrightarrow> \<exists>x. returns m x \<and> returns (f x) y"
proof -
  assume "returns (next_do m f) y"
  then obtain n k where "next_do m f n = (Inr y, k)" by (auto simp: returns_def)
  then obtain x j where "m n = (Inr x, j)" "f x j = (Inr y, k)"
    by (cases "m n"; cases "fst (m n)") (simp_all add: next_do_def)
  then show ?thesis unfolding returns_def by blast
qed

lemma panics_next: "panics (next_do m f) \<Longrightarrow> panics m \<or> (\<exists>x. returns m x \<and> panics (f x))"
proof -
  assume "panics (next_do m f)"
  then obtain n k message where p: "next_do m f n = (Inl (Panicked message), k)" by (auto simp: panics_def)
  show ?thesis
  proof (cases "fst (m n)")
    case (Inl e)
    with p have "m n = (Inl (Panicked message), k)" by (cases "m n") (simp add: next_do_def)
    then show ?thesis unfolding panics_def by blast
  next
    case (Inr x)
    with p have "m n = (Inr x, snd (m n))" "f x (snd (m n)) = (Inl (Panicked message), k)"
      by (cases "m n"; simp add: next_do_def)+
    then show ?thesis unfolding panics_def returns_def by blast
  qed
qed

lemma no_panic_next:
  assumes "\<not> panics m" and "\<And>x. returns m x \<Longrightarrow> \<not> panics (f x)"
  shows "\<not> panics (next_do m f)"
  using assms panics_next by blast

lemma panics_simps [simp]:
  "\<not> panics (done_with x)" "\<not> panics (fail_with (Refused e))"
  "panics (lifted r) \<longleftrightarrow> (\<exists>message. r = Inl (Panicked message))"
  by (auto simp: panics_def done_with_def fail_with_def lifted_def)

lemma budget_panics [simp]:
  "\<not> panics (cancelled b stage role)" "\<not> panics (check_limit b code stage role limit observed)"
  "\<not> panics (collection b stage role k)" "\<not> panics (live b stage role k)" "\<not> panics (checkpoint b stage role k)"
proof -
  have "\<not> panics (is_cancelled b)" by (simp add: panics_def is_cancelled_def)
  then show c: "\<not> panics (cancelled b stage role)" for stage role
    by (auto simp: cancelled_def dest!: panics_next split: if_splits)
  then show l: "\<not> panics (check_limit b code stage role limit observed)" for code stage role limit observed
    by (auto simp: check_limit_def dest!: panics_next split: if_splits)
  then show "\<not> panics (collection b stage role k)" "\<not> panics (live b stage role k)"
    by (simp_all add: collection_def live_def)
  from c show "\<not> panics (checkpoint b stage role k)" by (simp add: checkpoint_def)
qed

lemma checked_loop_returns: "returns (checked_loop check body i s xs) t \<Longrightarrow> try_fold body s xs = Inr t"
  by (induction xs arbitrary: i s)
    (auto simp: returns_simps and_then_Inr dest!: returns_nextD)

lemma each_do_returns: "returns (each_do f xs) ys \<Longrightarrow> list_all2 (\<lambda>x y. returns (f x) y) xs ys"
  by (induction xs arbitrary: ys) (auto simp: returns_simps dest!: returns_nextD)

text \<open>A loop panics only when its body does, in a state the loop reached.\<close>

lemma checked_loop_panics:
  assumes "panics (checked_loop check body i s xs)" and "\<And>i. \<not> panics (check i)"
  shows "\<exists>ys x zs t message. xs = ys @ x # zs \<and> try_fold body s ys = Inr t \<and> body t x = Inl (Panicked message)"
  using assms(1)
proof (induction xs arbitrary: i s)
  case (Cons x xs)
  from Cons.prems consider message where "body s x = Inl (Panicked message)"
    | t where "body s x = Inr t" "panics (checked_loop check body (i + 1) t xs)"
    using assms(2) by (auto simp: returns_simps dest!: panics_next)
  then show ?case
  proof cases
    case 1
    then show ?thesis by (metis append_Nil try_fold.simps(1))
  next
    case 2
    from Cons.IH [OF 2(2)] obtain ys y zs u message
      where "xs = ys @ y # zs" "try_fold body t ys = Inr u" "body u y = Inl (Panicked message)"
      by blast
    with 2(1) show ?thesis
      by (intro exI [of _ "x # ys"]) auto
  qed
qed simp

lemma loop_no_panic:
  assumes "\<And>i. \<not> panics (check i)" and "\<And>s x e. x \<in> set xs \<Longrightarrow> body s x \<noteq> Inl e"
  shows "\<not> panics (checked_loop check body i s xs)"
  using checked_loop_panics [of check body i s xs] assms by (metis in_set_conv_decomp)

lemma each_do_panics: "panics (each_do f xs) \<Longrightarrow> \<exists>x \<in> set xs. panics (f x)"
  by (induction xs) (auto dest!: panics_next)

end
