(* ===== verification/Comparison.thy ===== *)
theory Comparison
  imports AnalysisModel
begin

text \<open>
  The paired comparison of \<open>crates/analysis/src/comparison.rs\<close>: blocks of two adjacent slots of one
  band, the observations of each block grouped by stratum and remote path, duplicates resolved,
  and one delta for every path heard on both sides.  The functions follow the code from the
  helpers at its end to the two loops of \<open>analyze_paired_comparison\<close>.
\<close>

section \<open>Classified observations\<close>

datatype observation_disposition = Usable | Excluded observation_exclusion_reason

record 'j classified_observation =
  cl_observation :: "'j observation_record"
  cl_assignment :: observation_slot_assignment
  cl_disposition :: observation_disposition

section \<open>Keys\<close>

type_synonym stratum_key = "nat \<times> nat \<times> string \<times> nat \<times> nat"

type_synonym group_key = "stratum_key \<times> nat \<times> string"

primrec comparison_band_rank :: "band \<Rightarrow> nat" where
  "comparison_band_rank M160 = 0"
| "comparison_band_rank M80 = 1"
| "comparison_band_rank M60 = 2"
| "comparison_band_rank M40 = 3"
| "comparison_band_rank M30 = 4"
| "comparison_band_rank M20 = 5"
| "comparison_band_rank M17 = 6"
| "comparison_band_rank M15 = 7"
| "comparison_band_rank M12 = 8"
| "comparison_band_rank M10 = 9"
| "comparison_band_rank M6 = 10"
| "comparison_band_rank M2 = 11"

definition band_from_rank :: "nat \<Rightarrow> band" where
  "band_from_rank rank =
     (if rank = 0 then M160 else if rank = 1 then M80 else if rank = 2 then M60
      else if rank = 3 then M40 else if rank = 4 then M30 else if rank = 5 then M20
      else if rank = 6 then M17 else if rank = 7 then M15 else if rank = 8 then M12
      else if rank = 9 then M10 else if rank = 10 then M6 else M2)"

primrec source_rank :: "record_source \<Rightarrow> nat" where
  "source_rank Operator = 0"
| "source_rank WsjtxUdp = 1"
| "source_rank WsjtxLog = 2"
| "source_rank Wsprnet = 3"
| "source_rank WsprLive = 4"
| "source_rank ImportedFile = 5"
| "source_rank RigAdapter = 6"
| "source_rank NoaaSwpc = 7"
| "source_rank Derived = 8"

definition source_from_rank :: "nat \<Rightarrow> record_source" where
  "source_from_rank rank =
     (if rank = 0 then Operator else if rank = 1 then WsjtxUdp else if rank = 2 then WsjtxLog
      else if rank = 3 then Wsprnet else if rank = 4 then WsprLive else if rank = 5 then ImportedFile
      else if rank = 6 then RigAdapter else if rank = 7 then NoaaSwpc else Derived)"

definition stratum_key :: "comparison_stratum \<Rightarrow> stratum_key" where
  "stratum_key stratum =
     (case sm_direction stratum of PathTransmit \<Rightarrow> 0 | PathReceive \<Rightarrow> 1,
      comparison_band_rank (sm_band stratum),
      mode_str (sm_mode stratum),
      case sm_observation_kind stratum of LocalDecode \<Rightarrow> 0 | PublicReport \<Rightarrow> 1 | ImportedSpot \<Rightarrow> 2,
      source_rank (sm_source stratum))"

definition stratum_from_key :: "stratum_key \<Rightarrow> analysis_failure + comparison_stratum" where
  "stratum_from_key = (\<lambda>(direction, band, mode, kind, source).
     and_then (expecting ''stratum keys contain normalized modes'' (normalize_mode mode)) (\<lambda>mode.
       Inr \<lparr>sm_direction = (if direction = 0 then PathTransmit else PathReceive),
            sm_band = band_from_rank band, sm_mode = mode,
            sm_observation_kind = (if kind = 0 then LocalDecode else if kind = 1 then PublicReport else ImportedSpot),
            sm_source = source_from_rank source\<rparr>))"

section \<open>Paths\<close>

definition path_identity :: "'j bundle_contents \<Rightarrow> 'j observation_record \<Rightarrow> (path_direction \<times> string) option" where
  "path_identity bundle observation =
     (let local = trim (st_callsign (bc_station bundle));
          reporter = map_option trim (ob_reporter_call observation);
          heard = map_option trim (ob_heard_call observation);
          is_local = (\<lambda>call. case call of None \<Rightarrow> False | Some c \<Rightarrow> eq_ignore_ascii_case c local);
          remote = (\<lambda>direction call. case call of None \<Rightarrow> None
             | Some c \<Rightarrow> bool_then (c \<noteq> []) (direction, map ascii_upper c))
      in if \<not> is_local reporter \<and> is_local heard then remote PathTransmit reporter
         else if is_local reporter \<and> \<not> is_local heard then remote PathReceive heard
         else None)"

definition remote_grid_of :: "'j bundle_contents \<Rightarrow> 'j observation_record \<Rightarrow> string option" where
  "remote_grid_of bundle observation =
     (let local = trim (st_callsign (bc_station bundle));
          is_local = (\<lambda>call. case call of None \<Rightarrow> False | Some c \<Rightarrow> eq_ignore_ascii_case (trim c) local)
      in if is_local (ob_heard_call observation) then ob_reporter_grid observation
         else if is_local (ob_reporter_call observation) then ob_heard_grid observation
         else None)"

section \<open>Duplicates\<close>

record 'j resolved_observation =
  ro_finite :: "'j observation_record option"
  ro_missing_snr :: bool
  ro_duplicate_count :: nat
  ro_conflict :: bool

definition unresolved :: "'j resolved_observation" where
  "unresolved = \<lparr>ro_finite = None, ro_missing_snr = False, ro_duplicate_count = 0, ro_conflict = False\<rparr>"

definition exact_duplicates :: "'j observation_record \<Rightarrow> 'j observation_record \<Rightarrow> bool" where
  "exact_duplicates a b \<longleftrightarrow>
     rm_timestamp (ob_meta a) = rm_timestamp (ob_meta b) \<and>
     ob_snr_db a = ob_snr_db b \<and>
     ob_reporter_grid a = ob_reporter_grid b \<and>
     ob_heard_grid a = ob_heard_grid b \<and>
     ob_distance_km a = ob_distance_km b \<and>
     ob_azimuth_degrees a = ob_azimuth_degrees b"

definition resolve :: "'j observation_record list \<Rightarrow> 'j resolved_observation" where
  "resolve observations =
     (case sort_key ob_observation_id observations of
        [] \<Rightarrow> unresolved
      | first # rest \<Rightarrow>
          if \<not> list_all (exact_duplicates first) rest then unresolved\<lparr>ro_conflict := True\<rparr>
          else
            let duplicate_count = length rest in
            (case ob_snr_db first of
               Some snr \<Rightarrow>
                 if is_finite snr
                 then unresolved\<lparr>ro_finite := Some first, ro_duplicate_count := duplicate_count\<rparr>
                 else unresolved\<lparr>ro_missing_snr := True, ro_duplicate_count := duplicate_count\<rparr>
             | None \<Rightarrow> unresolved\<lparr>ro_missing_snr := True, ro_duplicate_count := duplicate_count\<rparr>))"

definition first_of :: "'x list \<Rightarrow> 'x option" where
  "first_of xs = (case xs of [] \<Rightarrow> None | x # _ \<Rightarrow> Some x)"

section \<open>Statistics\<close>

definition median :: "fl list \<Rightarrow> fl" where
  "median vs =
     (let middle = length vs div 2 in
      if even (length vs) then f64_div (f64_add (vs ! (middle - 1)) (vs ! middle)) (Finite 2)
      else vs ! middle)"

definition snr_statistics_of :: "fl list \<Rightarrow> snr_statistics option" where
  "snr_statistics_of vs =
     (if vs = [] then None
      else Some \<lparr>ns_sample_count = length vs, ns_min_db = vs ! 0, ns_median_db = median vs,
             ns_mean_db = f64_div (f64_sum vs) (f64_of_nat (length vs)),
             ns_max_db = vs ! (length vs - 1)\<rparr>)"

section \<open>Blocks\<close>

definition scheduled_labels :: "'j bundle_contents \<Rightarrow> string list" where
  "scheduled_labels bundle =
     foldl (\<lambda>labels slot. if ps_antenna_label slot \<in> set labels then labels
              else labels @ [ps_antenna_label slot]) [] (sc_slots (bc_schedule bundle))"

definition block_state ::
    "aligned_slot \<Rightarrow> aligned_slot option \<Rightarrow> string \<Rightarrow> string
       \<Rightarrow> comparison_order option \<times> comparison_block_eligibility" where
  "block_state first second left right =
     (case second of
        None \<Rightarrow> (None, IncompleteSameBandRun)
      | Some second \<Rightarrow>
          (case (as_actual_label first, as_actual_label second) of
             (Some first_label, Some second_label) \<Rightarrow>
               if first_label = second_label then (None, RepeatedLabel)
               else if first_label = left \<and> second_label = right then (Some LeftThenRight, Eligible)
               else if first_label = right \<and> second_label = left then (Some RightThenLeft, Eligible)
               else (None, UnsupportedLabel)
           | _ \<Rightarrow> (None, MissingActualLabel)))"

text \<open>\<open>chunks(2)\<close>: the pairs of neighbours, the last possibly alone.\<close>

fun chunks2 :: "'x list \<Rightarrow> ('x \<times> 'x option) list" where
  "chunks2 [] = []"
| "chunks2 [x] = [(x, None)]"
| "chunks2 (x # y # xs) = (x, Some y) # chunks2 xs"

text \<open>The maximal runs of slots of one band.\<close>

function band_runs :: "aligned_slot list \<Rightarrow> aligned_slot list list" where
  "band_runs [] = []"
| "band_runs (x # xs) =
     (x # takeWhile (\<lambda>y. as_band y = as_band x) xs) # band_runs (dropWhile (\<lambda>y. as_band y = as_band x) xs)"
  by pat_completeness auto
termination
  by (relation "measure length") (auto simp: le_imp_less_Suc length_dropWhile_le)

definition ambiguous_sequence_order :: "aligned_slot list \<Rightarrow> bool" where
  "ambiguous_sequence_order slots \<longleftrightarrow>
     list_ex (\<lambda>(a, b). as_sequence_number a = as_sequence_number b) (zip slots (tl slots))"

definition comparison_block_of ::
    "bool \<Rightarrow> string \<Rightarrow> string \<Rightarrow> nat \<Rightarrow> aligned_slot \<Rightarrow> aligned_slot option \<Rightarrow> comparison_block" where
  "comparison_block_of ambiguous left right index first second =
     (let state = (if ambiguous then (None, AmbiguousSequenceOrder) else block_state first second left right) in
      \<lparr>cb_block_index = index, cb_band = as_band first, cb_first_slot_id = as_slot_id first,
       cb_first_sequence_number = as_sequence_number first, cb_first_starts_at = as_starts_at first,
       cb_first_label = as_actual_label first, cb_first_status = as_status first,
       cb_second_slot_id = map_option as_slot_id second,
       cb_second_sequence_number = map_option as_sequence_number second,
       cb_second_starts_at = map_option as_starts_at second,
       cb_second_label = Option.bind second as_actual_label,
       cb_second_status = map_option as_status second,
       cb_order = fst state, cb_eligibility = snd state\<rparr>)"

definition build_blocks :: "aligned_slot list \<Rightarrow> string \<Rightarrow> string \<Rightarrow> comparison_block list" where
  "build_blocks slots left right =
     map (\<lambda>(index, first, second).
            comparison_block_of (ambiguous_sequence_order slots) left right index first second)
       (enumerate 0 (concat (map chunks2 (band_runs slots))))"

section \<open>The timeline\<close>

definition timeline_row ::
    "comparison_block \<Rightarrow> nat \<Rightarrow> string \<Rightarrow> timestamp \<Rightarrow> string option \<Rightarrow> aligned_slot_status
       \<Rightarrow> string \<Rightarrow> string \<Rightarrow> comparison_timeline_row" where
  "timeline_row block sequence_number slot_id starts_at actual_label status left right =
     \<lparr>tr_block_index = cb_block_index block, tr_block_eligible = (cb_eligibility block = Eligible),
      tr_sequence_number = sequence_number, tr_slot_id = slot_id, tr_starts_at = starts_at,
      tr_band = cb_band block, tr_actual_label = actual_label,
      tr_side = (if actual_label = Some left then Some LeftSide
                 else if actual_label = Some right then Some RightSide else None),
      tr_status = status, tr_total_observation_count = 0, tr_usable_observation_count = 0,
      tr_excluded_observation_count = 0, tr_missing_snr_count = 0,
      tr_missing_or_invalid_mode_count = 0, tr_ambiguous_path_count = 0,
      tr_exact_duplicate_count = 0, tr_conflicting_duplicate_group_count = 0\<rparr>"

definition block_timeline_rows :: "string \<Rightarrow> string \<Rightarrow> comparison_block \<Rightarrow> comparison_timeline_row list" where
  "block_timeline_rows left right block =
     timeline_row block (cb_first_sequence_number block) (cb_first_slot_id block)
       (cb_first_starts_at block) (cb_first_label block) (cb_first_status block) left right #
     (case (cb_second_sequence_number block, cb_second_slot_id block, cb_second_starts_at block,
            cb_second_status block) of
        (Some sequence, Some slot_id, Some starts_at, Some status) \<Rightarrow>
          [timeline_row block sequence slot_id starts_at (cb_second_label block) status left right]
      | _ \<Rightarrow> [])"

definition build_timeline_rows ::
    "comparison_block list \<Rightarrow> string \<Rightarrow> string \<Rightarrow> comparison_timeline_row list" where
  "build_timeline_rows bs left right =
     sort_key (\<lambda>row. (tr_sequence_number row, tr_slot_id row))
       (concat (map (block_timeline_rows left right) bs))"

text \<open>\<open>collect::<HashMap>\<close>: of entries with one key, the last stays.\<close>

definition hash_of :: "('k \<times> 'v) list \<Rightarrow> 'k \<Rightarrow> 'v option" where
  "hash_of entries = map_of (rev entries)"

definition slot_locations_of :: "comparison_timeline_row list \<Rightarrow> string \<Rightarrow> nat option" where
  "slot_locations_of rows = hash_of (map (\<lambda>(index, row). (tr_slot_id row, index)) (enumerate 0 rows))"

definition block_by_slot_of :: "comparison_block list \<Rightarrow> string \<Rightarrow> nat option" where
  "block_by_slot_of bs =
     hash_of (concat (map (\<lambda>block.
       (cb_first_slot_id block, cb_block_index block) #
       (case cb_second_slot_id block of None \<Rightarrow> [] | Some slot_id \<Rightarrow> [(slot_id, cb_block_index block)]))
       bs))"

text \<open>
  An update of the timeline row of a slot, if the timeline has one.  The locations are the
  positions of the rows, so the index is always in range.
\<close>

definition at_slot ::
    "(string \<Rightarrow> nat option) \<Rightarrow> string option \<Rightarrow> (comparison_timeline_row \<Rightarrow> comparison_timeline_row)
       \<Rightarrow> comparison_timeline_row list \<Rightarrow> comparison_timeline_row list" where
  "at_slot slot_locations slot_id f rows =
     (case Option.bind slot_id slot_locations of None \<Rightarrow> rows | Some i \<Rightarrow> rows[i := f (rows ! i)])"

section \<open>The first loop: grouping\<close>

record 'j pair_group =
  pg_left :: "'j observation_record list"
  pg_right :: "'j observation_record list"

definition add_to_group ::
    "comparison_side \<Rightarrow> 'j observation_record \<Rightarrow> 'j pair_group option \<Rightarrow> 'j pair_group" where
  "add_to_group side observation grp =
     (let g = (case grp of None \<Rightarrow> \<lparr>pg_left = [], pg_right = []\<rparr> | Some g \<Rightarrow> g) in
      case side of
        LeftSide \<Rightarrow> g\<lparr>pg_left := pg_left g @ [observation]\<rparr>
      | RightSide \<Rightarrow> g\<lparr>pg_right := pg_right g @ [observation]\<rparr>)"

definition count_if :: "bool \<Rightarrow> nat" where
  "count_if b = (if b then 1 else 0)"

definition incremented :: "nat option \<Rightarrow> nat" where
  "incremented v = (case v of None \<Rightarrow> 1 | Some n \<Rightarrow> n + 1)"

record 'j grouping =
  gr_diagnostics :: comparison_diagnostics
  gr_timeline_rows :: "comparison_timeline_row list"
  gr_exclusions_by_stratum :: "(stratum_key \<times> nat) list"
  gr_groups :: "(group_key \<times> 'j pair_group) list"

definition observation_mode :: "'j observation_record \<Rightarrow> signal_mode_name option" where
  "observation_mode observation = Option.bind (ob_mode observation) normalize_mode"

definition observation_stratum ::
    "'j observation_record \<Rightarrow> path_direction \<Rightarrow> signal_mode_name \<Rightarrow> comparison_stratum" where
  "observation_stratum observation direction mode =
     \<lparr>sm_direction = direction, sm_band = ob_band observation, sm_mode = mode,
      sm_observation_kind = ob_observation_kind observation, sm_source = rm_source (ob_meta observation)\<rparr>"

definition count_excluded ::
    "'j bundle_contents \<Rightarrow> 'j observation_record \<Rightarrow> 'j grouping \<Rightarrow> 'j grouping" where
  "count_excluded bundle observation s =
     (let s = s\<lparr>gr_diagnostics := (gr_diagnostics s)
            \<lparr>cd_excluded_observation_count := cd_excluded_observation_count (gr_diagnostics s) + 1\<rparr>\<rparr> in
      case (path_identity bundle observation, observation_mode observation) of
        (Some (direction, _), Some mode) \<Rightarrow>
          s\<lparr>gr_exclusions_by_stratum :=
              bt_entry (stratum_key (observation_stratum observation direction mode)) incremented
                (gr_exclusions_by_stratum s)\<rparr>
      | _ \<Rightarrow> s)"

definition count_in_timeline :: "observation_disposition \<Rightarrow> comparison_timeline_row \<Rightarrow> comparison_timeline_row" where
  "count_in_timeline disposition row =
     (let row = row\<lparr>tr_total_observation_count := tr_total_observation_count row + 1\<rparr> in
      case disposition of
        Usable \<Rightarrow> row\<lparr>tr_usable_observation_count := tr_usable_observation_count row + 1\<rparr>
      | Excluded _ \<Rightarrow> row\<lparr>tr_excluded_observation_count := tr_excluded_observation_count row + 1\<rparr>)"

definition block_side :: "string \<Rightarrow> string \<Rightarrow> observation_slot_assignment \<Rightarrow> comparison_side option" where
  "block_side left_label right_label a =
     (if oa_slot_label a = Some left_label then Some LeftSide
      else if oa_slot_label a = Some right_label then Some RightSide else None)"

definition count_ambiguous_path ::
    "(string \<Rightarrow> nat option) \<Rightarrow> string \<Rightarrow> 'j grouping \<Rightarrow> 'j grouping" where
  "count_ambiguous_path slot_locations slot_id s =
     s\<lparr>gr_diagnostics := (gr_diagnostics s)
          \<lparr>cd_ambiguous_path_count := cd_ambiguous_path_count (gr_diagnostics s) + 1\<rparr>,
       gr_timeline_rows := at_slot slot_locations (Some slot_id)
          (\<lambda>row. row\<lparr>tr_ambiguous_path_count := tr_ambiguous_path_count row + 1\<rparr>) (gr_timeline_rows s)\<rparr>"

definition count_missing_mode ::
    "(string \<Rightarrow> nat option) \<Rightarrow> string \<Rightarrow> string option \<Rightarrow> 'j grouping \<Rightarrow> 'j grouping" where
  "count_missing_mode slot_locations slot_id mode_value s =
     (let d = gr_diagnostics s;
          missing = (case mode_value of None \<Rightarrow> True | Some v \<Rightarrow> trim v = []) in
      s\<lparr>gr_diagnostics := d
          \<lparr>cd_missing_or_invalid_mode_count := cd_missing_or_invalid_mode_count d + 1,
           cd_missing_mode_count := cd_missing_mode_count d + count_if missing,
           cd_malformed_mode_count := cd_malformed_mode_count d + count_if (\<not> missing)\<rparr>,
        gr_timeline_rows := at_slot slot_locations (Some slot_id)
          (\<lambda>row. row\<lparr>tr_missing_or_invalid_mode_count := tr_missing_or_invalid_mode_count row + 1\<rparr>)
          (gr_timeline_rows s)\<rparr>)"

definition group_usable ::
    "'j bundle_contents \<Rightarrow> (string \<Rightarrow> nat option) \<Rightarrow> string \<Rightarrow> nat \<Rightarrow> comparison_side
       \<Rightarrow> 'j observation_record \<Rightarrow> 'j grouping \<Rightarrow> 'j grouping" where
  "group_usable bundle slot_locations slot_id block_index side observation s =
     (let path = path_identity bundle observation;
          s = (if path = None then count_ambiguous_path slot_locations slot_id s else s);
          mode = observation_mode observation;
          s = (if mode = None then count_missing_mode slot_locations slot_id (ob_mode observation) s else s)
      in case (path, mode) of
           (Some (direction, remote_path), Some mode) \<Rightarrow>
             s\<lparr>gr_groups :=
                 bt_entry (stratum_key (observation_stratum observation direction mode), block_index, remote_path)
                   (add_to_group side observation) (gr_groups s)\<rparr>
         | _ \<Rightarrow> s)"

definition group_step ::
    "'j bundle_contents \<Rightarrow> comparison_block list \<Rightarrow> (string \<Rightarrow> nat option) \<Rightarrow> (string \<Rightarrow> nat option)
       \<Rightarrow> string \<Rightarrow> string \<Rightarrow> 'j grouping \<Rightarrow> 'j classified_observation \<Rightarrow> 'j grouping" where
  "group_step bundle bs slot_locations block_by_slot left_label right_label s classified =
     (let observation = cl_observation classified;
          s = (if cl_disposition classified \<noteq> Usable then count_excluded bundle observation s else s)
      in case oa_slot_id (cl_assignment classified) of
           None \<Rightarrow> s
         | Some slot_id \<Rightarrow>
             let s = s\<lparr>gr_timeline_rows := at_slot slot_locations (Some slot_id)
                        (count_in_timeline (cl_disposition classified)) (gr_timeline_rows s)\<rparr>
             in if cl_disposition classified \<noteq> Usable then s
                else case block_by_slot slot_id of
                  None \<Rightarrow> s
                | Some block_index \<Rightarrow>
                    if cb_eligibility (bs ! block_index) \<noteq> Eligible then s
                    else case block_side left_label right_label (cl_assignment classified) of
                      None \<Rightarrow> s
                    | Some side \<Rightarrow>
                        group_usable bundle slot_locations slot_id block_index side observation s)"

section \<open>The second loop: pairing\<close>

record overlap_accumulator =
  ov_left_finite_count :: nat
  ov_right_finite_count :: nat
  ov_paired_count :: nat
  ov_unmatched_left_count :: nat
  ov_unmatched_right_count :: nat
  ov_missing_snr_left_count :: nat
  ov_missing_snr_right_count :: nat
  ov_exact_duplicate_count :: nat
  ov_conflicting_duplicate_group_count :: nat

definition overlap_default :: overlap_accumulator where
  "overlap_default = \<lparr>ov_left_finite_count = 0, ov_right_finite_count = 0, ov_paired_count = 0,
     ov_unmatched_left_count = 0, ov_unmatched_right_count = 0, ov_missing_snr_left_count = 0,
     ov_missing_snr_right_count = 0, ov_exact_duplicate_count = 0, ov_conflicting_duplicate_group_count = 0\<rparr>"

record stratum_accumulator =
  sc_blocks :: "nat set"
  sc_paired_blocks :: "nat set"
  sc_orders :: "(nat \<times> comparison_order) set"
  sc_deltas :: "fl list"
  sc_unmatched_left_count :: nat
  sc_unmatched_right_count :: nat
  sc_missing_snr_left_count :: nat
  sc_missing_snr_right_count :: nat
  sc_exact_duplicate_count :: nat
  sc_conflicting_duplicate_group_count :: nat

definition stratum_default :: stratum_accumulator where
  "stratum_default = \<lparr>sc_blocks = {}, sc_paired_blocks = {}, sc_orders = {}, sc_deltas = [],
     sc_unmatched_left_count = 0, sc_unmatched_right_count = 0, sc_missing_snr_left_count = 0,
     sc_missing_snr_right_count = 0, sc_exact_duplicate_count = 0, sc_conflicting_duplicate_group_count = 0\<rparr>"

definition unwrap_or :: "'a \<Rightarrow> 'a option \<Rightarrow> 'a" where
  "unwrap_or d v = (case v of None \<Rightarrow> d | Some x \<Rightarrow> x)"

record 'j pairing =
  pr_diagnostics :: comparison_diagnostics
  pr_timeline_rows :: "comparison_timeline_row list"
  pr_paired_rows :: "paired_observation_row list"
  pr_overlaps :: "((stratum_key \<times> string) \<times> overlap_accumulator) list"
  pr_strata :: "(stratum_key \<times> stratum_accumulator) list"
  pr_profiles :: "((stratum_key \<times> nat \<times> string) \<times> (nat \<times> 'j observation_record) list) list"

text \<open>The facts about one group that every counter of the loop body is computed from.\<close>

definition unmatched :: "'j resolved_observation \<Rightarrow> 'j resolved_observation \<Rightarrow> bool" where
  "unmatched this other \<longleftrightarrow> ro_finite this \<noteq> None \<and> ro_finite other = None \<and> \<not> ro_conflict other"

definition duplicates_in :: "'j resolved_observation \<Rightarrow> 'j resolved_observation \<Rightarrow> nat" where
  "duplicates_in left right = ro_duplicate_count left + ro_duplicate_count right"

definition conflicts_in :: "'j resolved_observation \<Rightarrow> 'j resolved_observation \<Rightarrow> nat" where
  "conflicts_in left right = count_if (ro_conflict left) + count_if (ro_conflict right)"

definition mark_quality ::
    "(string \<Rightarrow> nat option) \<Rightarrow> 'j observation_record option \<Rightarrow> 'j resolved_observation
       \<Rightarrow> comparison_timeline_row list \<Rightarrow> comparison_timeline_row list" where
  "mark_quality slot_locations observation r =
     at_slot slot_locations (Option.bind observation ob_slot_id)
       (\<lambda>row. row\<lparr>tr_exact_duplicate_count := tr_exact_duplicate_count row + ro_duplicate_count r,
          tr_conflicting_duplicate_group_count :=
            tr_conflicting_duplicate_group_count row + count_if (ro_conflict r)\<rparr>)"

definition mark_missing ::
    "(string \<Rightarrow> nat option) \<Rightarrow> 'j observation_record option \<Rightarrow> 'j resolved_observation
       \<Rightarrow> comparison_timeline_row list \<Rightarrow> comparison_timeline_row list" where
  "mark_missing slot_locations observation r rows =
     (if ro_missing_snr r
      then at_slot slot_locations (Option.bind observation ob_slot_id)
             (\<lambda>row. row\<lparr>tr_missing_snr_count := tr_missing_snr_count row + 1\<rparr>) rows
      else rows)"

definition count_group ::
    "'j resolved_observation \<Rightarrow> 'j resolved_observation \<Rightarrow> comparison_diagnostics \<Rightarrow> comparison_diagnostics" where
  "count_group left right d =
     d\<lparr>cd_exact_duplicate_count := cd_exact_duplicate_count d + duplicates_in left right,
       cd_conflicting_duplicate_group_count := cd_conflicting_duplicate_group_count d + conflicts_in left right,
       cd_missing_snr_left_count := cd_missing_snr_left_count d + count_if (ro_missing_snr left),
       cd_missing_snr_right_count := cd_missing_snr_right_count d + count_if (ro_missing_snr right),
       cd_unmatched_left_count := cd_unmatched_left_count d + count_if (unmatched left right),
       cd_unmatched_right_count := cd_unmatched_right_count d + count_if (unmatched right left)\<rparr>"

definition count_stratum ::
    "nat \<Rightarrow> 'j resolved_observation \<Rightarrow> 'j resolved_observation \<Rightarrow> stratum_accumulator option \<Rightarrow> stratum_accumulator" where
  "count_stratum block_index left right v =
     (let a = unwrap_or stratum_default v in
      a\<lparr>sc_exact_duplicate_count := sc_exact_duplicate_count a + duplicates_in left right,
        sc_conflicting_duplicate_group_count := sc_conflicting_duplicate_group_count a + conflicts_in left right,
        sc_blocks := insert block_index (sc_blocks a),
        sc_missing_snr_left_count := sc_missing_snr_left_count a + count_if (ro_missing_snr left),
        sc_missing_snr_right_count := sc_missing_snr_right_count a + count_if (ro_missing_snr right),
        sc_unmatched_left_count := sc_unmatched_left_count a + count_if (unmatched left right),
        sc_unmatched_right_count := sc_unmatched_right_count a + count_if (unmatched right left)\<rparr>)"

definition count_overlap ::
    "'j resolved_observation \<Rightarrow> 'j resolved_observation \<Rightarrow> overlap_accumulator option \<Rightarrow> overlap_accumulator" where
  "count_overlap left right v =
     (let o' = unwrap_or overlap_default v in
      o'\<lparr>ov_exact_duplicate_count := ov_exact_duplicate_count o' + duplicates_in left right,
         ov_conflicting_duplicate_group_count := ov_conflicting_duplicate_group_count o' + conflicts_in left right,
         ov_missing_snr_left_count := ov_missing_snr_left_count o' + count_if (ro_missing_snr left),
         ov_missing_snr_right_count := ov_missing_snr_right_count o' + count_if (ro_missing_snr right),
         ov_left_finite_count := ov_left_finite_count o' + count_if (ro_finite left \<noteq> None),
         ov_right_finite_count := ov_right_finite_count o' + count_if (ro_finite right \<noteq> None),
         ov_unmatched_left_count := ov_unmatched_left_count o' + count_if (unmatched left right),
         ov_unmatched_right_count := ov_unmatched_right_count o' + count_if (unmatched right left),
         ov_paired_count := ov_paired_count o' + count_if (ro_finite left \<noteq> None \<and> ro_finite right \<noteq> None)\<rparr>)"

text \<open>
  The observation that stands for a side in the profile of its antenna: the resolved one, or,
  when its SNR is missing, the one that was grouped first.
\<close>

definition profile_observation ::
    "'j observation_record option \<Rightarrow> 'j resolved_observation \<Rightarrow> 'j observation_record option" where
  "profile_observation first r =
     (if ro_conflict r then None else or_else (ro_finite r) (if ro_missing_snr r then first else None))"

definition add_profile ::
    "stratum_key \<Rightarrow> nat \<Rightarrow> string \<Rightarrow> nat \<Rightarrow> 'j observation_record option
       \<Rightarrow> ((stratum_key \<times> nat \<times> string) \<times> (nat \<times> 'j observation_record) list) list
       \<Rightarrow> ((stratum_key \<times> nat \<times> string) \<times> (nat \<times> 'j observation_record) list) list" where
  "add_profile key side remote_path block_index observation profiles =
     (case observation of
        None \<Rightarrow> profiles
      | Some ob \<Rightarrow> bt_entry (key, side, remote_path) (pushed (block_index, ob)) profiles)"

definition count_pair ::
    "nat \<Rightarrow> comparison_order \<Rightarrow> fl \<Rightarrow> stratum_accumulator option \<Rightarrow> stratum_accumulator" where
  "count_pair block_index order delta v =
     (let a = unwrap_or stratum_default v in
      a\<lparr>sc_paired_blocks := insert block_index (sc_paired_blocks a),
        sc_orders := insert (block_index, order) (sc_orders a),
        sc_deltas := sc_deltas a @ [delta]\<rparr>)"

definition paired_row ::
    "'j bundle_contents \<Rightarrow> comparison_stratum \<Rightarrow> comparison_block \<Rightarrow> nat \<Rightarrow> string
       \<Rightarrow> 'j observation_record \<Rightarrow> 'j observation_record \<Rightarrow> analysis_failure + paired_observation_row" where
  "paired_row bundle stratum block block_index remote_path left right =
     and_then (expecting ''resolved finite SNR'' (ob_snr_db left)) (\<lambda>left_snr.
     and_then (expecting ''resolved finite SNR'' (ob_snr_db right)) (\<lambda>right_snr.
     and_then (expecting ''eligible block has an order'' (cb_order block)) (\<lambda>order.
     and_then (expecting ''usable observation has slot'' (ob_slot_id left)) (\<lambda>left_slot.
     and_then (expecting ''usable observation has slot'' (ob_slot_id right)) (\<lambda>right_slot.
     Inr \<lparr>pw_stratum = stratum, pw_block_index = block_index, pw_order = order,
          pw_remote_path = remote_path,
          pw_left_observation_id = ob_observation_id left, pw_right_observation_id = ob_observation_id right,
          pw_left_slot_id = left_slot, pw_right_slot_id = right_slot,
          pw_left_timestamp = rm_timestamp (ob_meta left), pw_right_timestamp = rm_timestamp (ob_meta right),
          pw_elapsed_seconds = \<bar>num_seconds (rm_timestamp (ob_meta right) - rm_timestamp (ob_meta left))\<bar>,
          pw_left_snr_db = left_snr, pw_right_snr_db = right_snr,
          pw_delta_right_minus_left_db = f64_sub right_snr left_snr,
          pw_left_remote_grid = remote_grid_of bundle left, pw_right_remote_grid = remote_grid_of bundle right,
          pw_left_distance_km = ob_distance_km left, pw_right_distance_km = ob_distance_km right,
          pw_left_azimuth_degrees = ob_azimuth_degrees left,
          pw_right_azimuth_degrees = ob_azimuth_degrees right\<rparr>)))))"

definition pair_step ::
    "'j bundle_contents \<Rightarrow> comparison_block list \<Rightarrow> (string \<Rightarrow> nat option) \<Rightarrow> 'j pairing
       \<Rightarrow> group_key \<times> 'j pair_group \<Rightarrow> analysis_failure + 'j pairing" where
  "pair_step bundle bs slot_locations s = (\<lambda>((key, block_index, remote_path), grp).
     and_then (stratum_from_key key) (\<lambda>stratum.
       let block = bs ! block_index;
           left = resolve (pg_left grp);
           right = resolve (pg_right grp);
           left_first = first_of (sort_key ob_observation_id (pg_left grp));
           right_first = first_of (sort_key ob_observation_id (pg_right grp));
           s = s\<lparr>pr_timeline_rows :=
                   mark_missing slot_locations right_first right
                     (mark_missing slot_locations left_first left
                       (mark_quality slot_locations right_first right
                         (mark_quality slot_locations left_first left (pr_timeline_rows s)))),
                 pr_diagnostics := count_group left right (pr_diagnostics s),
                 pr_strata := bt_entry key (count_stratum block_index left right) (pr_strata s),
                 pr_overlaps := bt_entry (key, remote_path) (count_overlap left right) (pr_overlaps s),
                 pr_profiles :=
                   add_profile key 1 remote_path block_index
                     (profile_observation (first_of (pg_right grp)) right)
                     (add_profile key 0 remote_path block_index
                       (profile_observation (first_of (pg_left grp)) left) (pr_profiles s))\<rparr>
       in case (ro_finite left, ro_finite right) of
            (Some left_observation, Some right_observation) \<Rightarrow>
              and_then (paired_row bundle stratum block block_index remote_path left_observation right_observation)
                (\<lambda>row. Inr (s\<lparr>
                   pr_strata := bt_entry key
                     (count_pair block_index (pw_order row) (pw_delta_right_minus_left_db row)) (pr_strata s),
                   pr_paired_rows := pr_paired_rows s @ [row]\<rparr>))
          | _ \<Rightarrow> Inr s))"

section \<open>Summaries\<close>

fun try_map :: "('a \<Rightarrow> 'e + 'b) \<Rightarrow> 'a list \<Rightarrow> 'e + 'b list" where
  "try_map f [] = Inr []"
| "try_map f (x # xs) = and_then (f x) (\<lambda>y. and_then (try_map f xs) (\<lambda>ys. Inr (y # ys)))"

definition paired_row_key :: "paired_observation_row \<Rightarrow> stratum_key \<times> string \<times> nat \<times> string \<times> string" where
  "paired_row_key row =
     (stratum_key (pw_stratum row), pw_remote_path row, pw_block_index row,
      pw_left_observation_id row, pw_right_observation_id row)"

definition build_overlap_rows ::
    "((stratum_key \<times> string) \<times> overlap_accumulator) list \<Rightarrow> analysis_failure + path_overlap_row list" where
  "build_overlap_rows overlaps =
     try_map (\<lambda>((key, remote_path), row).
       and_then (stratum_from_key key) (\<lambda>stratum.
         Inr \<lparr>po_stratum = stratum, po_remote_path = remote_path,
              po_left_finite_count = ov_left_finite_count row,
              po_right_finite_count = ov_right_finite_count row,
              po_paired_count = ov_paired_count row,
              po_unmatched_left_count = ov_unmatched_left_count row,
              po_unmatched_right_count = ov_unmatched_right_count row,
              po_missing_snr_left_count = ov_missing_snr_left_count row,
              po_missing_snr_right_count = ov_missing_snr_right_count row,
              po_exact_duplicate_count = ov_exact_duplicate_count row,
              po_conflicting_duplicate_group_count = ov_conflicting_duplicate_group_count row\<rparr>)) overlaps"

definition build_path_summaries ::
    "paired_observation_row list \<Rightarrow> analysis_failure + paired_path_summary list" where
  "build_path_summaries rows =
     try_map (\<lambda>((key, remote_path), deltas).
       and_then (stratum_from_key key) (\<lambda>stratum.
         Inr \<lparr>pp_stratum = stratum, pp_remote_path = remote_path, pp_paired_row_count = length deltas,
              pp_median_delta_right_minus_left_db = median (sort_key total_key deltas)\<rparr>))
       (foldl (\<lambda>paths row. bt_entry (stratum_key (pw_stratum row), pw_remote_path row)
                 (pushed (pw_delta_right_minus_left_db row)) paths) [] rows)"

definition build_strata ::
    "(stratum_key \<times> stratum_accumulator) list \<Rightarrow> paired_path_summary list \<Rightarrow> (stratum_key \<times> nat) list
       \<Rightarrow> analysis_failure + paired_stratum_summary list" where
  "build_strata accumulators paths exclusions_by_stratum =
     try_map (\<lambda>(key, a).
       let deltas = sort_key total_key (sc_deltas a);
           path_medians = sort_key total_key (map pp_median_delta_right_minus_left_db
             (filter (\<lambda>path. stratum_key (pp_stratum path) = key) paths))
       in and_then (stratum_from_key key) (\<lambda>stratum.
         Inr \<lparr>ps_stratum = stratum, ps_paired_row_count = length deltas,
              ps_unique_path_count = length path_medians,
              ps_contributing_block_count = card (sc_paired_blocks a),
              ps_left_then_right_block_count = card (Set.filter (\<lambda>(_, order). order = LeftThenRight) (sc_orders a)),
              ps_right_then_left_block_count = card (Set.filter (\<lambda>(_, order). order = RightThenLeft) (sc_orders a)),
              ps_unmatched_left_count = sc_unmatched_left_count a,
              ps_unmatched_right_count = sc_unmatched_right_count a,
              ps_missing_snr_left_count = sc_missing_snr_left_count a,
              ps_missing_snr_right_count = sc_missing_snr_right_count a,
              ps_excluded_observation_count = unwrap_or 0 (map_of exclusions_by_stratum key),
              ps_exact_duplicate_count = sc_exact_duplicate_count a,
              ps_conflicting_duplicate_group_count = sc_conflicting_duplicate_group_count a,
              ps_minimum_delta_right_minus_left_db = first_of deltas,
              ps_median_path_delta_right_minus_left_db = bool_then (path_medians \<noteq> []) (median path_medians),
              ps_maximum_delta_right_minus_left_db = first_of (rev deltas)\<rparr>))
       accumulators"

definition location_fact :: "'j bundle_contents \<Rightarrow> 'j observation_record \<Rightarrow> (string \<times> fl \<times> fl) option" where
  "location_fact bundle observation =
     Option.bind (remote_grid_of bundle observation) (\<lambda>grid.
       let grid = trim grid in
       Option.bind (ob_distance_km observation) (\<lambda>distance.
       Option.bind (ob_azimuth_degrees observation) (\<lambda>bearing.
         bool_then (grid \<noteq> [] \<and> is_finite distance \<and> fl_le (Finite 0) distance \<and> is_finite bearing \<and>
             fl_le (Finite 0) bearing \<and> fl_lt bearing (Finite 360))
           (map ascii_upper grid, distance, bearing))))"

definition observed_path_location_of ::
    "'j bundle_contents \<Rightarrow> (nat \<times> 'j observation_record) list \<Rightarrow> observed_path_location" where
  "observed_path_location_of bundle observations =
     (let facts = List.map_filter (\<lambda>(_, observation). location_fact bundle observation) observations in
      case facts of
        [] \<Rightarrow> LocationMissing
      | (grid, distance, bearing) # _ \<Rightarrow>
          if length facts \<noteq> length observations \<or> card (set facts) \<noteq> 1 then LocationInconsistent
          else LocationAvailable grid distance bearing)"

definition finish_observed_path ::
    "'j bundle_contents \<Rightarrow> string \<Rightarrow> (nat \<times> 'j observation_record) list \<Rightarrow> observed_antenna_path" where
  "finish_observed_path bundle remote_path accumulated =
     (let observations = sort_key (\<lambda>(_, observation). ob_observation_id observation) accumulated;
          block_indices = sorted_list_of_set (set (map fst observations));
          slot_ids = sorted_list_of_set (set (List.map_filter (\<lambda>(_, observation). ob_slot_id observation) observations));
          snr_values = sort_key total_key
            (filter is_finite (List.map_filter (\<lambda>(_, observation). ob_snr_db observation) observations))
      in \<lparr>op_remote_path = remote_path, op_location = observed_path_location_of bundle observations,
          op_block_support_count = length block_indices, op_slot_support_count = length slot_ids,
          op_observation_count = length observations, op_block_indices = block_indices,
          op_slot_ids = slot_ids,
          op_observation_ids = map (\<lambda>(_, observation). ob_observation_id observation) observations,
          op_snr = snr_statistics_of snr_values\<rparr>)"

definition build_observed_path_profiles ::
    "'j bundle_contents \<Rightarrow> ((stratum_key \<times> nat \<times> string) \<times> (nat \<times> 'j observation_record) list) list
       \<Rightarrow> string \<Rightarrow> string \<Rightarrow> analysis_failure + observed_antenna_path_profile list" where
  "build_observed_path_profiles bundle accumulators left_label right_label =
     try_map (\<lambda>((key, side), paths).
       and_then (stratum_from_key key) (\<lambda>stratum.
         let located = length (filter (\<lambda>p. case op_location p of LocationAvailable _ _ _ \<Rightarrow> True | _ \<Rightarrow> False) paths)
         in Inr \<lparr>pf_stratum = stratum, pf_side = (if side = 0 then LeftSide else RightSide),
              pf_antenna_label = (if side = 0 then left_label else right_label),
              pf_unique_path_count = length paths, pf_located_path_count = located,
              pf_missing_location_path_count = length (filter (\<lambda>p. op_location p = LocationMissing) paths),
              pf_inconsistent_location_path_count =
                length (filter (\<lambda>p. op_location p = LocationInconsistent) paths),
              pf_paths = paths\<rparr>))
       (foldl (\<lambda>grouped ((key, side, remote_path), accumulated).
           bt_entry (key, side) (pushed (finish_observed_path bundle remote_path accumulated)) grouped)
          [] accumulators)"

section \<open>The comparison\<close>

definition default_comparison_diagnostics :: comparison_diagnostics where
  "default_comparison_diagnostics =
     \<lparr>cd_block_count = 0, cd_eligible_block_count = 0, cd_invalid_block_count = 0,
      cd_left_then_right_block_count = 0, cd_right_then_left_block_count = 0, cd_paired_row_count = 0,
      cd_unique_path_count = 0, cd_unmatched_left_count = 0, cd_unmatched_right_count = 0,
      cd_missing_snr_left_count = 0, cd_missing_snr_right_count = 0, cd_missing_or_invalid_mode_count = 0,
      cd_missing_mode_count = 0, cd_malformed_mode_count = 0, cd_ambiguous_path_count = 0,
      cd_exact_duplicate_count = 0, cd_conflicting_duplicate_group_count = 0,
      cd_excluded_observation_count = 0\<rparr>"

definition unavailable :: "comparison_availability \<Rightarrow> string list \<Rightarrow> paired_comparison_analysis" where
  "unavailable availability labels =
     \<lparr>pc_availability = availability, pc_left_label = first_of labels, pc_right_label = first_of (tl labels),
      pc_delta_orientation =
        (case (first_of (tl labels), first_of labels) of
           (Some right, Some left) \<Rightarrow> Some (right, left) | _ \<Rightarrow> None),
      pc_diagnostics = default_comparison_diagnostics, pc_blocks = [], pc_overlap_rows = [],
      pc_timeline_rows = [], pc_paired_rows = [], pc_path_summaries = [], pc_strata = [],
      pc_observed_path_profiles = []\<rparr>"

definition block_diagnostics :: "comparison_block list \<Rightarrow> comparison_diagnostics" where
  "block_diagnostics bs =
     (let eligible = length (filter (\<lambda>b. cb_eligibility b = Eligible) bs) in
      default_comparison_diagnostics
        \<lparr>cd_block_count := length bs, cd_eligible_block_count := eligible,
         cd_invalid_block_count := length bs - eligible,
         cd_left_then_right_block_count := length (filter (\<lambda>b. cb_order b = Some LeftThenRight) bs),
         cd_right_then_left_block_count := length (filter (\<lambda>b. cb_order b = Some RightThenLeft) bs)\<rparr>)"

definition default_entries :: "(stratum_key \<times> nat) list \<Rightarrow> (stratum_key \<times> stratum_accumulator) list
    \<Rightarrow> (stratum_key \<times> stratum_accumulator) list" where
  "default_entries exclusions strata =
     foldl (\<lambda>m (key, _). bt_entry key (unwrap_or stratum_default) m) strata exclusions"

text \<open>Everything after the two loops.\<close>

definition finish_comparison ::
    "'j bundle_contents \<Rightarrow> string \<Rightarrow> string \<Rightarrow> comparison_block list \<Rightarrow> (stratum_key \<times> nat) list
       \<Rightarrow> 'j pairing \<Rightarrow> analysis_failure + paired_comparison_analysis" where
  "finish_comparison bundle left_label right_label bs exclusions s =
     (let paired_rows = sort_key paired_row_key (pr_paired_rows s) in
      and_then (build_overlap_rows (pr_overlaps s)) (\<lambda>overlap_rows.
      and_then (build_path_summaries paired_rows) (\<lambda>path_summaries.
      and_then (build_observed_path_profiles bundle (pr_profiles s) left_label right_label) (\<lambda>profiles.
      and_then (build_strata (default_entries exclusions (pr_strata s)) path_summaries exclusions) (\<lambda>strata.
        let diagnostics = (pr_diagnostics s)
              \<lparr>cd_paired_row_count := length paired_rows,
               cd_unique_path_count := card (set (map pw_remote_path paired_rows))\<rparr>
        in Inr \<lparr>pc_availability =
                  (if cd_eligible_block_count diagnostics = 0 then NoEligibleBlocks
                   else if paired_rows = [] then NoMatchedPaths else DescriptivePairsAvailable),
                pc_left_label = Some left_label, pc_right_label = Some right_label,
                pc_delta_orientation = Some (right_label, left_label),
                pc_diagnostics = diagnostics, pc_blocks = bs, pc_overlap_rows = overlap_rows,
                pc_timeline_rows = pr_timeline_rows s, pc_paired_rows = paired_rows,
                pc_path_summaries = path_summaries, pc_strata = strata,
                pc_observed_path_profiles = profiles\<rparr>)))))"

definition comparison_slots :: "aligned_slot list \<Rightarrow> aligned_slot list" where
  "comparison_slots slots = sort_key (\<lambda>slot. (as_sequence_number slot, as_slot_id slot)) slots"

definition analyze_paired_comparison ::
    "'j bundle_contents \<Rightarrow> aligned_slot list \<Rightarrow> 'j classified_observation list \<Rightarrow> analysis_budget
       \<Rightarrow> paired_comparison_analysis analysis" where
  "analyze_paired_comparison bundle slots observations budget =
     (let labels = scheduled_labels bundle in
      if sc_mode (bc_schedule bundle) = SingleAntennaProfilingMode then done_with (unavailable NotApplicable labels)
      else if length labels \<noteq> 2 then done_with (unavailable UnsupportedComparisonShape labels)
      else
        let left_label = labels ! 0;
            right_label = labels ! 1;
            bs = build_blocks (comparison_slots slots) left_label right_label;
            timeline_rows = build_timeline_rows bs left_label right_label;
            slot_locations = slot_locations_of timeline_rows;
            block_by_slot = block_by_slot_of bs
        in
        next_do (checked_loop (checkpoint budget StageCompare ''comparison_grouping'')
          (\<lambda>s c. Inr (group_step bundle bs slot_locations block_by_slot left_label right_label s c)) 0
          \<lparr>gr_diagnostics = block_diagnostics bs, gr_timeline_rows = timeline_rows,
           gr_exclusions_by_stratum = [], gr_groups = []\<rparr> observations) (\<lambda>g.
        next_do (checked_loop (checkpoint budget StageCompare ''comparison_pairing'')
          (pair_step bundle bs slot_locations) 0
          \<lparr>pr_diagnostics = gr_diagnostics g, pr_timeline_rows = gr_timeline_rows g, pr_paired_rows = [],
           pr_overlaps = [], pr_strata = [], pr_profiles = []\<rparr> (gr_groups g)) (\<lambda>s.
        lifted (finish_comparison bundle left_label right_label bs (gr_exclusions_by_stratum g) s))))"

end
