(* ===== verification/Activity.thy ===== *)
theory Activity
  imports Comparison BundleTypes WsprCycle
begin

text \<open>
  The reporter activity of \<open>crates/analysis/src/activity.rs\<close>: a census of the receivers that were
  active in a cycle gives the denominator of a hearing rate, and, for the two cycles of a block,
  the receivers active in both and which of the two transmissions each of them heard.
\<close>

section \<open>Data\<close>

datatype reporter_activity_unknown_reason =
    NoCensusCoverage | UnsupportedReceiveDirection | UnsupportedSignalMode

datatype reporter_activity_coverage =
    CoverageUnknown reporter_activity_unknown_reason | CoverageComplete | CoveragePartial | CoverageTruncated

definition is_known :: "reporter_activity_coverage \<Rightarrow> bool" where
  "is_known coverage \<longleftrightarrow> (case coverage of CoverageUnknown _ \<Rightarrow> False | _ \<Rightarrow> True)"

record reporter_activity_reporter =
  rr_reporter :: string
  rr_reporter_grid :: "string option"
  rr_census_record_id :: string

record reporter_activity_census_cycle =
  cc_cycle_time :: timestamp
  cc_band :: band
  cc_coverage :: reporter_activity_coverage
  cc_active_reporters :: "reporter_activity_reporter list"
  cc_summary_record_ids :: "string list"

record reporter_activity_cycle_rate =
  cr_stratum :: comparison_stratum
  cr_block_index :: "nat option"
  cr_side :: "comparison_side option"
  cr_slot_id :: string
  cr_antenna_label :: string
  cr_cycle_starts_at :: timestamp
  cr_census_cycle_index :: "nat option"
  cr_coverage :: reporter_activity_coverage
  cr_active_reporter_count :: nat
  cr_heard_reporter_count :: nat
  cr_hearing_rate :: "fl option"
  cr_heard_reporters :: "string list"

datatype reporter_activity_joint_outcome = HeardBoth | LeftOnly | RightOnly | HeardNeither

record reporter_activity_joint_receiver =
  jr_receiver :: string
  jr_receiver_grid :: "string option"
  jr_outcome :: reporter_activity_joint_outcome

record reporter_activity_paired_rate =
  ap_stratum :: comparison_stratum
  ap_block_index :: nat
  ap_order :: comparison_order
  ap_coverage :: reporter_activity_coverage
  ap_left_slot_id :: string
  ap_right_slot_id :: string
  ap_active_in_both_count :: nat
  ap_left_heard_count :: nat
  ap_right_heard_count :: nat
  ap_left_hearing_rate :: "fl option"
  ap_right_hearing_rate :: "fl option"
  ap_heard_both_count :: nat
  ap_left_only_count :: nat
  ap_right_only_count :: nat
  ap_heard_neither_count :: nat
  ap_receivers :: "reporter_activity_joint_receiver list"

record reporter_activity_joint_summary =
  js_stratum :: comparison_stratum
  js_coverage :: reporter_activity_coverage
  js_eligible_block_count :: nat
  js_known_coverage_block_count :: nat
  js_left_then_right_block_count :: nat
  js_right_then_left_block_count :: nat
  js_unique_active_receiver_count :: nat
  js_receiver_block_opportunity_count :: nat
  js_heard_both_count :: nat
  js_left_only_count :: nat
  js_right_only_count :: nat
  js_heard_neither_count :: nat
  js_left_detection_rate :: "fl option"
  js_right_detection_rate :: "fl option"

record reporter_activity_analysis =
  ra_census_cycles :: "reporter_activity_census_cycle list"
  ra_cycle_rates :: "reporter_activity_cycle_rate list"
  ra_paired_rates :: "reporter_activity_paired_rate list"
  ra_joint_summaries :: "reporter_activity_joint_summary list"

definition no_activity :: reporter_activity_analysis where
  "no_activity = \<lparr>ra_census_cycles = [], ra_cycle_rates = [], ra_paired_rates = [], ra_joint_summaries = []\<rparr>"

text \<open>The reading of JSON by \<open>serde_json\<close>: values of an arbitrary type with the accessors the code uses.\<close>

record 'v json_reader =
  jn_from_str :: "string \<Rightarrow> 'v option"
  jn_get :: "'v \<Rightarrow> string \<Rightarrow> 'v option"
  jn_pointer :: "'v \<Rightarrow> string \<Rightarrow> 'v option"
  jn_as_str :: "'v \<Rightarrow> string option"
  jn_as_bool :: "'v \<Rightarrow> bool option"
  jn_as_u64 :: "'v \<Rightarrow> nat option"
  jn_time :: "'v \<Rightarrow> timestamp option"
  jn_band :: "'v \<Rightarrow> band option"
  jn_bands :: "'v \<Rightarrow> band list option"

section \<open>Census records\<close>

record census_summary =
  cs_record_id :: string
  cs_window_start :: timestamp
  cs_window_end :: timestamp
  cs_bands :: "band list"
  cs_coverage :: reporter_activity_coverage

definition parse_summary :: "'v json_reader \<Rightarrow> adapter_record_v2 \<Rightarrow> census_summary option" where
  "parse_summary reader r =
     (if ar_record_type r \<noteq> ''wspr_live_activity_census_summary'' \<or>
         ar_disposition r \<notin> {Accepted, PartiallyNormalized} \<or>
         provider_str (pv_provider_id (m2_provenance (ar_meta r))) \<noteq> ''wspr-live'' then None
      else case ar_input r of
        Attachment _ \<Rightarrow> None
      | Inline data _ _ _ \<Rightarrow>
          Option.bind (jn_from_str reader data) (\<lambda>v.
          if Option.bind (jn_get reader v ''status'') (jn_as_str reader) = Some ''failed'' then None
          else
          Option.bind (Option.bind (jn_get reader v ''window_start'') (jn_time reader)) (\<lambda>window_start.
          Option.bind (Option.bind (jn_get reader v ''window_end'') (jn_time reader)) (\<lambda>window_end.
          if window_end \<le> window_start then None
          else
          Option.bind (Option.bind (jn_get reader v ''selected_bands'') (jn_bands reader)) (\<lambda>bands.
          Option.bind (Option.bind (jn_get reader v ''truncated'') (jn_as_bool reader)) (\<lambda>truncated.
            let malformed = unwrap_or 0 (Option.bind (jn_pointer reader v ''/counts/malformed'') (jn_as_u64 reader)) in
            Some \<lparr>cs_record_id = ar_record_id r, cs_window_start = window_start, cs_window_end = window_end,
                  cs_bands = bands,
                  cs_coverage =
                    (if truncated then CoverageTruncated
                     else if 0 < malformed \<or> ar_disposition r = PartiallyNormalized then CoveragePartial
                     else CoverageComplete)\<rparr>))))))"

type_synonym census_key = "timestamp \<times> nat"

definition parse_census_row ::
    "'v json_reader \<Rightarrow> adapter_record_v2 \<Rightarrow> (census_key \<times> reporter_activity_reporter) option" where
  "parse_census_row reader r =
     (if ar_record_type r \<noteq> ''wspr_live_activity_census'' \<or> ar_disposition r \<noteq> Accepted \<or>
         provider_str (pv_provider_id (m2_provenance (ar_meta r))) \<noteq> ''wspr-live'' then None
      else case ar_input r of
        Attachment _ \<Rightarrow> None
      | Inline data _ _ _ \<Rightarrow>
          Option.bind (jn_from_str reader data) (\<lambda>v.
          Option.bind (Option.bind (jn_get reader v ''cycle_time'') (jn_time reader)) (\<lambda>cycle_time.
          Option.bind (Option.bind (jn_get reader v ''band'') (jn_band reader)) (\<lambda>band.
          Option.bind (Option.bind (jn_get reader v ''reporter'') (jn_as_str reader)) (\<lambda>reporter.
            Some ((cycle_time, comparison_band_rank band),
              \<lparr>rr_reporter = reporter,
               rr_reporter_grid = Option.bind (jn_get reader v ''reporter_grid'') (jn_as_str reader),
               rr_census_record_id = ar_record_id r\<rparr>))))))"

definition add_census_row ::
    "(census_key \<times> (string \<times> reporter_activity_reporter) list) list
       \<Rightarrow> census_key \<times> reporter_activity_reporter
       \<Rightarrow> (census_key \<times> (string \<times> reporter_activity_reporter) list) list" where
  "add_census_row rows = (\<lambda>(key, reporter).
     bt_entry key (\<lambda>v. bt_entry (rr_reporter reporter) (unwrap_or reporter) (unwrap_or [] v)) rows)"

definition census_rows_of ::
    "'v json_reader \<Rightarrow> adapter_record_v2 list
       \<Rightarrow> (census_key \<times> (string \<times> reporter_activity_reporter) list) list" where
  "census_rows_of reader records = foldl add_census_row [] (List.map_filter (parse_census_row reader) records)"

section \<open>Coverage\<close>

primrec coverage_rank :: "reporter_activity_coverage \<Rightarrow> nat" where
  "coverage_rank (CoverageUnknown _) = 0"
| "coverage_rank CoverageTruncated = 1"
| "coverage_rank CoveragePartial = 2"
| "coverage_rank CoverageComplete = 3"

definition coverage_for ::
    "timestamp \<Rightarrow> band \<Rightarrow> census_summary list \<Rightarrow> reporter_activity_coverage \<times> string list" where
  "coverage_for cycle_time band summaries =
     (let covering = filter (\<lambda>s. cs_window_start s \<le> cycle_time \<and> cycle_time < cs_window_end s \<and>
              band \<in> set (cs_bands s)) summaries in
      if covering = [] then (CoverageUnknown NoCensusCoverage, [])
      else
        let best_rank = Max (set (map (\<lambda>s. coverage_rank (cs_coverage s)) covering));
            covering = sort_key cs_record_id
              (filter (\<lambda>s. coverage_rank (cs_coverage s) = best_rank) covering)
        in (cs_coverage (covering ! 0), map cs_record_id covering))"

fun combined_coverage ::
    "reporter_activity_coverage \<Rightarrow> reporter_activity_coverage \<Rightarrow> reporter_activity_coverage" where
  "combined_coverage (CoverageUnknown reason) _ = CoverageUnknown reason"
| "combined_coverage _ (CoverageUnknown reason) = CoverageUnknown reason"
| "combined_coverage CoverageTruncated _ = CoverageTruncated"
| "combined_coverage _ CoverageTruncated = CoverageTruncated"
| "combined_coverage CoveragePartial _ = CoveragePartial"
| "combined_coverage _ CoveragePartial = CoveragePartial"
| "combined_coverage CoverageComplete CoverageComplete = CoverageComplete"

definition hearing_rate :: "nat \<Rightarrow> nat \<Rightarrow> fl option" where
  "hearing_rate heard active = bool_then (0 < active) (f64_div (f64_of_nat heard) (f64_of_nat active))"

section \<open>What was heard\<close>

type_synonym activity_key = "nat \<times> nat \<times> string \<times> nat \<times> string"

primrec direction_rank :: "path_direction \<Rightarrow> nat" where
  "direction_rank PathTransmit = 0"
| "direction_rank PathReceive = 1"

definition direction_from_rank :: "nat \<Rightarrow> path_direction option" where
  "direction_from_rank n =
     (if n = 0 then Some PathTransmit else if n = 1 then Some PathReceive else None)"

primrec observation_kind_rank :: "observation_kind \<Rightarrow> nat" where
  "observation_kind_rank LocalDecode = 0"
| "observation_kind_rank PublicReport = 1"
| "observation_kind_rank ImportedSpot = 2"

primrec record_source_key :: "record_source \<Rightarrow> string" where
  "record_source_key Operator = ''operator''"
| "record_source_key WsjtxUdp = ''wsjtx_udp''"
| "record_source_key WsjtxLog = ''wsjtx_log''"
| "record_source_key Wsprnet = ''wsprnet''"
| "record_source_key WsprLive = ''wspr_live''"
| "record_source_key ImportedFile = ''imported_file''"
| "record_source_key RigAdapter = ''rig_adapter''"
| "record_source_key NoaaSwpc = ''noaa_swpc''"
| "record_source_key Derived = ''derived''"

definition activity_stratum_key :: "comparison_stratum \<Rightarrow> activity_key" where
  "activity_stratum_key stratum =
     (direction_rank (sm_direction stratum), comparison_band_rank (sm_band stratum),
      mode_str (sm_mode stratum), observation_kind_rank (sm_observation_kind stratum),
      record_source_key (sm_source stratum))"

record heard_evidence =
  he_strata :: "(activity_key \<times> comparison_stratum) list"
  he_heard :: "((activity_key \<times> string) \<times> string set) list"
  he_observed_directions :: "(string \<times> nat set) list"

definition heard_step ::
    "'j bundle_contents \<Rightarrow> heard_evidence \<Rightarrow> 'j classified_observation \<Rightarrow> heard_evidence" where
  "heard_step bundle s classified =
     (let observation = cl_observation classified in
      case (cl_disposition classified, oa_slot_id (cl_assignment classified), path_identity bundle observation) of
        (Usable, Some slot_id, Some (direction, remote)) \<Rightarrow>
          let s = s\<lparr>he_observed_directions :=
                bt_entry slot_id (\<lambda>v. insert (direction_rank direction) (unwrap_or {} v))
                  (he_observed_directions s)\<rparr> in
          (case observation_mode observation of
             None \<Rightarrow> s
           | Some mode \<Rightarrow>
               let stratum = observation_stratum observation direction mode;
                   key = activity_stratum_key stratum
               in s\<lparr>he_strata := bt_entry key (unwrap_or stratum) (he_strata s),
                    he_heard := bt_entry (key, slot_id) (\<lambda>v. insert remote (unwrap_or {} v)) (he_heard s)\<rparr>)
      | _ \<Rightarrow> s)"

definition heard_evidence_of ::
    "'j bundle_contents \<Rightarrow> 'j classified_observation list \<Rightarrow> heard_evidence" where
  "heard_evidence_of bundle observations =
     foldl (heard_step bundle) \<lparr>he_strata = [], he_heard = [], he_observed_directions = []\<rparr> observations"

text \<open>The direction of a slot: the planned one, or else the only one observed in it.\<close>

definition slot_direction ::
    "(string \<times> path_direction) list \<Rightarrow> heard_evidence \<Rightarrow> string \<Rightarrow> path_direction option" where
  "slot_direction cycle_directions evidence slot_id =
     or_else (map_of cycle_directions slot_id)
       (case map_of (he_observed_directions evidence) slot_id of
          None \<Rightarrow> None
        | Some vs \<Rightarrow> if card vs = 1 then direction_from_rank (Min vs) else None)"

section \<open>Cycle rates\<close>

record activity_state =
  at_census_cycles :: "reporter_activity_census_cycle list"
  at_census_indices :: "(census_key \<times> nat) list"
  at_cycle_rates :: "reporter_activity_cycle_rate list"

definition cycle_census ::
    "census_summary list \<Rightarrow> (census_key \<times> (string \<times> reporter_activity_reporter) list) list
       \<Rightarrow> comparison_stratum \<Rightarrow> aligned_slot \<Rightarrow> timestamp \<Rightarrow> activity_state
       \<Rightarrow> (reporter_activity_coverage \<times> nat option \<times> reporter_activity_reporter list) \<times> activity_state" where
  "cycle_census summaries census_rows stratum slot canonical_time s =
     (if sm_direction stratum = PathReceive then
        ((CoverageUnknown UnsupportedReceiveDirection, None, []), s)
      else if \<not> eq_ignore_ascii_case (mode_str (sm_mode stratum)) ''WSPR'' then
        ((CoverageUnknown UnsupportedSignalMode, None, []), s)
      else
        let (coverage, summary_record_ids) = coverage_for canonical_time (as_band slot) summaries in
        if \<not> is_known coverage then ((coverage, None, []), s)
        else
          let key = (canonical_time, comparison_band_rank (as_band slot));
              reporters = map snd (unwrap_or [] (map_of census_rows key))
          in case map_of (at_census_indices s) key of
               Some index \<Rightarrow> ((coverage, Some index, reporters), s)
             | None \<Rightarrow>
                 let index = length (at_census_cycles s) in
                 ((coverage, Some index, reporters),
                  s\<lparr>at_census_indices := bt_entry key (\<lambda>_. index) (at_census_indices s),
                    at_census_cycles := at_census_cycles s @
                      [\<lparr>cc_cycle_time = canonical_time, cc_band = as_band slot, cc_coverage = coverage,
                        cc_active_reporters = reporters, cc_summary_record_ids = summary_record_ids\<rparr>]\<rparr>))"

definition rate_step ::
    "census_summary list \<Rightarrow> (census_key \<times> (string \<times> reporter_activity_reporter) list) list
       \<Rightarrow> (string \<times> path_direction) list \<Rightarrow> heard_evidence \<Rightarrow> paired_comparison_analysis
       \<Rightarrow> activity_key \<times> comparison_stratum \<Rightarrow> activity_state \<Rightarrow> aligned_slot
       \<Rightarrow> analysis_failure + activity_state" where
  "rate_step summaries census_rows cycle_directions evidence comparison = (\<lambda>(key, stratum) s slot.
     if as_band slot \<noteq> sm_band stratum \<or>
        slot_direction cycle_directions evidence (as_slot_id slot) \<noteq> Some (sm_direction stratum) then Inr s
     else
       and_then (expecting ''`DateTime - TimeDelta` overflowed''
          (plus_duration (as_starts_at slot) (- seconds WSPR_NOMINAL_START_OFFSET_SECONDS))) (\<lambda>canonical_time.
       let timeline = find (\<lambda>row. tr_slot_id row = as_slot_id slot) (pc_timeline_rows comparison);
           ((coverage, census_cycle_index, active_reporters), s) =
             cycle_census summaries census_rows stratum slot canonical_time s;
           observed = sorted_list_of_set (unwrap_or {} (map_of (he_heard evidence) (key, as_slot_id slot)));
           heard_reporters = filter (\<lambda>r. r \<in> rr_reporter ` set active_reporters) observed
       in Inr (s\<lparr>at_cycle_rates := at_cycle_rates s @
            [\<lparr>cr_stratum = stratum, cr_block_index = map_option tr_block_index timeline,
              cr_side = Option.bind timeline tr_side, cr_slot_id = as_slot_id slot,
              cr_antenna_label = unwrap_or (as_planned_label slot) (as_actual_label slot),
              cr_cycle_starts_at = as_starts_at slot, cr_census_cycle_index = census_cycle_index,
              cr_coverage = coverage, cr_active_reporter_count = length active_reporters,
              cr_heard_reporter_count = length heard_reporters,
              cr_hearing_rate = hearing_rate (length heard_reporters) (length active_reporters),
              cr_heard_reporters = heard_reporters\<rparr>]\<rparr>)))"

section \<open>Paired rates\<close>

definition joint_outcome :: "bool \<Rightarrow> bool \<Rightarrow> reporter_activity_joint_outcome" where
  "joint_outcome left_heard right_heard =
     (if left_heard then (if right_heard then HeardBoth else LeftOnly)
      else if right_heard then RightOnly else HeardNeither)"

definition outcome_count ::
    "reporter_activity_joint_receiver list \<Rightarrow> reporter_activity_joint_outcome \<Rightarrow> nat" where
  "outcome_count receivers outcome = length (filter (\<lambda>row. jr_outcome row = outcome) receivers)"

definition reporter_ids :: "reporter_activity_census_cycle \<Rightarrow> string set" where
  "reporter_ids cycle = rr_reporter ` set (cc_active_reporters cycle)"

definition common_receiver_grid ::
    "reporter_activity_census_cycle \<Rightarrow> reporter_activity_census_cycle \<Rightarrow> string \<Rightarrow> string option" where
  "common_receiver_grid left right receiver =
     (let grid = (\<lambda>cycle. Option.bind (find (\<lambda>row. rr_reporter row = receiver) (cc_active_reporters cycle))
            rr_reporter_grid) in
      case (grid left, grid right) of
        (Some l, Some r) \<Rightarrow> bool_then (l = r) l
      | (Some g, None) \<Rightarrow> Some g
      | (None, Some g) \<Rightarrow> Some g
      | _ \<Rightarrow> None)"

definition joint_receivers ::
    "reporter_activity_census_cycle list \<Rightarrow> reporter_activity_cycle_rate \<Rightarrow> reporter_activity_cycle_rate
       \<Rightarrow> reporter_activity_joint_receiver list" where
  "joint_receivers census_cycles left right =
     (case (cr_census_cycle_index left, cr_census_cycle_index right) of
        (Some left_index, Some right_index) \<Rightarrow>
          let l = census_cycles ! left_index; r = census_cycles ! right_index in
          map (\<lambda>receiver.
              \<lparr>jr_receiver = receiver, jr_receiver_grid = common_receiver_grid l r receiver,
               jr_outcome = joint_outcome (receiver \<in> set (cr_heard_reporters left))
                 (receiver \<in> set (cr_heard_reporters right))\<rparr>)
            (sorted_list_of_set (reporter_ids l \<inter> reporter_ids r))
      | _ \<Rightarrow> [])"

definition paired_rate ::
    "reporter_activity_census_cycle list \<Rightarrow> comparison_stratum \<Rightarrow> comparison_block
       \<Rightarrow> reporter_activity_cycle_rate \<Rightarrow> reporter_activity_cycle_rate
       \<Rightarrow> analysis_failure + reporter_activity_paired_rate" where
  "paired_rate census_cycles stratum block left right =
     (let receivers = joint_receivers census_cycles left right;
          heard_both = outcome_count receivers HeardBoth;
          left_only = outcome_count receivers LeftOnly;
          right_only = outcome_count receivers RightOnly;
          heard_neither = outcome_count receivers HeardNeither;
          common = length receivers
      in and_then (expecting ''eligible comparison block has an order'' (cb_order block)) (\<lambda>order.
        Inr \<lparr>ap_stratum = stratum, ap_block_index = cb_block_index block, ap_order = order,
             ap_coverage = combined_coverage (cr_coverage left) (cr_coverage right),
             ap_left_slot_id = cr_slot_id left, ap_right_slot_id = cr_slot_id right,
             ap_active_in_both_count = common,
             ap_left_heard_count = heard_both + left_only, ap_right_heard_count = heard_both + right_only,
             ap_left_hearing_rate = hearing_rate (heard_both + left_only) common,
             ap_right_hearing_rate = hearing_rate (heard_both + right_only) common,
             ap_heard_both_count = heard_both, ap_left_only_count = left_only,
             ap_right_only_count = right_only, ap_heard_neither_count = heard_neither,
             ap_receivers = receivers\<rparr>))"

definition paired_step ::
    "activity_state \<Rightarrow> reporter_activity_paired_rate list \<Rightarrow> comparison_block \<times> comparison_stratum
       \<Rightarrow> analysis_failure + reporter_activity_paired_rate list" where
  "paired_step s rates = (\<lambda>(block, stratum).
     let row = (\<lambda>side. find (\<lambda>row. cr_stratum row = stratum \<and> cr_block_index row = Some (cb_block_index block) \<and>
             cr_side row = Some side) (at_cycle_rates s))
     in case (row LeftSide, row RightSide) of
          (Some left, Some right) \<Rightarrow>
            and_then (paired_rate (at_census_cycles s) stratum block left right) (\<lambda>rate. Inr (rates @ [rate]))
        | _ \<Rightarrow> Inr rates)"

section \<open>Joint summaries\<close>

definition joint_summary :: "reporter_activity_paired_rate list \<Rightarrow> reporter_activity_joint_summary option" where
  "joint_summary rows =
     map_option (\<lambda>first.
       let total = (\<lambda>f. sum_list (map f rows));
           opportunities = total ap_active_in_both_count;
           both = total ap_heard_both_count; left_only = total ap_left_only_count;
           right_only = total ap_right_only_count
       in \<lparr>js_stratum = ap_stratum first,
           js_coverage = foldl (\<lambda>c row. combined_coverage c (ap_coverage row)) (ap_coverage first) rows,
           js_eligible_block_count = length rows,
           js_known_coverage_block_count = length (filter (\<lambda>row. is_known (ap_coverage row)) rows),
           js_left_then_right_block_count = length (filter (\<lambda>row. ap_order row = LeftThenRight) rows),
           js_right_then_left_block_count = length (filter (\<lambda>row. ap_order row = RightThenLeft) rows),
           js_unique_active_receiver_count = card (jr_receiver ` set (concat (map ap_receivers rows))),
           js_receiver_block_opportunity_count = opportunities,
           js_heard_both_count = both, js_left_only_count = left_only, js_right_only_count = right_only,
           js_heard_neither_count = total ap_heard_neither_count,
           js_left_detection_rate = hearing_rate (both + left_only) opportunities,
           js_right_detection_rate = hearing_rate (both + right_only) opportunities\<rparr>)
       (first_of rows)"

definition summarize_joint_outcomes ::
    "reporter_activity_paired_rate list \<Rightarrow> reporter_activity_joint_summary list" where
  "summarize_joint_outcomes rows =
     List.map_filter (\<lambda>(_, rows). joint_summary rows) (groups (\<lambda>row. activity_stratum_key (ap_stratum row)) rows)"

section \<open>The analysis\<close>

definition activity_rates ::
    "'v json_reader \<Rightarrow> adapter_record_v2 list \<Rightarrow> (string \<times> path_direction) list \<Rightarrow> heard_evidence
       \<Rightarrow> paired_comparison_analysis \<Rightarrow> aligned_slot list \<Rightarrow> analysis_failure + activity_state" where
  "activity_rates reader adapter_records cycle_directions evidence comparison slots =
     (let summaries = List.map_filter (parse_summary reader) adapter_records;
          census_rows = census_rows_of reader adapter_records
      in try_fold (\<lambda>s entry. try_fold (rate_step summaries census_rows cycle_directions evidence comparison entry) s
                  (comparison_slots slots))
           \<lparr>at_census_cycles = [], at_census_indices = [], at_cycle_rates = []\<rparr> (he_strata evidence))"

definition analyze_reporter_activity ::
    "'v json_reader \<Rightarrow> 'j bundle_contents \<Rightarrow> aligned_slot list \<Rightarrow> 'j classified_observation list
       \<Rightarrow> paired_comparison_analysis \<Rightarrow> adapter_record_v2 list \<Rightarrow> (string \<times> path_direction) list
       \<Rightarrow> analysis_budget \<Rightarrow> reporter_activity_analysis analysis" where
  "analyze_reporter_activity reader bundle slots observations comparison adapter_records cycle_directions budget =
     (if adapter_records = [] \<and> cycle_directions = [] then done_with no_activity
      else
        next_do (collection budget StageCompare ''reporter_activity_adapter_records'' (length adapter_records)) (\<lambda>_.
          let evidence = heard_evidence_of bundle observations in
          next_do (lifted (activity_rates reader adapter_records cycle_directions evidence comparison slots)) (\<lambda>s.
          let eligible = filter (\<lambda>b. cb_eligibility b = Eligible) (pc_blocks comparison);
              pairs = concat (map (\<lambda>b. map (Pair b) (filter (\<lambda>stratum. sm_band stratum = cb_band b)
                        (map snd (he_strata evidence)))) eligible)
          in next_do (lifted (try_fold (paired_step s) [] pairs)) (\<lambda>paired_rates.
             done_with \<lparr>ra_census_cycles = at_census_cycles s, ra_cycle_rates = at_cycle_rates s,
                        ra_paired_rates = paired_rates,
                        ra_joint_summaries = summarize_joint_outcomes paired_rates\<rparr>))))"

end
