(* ===== verification/Solar.thy ===== *)
theory Solar
  imports Comparison
begin

text \<open>
  The solar context of \<open>crates/analysis/src/solar.rs\<close>: for both observations of a paired row, where
  the sun stands at the station and at the remote end.  Every operation on \<open>f64\<close> is rounded as
  the code rounds it; the trigonometric functions, whose precision the standard library leaves
  unspecified, and whether the build checks integers for overflow (cargo's dev and test profiles do,
  its release profile does not) are parameters.
\<close>

section \<open>Data\<close>

datatype solar_endpoint_role = StationEnd | RemoteEnd

datatype solar_context_missing_reason = MissingGrid | InvalidGrid

datatype solar_light_state =
    Daylight | CivilTwilight | NauticalTwilight | AstronomicalTwilight | Night

record solar_coordinates =
  so_latitude_degrees :: fl
  so_longitude_degrees :: fl

datatype solar_position_result =
    PositionAvailable solar_coordinates fl solar_light_state bool
  | PositionMissing solar_context_missing_reason

record solar_endpoint_context =
  sx_role :: solar_endpoint_role
  sx_endpoint_id :: string
  sx_grid :: "string option"
  sx_result :: solar_position_result

record solar_observation_context =
  sv_observation_id :: string
  sv_timestamp :: timestamp
  sv_station :: solar_endpoint_context
  sv_remote :: solar_endpoint_context

record solar_context_row =
  sw_stratum :: comparison_stratum
  sw_block_index :: nat
  sw_order :: comparison_order
  sw_remote_path :: string
  sw_left :: solar_observation_context
  sw_right :: solar_observation_context

record solar_context_analysis =
  sz_algorithm_id :: string
  sz_algorithm_version :: nat
  sz_coordinate_method :: string
  sz_rows :: "solar_context_row list"

record platform =
  tg_sin :: "fl \<Rightarrow> fl"
  tg_cos :: "fl \<Rightarrow> fl"
  tg_acos :: "fl \<Rightarrow> fl"
  tg_overflow_checks :: bool

section \<open>Maidenhead locators\<close>

text \<open>The difference is computed before the range is looked at, so it may underflow.\<close>

definition ascii_index :: "bool \<Rightarrow> char \<Rightarrow> nat \<Rightarrow> nat \<Rightarrow> analysis_failure + nat option" where
  "ascii_index overflow_checks c minimum maximum =
     (let v = of_char (ascii_upper c) in
      if overflow_checks \<and> v < minimum then Inl (Panicked ''attempt to subtract with overflow'')
      else Inr (bool_then (minimum \<le> v \<and> v \<le> maximum) (v - minimum)))"

text \<open>The operator \<open>?\<close> on an option.\<close>

definition and_some :: "'e + 'a option \<Rightarrow> ('a \<Rightarrow> 'e + 'b option) \<Rightarrow> 'e + 'b option" where
  "and_some m f = and_then m (\<lambda>x. case x of None \<Rightarrow> Inr None | Some y \<Rightarrow> f y)"

definition of_u8 :: "nat \<Rightarrow> fl" where "of_u8 n = Finite (of_nat n)"

definition maidenhead_square :: "bool \<Rightarrow> string \<Rightarrow> analysis_failure + (fl \<times> fl) option" where
  "maidenhead_square checks grid =
     and_some (ascii_index checks (grid ! 0) 65 82) (\<lambda>field_lon.
     and_some (ascii_index checks (grid ! 1) 65 82) (\<lambda>field_lat.
     and_some (ascii_index checks (grid ! 2) 48 57) (\<lambda>square_lon.
     and_some (ascii_index checks (grid ! 3) 48 57) (\<lambda>square_lat.
       Inr (Some (f64_add (f64_add (Finite (- 180)) (f64_mul (of_u8 field_lon) (Finite 20)))
               (f64_mul (of_u8 square_lon) (Finite 2)),
             f64_add (f64_add (Finite (- 90)) (f64_mul (of_u8 field_lat) (Finite 10))) (of_u8 square_lat)))))))"

definition maidenhead_subsquare :: "bool \<Rightarrow> string \<Rightarrow> fl \<times> fl \<Rightarrow> analysis_failure + (fl \<times> fl) option" where
  "maidenhead_subsquare checks grid = (\<lambda>(longitude, latitude).
     and_some (ascii_index checks (grid ! 4) 65 88) (\<lambda>lon.
     and_some (ascii_index checks (grid ! 5) 65 88) (\<lambda>lat.
       Inr (Some (f64_add longitude (f64_div (f64_mul (of_u8 lon) (Finite 5)) (Finite 60)),
             f64_add latitude (f64_div (f64_mul (of_u8 lat) (Finite (5 / 2))) (Finite 60)))))))"

definition maidenhead_extended :: "bool \<Rightarrow> string \<Rightarrow> fl \<times> fl \<Rightarrow> analysis_failure + (fl \<times> fl) option" where
  "maidenhead_extended checks grid = (\<lambda>(longitude, latitude).
     and_some (ascii_index checks (grid ! 6) 48 57) (\<lambda>lon.
     and_some (ascii_index checks (grid ! 7) 48 57) (\<lambda>lat.
       Inr (Some (f64_add longitude (f64_div (of_u8 lon) (Finite 120)),
             f64_add latitude (f64_div (of_u8 lat) (Finite 240)))))))"

definition cell_center :: "fl \<Rightarrow> fl \<Rightarrow> fl \<times> fl \<Rightarrow> solar_coordinates" where
  "cell_center width height = (\<lambda>(longitude, latitude).
     \<lparr>so_latitude_degrees = f64_add latitude (f64_div height (Finite 2)),
      so_longitude_degrees = f64_add longitude (f64_div width (Finite 2))\<rparr>)"

definition maidenhead_cell_center :: "bool \<Rightarrow> string \<Rightarrow> analysis_failure + solar_coordinates option" where
  "maidenhead_cell_center checks grid =
     (let grid = trim grid in
      if length grid = 4 then
        and_some (maidenhead_square checks grid) (\<lambda>corner.
        Inr (Some (cell_center (Finite 2) (Finite 1) corner)))
      else if length grid = 6 then
        and_some (maidenhead_square checks grid) (\<lambda>corner.
        and_some (maidenhead_subsquare checks grid corner) (\<lambda>corner.
        Inr (Some (cell_center (f64_div (Finite 5) (Finite 60)) (f64_div (Finite (5 / 2)) (Finite 60)) corner))))
      else if length grid = 8 then
        and_some (maidenhead_square checks grid) (\<lambda>corner.
        and_some (maidenhead_subsquare checks grid corner) (\<lambda>corner.
        and_some (maidenhead_extended checks grid corner) (\<lambda>corner.
        Inr (Some (cell_center (f64_div (Finite 1) (Finite 120)) (f64_div (Finite 1) (Finite 240)) corner)))))
      else Inr None)"

section \<open>The calendar\<close>

text \<open>
  The fields of a \<open>DateTime<Utc>\<close> that the elevation needs, in the proleptic Gregorian calendar:
  the day is counted from 1970, and from the first of March of the year 0 within its 400-year era.
\<close>

definition unix_day :: "timestamp \<Rightarrow> int" where "unix_day t = t div seconds 86400"

definition second_of_day :: "timestamp \<Rightarrow> int" where "second_of_day t = (t mod seconds 86400) div seconds 1"

definition year_of :: "int \<Rightarrow> int" where
  "year_of day =
     (let z = day + 719468;
          doe = z mod 146097;
          yoe = (doe - doe div 1460 + doe div 36524 - doe div 146096) div 365;
          doy = doe - (365 * yoe + yoe div 4 - yoe div 100)
      in yoe + z div 146097 * 400 + (if 306 \<le> doy then 1 else 0))"

text \<open>The days from 1970 to the first of January of a year.\<close>

definition year_start :: "int \<Rightarrow> int" where
  "year_start y = 365 * (y - 1) + (y - 1) div 4 - (y - 1) div 100 + (y - 1) div 400 - 719162"

definition ordinal :: "int \<Rightarrow> int" where "ordinal day = day - year_start (year_of day) + 1"

definition leap_year :: "int \<Rightarrow> bool" where
  "leap_year year \<longleftrightarrow> year mod 4 = 0 \<and> (year mod 100 \<noteq> 0 \<or> year mod 400 = 0)"

section \<open>The elevation\<close>

text \<open>A decimal literal is the nearest \<open>f64\<close>.\<close>

definition PI :: fl where
  "PI = f64_round (314159265358979323846264338327950288 / 10 ^ 35)"

definition TAU :: fl where
  "TAU = f64_round (628318530717958647692528676655900577 / 10 ^ 35)"

definition to_radians :: "fl \<Rightarrow> fl" where "to_radians v = f64_mul v (f64_div PI (Finite 180))"

definition to_degrees :: "fl \<Rightarrow> fl" where "to_degrees v = f64_mul v (f64_div (Finite 180) PI)"

definition of_i :: "int \<Rightarrow> fl" where "of_i n = Finite (of_int n)"

definition hour_of :: "timestamp \<Rightarrow> fl" where
  "hour_of t =
     (let s = second_of_day t in
      f64_add (f64_add (f64_add (of_i (s div 3600))
        (f64_div (of_i (s div 60 mod 60)) (Finite 60)))
        (f64_div (of_i (s mod 60)) (Finite 3600)))
        (f64_div (of_i (t mod seconds 1)) (Finite 3600000000000)))"

definition fractional_year :: "timestamp \<Rightarrow> fl \<Rightarrow> fl" where
  "fractional_year t hour =
     f64_mul (f64_div TAU (if leap_year (year_of (unix_day t)) then Finite 366 else Finite 365))
       (f64_add (f64_sub (of_i (ordinal (unix_day t))) (Finite 1))
          (f64_div (f64_sub hour (Finite 12)) (Finite 24)))"

text \<open>The sum of a constant and of products of literals with values, from the left.\<close>

definition f64_series :: "rat \<Rightarrow> (rat \<times> fl) list \<Rightarrow> fl" where
  "f64_series c terms =
     foldl (\<lambda>s (factor, v).
         if factor < 0 then f64_sub s (f64_mul (f64_round (- factor)) v)
         else f64_add s (f64_mul (f64_round factor) v)) (f64_round c) terms"

definition equation_of_time :: "platform \<Rightarrow> fl \<Rightarrow> fl" where
  "equation_of_time tg gamma =
     f64_mul (f64_round (22918 / 100))
       (f64_series (75 / 10 ^ 6)
          [(1868 / 10 ^ 6, tg_cos tg gamma), (- 32077 / 10 ^ 6, tg_sin tg gamma),
           (- 14615 / 10 ^ 6, tg_cos tg (f64_mul (Finite 2) gamma)),
           (- 40849 / 10 ^ 6, tg_sin tg (f64_mul (Finite 2) gamma))])"

definition declination :: "platform \<Rightarrow> fl \<Rightarrow> fl" where
  "declination tg gamma =
     f64_series (6918 / 10 ^ 6)
       [(- 399912 / 10 ^ 6, tg_cos tg gamma), (70257 / 10 ^ 6, tg_sin tg gamma),
        (- 6758 / 10 ^ 6, tg_cos tg (f64_mul (Finite 2) gamma)),
        (907 / 10 ^ 6, tg_sin tg (f64_mul (Finite 2) gamma)),
        (- 2697 / 10 ^ 6, tg_cos tg (f64_mul (Finite 3) gamma)),
        (1480 / 10 ^ 6, tg_sin tg (f64_mul (Finite 3) gamma))]"

definition in_degrees :: "rat \<Rightarrow> fl \<Rightarrow> bool" where
  "in_degrees limit v \<longleftrightarrow> is_finite v \<and> fl_le (Finite (- limit)) v \<and> fl_le v (Finite limit)"

definition solar_elevation :: "platform \<Rightarrow> timestamp \<Rightarrow> solar_coordinates \<Rightarrow> fl option" where
  "solar_elevation tg t coordinates =
     (if \<not> in_degrees 90 (so_latitude_degrees coordinates) \<or>
         \<not> in_degrees 180 (so_longitude_degrees coordinates) then None
      else
        let hour = hour_of t;
            gamma = fractional_year t hour;
            true_solar_minutes =
              f64_rem_euclid
                (f64_add (f64_add (f64_mul hour (Finite 60)) (equation_of_time tg gamma))
                   (f64_mul (Finite 4) (so_longitude_degrees coordinates)))
                (Finite 1440);
            hour_angle = to_radians (f64_sub (f64_div true_solar_minutes (Finite 4)) (Finite 180));
            latitude = to_radians (so_latitude_degrees coordinates);
            decl = declination tg gamma;
            cosine_zenith =
              f64_clamp
                (f64_add (f64_mul (tg_sin tg latitude) (tg_sin tg decl))
                   (f64_mul (f64_mul (tg_cos tg latitude) (tg_cos tg decl)) (tg_cos tg hour_angle)))
                (Finite (- 1)) (Finite 1)
        in Some (f64_sub (Finite 90) (to_degrees (tg_acos tg cosine_zenith))))"

definition classify_light :: "fl \<Rightarrow> solar_light_state" where
  "classify_light elevation_degrees =
     (if fl_le (Finite 0) elevation_degrees then Daylight
      else if fl_le (Finite (- 6)) elevation_degrees then CivilTwilight
      else if fl_le (Finite (- 12)) elevation_degrees then NauticalTwilight
      else if fl_le (Finite (- 18)) elevation_degrees then AstronomicalTwilight
      else Night)"

section \<open>Rows\<close>

definition endpoint_context ::
    "platform \<Rightarrow> solar_endpoint_role \<Rightarrow> string \<Rightarrow> string option \<Rightarrow> timestamp
       \<Rightarrow> analysis_failure + solar_endpoint_context" where
  "endpoint_context tg role endpoint_id grid t =
     (let normalized_grid = (case map_option trim grid of None \<Rightarrow> None | Some g \<Rightarrow> bool_then (g \<noteq> []) g);
          context = (\<lambda>result. \<lparr>sx_role = role, sx_endpoint_id = endpoint_id,
             sx_grid = map_option (map ascii_upper) normalized_grid, sx_result = result\<rparr>)
      in case normalized_grid of
           None \<Rightarrow> Inr (context (PositionMissing MissingGrid))
         | Some g \<Rightarrow>
             and_then (maidenhead_cell_center (tg_overflow_checks tg) g) (\<lambda>center.
              case center of
                None \<Rightarrow> Inr (context (PositionMissing InvalidGrid))
              | Some coordinates \<Rightarrow>
                  and_then (expecting ''validated Maidenhead coordinates are finite and in range''
                     (solar_elevation tg t coordinates)) (\<lambda>elevation.
                    let light = classify_light elevation in
                    Inr (context (PositionAvailable coordinates elevation light
                      (light \<in> {CivilTwilight, NauticalTwilight, AstronomicalTwilight}))))))"

definition observation_context ::
    "platform \<Rightarrow> 'j bundle_contents \<Rightarrow> string \<Rightarrow> string \<Rightarrow> timestamp \<Rightarrow> string option
       \<Rightarrow> analysis_failure + solar_observation_context" where
  "observation_context tg bundle path ob_id t grid =
     and_then (endpoint_context tg StationEnd (st_callsign (bc_station bundle)) (Some (st_grid (bc_station bundle))) t)
       (\<lambda>station.
     and_then (endpoint_context tg RemoteEnd path grid t) (\<lambda>remote.
       Inr \<lparr>sv_observation_id = ob_id, sv_timestamp = t, sv_station = station, sv_remote = remote\<rparr>))"

definition derive_row ::
    "platform \<Rightarrow> 'j bundle_contents \<Rightarrow> paired_observation_row \<Rightarrow> analysis_failure + solar_context_row" where
  "derive_row tg bundle row =
     and_then (observation_context tg bundle (pw_remote_path row) (pw_left_observation_id row)
        (pw_left_timestamp row) (pw_left_remote_grid row)) (\<lambda>left.
     and_then (observation_context tg bundle (pw_remote_path row) (pw_right_observation_id row)
        (pw_right_timestamp row) (pw_right_remote_grid row)) (\<lambda>right.
       Inr \<lparr>sw_stratum = pw_stratum row, sw_block_index = pw_block_index row, sw_order = pw_order row,
            sw_remote_path = pw_remote_path row, sw_left = left, sw_right = right\<rparr>))"

definition derive_solar_context ::
    "platform \<Rightarrow> 'j bundle_contents \<Rightarrow> paired_comparison_analysis \<Rightarrow> analysis_budget
       \<Rightarrow> solar_context_analysis analysis" where
  "derive_solar_context tg bundle comparison budget =
     next_do (collection budget StageCompare ''solar_context_rows'' (length (pc_paired_rows comparison))) (\<lambda>_.
     next_do (checked_loop (checkpoint budget StageCompare ''derive_solar_context'')
        (\<lambda>rows paired. and_then (derive_row tg bundle paired) (\<lambda>row. Inr (rows @ [row]))) 0 []
        (pc_paired_rows comparison)) (\<lambda>rows.
       done_with \<lparr>sz_algorithm_id = ''noaa-gml-fractional-year'', sz_algorithm_version = 1,
                  sz_coordinate_method = ''maidenhead-cell-center-v1'', sz_rows = rows\<rparr>))"

section \<open>Locators lie on the globe\<close>

lemma ascii_index_le: "ascii_index checks c lo hi = Inr (Some n) \<Longrightarrow> n \<le> hi - lo"
  by (auto simp: ascii_index_def bool_then_def Let_def split: if_splits)

lemma and_some_Inr_Some: "and_some m f = Inr (Some y) \<longleftrightarrow> (\<exists>x. m = Inr (Some x) \<and> f x = Inr (Some y))"
  by (cases m) (auto simp: and_some_def split: option.splits)

lemma and_some_returns:
  "\<exists>x. m = Inr x \<Longrightarrow> (\<And>x. \<exists>y. f x = Inr y) \<Longrightarrow> \<exists>y. and_some m f = Inr y"
  by (auto simp: and_some_def split: option.split)

lemma between_u8: "n \<le> k \<Longrightarrow> between 0 (of_u8 n) (of_nat k)"
  by (simp add: between_def of_u8_def)

lemmas bound_int = bound_fraction [of "2048 * k" for k, simplified]

lemma between_mono: "between a v b \<Longrightarrow> c \<le> a \<Longrightarrow> b \<le> d \<Longrightarrow> between c v d"
  by (auto simp: between_def)

lemma between_const [simp]: "between a (Finite q) b \<longleftrightarrow> a \<le> q \<and> q \<le> b"
  by (simp add: between_def)

lemma between_scaled:
  assumes "n \<le> k" and "0 < c" and "bound (of_nat k * c)"
  shows "between 0 (f64_mul (of_u8 n) (Finite c)) (of_nat k * c)"
  using assms by (intro between_mul between_u8) simp_all

lemma maidenhead_square_range:
  assumes "maidenhead_square checks grid = Inr (Some (lon, lat))"
  shows "between (- 180) lon 178 \<and> between (- 90) lat 89"
proof -
  obtain a b c d where parts: "a \<le> 17" "b \<le> 17" "c \<le> 9" "d \<le> 9"
    and lon: "lon = f64_add (f64_add (Finite (- 180)) (f64_mul (of_u8 a) (Finite 20))) (f64_mul (of_u8 c) (Finite 2))"
    and lat: "lat = f64_add (f64_add (Finite (- 90)) (f64_mul (of_u8 b) (Finite 10))) (of_u8 d)"
    using assms by (auto simp: maidenhead_square_def and_some_Inr_Some dest!: ascii_index_le)
  have b: "bound (of_int k)" if "\<bar>k\<bar> < 2 ^ 40" for k
    using bound_int [of k] that by simp
  have "between 0 (f64_mul (of_u8 a) (Finite 20)) 340" "between 0 (f64_mul (of_u8 c) (Finite 2)) 18"
    "between 0 (f64_mul (of_u8 b) (Finite 10)) 170" "between 0 (of_u8 d) 9"
    using between_scaled [of a 17 20] between_scaled [of c 9 2] between_scaled [of b 17 10]
      between_u8 [of d 9] parts b [of 340] b [of 18] b [of 170] by simp_all
  then have "between (- 180 + 0) (f64_add (Finite (- 180)) (f64_mul (of_u8 a) (Finite 20))) (- 180 + 340)"
    "between (- 90 + 0) (f64_add (Finite (- 90)) (f64_mul (of_u8 b) (Finite 10))) (- 90 + 170)"
    using b [of "- 180"] b [of 160] b [of "- 90"] b [of 80] by (intro between_add; simp)+
  then have "between (- 180 + 0) lon (160 + 18)" "between (- 90 + 0) lat (80 + 9)"
    unfolding lon lat using \<open>between 0 (f64_mul (of_u8 c) (Finite 2)) 18\<close> \<open>between 0 (of_u8 d) 9\<close>
      b [of "- 180"] b [of 178] b [of "- 90"] b [of 89] by (intro between_add; simp)+
  then show ?thesis by simp
qed

text \<open>Steps to the right by at most a fraction, within the cell.\<close>

lemma between_step:
  assumes "between a v (of_int n / 2048)" and "between 0 w (of_int m / 2048)" and "bound a" and "\<bar>n + m\<bar> < 2 ^ 53"
  shows "between a (f64_add v w) (of_int (n + m) / 2048)"
  using between_add [OF assms(1,2)] bound_fraction [OF assms(4)] assms(3)
  by (simp add: add_divide_distrib)

lemma maidenhead_subsquare_range:
  assumes "maidenhead_subsquare checks grid (lon, lat) = Inr (Some (lon', lat'))"
    and "between (- 180) lon 178" and "between (- 90) lat 89"
  shows "between (- 180) lon' (of_int (364544 + 3926) / 2048) \<and> between (- 90) lat' (of_int (182272 + 1963) / 2048)"
proof -
  obtain a b where parts: "a \<le> 23" "b \<le> 23"
    and lon: "lon' = f64_add lon (f64_div (f64_mul (of_u8 a) (Finite 5)) (Finite 60))"
    and lat: "lat' = f64_add lat (f64_div (f64_mul (of_u8 b) (Finite (5 / 2))) (Finite 60))"
    using assms(1) by (auto simp: maidenhead_subsquare_def and_some_Inr_Some dest!: ascii_index_le)
  have "between 0 (f64_mul (of_u8 a) (Finite 5)) 115" "between 0 (f64_mul (of_u8 b) (Finite (5 / 2))) (115 / 2)"
    using between_scaled [of a 23 5] between_scaled [of b 23 "5 / 2"] parts
      bound_fraction [of "115 * 2048"] bound_fraction [of "115 * 1024"] by simp_all
  then have "between 0 (f64_div (f64_mul (of_u8 a) (Finite 5)) (Finite 60)) (of_int 3926 / 2048)"
    "between 0 (f64_div (f64_mul (of_u8 b) (Finite (5 / 2))) (Finite 60)) (of_int 1963 / 2048)"
    using bound_fraction [of 3926] bound_fraction [of 1963] by (auto intro: between_div)
  then show ?thesis
    unfolding lon lat
    using between_step [of "- 180" lon 364544 _ 3926] between_step [of "- 90" lat 182272 _ 1963] assms(2,3)
      bound_int [of "- 180"] bound_int [of "- 90"] by simp
qed

lemma maidenhead_extended_range:
  assumes "maidenhead_extended checks grid (lon, lat) = Inr (Some (lon', lat'))"
    and "between (- 180) lon (of_int 368470 / 2048)" and "between (- 90) lat (of_int 184235 / 2048)"
  shows "between (- 180) lon' (of_int (368470 + 154) / 2048) \<and> between (- 90) lat' (of_int (184235 + 77) / 2048)"
proof -
  obtain a b where parts: "a \<le> 9" "b \<le> 9"
    and lon: "lon' = f64_add lon (f64_div (of_u8 a) (Finite 120))"
    and lat: "lat' = f64_add lat (f64_div (of_u8 b) (Finite 240))"
    using assms(1) by (auto simp: maidenhead_extended_def and_some_Inr_Some dest!: ascii_index_le)
  have "between 0 (f64_div (of_u8 a) (Finite 120)) (of_int 154 / 2048)"
    "between 0 (f64_div (of_u8 b) (Finite 240)) (of_int 77 / 2048)"
    using between_u8 [of a 9] between_u8 [of b 9] parts bound_fraction [of 154] bound_fraction [of 77]
    by (auto intro: between_div)
  then show ?thesis
    unfolding lon lat
    using between_step [of "- 180" lon 368470 _ 154] between_step [of "- 90" lat 184235 _ 77] assms(2,3)
      bound_int [of "- 180"] bound_int [of "- 90"] by simp
qed

lemma cell_center_range:
  assumes "between (- 180) lon (of_int n / 2048)" and "between (- 90) lat (of_int m / 2048)"
    and "between 0 (f64_div width (Finite 2)) (of_int w / 2048)"
    and "between 0 (f64_div height (Finite 2)) (of_int h / 2048)"
    and "n + w \<le> 368640" and "m + h \<le> 184320" and "0 \<le> n + w" and "0 \<le> m + h"
  shows "in_degrees 180 (so_longitude_degrees (cell_center width height (lon, lat))) \<and>
    in_degrees 90 (so_latitude_degrees (cell_center width height (lon, lat)))"
proof -
  have "between (- 180) (f64_add lon (f64_div width (Finite 2))) (of_int (n + w) / 2048)"
    "between (- 90) (f64_add lat (f64_div height (Finite 2))) (of_int (m + h) / 2048)"
    using assms bound_int [of "- 180"] bound_int [of "- 90"] by (intro between_step; simp)+
  moreover have "(of_int (n + w) / 2048 :: rat) \<le> 180" "(of_int (m + h) / 2048 :: rat) \<le> 90"
    using assms(5,6) by (simp_all add: divide_le_eq)
  ultimately show ?thesis
    by (auto simp: in_degrees_def cell_center_def between_def fl_compare_finite)
qed

lemma half_widths:
  "between 0 (f64_div (Finite 2) (Finite 2)) (of_int 2048 / 2048)"
  "between 0 (f64_div (Finite 1) (Finite 2)) (of_int 1024 / 2048)"
  "between 0 (f64_div (f64_div (Finite 5) (Finite 60)) (Finite 2)) (of_int 100 / 2048)"
  "between 0 (f64_div (f64_div (Finite (5 / 2)) (Finite 60)) (Finite 2)) (of_int 50 / 2048)"
  "between 0 (f64_div (f64_div (Finite 1) (Finite 120)) (Finite 2)) (of_int 10 / 2048)"
  "between 0 (f64_div (f64_div (Finite 1) (Finite 240)) (Finite 2)) (of_int 6 / 2048)"
proof -
  have quotient: "between 0 (f64_div (Finite a) (Finite b)) (of_int n / 2048)"
    if "0 \<le> a" "0 < b" "a / b \<le> of_int n / 2048" "\<bar>n\<bar> < 2 ^ 53" for a b n
    using that by (intro between_div [of "Finite a" a]) (simp_all add: bound_fraction)
  have half: "between 0 (f64_div (f64_div (Finite a) (Finite b)) (Finite 2)) (of_int n / 2048)"
    if "0 \<le> a" "0 < b" "a / b \<le> of_int (2 * n) / 2048" "\<bar>2 * n\<bar> < 2 ^ 53" for a b n
    using that bound_fraction [of n] by (intro between_div [OF quotient [of a b "2 * n"]]) simp_all
  show "between 0 (f64_div (Finite 2) (Finite 2)) (of_int 2048 / 2048)"
    "between 0 (f64_div (Finite 1) (Finite 2)) (of_int 1024 / 2048)"
    by (rule quotient; simp)+
  show "between 0 (f64_div (f64_div (Finite 5) (Finite 60)) (Finite 2)) (of_int 100 / 2048)"
    "between 0 (f64_div (f64_div (Finite (5 / 2)) (Finite 60)) (Finite 2)) (of_int 50 / 2048)"
    "between 0 (f64_div (f64_div (Finite 1) (Finite 120)) (Finite 2)) (of_int 10 / 2048)"
    "between 0 (f64_div (f64_div (Finite 1) (Finite 240)) (Finite 2)) (of_int 6 / 2048)"
    by (rule half; simp)+
qed

lemma maidenhead_in_range:
  assumes "maidenhead_cell_center checks grid = Inr (Some c)"
  shows "in_degrees 180 (so_longitude_degrees c) \<and> in_degrees 90 (so_latitude_degrees c)"
proof -
  let ?g = "trim grid"
  obtain lon lat where square: "maidenhead_square checks ?g = Inr (Some (lon, lat))"
    using assms by (auto simp: maidenhead_cell_center_def Let_def and_some_Inr_Some split: if_splits)
  note range = maidenhead_square_range [OF square]
  consider "c = cell_center (Finite 2) (Finite 1) (lon, lat)"
    | lon' lat' where "maidenhead_subsquare checks ?g (lon, lat) = Inr (Some (lon', lat'))"
        "c = cell_center (f64_div (Finite 5) (Finite 60)) (f64_div (Finite (5 / 2)) (Finite 60)) (lon', lat')"
    | lon' lat' lon'' lat'' where "maidenhead_subsquare checks ?g (lon, lat) = Inr (Some (lon', lat'))"
        "maidenhead_extended checks ?g (lon', lat') = Inr (Some (lon'', lat''))"
        "c = cell_center (f64_div (Finite 1) (Finite 120)) (f64_div (Finite 1) (Finite 240)) (lon'', lat'')"
    using assms square
    by (auto simp: maidenhead_cell_center_def Let_def and_some_Inr_Some split: if_splits)
  then show ?thesis
  proof cases
    case 1
    then show ?thesis
      using cell_center_range [of lon 364544 lat 182272 "Finite 2" 2048 "Finite 1" 1024] range half_widths by simp
  next
    case 2
    note r = maidenhead_subsquare_range [OF 2(1)] range
    then show ?thesis
      unfolding 2(2) by (intro cell_center_range [where n = 368470 and m = 184235, OF _ _ half_widths(3,4)]) simp_all
  next
    case 3
    note r = maidenhead_subsquare_range [OF 3(1)] range
    then have "between (- 180) lon'' (of_int (368470 + 154) / 2048) \<and> between (- 90) lat'' (of_int (184235 + 77) / 2048)"
      by (intro maidenhead_extended_range [OF 3(2)]) simp_all
    then show ?thesis
      unfolding 3(3) by (intro cell_center_range [where n = 368624 and m = 184312, OF _ _ half_widths(5,6)]) simp_all
  qed
qed

lemma ascii_index_Inr: "\<exists>r. ascii_index False c lo hi = Inr r"
  by (simp add: ascii_index_def Let_def)

lemma maidenhead_Inr: "\<exists>r. maidenhead_cell_center False grid = Inr r"
proof -
  have square: "\<exists>r. maidenhead_square False g = Inr r" for g
    unfolding maidenhead_square_def by (auto intro!: and_some_returns ascii_index_Inr)
  have subsquare: "\<exists>r. maidenhead_subsquare False g corner = Inr r" for g corner
    unfolding maidenhead_subsquare_def by (cases corner) (auto intro!: and_some_returns ascii_index_Inr)
  have extended: "\<exists>r. maidenhead_extended False g corner = Inr r" for g corner
    unfolding maidenhead_extended_def by (cases corner) (auto intro!: and_some_returns ascii_index_Inr)
  show ?thesis
    unfolding maidenhead_cell_center_def Let_def
    by (auto intro!: and_some_returns square subsquare extended)
qed

text \<open>In a build without overflow checks every row is derived.\<close>

lemma derive_row_Inr:
  assumes "\<not> tg_overflow_checks tg"
  shows "\<exists>r. derive_row tg bundle row = Inr r"
proof -
  have elevation: "\<exists>e. solar_elevation tg t c = Some e" if "maidenhead_cell_center False g = Inr (Some c)" for t c g
    using maidenhead_in_range [OF that] by (simp add: solar_elevation_def Let_def)
  have endpoint: "\<exists>e. endpoint_context tg role i g t = Inr e" for role i g t
  proof (cases "Option.bind g (\<lambda>g. bool_then (trim g \<noteq> []) (trim g))")
    case None
    then show ?thesis
      by (cases g) (auto simp: endpoint_context_def Let_def bool_then_def split: if_splits)
  next
    case (Some h)
    then obtain h' where h: "g = Some h'" "trim h' = h" "h \<noteq> []"
      by (auto simp: Option.bind_eq_Some_conv bool_then_def split: if_splits)
    obtain center where center: "maidenhead_cell_center False h = Inr center" using maidenhead_Inr [of h] by blast
    show ?thesis
    proof (cases center)
      case (Some c)
      with elevation [of h c t] center obtain e where "solar_elevation tg t c = Some e" by blast
      with h center Some assms show ?thesis
        by (simp add: endpoint_context_def Let_def bool_then_def expecting_def)
    qed (use h center assms in \<open>simp add: endpoint_context_def Let_def bool_then_def\<close>)
  qed
  have "\<exists>e. observation_context tg bundle p i t g = Inr e" for p i t g
    using endpoint [of StationEnd] endpoint [of RemoteEnd] unfolding observation_context_def by (metis and_then_simps(2))
  then show ?thesis unfolding derive_row_def by (metis and_then_simps(2))
qed

end
