(* ===== verification/Summary.thy ===== *)
theory Summary
  imports Activity Solar
begin

text \<open>
  The summary of a bundle, \<open>crates/analysis/src/summary.rs\<close>: which records the validation report
  withholds from the analysis, how every observation is classified, the evidence of the session,
  of each antenna, band and slot, and the composition of the whole analysis under its budget.
\<close>

section \<open>Constants\<close>

definition MINIMUM_USABLE_CONFIDENCE :: fl where "MINIMUM_USABLE_CONFIDENCE = Finite f32_070"

definition BANDS :: "band list" where
  "BANDS = [M160, M80, M60, M40, M30, M20, M17, M15, M12, M10, M6, M2]"

definition EXCLUSION_REASONS :: "observation_exclusion_reason list" where
  "EXCLUSION_REASONS =
     [ExGuardTime, ExNearBoundary, ExBeforeObservedSwitch, ExMissedSlot, ExBadSlot, ExBandMismatch,
      ExOutsideSchedule, ExMissingEvidence, ExMalformedEvidence, ExContradictoryEvidence,
      ExUnsupportedEvidence, ExDuplicateEvidence]"

definition OBSERVATION_KINDS :: "observation_kind list" where
  "OBSERVATION_KINDS = [LocalDecode, PublicReport, ImportedSpot]"

primrec exclusion_reason_index :: "observation_exclusion_reason \<Rightarrow> nat" where
  "exclusion_reason_index ExGuardTime = 0"
| "exclusion_reason_index ExNearBoundary = 1"
| "exclusion_reason_index ExBeforeObservedSwitch = 2"
| "exclusion_reason_index ExMissedSlot = 3"
| "exclusion_reason_index ExBadSlot = 4"
| "exclusion_reason_index ExBandMismatch = 5"
| "exclusion_reason_index ExOutsideSchedule = 6"
| "exclusion_reason_index ExMissingEvidence = 7"
| "exclusion_reason_index ExMalformedEvidence = 8"
| "exclusion_reason_index ExContradictoryEvidence = 9"
| "exclusion_reason_index ExUnsupportedEvidence = 10"
| "exclusion_reason_index ExDuplicateEvidence = 11"

primrec observation_kind_index :: "observation_kind \<Rightarrow> nat" where
  "observation_kind_index LocalDecode = 0"
| "observation_kind_index PublicReport = 1"
| "observation_kind_index ImportedSpot = 2"

section \<open>Eligibility\<close>

text \<open>The derived orders of two enums: the order of their declarations.\<close>

primrec category_rank :: "eligibility_category \<Rightarrow> nat" where
  "category_rank CatMissing = 0"
| "category_rank CatMalformed = 1"
| "category_rank CatContradictory = 2"
| "category_rank CatUnsupported = 3"
| "category_rank CatDuplicate = 4"
| "category_rank CatDeliberatelyExcluded = 5"

primrec scope_rank :: "eligibility_scope \<Rightarrow> nat" where
  "scope_rank ScopeField = 0"
| "scope_rank ScopeObservation = 1"
| "scope_rank ScopeSlot = 2"
| "scope_rank ScopeComparisonStratum = 3"
| "scope_rank ScopeComparisonBlock = 4"

lemma category_rank_inject: "category_rank c = category_rank d \<longleftrightarrow> c = d"
  by (cases c; cases d; simp)

lemma scope_rank_inject: "scope_rank s = scope_rank t \<longleftrightarrow> s = t"
  by (cases s; cases t; simp)

instantiation eligibility_category :: linorder
begin

definition less_eq_eligibility_category :: "eligibility_category \<Rightarrow> eligibility_category \<Rightarrow> bool" where
  "less_eq_eligibility_category c d \<longleftrightarrow> category_rank c \<le> category_rank d"

definition less_eligibility_category :: "eligibility_category \<Rightarrow> eligibility_category \<Rightarrow> bool" where
  "less_eligibility_category c d \<longleftrightarrow> category_rank c < category_rank d"

instance
  by standard (auto simp: less_eq_eligibility_category_def less_eligibility_category_def
      simp flip: category_rank_inject)

end

instantiation eligibility_scope :: linorder
begin

definition less_eq_eligibility_scope :: "eligibility_scope \<Rightarrow> eligibility_scope \<Rightarrow> bool" where
  "less_eq_eligibility_scope s t \<longleftrightarrow> scope_rank s \<le> scope_rank t"

definition less_eligibility_scope :: "eligibility_scope \<Rightarrow> eligibility_scope \<Rightarrow> bool" where
  "less_eligibility_scope s t \<longleftrightarrow> scope_rank s < scope_rank t"

instance
  by standard (auto simp: less_eq_eligibility_scope_def less_eligibility_scope_def
      simp flip: scope_rank_inject)

end

definition is_non_finite_snr :: "bundle_diagnostic \<Rightarrow> bool" where
  "is_non_finite_snr d \<longleftrightarrow>
     bd_code d = ''bundle.semantic.non_finite_number'' \<and>
     dl_record_kind (bd_location d) = Some KindObservation \<and>
     dl_field_path (bd_location d) = Some ''/snr_db''"

definition is_fatal_for_analysis :: "bundle_diagnostic \<Rightarrow> bool" where
  "is_fatal_for_analysis d \<longleftrightarrow>
     blocks d AnalysisProfile \<and>
     (if bd_code d \<in> {''bundle.semantic.duplicate_antenna_label'', ''bundle.structure.v2_checkpoint_mismatch'',
           ''bundle.structure.v2_adapter_link'', ''bundle.structure.v2_attachment'',
           ''bundle.structure.v2_mutation'', ''bundle.structure.v2_lifecycle_mismatch''}
      then True
      else case bd_category d of
          Wire \<Rightarrow> dl_record_kind (bd_location d) = None
        | Structural \<Rightarrow>
            dl_record_kind (bd_location d) \<notin>
              {Some KindObservation, Some KindSlot, Some KindOperatorEvent, Some KindWsjtXRecord,
               Some KindRigRecord, Some KindPropagationRecord}
        | _ \<Rightarrow> False)"

definition eligibility_scope_of :: "bundle_diagnostic_location \<Rightarrow> eligibility_scope" where
  "eligibility_scope_of l =
     (case dl_record_kind l of
        Some KindObservation \<Rightarrow> ScopeObservation
      | Some KindSlot \<Rightarrow> ScopeSlot
      | _ \<Rightarrow> ScopeField)"

definition eligibility_category_of :: "bundle_diagnostic \<Rightarrow> eligibility_category" where
  "eligibility_category_of d =
     (let c = bd_code d in
      if c \<in> {''bundle.wire.duplicate_member'', ''bundle.wire.duplicate_raw_member'',
              ''bundle.structure.duplicate_id'', ''bundle.semantic.duplicate_antenna_label'',
              ''bundle.semantic.duplicate_sequence_number''} then CatDuplicate
      else if c \<in> {''bundle.structure.unknown_antenna_label'', ''bundle.structure.unknown_event_slot'',
              ''bundle.structure.unknown_observation_slot'', ''bundle.semantic.empty_identity'',
              ''bundle.semantic.empty_schedule''} then CatMissing
      else if c \<in> {''bundle.wire.unsupported_schema_version'',
              ''bundle.semantic.experiment_shape_mismatch''} then CatUnsupported
      else if c \<in> {''bundle.structure.session_id_mismatch'', ''bundle.structure.slot_window_out_of_order'',
              ''bundle.structure.slot_window_overlap'', ''bundle.semantic.slot_sequence_out_of_order'',
              ''bundle.semantic.alignment_annotation_mismatch'', ''bundle.structure.v2_checkpoint_mismatch'',
              ''bundle.structure.v2_adapter_link'', ''bundle.structure.v2_attachment'',
              ''bundle.structure.v2_mutation'', ''bundle.eligibility.v2_operator_event_conflict'',
              ''bundle.structure.v2_lifecycle_mismatch''} then CatContradictory
      else if c \<in> {''bundle.wire.invalid_json'', ''bundle.semantic.invalid_slot_confidence'',
              ''bundle.semantic.invalid_identity'', ''bundle.semantic.invalid_required_text'',
              ''bundle.semantic.invalid_antenna_label'', ''bundle.semantic.invalid_slot_duration'',
              ''bundle.semantic.invalid_slot_guard'', ''bundle.semantic.non_finite_number'',
              ''bundle.semantic.invalid_range'', ''bundle.semantic.v2_operator_event''} then CatMalformed
      else CatUnsupported)"

primrec observation_reason :: "eligibility_category \<Rightarrow> observation_exclusion_reason" where
  "observation_reason CatMissing = ExMissingEvidence"
| "observation_reason CatMalformed = ExMalformedEvidence"
| "observation_reason CatContradictory = ExContradictoryEvidence"
| "observation_reason CatUnsupported = ExUnsupportedEvidence"
| "observation_reason CatDuplicate = ExDuplicateEvidence"
| "observation_reason CatDeliberatelyExcluded = ExContradictoryEvidence"

definition observation_reason_rank :: "observation_exclusion_reason \<Rightarrow> nat" where
  "observation_reason_rank reason =
     (case reason of ExDuplicateEvidence \<Rightarrow> 5 | ExUnsupportedEvidence \<Rightarrow> 4 | ExContradictoryEvidence \<Rightarrow> 3
      | ExMalformedEvidence \<Rightarrow> 2 | ExMissingEvidence \<Rightarrow> 1 | _ \<Rightarrow> 0)"

definition observation_diagnostic_excludes :: "bundle_diagnostic \<Rightarrow> bool" where
  "observation_diagnostic_excludes d \<longleftrightarrow>
     bd_code d \<in> {''bundle.structure.duplicate_id'', ''bundle.structure.unknown_observation_slot'',
        ''bundle.semantic.invalid_slot_confidence'', ''bundle.semantic.alignment_annotation_mismatch'',
        ''bundle.structure.session_id_mismatch'', ''bundle.wire.unsupported_schema_version''} \<or>
     is_non_finite_snr d"

text \<open>
  The map of excluded observations is read by key and counted only, so its entries are kept in
  the order of their keys.
\<close>

record eligibility_plan =
  ep_excluded_observations :: "(nat \<times> observation_exclusion_reason) list"
  ep_excluded_slots :: "nat set"
  ep_excluded_events :: "nat set"
  ep_exclusions :: "eligibility_exclusion_count list"

record plan_state =
  es_observations :: "(nat \<times> observation_exclusion_reason) list"
  es_slots :: "nat set"
  es_events :: "nat set"
  es_counts :: "((string \<times> eligibility_category \<times> eligibility_scope) \<times> nat) list"

definition stronger_reason ::
    "observation_exclusion_reason \<Rightarrow> observation_exclusion_reason option \<Rightarrow> observation_exclusion_reason" where
  "stronger_reason reason v =
     (case v of None \<Rightarrow> reason
      | Some existing \<Rightarrow>
          if observation_reason_rank existing < observation_reason_rank reason then reason else existing)"

definition plan_location ::
    "bundle_diagnostic \<Rightarrow> plan_state \<Rightarrow> bundle_diagnostic_location \<Rightarrow> plan_state" where
  "plan_location d s l =
     (case (dl_record_kind l, dl_record_index l) of
        (Some KindObservation, Some index) \<Rightarrow>
          if observation_diagnostic_excludes d
          then s\<lparr>es_observations := bt_entry index
                   (stronger_reason (observation_reason (eligibility_category_of d))) (es_observations s)\<rparr>
          else s
      | (Some KindSlot, Some index) \<Rightarrow> s\<lparr>es_slots := insert index (es_slots s)\<rparr>
      | (Some KindOperatorEvent, Some index) \<Rightarrow>
          if bd_code d \<noteq> ''bundle.eligibility.v2_operator_event_conflict''
          then s\<lparr>es_events := insert index (es_events s)\<rparr>
          else s
      | _ \<Rightarrow> s)"

definition plan_diagnostic :: "plan_state \<Rightarrow> bundle_diagnostic \<Rightarrow> plan_state" where
  "plan_diagnostic s d =
     foldl (plan_location d)
       (s\<lparr>es_counts := bt_entry (bd_code d, eligibility_category_of d, eligibility_scope_of (bd_location d))
            incremented (es_counts s)\<rparr>)
       (bd_location d # bd_related_locations d)"

definition plan_relevant :: "bundle_diagnostic \<Rightarrow> bool" where
  "plan_relevant d \<longleftrightarrow>
     blocks d AnalysisProfile \<or> bd_code d = ''bundle.semantic.alignment_annotation_mismatch'' \<or>
     is_non_finite_snr d"

definition plan_from_report :: "bundle_validation_report \<Rightarrow> eligibility_plan" where
  "plan_from_report report =
     (let s = foldl plan_diagnostic \<lparr>es_observations = [], es_slots = {}, es_events = {}, es_counts = []\<rparr>
            (filter plan_relevant (vr_diagnostics report))
      in \<lparr>ep_excluded_observations = es_observations s, ep_excluded_slots = es_slots s,
          ep_excluded_events = es_events s,
          ep_exclusions = map (\<lambda>((code, category, scope), count).
            \<lparr>ee_code = code, ee_category = category, ee_scope = scope, ee_count = count\<rparr>) (es_counts s)\<rparr>)"

definition sanitize_observation :: "string option \<Rightarrow> 'j observation_record \<Rightarrow> 'j observation_record" where
  "sanitize_observation field_path ob =
     (if field_path = Some ''/distance_km'' then ob\<lparr>ob_distance_km := None\<rparr>
      else if field_path = Some ''/azimuth_degrees'' then ob\<lparr>ob_azimuth_degrees := None\<rparr>
      else if field_path = Some ''/power_watts'' then ob\<lparr>ob_power_watts := None\<rparr>
      else if field_path = Some ''/frequency_hz'' then ob\<lparr>ob_frequency_hz := None\<rparr>
      else if field_path = Some ''/drift_hz_per_minute'' then ob\<lparr>ob_drift_hz_per_minute := None\<rparr>
      else ob)"

definition sanitize_step :: "'j bundle_contents \<Rightarrow> bundle_diagnostic \<Rightarrow> 'j bundle_contents" where
  "sanitize_step bundle d =
     (case dl_record_index (bd_location d) of
        None \<Rightarrow> bundle
      | Some index \<Rightarrow>
          if dl_record_kind (bd_location d) \<noteq> Some KindObservation \<or> length (bc_observations bundle) \<le> index
          then bundle
          else bundle\<lparr>bc_observations := (bc_observations bundle)
                 [index := sanitize_observation (dl_field_path (bd_location d)) (bc_observations bundle ! index)]\<rparr>)"

definition sanitize_analysis_fields ::
    "'j bundle_contents \<Rightarrow> bundle_validation_report \<Rightarrow> 'j bundle_contents" where
  "sanitize_analysis_fields bundle report = foldl sanitize_step bundle (vr_diagnostics report)"

text \<open>The bundle the analysis works on.\<close>

definition analysis_bundle ::
    "'j bundle_contents \<Rightarrow> bundle_validation_report \<Rightarrow> eligibility_plan \<Rightarrow> 'j bundle_contents" where
  "analysis_bundle bundle report plan =
     (let b = sanitize_analysis_fields bundle report;
          slots = map snd (filter (\<lambda>(index, slot). index \<notin> ep_excluded_slots plan)
            (enumerate 0 (sc_slots (bc_schedule bundle))));
          b = b\<lparr>bc_schedule := (bc_schedule b)\<lparr>sc_slots := slots\<rparr>\<rparr>;
          retained_slot_ids = ps_slot_id ` set slots
      in b\<lparr>bc_events := map snd (filter (\<lambda>(index, event). index \<notin> ep_excluded_events plan \<and>
             (case ev_slot_id event of None \<Rightarrow> True | Some slot_id \<Rightarrow> slot_id \<in> retained_slot_ids))
           (enumerate 0 (bc_events bundle)))\<rparr>)"

section \<open>Classification\<close>

definition classify_assignment ::
    "observation_slot_assignment \<Rightarrow> analysis_failure + observation_disposition" where
  "classify_assignment a =
     (case oa_reason a of
        ReasonGuardTime \<Rightarrow> Inr (Excluded ExGuardTime)
      | ReasonNearBoundary \<Rightarrow> Inr (Excluded ExNearBoundary)
      | ReasonBeforeObservedSwitch \<Rightarrow> Inr (Excluded ExBeforeObservedSwitch)
      | ReasonMissedSlot \<Rightarrow> Inr (Excluded ExMissedSlot)
      | ReasonBadSlot \<Rightarrow> Inr (Excluded ExBadSlot)
      | ReasonUnknownActualState \<Rightarrow> Inr (Excluded ExMissingEvidence)
      | ReasonConflictingEvidence \<Rightarrow> Inr (Excluded ExContradictoryEvidence)
      | ReasonBandMismatch \<Rightarrow> Inr (Excluded ExBandMismatch)
      | ReasonOutsideSchedule \<Rightarrow> Inr (Excluded ExOutsideSchedule)
      | _ \<Rightarrow>
          if oa_slot_id a \<noteq> None \<and> oa_slot_label a \<noteq> None \<and>
             fl_le MINIMUM_USABLE_CONFIDENCE (oa_confidence a)
          then Inr Usable
          else Inl (Panicked ''default schedule alignment always labels usable assignment reasons''))"

definition classify ::
    "eligibility_plan \<Rightarrow> nat \<Rightarrow> 'j observation_record \<Rightarrow> observation_slot_assignment
       \<Rightarrow> analysis_failure + 'j classified_observation" where
  "classify plan index observation a =
     and_then
       (case map_of (ep_excluded_observations plan) index of
          Some reason \<Rightarrow> Inr (Excluded reason)
        | None \<Rightarrow> classify_assignment a)
       (\<lambda>disposition.
          Inr \<lparr>cl_observation = observation, cl_assignment = a, cl_disposition = disposition\<rparr>)"

definition classify_step ::
    "eligibility_plan \<Rightarrow> 'j classified_observation list
       \<Rightarrow> nat \<times> 'j observation_record \<times> observation_slot_assignment
       \<Rightarrow> analysis_failure + 'j classified_observation list" where
  "classify_step plan classified =
     (\<lambda>(index, observation, a). and_then (classify plan index observation a) (\<lambda>c. Inr (classified @ [c])))"

section \<open>Evidence\<close>

record evidence_aggregate =
  ga_total :: nat
  ga_usable :: nat
  ga_exclusions :: "nat list"
  ga_usable_kinds :: "nat list"
  ga_snr_samples :: "fl list"
  ga_contributing_slots :: "string set"

definition aggregate_default :: evidence_aggregate where
  "aggregate_default = \<lparr>ga_total = 0, ga_usable = 0, ga_exclusions = replicate 12 0,
     ga_usable_kinds = replicate 3 0, ga_snr_samples = [], ga_contributing_slots = {}\<rparr>"

definition bump :: "nat \<Rightarrow> nat list \<Rightarrow> nat list" where
  "bump i xs = xs[i := xs ! i + 1]"

definition add_evidence :: "evidence_aggregate \<Rightarrow> 'j classified_observation \<Rightarrow> evidence_aggregate" where
  "add_evidence g classified =
     (let g = g\<lparr>ga_total := ga_total g + 1\<rparr> in
      case cl_disposition classified of
        Usable \<Rightarrow>
          g\<lparr>ga_usable := ga_usable g + 1,
            ga_usable_kinds := bump (observation_kind_index (ob_observation_kind (cl_observation classified)))
              (ga_usable_kinds g),
            ga_snr_samples := ga_snr_samples g @
              (case ob_snr_db (cl_observation classified) of None \<Rightarrow> [] | Some snr \<Rightarrow> [snr]),
            ga_contributing_slots :=
              (case oa_slot_id (cl_assignment classified) of
                 None \<Rightarrow> ga_contributing_slots g
               | Some slot_id \<Rightarrow> insert slot_id (ga_contributing_slots g))\<rparr>
      | Excluded reason \<Rightarrow>
          g\<lparr>ga_exclusions := bump (exclusion_reason_index reason) (ga_exclusions g)\<rparr>)"

definition nonzero_counts :: "'x list \<Rightarrow> nat list \<Rightarrow> ('x \<times> nat) list" where
  "nonzero_counts xs counts =
     List.map_filter (\<lambda>(index, x). bool_then (0 < counts ! index) (x, counts ! index)) (enumerate 0 xs)"

definition finish_evidence :: "evidence_aggregate \<Rightarrow> evidence_summary" where
  "finish_evidence g =
     \<lparr>es_observation_counts =
        \<lparr>oc_total = ga_total g, oc_usable = ga_usable g, oc_excluded = ga_total g - ga_usable g\<rparr>,
      es_exclusions = nonzero_counts EXCLUSION_REASONS (ga_exclusions g),
      es_usable_observation_kinds = nonzero_counts OBSERVATION_KINDS (ga_usable_kinds g),
      es_snr = snr_statistics_of (sort_key total_key (ga_snr_samples g))\<rparr>"

definition aggregate ::
    "'j classified_observation list \<Rightarrow> analysis_budget \<Rightarrow> string \<Rightarrow> evidence_aggregate analysis" where
  "aggregate observations budget role =
     checked_loop (checkpoint budget StageAggregate role)
       (\<lambda>g classified. Inr (add_evidence g classified)) 0 aggregate_default observations"

definition evidence_quality_of :: "nat \<Rightarrow> nat \<Rightarrow> evidence_quality" where
  "evidence_quality_of usable contributing_slots =
     (if 5 \<le> usable \<and> 3 \<le> contributing_slots then Moderate
      else if 2 \<le> usable \<and> 2 \<le> contributing_slots then Weak
      else Insufficient)"

primrec quality_rank :: "evidence_quality \<Rightarrow> nat" where
  "quality_rank Insufficient = 0"
| "quality_rank Weak = 1"
| "quality_rank Moderate = 2"

definition session_evidence_quality ::
    "'j bundle_contents \<Rightarrow> antenna_evidence_summary list \<Rightarrow> evidence_quality" where
  "session_evidence_quality bundle antennas =
     (let labels = ps_antenna_label ` set (sc_slots (bc_schedule bundle)) in
      unwrap_or Insufficient
        (min_by_key (\<lambda>quality. int (quality_rank quality))
          (map ae_evidence_quality (filter (\<lambda>a. ae_antenna_label a \<in> labels) antennas))))"

definition antenna_evidence ::
    "'j classified_observation list \<Rightarrow> analysis_budget \<Rightarrow> antenna \<Rightarrow> antenna_evidence_summary analysis" where
  "antenna_evidence observations budget antenna =
     next_do (aggregate (filter (\<lambda>c. oa_slot_label (cl_assignment c) = Some (an_label antenna)) observations)
        budget ''antenna_evidence'') (\<lambda>g.
       let contributing_slot_count = card (ga_contributing_slots g) in
       done_with \<lparr>ae_antenna_label = an_label antenna, ae_contributing_slot_count = contributing_slot_count,
                  ae_evidence_quality = evidence_quality_of (ga_usable g) contributing_slot_count,
                  ae_evidence = finish_evidence g\<rparr>)"

definition band_evidence ::
    "'j classified_observation list \<Rightarrow> analysis_budget \<Rightarrow> band \<Rightarrow> band_evidence_summary analysis" where
  "band_evidence observations budget band =
     next_do (aggregate (filter (\<lambda>c. ob_band (cl_observation c) = band) observations) budget ''band_evidence'')
       (\<lambda>g. done_with \<lparr>be_band = band, be_evidence = finish_evidence g\<rparr>)"

definition summarize_slot ::
    "'j classified_observation list \<Rightarrow> analysis_budget \<Rightarrow> aligned_slot \<Rightarrow> slot_evidence_summary analysis" where
  "summarize_slot observations budget slot =
     next_do (aggregate (filter (\<lambda>c. oa_slot_id (cl_assignment c) = Some (as_slot_id slot)) observations)
        budget ''slot_evidence'')
       (\<lambda>g. done_with \<lparr>se_slot = slot, se_evidence = finish_evidence g\<rparr>)"

definition bands_present :: "'j bundle_contents \<Rightarrow> band list" where
  "bands_present bundle =
     filter (\<lambda>band. list_ex (\<lambda>slot. ps_band slot = band) (sc_slots (bc_schedule bundle)) \<or>
                    list_ex (\<lambda>ob. ob_band ob = band) (bc_observations bundle)) BANDS"

definition exclusion_record :: "'j classified_observation \<Rightarrow> observation_exclusion_record option" where
  "exclusion_record classified =
     (case cl_disposition classified of
        Usable \<Rightarrow> None
      | Excluded reason \<Rightarrow>
          let ob = cl_observation classified; a = cl_assignment classified in
          Some \<lparr>xr_observation_id = ob_observation_id ob, xr_reason = reason,
                xr_timestamp = rm_timestamp (ob_meta ob), xr_band = ob_band ob,
                xr_observation_kind = ob_observation_kind ob, xr_source = rm_source (ob_meta ob),
                xr_mode = ob_mode ob, xr_slot_id = oa_slot_id a, xr_assigned_label = oa_slot_label a,
                xr_assignment_confidence = oa_confidence a\<rparr>)"

section \<open>The analysis\<close>

record analysis_summary =
  sy_session_id :: string
  sy_evidence_quality :: evidence_quality
  sy_overall :: evidence_summary
  sy_antennas :: "antenna_evidence_summary list"
  sy_bands :: "band_evidence_summary list"
  sy_slots :: "slot_evidence_summary list"
  sy_comparison :: paired_comparison_analysis
  sy_reporter_activity :: reporter_activity_analysis
  sy_solar_context :: solar_context_analysis
  sy_exclusion_records :: "observation_exclusion_record list"
  sy_eligibility :: "eligibility_exclusion_count list"

text \<open>A \<open>usize\<close> has 64 bits; the two saturating operations of the code stop at its maximum.\<close>

definition saturated :: "nat \<Rightarrow> nat" where "saturated n = min (2 ^ 64 - 1) n"

definition do_all :: "('x \<Rightarrow> unit analysis) \<Rightarrow> 'x list \<Rightarrow> unit analysis" where
  "do_all f xs = next_do (each_do f xs) (\<lambda>_. done_with ())"

definition input_entries :: "'j bundle_contents \<Rightarrow> adapter_record_v2 list \<Rightarrow> nat" where
  "input_entries bundle adapter_records =
     length (sc_slots (bc_schedule bundle)) + length (bc_events bundle) + length (bc_observations bundle) +
     length (af_antennas (bc_antennas bundle)) + length adapter_records"

definition plan_entries :: "eligibility_plan \<Rightarrow> nat" where
  "plan_entries plan =
     length (ep_excluded_observations plan) + card (ep_excluded_slots plan) + card (ep_excluded_events plan) +
     length (ep_exclusions plan)"

text \<open>The first stage: what enters the analysis.\<close>

definition plan_analysis ::
    "'j bundle_contents \<Rightarrow> bundle_validation_report \<Rightarrow> adapter_record_v2 list \<Rightarrow> analysis_budget
       \<Rightarrow> eligibility_plan analysis" where
  "plan_analysis bundle validation adapter_records budget =
     (if list_ex is_fatal_for_analysis (vr_diagnostics validation) then
        next_do (lifted (expecting ''BundleValidationError requires at least one diagnostic''
            (error_from_report validation)))
          (\<lambda>e. fail_with (Refused (InvalidBundle e)))
      else
        next_do (do_all (\<lambda>(role, entries). collection budget StagePlan role entries)
          [(''schedule_slots'', length (sc_slots (bc_schedule bundle))),
           (''operator_events'', length (bc_events bundle)),
           (''observations'', length (bc_observations bundle)),
           (''antennas'', length (af_antennas (bc_antennas bundle))),
           (''adapter_records'', length adapter_records)]) (\<lambda>_.
        next_do (live budget StagePlan ''analysis_projection'' (input_entries bundle adapter_records)) (\<lambda>_.
        let plan = plan_from_report validation in
        next_do (collection budget StagePlan ''eligibility_plan'' (plan_entries plan)) (\<lambda>_.
        next_do (live budget StagePlan ''projection_and_eligibility''
          (input_entries bundle adapter_records + plan_entries plan)) (\<lambda>_.
        done_with plan)))))"

text \<open>The second: every observation with its assignment and its disposition.\<close>

definition align_analysis ::
    "'j bundle_contents \<Rightarrow> eligibility_plan \<Rightarrow> nat \<Rightarrow> analysis_budget
       \<Rightarrow> (schedule_slot_alignment \<times> 'j classified_observation list) analysis" where
  "align_analysis b plan entries budget =
     next_do (lifted (expecting ''handled above''
       (align_schedule_slots (bc_schedule b) (bc_events b) (bc_observations b) default_slot_alignment_policy)))
       (\<lambda>alignment.
     next_do (collection budget StageAlign ''aligned_slots'' (length (sl_slots alignment))) (\<lambda>_.
     next_do (collection budget StageAlign ''observation_assignments''
       (length (sl_observation_assignments alignment))) (\<lambda>_.
     let alignment_entries = length (sl_slots alignment) + length (sl_observation_assignments alignment) in
     next_do (live budget StageAlign ''projection_plan_alignment'' (entries + alignment_entries)) (\<lambda>_.
     next_do (collection budget StageAggregate ''classified_observations'' (length (bc_observations b))) (\<lambda>_.
     next_do (live budget StageAggregate ''analysis_classification''
       (entries + alignment_entries + length (bc_observations b))) (\<lambda>_.
     next_do (checked_loop (checkpoint budget StageAggregate ''classify_observations'') (classify_step plan) 0 []
       (enumerate 0 (zip (bc_observations b) (sl_observation_assignments alignment)))) (\<lambda>observations.
     done_with (alignment, observations))))))))"

definition evidence_analysis ::
    "'j bundle_contents \<Rightarrow> antenna list \<Rightarrow> aligned_slot list \<Rightarrow> 'j classified_observation list
       \<Rightarrow> analysis_budget
       \<Rightarrow> (evidence_summary \<times> antenna_evidence_summary list \<times> band_evidence_summary list
           \<times> slot_evidence_summary list) analysis" where
  "evidence_analysis b antennas slots observations budget =
     next_do (cancelled budget StageAggregate ''overall_evidence'') (\<lambda>_.
     next_do (aggregate observations budget ''overall_evidence'') (\<lambda>g.
     let overall = finish_evidence g in
     next_do (collection budget StageAggregate ''antenna_summaries'' (length antennas)) (\<lambda>_.
     next_do (each_do (antenna_evidence observations budget) antennas) (\<lambda>antenna_summaries.
     next_do (each_do (band_evidence observations budget) (bands_present b)) (\<lambda>band_summaries.
     next_do (collection budget StageAggregate ''slot_summaries'' (length slots)) (\<lambda>_.
     next_do (each_do (summarize_slot observations budget) slots) (\<lambda>slot_summaries.
     done_with (overall, antenna_summaries, band_summaries, slot_summaries))))))))"

definition comparison_analysis ::
    "'v json_reader \<Rightarrow> platform \<Rightarrow> 'j bundle_contents \<Rightarrow> aligned_slot list \<Rightarrow> 'j classified_observation list
       \<Rightarrow> adapter_record_v2 list \<Rightarrow> (string \<times> path_direction) list \<Rightarrow> nat \<Rightarrow> analysis_budget
       \<Rightarrow> (paired_comparison_analysis \<times> reporter_activity_analysis \<times> solar_context_analysis) analysis" where
  "comparison_analysis reader tg b slots observations adapter_records cycle_directions entries budget =
     (let comparison_upper_bound =
            saturated (saturated (length observations * 5) + saturated (length slots * 2)) in
     next_do (live budget StageCompare ''comparison_intermediates''
       (entries + length observations + comparison_upper_bound)) (\<lambda>_.
     next_do (cancelled budget StageCompare ''paired_comparison'') (\<lambda>_.
     next_do (analyze_paired_comparison b slots observations budget) (\<lambda>comparison.
     next_do (analyze_reporter_activity reader b slots observations comparison adapter_records
       cycle_directions budget) (\<lambda>reporter_activity.
     next_do (derive_solar_context tg b comparison budget) (\<lambda>solar_context.
     done_with (comparison, reporter_activity, solar_context)))))))"

definition summarize_bundle_with_resources_and_activity ::
    "'v json_reader \<Rightarrow> platform \<Rightarrow> 'j bundle_contents \<Rightarrow> bundle_validation_report \<Rightarrow> adapter_record_v2 list
       \<Rightarrow> (string \<times> path_direction) list \<Rightarrow> analysis_budget \<Rightarrow> analysis_summary analysis" where
  "summarize_bundle_with_resources_and_activity reader tg bundle validation adapter_records
      cycle_directions budget =
     next_do (plan_analysis bundle validation adapter_records budget) (\<lambda>plan.
     let b = analysis_bundle bundle validation plan;
         entries = input_entries bundle adapter_records + plan_entries plan in
     next_do (align_analysis b plan entries budget) (\<lambda>(alignment, observations).
     next_do (evidence_analysis b (af_antennas (bc_antennas bundle)) (sl_slots alignment) observations budget)
       (\<lambda>(overall, antennas, bands, slots).
     let evidence_quality = session_evidence_quality b antennas;
         alignment_entries = length (sl_slots alignment) + length (sl_observation_assignments alignment) in
     next_do (comparison_analysis reader tg b (sl_slots alignment) observations adapter_records cycle_directions
       (entries + alignment_entries) budget) (\<lambda>(comparison, reporter_activity, solar_context).
     let exclusion_records = sort_key xr_observation_id (List.map_filter exclusion_record observations) in
     next_do (collection budget StageAggregate ''exclusion_records'' (length exclusion_records)) (\<lambda>_.
     next_do (do_all (\<lambda>(role, n). collection budget StageCompare role n)
       [(''comparison_blocks'', length (pc_blocks comparison)),
        (''comparison_overlap_rows'', length (pc_overlap_rows comparison)),
        (''comparison_timeline_rows'', length (pc_timeline_rows comparison)),
        (''comparison_paired_rows'', length (pc_paired_rows comparison)),
        (''comparison_path_summaries'', length (pc_path_summaries comparison)),
        (''comparison_strata'', length (pc_strata comparison))]) (\<lambda>_.
     done_with
       \<lparr>sy_session_id = bm_session_id (bc_manifest bundle), sy_evidence_quality = evidence_quality,
        sy_overall = overall, sy_antennas = antennas, sy_bands = bands, sy_slots = slots,
        sy_comparison = comparison, sy_reporter_activity = reporter_activity,
        sy_solar_context = solar_context, sy_exclusion_records = exclusion_records,
        sy_eligibility = ep_exclusions plan\<rparr>))))))"

definition summarize_bundle_with_report ::
    "'v json_reader \<Rightarrow> platform \<Rightarrow> 'j bundle_contents \<Rightarrow> bundle_validation_report
       \<Rightarrow> analysis_summary analysis" where
  "summarize_bundle_with_report reader tg bundle validation =
     summarize_bundle_with_resources_and_activity reader tg bundle validation [] []
       \<lparr>bu_limits = ANALYSIS_RESOURCE_LIMITS, bu_cancelled_from = None\<rparr>"

definition summarize_bundle_with_activity ::
    "'v json_reader \<Rightarrow> platform \<Rightarrow> 'j bundle_contents \<Rightarrow> adapter_record_v2 list
       \<Rightarrow> (string \<times> path_direction) list \<Rightarrow> analysis_summary analysis" where
  "summarize_bundle_with_activity reader tg bundle adapter_records cycle_directions =
     next_do (lifted (expecting ''handled above'' (validate_bundle_report bundle))) (\<lambda>validation.
       summarize_bundle_with_resources_and_activity reader tg bundle validation adapter_records cycle_directions
         \<lparr>bu_limits = ANALYSIS_RESOURCE_LIMITS, bu_cancelled_from = None\<rparr>)"

definition summarize_bundle ::
    "'v json_reader \<Rightarrow> platform \<Rightarrow> 'j bundle_contents \<Rightarrow> analysis_summary analysis" where
  "summarize_bundle reader tg bundle =
     next_do (lifted (expecting ''handled above'' (validate_bundle_report bundle)))
       (summarize_bundle_with_report reader tg bundle)"

end
