(* ===== verification/ComparisonProperties.thy ===== *)
theory ComparisonProperties
  imports Comparison
begin

text \<open>
  What the paired comparison guarantees: keys of strata can always be read back, every row of the
  result comes from two usable observations of one path in one eligible block, and no
  \<open>expect\<close> of the file fails on observations whose own slot annotation is present.
\<close>

section \<open>Keys\<close>

definition no_letter :: "char \<Rightarrow> bool" where
  "no_letter d \<longleftrightarrow> \<not> ((65 :: nat) \<le> of_char d \<and> of_char d \<le> (90 :: nat)) \<and>
     \<not> ((97 :: nat) \<le> of_char d \<and> of_char d \<le> (122 :: nat))"

lemma ascii_upper_no_letter: "no_letter d \<Longrightarrow> ascii_upper c = d \<longleftrightarrow> c = d"
  by (auto simp: no_letter_def ascii_upper_def split: if_splits)

lemma prefix_upper: "list_all no_letter w \<Longrightarrow> prefix w (map ascii_upper s) \<longleftrightarrow> prefix w s"
proof (induction w arbitrary: s)
  case (Cons d w)
  then have "d = ascii_upper c \<longleftrightarrow> d = c" for c
    using ascii_upper_no_letter [of d c] by auto
  with Cons show ?case by (cases s) simp_all
qed simp

lemma white_space_no_letter: "\<forall>w \<in> set white_space. list_all no_letter w"
  by (simp add: white_space_def no_letter_def)

lemma trim_fixed_iff: "trim s = s \<longleftrightarrow>
    strip_one white_space s = None \<and> strip_one (map rev white_space) (rev s) = None"
proof
  assume fixed: "trim s = s"
  have "strip_one white_space (trim_start s) = None"
    "strip_one (map rev white_space) (strip_all (map rev white_space) (rev (trim_start s))) = None"
    by (simp_all add: trim_start_def)
  moreover have "trim_start s = s" using trim_start_trim [of s] fixed by simp
  ultimately show "strip_one white_space s = None \<and> strip_one (map rev white_space) (rev s) = None"
    using fixed by (metis rev_rev_ident trim_def trim_end_def)
next
  assume "strip_one white_space s = None \<and> strip_one (map rev white_space) (rev s) = None"
  then show "trim s = s" by (simp add: trim_def trim_start_def trim_end_def strip_all_fixed)
qed

lemma trim_upper: "trim s = s \<Longrightarrow> trim (map ascii_upper s) = map ascii_upper s"
proof -
  have "strip_one white_space (map ascii_upper t) = None \<longleftrightarrow> strip_one white_space t = None"
    "strip_one (map rev white_space) (map ascii_upper t) = None \<longleftrightarrow> strip_one (map rev white_space) t = None" for t
    using white_space_no_letter by (auto simp: strip_one_None_iff prefix_upper)
  then show "trim s = s \<Longrightarrow> trim (map ascii_upper s) = map ascii_upper s"
    by (simp add: trim_fixed_iff rev_map)
qed

lemma of_ascii_upper: "(of_char (ascii_upper c) :: nat) =
    (if (97 :: nat) \<le> of_char c \<and> of_char c \<le> (122 :: nat) then of_char c - 32 else of_char c)"
  by (auto simp: ascii_upper_def)

lemma has_control_upper: "has_control (map ascii_upper s) = has_control s"
proof (induction s)
  case (Cons c s)
  have "ascii_upper c = CHR 0xC2 \<longleftrightarrow> c = CHR 0xC2"
    by (rule ascii_upper_no_letter) (simp add: no_letter_def)
  moreover have "s \<noteq> [] \<and> (128 :: nat) \<le> of_char (hd (map ascii_upper s)) \<and> of_char (hd (map ascii_upper s)) \<le> (159 :: nat)
      \<longleftrightarrow> s \<noteq> [] \<and> (128 :: nat) \<le> of_char (hd s) \<and> of_char (hd s) \<le> (159 :: nat)"
    by (cases s) (auto simp: of_ascii_upper)
  moreover have "of_char (ascii_upper c) < (32 :: nat) \<or> of_char (ascii_upper c) = (127 :: nat)
      \<longleftrightarrow> of_char c < (32 :: nat) \<or> of_char c = (127 :: nat)"
    by (auto simp: of_ascii_upper)
  ultimately show ?case using Cons.IH by simp
qed simp

lemma ascii_upper_idem [simp]: "ascii_upper (ascii_upper c) = ascii_upper c"
  by (auto simp: ascii_upper_def [of "ascii_upper c"] of_ascii_upper)

text \<open>A mode that came out of \<open>normalize\<close> is left as it is.\<close>

definition normal_mode :: "signal_mode_name \<Rightarrow> bool" where
  "normal_mode m \<longleftrightarrow> normalize_mode (mode_str m) = Some m"

lemma normalize_mode_normal: "normalize_mode s = Some m \<Longrightarrow> normal_mode m"
  by (auto simp: normal_mode_def normalize_mode_def mode_str_def Let_def trim_upper has_control_upper comp_def
      split: if_splits)

lemma band_from_rank: "band_from_rank (comparison_band_rank b) = b"
  by (cases b) (simp_all add: band_from_rank_def)

lemma source_from_rank: "source_from_rank (source_rank s) = s"
  by (cases s) (simp_all add: source_from_rank_def)

lemma stratum_from_key_normal: "normal_mode (sm_mode st) \<Longrightarrow> stratum_from_key (stratum_key st) = Inr st"
  by (cases st) (simp add: stratum_from_key_def stratum_key_def normal_mode_def expecting_def band_from_rank
      source_from_rank split: path_direction.split observation_kind.split)

lemma stratum_key_mode: "stratum_key a = stratum_key b \<Longrightarrow> mode_str (sm_mode a) = mode_str (sm_mode b)"
  by (simp add: stratum_key_def)

lemma stratum_key_inject:
  assumes "stratum_key a = stratum_key b"
  shows "a = b"
proof -
  have "comparison_band_rank x = comparison_band_rank y \<Longrightarrow> x = y" for x y
    by (metis band_from_rank)
  moreover have "source_rank x = source_rank y \<Longrightarrow> x = y" for x y
    by (metis source_from_rank)
  moreover have "mode_str m = mode_str n \<Longrightarrow> m = n" for m n
    by (cases m; cases n) (simp add: mode_str_def)
  ultimately show ?thesis
    using assms by (cases a; cases b)
      (auto simp: stratum_key_def split: path_direction.splits observation_kind.splits)
qed

section \<open>Blocks\<close>

lemma enumerate_in: "(i, x) \<in> set (enumerate n xs) \<longleftrightarrow> n \<le> i \<and> i < n + length xs \<and> xs ! (i - n) = x"
  by (auto simp: in_set_enumerate_eq)

lemma build_blocks_nth:
  assumes "i < length (build_blocks slots l r)"
  shows "cb_block_index (build_blocks slots l r ! i) = i"
  using assms by (simp add: build_blocks_def nth_enumerate_eq case_prod_unfold comparison_block_of_def Let_def)

lemma eligible_order:
  assumes "b \<in> set (build_blocks slots l r)" and "cb_eligibility b = Eligible"
  shows "cb_order b \<noteq> None"
proof -
  have "snd (block_state first second l r) = Eligible \<Longrightarrow> fst (block_state first second l r) \<noteq> None" for first second
  proof (cases second)
    case (Some t)
    have paired: "snd v = Eligible \<Longrightarrow> fst v \<noteq> None"
      if "v = (if c then (None, RepeatedLabel) else if d then (Some LeftThenRight, Eligible)
            else if e then (Some RightThenLeft, Eligible) else (None, UnsupportedLabel))" for v c d e
      using that by (cases c; cases d; cases e) simp_all
    assume "snd (block_state first second l r) = Eligible"
    with Some show ?thesis
      by (cases "as_actual_label first"; cases "as_actual_label t")
        (simp_all only: block_state_def option.case prod.case snd_conv comparison_block_eligibility.distinct
          paired [OF refl] not_False_eq_True)
  qed (simp add: block_state_def)
  then have "cb_order (comparison_block_of amb l r i first second) \<noteq> None"
    if "cb_eligibility (comparison_block_of amb l r i first second) = Eligible" for amb i first second
    using that by (cases amb) (simp_all add: comparison_block_of_def Let_def)
  moreover obtain i first second where "b = comparison_block_of (ambiguous_sequence_order slots) l r i first second"
    using assms(1) unfolding build_blocks_def by auto
  ultimately show ?thesis using assms(2) by metis
qed

definition block_slots :: "comparison_block \<Rightarrow> string set" where
  "block_slots b = insert (cb_first_slot_id b) (set_option (cb_second_slot_id b))"

lemma block_by_slot_of_build:
  assumes "block_by_slot_of (build_blocks slots l r) slot_id = Some i"
  shows "i < length (build_blocks slots l r) \<and> slot_id \<in> block_slots (build_blocks slots l r ! i)"
proof -
  from assms obtain b where "b \<in> set (build_blocks slots l r)" "cb_block_index b = i" "slot_id \<in> block_slots b"
    by (auto simp: block_by_slot_of_def hash_of_def block_slots_def dest!: map_of_SomeD split: option.splits)
  then show ?thesis using build_blocks_nth [of _ slots l r] by (auto simp: in_set_conv_nth)
qed

section \<open>Groups\<close>

text \<open>
  The group of an observation and its side, if the first loop groups it: it is usable, its slot
  belongs to an eligible block, its label is one of the two, and its path and mode are known.
\<close>

definition group_of ::
    "'j bundle_contents \<Rightarrow> comparison_block list \<Rightarrow> string \<Rightarrow> string \<Rightarrow> 'j classified_observation
       \<Rightarrow> (group_key \<times> comparison_side) option" where
  "group_of bundle bs l r c =
     (let ob = cl_observation c; a = cl_assignment c in
      if cl_disposition c \<noteq> Usable then None
      else Option.bind (Option.bind (oa_slot_id a) (block_by_slot_of bs)) (\<lambda>i.
        if cb_eligibility (bs ! i) \<noteq> Eligible then None
        else Option.bind (block_side l r a) (\<lambda>side.
          Option.bind (path_identity bundle ob) (\<lambda>(direction, path).
          Option.bind (observation_mode ob) (\<lambda>mode.
            Some ((stratum_key (observation_stratum ob direction mode), i, path), side))))))"

definition heard_on ::
    "'j bundle_contents \<Rightarrow> comparison_block list \<Rightarrow> string \<Rightarrow> string \<Rightarrow> 'j classified_observation list
       \<Rightarrow> group_key \<Rightarrow> comparison_side \<Rightarrow> 'j observation_record list" where
  "heard_on bundle bs l r classified key side =
     map cl_observation (filter (\<lambda>c. group_of bundle bs l r c = Some (key, side)) classified)"

lemma group_usable_groups:
  "gr_groups (group_usable bundle locations slot_id i side ob s) =
     (case Option.bind (path_identity bundle ob) (\<lambda>(direction, path).
        Option.bind (observation_mode ob) (\<lambda>mode.
          Some (stratum_key (observation_stratum ob direction mode), i, path))) of
        None \<Rightarrow> gr_groups s
      | Some key \<Rightarrow> bt_entry key (add_to_group side ob) (gr_groups s))"
  by (simp add: group_usable_def count_ambiguous_path_def count_missing_mode_def Let_def split: option.split)

lemma group_usable_exclusions [simp]:
  "gr_exclusions_by_stratum (group_usable bundle locations slot_id i side ob s) = gr_exclusions_by_stratum s"
  by (simp add: group_usable_def count_ambiguous_path_def count_missing_mode_def Let_def split: option.split)

lemma count_excluded_groups [simp]: "gr_groups (count_excluded bundle ob s) = gr_groups s"
  by (simp add: count_excluded_def Let_def split: option.split)

lemma group_step_groups:
  "gr_groups (group_step bundle bs locations (block_by_slot_of bs) l r s c) =
     (case group_of bundle bs l r c of
        None \<Rightarrow> gr_groups s
      | Some (key, side) \<Rightarrow> bt_entry key (add_to_group side (cl_observation c)) (gr_groups s))"
  by (cases "path_identity bundle (cl_observation c)"; cases "observation_mode (cl_observation c)")
    (auto simp: group_step_def group_of_def Let_def group_usable_groups split: option.split)

lemma groups_collected:
  "gr_groups (foldl (group_step bundle bs locations (block_by_slot_of bs) l r) s classified) =
     bt.collected fst (\<lambda>(key, side, ob). add_to_group side ob) (gr_groups s)
       (List.map_filter (\<lambda>c. map_option (\<lambda>(key, side). (key, side, cl_observation c)) (group_of bundle bs l r c)) classified)"
proof (induction classified arbitrary: s)
  case (Cons c cs)
  show ?case
    by (cases "group_of bundle bs l r c")
      (auto simp: Cons.IH group_step_groups bt.collected_def map_filter_simps)
qed (simp add: bt.collected_def map_filter_simps)

lemma add_to_group_loop:
  "foldl (\<lambda>v (key, side, ob). Some (add_to_group side ob v)) (Some g) xs =
     Some \<lparr>pg_left = pg_left g @ map (snd \<circ> snd) (filter (\<lambda>(key, side, ob). side = LeftSide) xs),
           pg_right = pg_right g @ map (snd \<circ> snd) (filter (\<lambda>(key, side, ob). side = RightSide) xs)\<rparr>"
proof (induction xs arbitrary: g)
  case (Cons x xs)
  then show ?case
    by (cases x; cases "fst (snd x)") (simp_all add: add_to_group_def Let_def)
qed simp

lemma filter_grouped:
  "map (snd \<circ> snd) (filter (\<lambda>(key, side', ob). side' = side) (filter (\<lambda>x. fst x = key)
     (List.map_filter (\<lambda>c. map_option (\<lambda>(key, side). (key, side, cl_observation c)) (group_of bundle bs l r c)) classified)))
   = heard_on bundle bs l r classified key side"
proof (induction classified)
  case (Cons c cs)
  then show ?case
    by (cases "group_of bundle bs l r c") (auto simp: heard_on_def map_filter_simps)
qed (simp add: heard_on_def map_filter_simps)

lemma in_map_filter: "y \<in> set (List.map_filter f xs) \<longleftrightarrow> (\<exists>x \<in> set xs. f x = Some y)"
  by (induction xs) (auto simp: map_filter_simps split: option.split)

text \<open>The groups after the loop, in closed form.\<close>

lemma groups_after:
  assumes "gr_groups s = []"
    and "g = gr_groups (foldl (group_step bundle bs locations (block_by_slot_of bs) l r) s classified)"
  shows "bt_ok g"
    and "(key, v) \<in> set g \<longleftrightarrow>
      (\<exists>c \<in> set classified. \<exists>side. group_of bundle bs l r c = Some (key, side)) \<and>
      v = \<lparr>pg_left = heard_on bundle bs l r classified key LeftSide,
           pg_right = heard_on bundle bs l r classified key RightSide\<rparr>"
proof -
  let ?xs = "List.map_filter (\<lambda>c. map_option (\<lambda>(key, side). (key, side, cl_observation c)) (group_of bundle bs l r c)) classified"
  let ?f = "\<lambda>(key :: group_key, side, ob). add_to_group side ob"
  have g: "g = bt.collected fst ?f [] ?xs" by (simp only: assms groups_collected)
  have empty: "bt_ok []" by (simp add: bt_ok_def)
  show ok: "bt_ok g" unfolding g by (rule bt.ok_collected [OF empty])
  have look: "map_of g key = foldl (\<lambda>v x. Some (?f x v)) None (filter (\<lambda>x. fst x = key) ?xs)"
    unfolding g using bt.lookup_collected [OF empty, of fst ?f ?xs key] by simp
  have any: "filter (\<lambda>x. fst x = key) ?xs \<noteq> [] \<longleftrightarrow>
      (\<exists>c \<in> set classified. \<exists>side. group_of bundle bs l r c = Some (key, side))"
  proof -
    have "(k, side, ob) \<in> set ?xs \<longleftrightarrow> (\<exists>c \<in> set classified. group_of bundle bs l r c = Some (k, side) \<and> ob = cl_observation c)"
      for k side ob by (force simp: in_map_filter case_prod_unfold simp del: split_paired_Ex)
    moreover have "filter (\<lambda>x. fst x = key) xs \<noteq> [] \<longleftrightarrow> (\<exists>y. (key, y) \<in> set xs)"
      for xs :: "(group_key \<times> comparison_side \<times> 'a observation_record) list"
      by (induction xs) auto
    ultimately show ?thesis by (simp only: split_paired_Ex) blast
  qed
  show "(key, v) \<in> set g \<longleftrightarrow>
      (\<exists>c \<in> set classified. \<exists>side. group_of bundle bs l r c = Some (key, side)) \<and>
      v = \<lparr>pg_left = heard_on bundle bs l r classified key LeftSide,
           pg_right = heard_on bundle bs l r classified key RightSide\<rparr>"
  proof (cases "filter (\<lambda>x. fst x = key) ?xs")
    case Nil
    with any look show ?thesis unfolding bt_member [OF ok] by simp
  next
    case (Cons x xs)
    have "foldl (\<lambda>v x. Some (?f x v)) None (x # xs) =
        foldl (\<lambda>v (key, side, ob). Some (add_to_group side ob v)) (Some \<lparr>pg_left = [], pg_right = []\<rparr>) (x # xs)"
      by (cases x) (simp add: add_to_group_def case_prod_unfold)
    also have "\<dots> = Some \<lparr>pg_left = heard_on bundle bs l r classified key LeftSide,
           pg_right = heard_on bundle bs l r classified key RightSide\<rparr>"
      unfolding add_to_group_loop Cons [symmetric] filter_grouped by simp
    finally show ?thesis
      using any look Cons unfolding bt_member [OF ok] by auto
  qed
qed

section \<open>Keys that can be read back\<close>

definition normal_key :: "stratum_key \<Rightarrow> bool" where
  "normal_key key \<longleftrightarrow> (\<exists>st. key = stratum_key st \<and> normal_mode (sm_mode st))"

lemma normal_key_read: "normal_key key \<Longrightarrow> \<exists>st. stratum_from_key key = Inr st"
  by (auto simp: normal_key_def stratum_from_key_normal)

lemma observation_mode_normal: "observation_mode ob = Some m \<Longrightarrow> normal_mode m"
  by (auto simp: observation_mode_def Option.bind_eq_Some_conv dest: normalize_mode_normal)

lemma observation_key_normal:
  "observation_mode ob = Some m \<Longrightarrow> normal_key (stratum_key (observation_stratum ob d m))"
  unfolding normal_key_def by (rule exI [of _ "observation_stratum ob d m"])
    (simp add: observation_stratum_def observation_mode_normal)

definition exclusions_normal :: "'j grouping \<Rightarrow> bool" where
  "exclusions_normal s \<longleftrightarrow> (\<forall>x \<in> set (gr_exclusions_by_stratum s). normal_key (fst x))"

lemma bt_entry_all:
  assumes "\<forall>x \<in> set m. P x" and "P (k, f None)" and "\<And>v. (k, v) \<in> set m \<Longrightarrow> P (k, f (Some v))"
  shows "\<forall>x \<in> set (bt_entry k f m). P x"
  using assms by (induction k f m rule: bt_entry.induct) auto

lemma group_of_SomeD:
  assumes "group_of bundle bs l r c = Some ((key, i, path), side)"
  obtains direction mode slot_id where "cl_disposition c = Usable"
    "oa_slot_id (cl_assignment c) = Some slot_id" "block_by_slot_of bs slot_id = Some i"
    "cb_eligibility (bs ! i) = Eligible" "block_side l r (cl_assignment c) = Some side"
    "path_identity bundle (cl_observation c) = Some (direction, path)"
    "observation_mode (cl_observation c) = Some mode"
    "key = stratum_key (observation_stratum (cl_observation c) direction mode)" "normal_key key"
proof -
  from assms obtain direction mode slot_id where *: "cl_disposition c = Usable"
    "oa_slot_id (cl_assignment c) = Some slot_id" "block_by_slot_of bs slot_id = Some i"
    "cb_eligibility (bs ! i) = Eligible" "block_side l r (cl_assignment c) = Some side"
    "path_identity bundle (cl_observation c) = Some (direction, path)"
    "observation_mode (cl_observation c) = Some mode"
    "key = stratum_key (observation_stratum (cl_observation c) direction mode)"
    by (auto simp: group_of_def Let_def Option.bind_eq_Some_conv split: if_splits)
  then have "normal_key key" by (simp add: observation_key_normal)
  with * show thesis by (rule that)
qed

lemma count_excluded_normal:
  assumes "exclusions_normal s"
  shows "exclusions_normal (count_excluded bundle ob s)"
proof -
  have "\<forall>x \<in> set (bt_entry (stratum_key (observation_stratum ob d m)) f (gr_exclusions_by_stratum s)). normal_key (fst x)"
    if "observation_mode ob = Some m" for d m f
    by (rule bt_entry_all) (use assms observation_key_normal [OF that] in \<open>simp_all add: exclusions_normal_def\<close>)
  with assms show ?thesis
    by (cases "path_identity bundle ob"; cases "observation_mode ob")
      (simp_all add: count_excluded_def exclusions_normal_def Let_def case_prod_unfold)
qed

lemma group_step_exclusions:
  "gr_exclusions_by_stratum (group_step bundle bs locations block_by_slot l r s c) =
     gr_exclusions_by_stratum (if cl_disposition c \<noteq> Usable then count_excluded bundle (cl_observation c) s else s)"
  by (simp add: group_step_def Let_def split: option.split)

lemma exclusions_after:
  assumes "gr_exclusions_by_stratum s = []"
  shows "exclusions_normal (foldl (group_step bundle bs locations block_by_slot l r) s cs)"
proof (rule foldl_invariant [where I = exclusions_normal])
  show "exclusions_normal s" using assms by (simp add: exclusions_normal_def)
  show "exclusions_normal (group_step bundle bs locations block_by_slot l r s c)" if "exclusions_normal s" for s c
    using that count_excluded_normal [OF that, of "bundle" "cl_observation c"]
    by (simp add: exclusions_normal_def group_step_exclusions)
qed

section \<open>The pairing loop\<close>

text \<open>
  What \<open>resolve\<close> promises of the observation it picks: it is one of the group, it has the least
  identity, its SNR is finite, and every other one says the same.
\<close>

lemma resolve_finite:
  assumes "ro_finite (resolve obs) = Some ob"
  shows "ob \<in> set obs" and "\<exists>v. ob_snr_db ob = Some v \<and> is_finite v"
    and "x \<in> set obs \<Longrightarrow> ob_observation_id ob \<le> ob_observation_id x \<and> (x = ob \<or> exact_duplicates ob x)"
proof -
  obtain first rest where sorted: "sort_key ob_observation_id obs = first # rest"
    using assms by (cases "sort_key ob_observation_id obs") (auto simp: resolve_def unresolved_def)
  have members: "set obs = insert first (set rest)"
    by (metis list.simps(15) set_sort sorted)
  have least: "\<forall>x \<in> set rest. ob_observation_id first \<le> ob_observation_id x"
    using sorted_sort_key [of ob_observation_id obs] by (simp add: sorted)
  have "ob = first \<and> list_all (exact_duplicates first) rest \<and> (\<exists>v. ob_snr_db ob = Some v \<and> is_finite v)"
    using assms by (auto simp: resolve_def unresolved_def sorted Let_def split: if_splits option.splits)
  with members least show "ob \<in> set obs" "\<exists>v. ob_snr_db ob = Some v \<and> is_finite v"
    "x \<in> set obs \<Longrightarrow> ob_observation_id ob \<le> ob_observation_id x \<and> (x = ob \<or> exact_duplicates ob x)"
    by (auto simp: list_all_iff)
qed

definition row_of ::
    "'j bundle_contents \<Rightarrow> comparison_block list \<Rightarrow> group_key \<times> 'j pair_group \<Rightarrow> paired_observation_row option" where
  "row_of bundle bs = (\<lambda>((key, i, path), g).
     case (stratum_from_key key, ro_finite (resolve (pg_left g)), ro_finite (resolve (pg_right g))) of
       (Inr st, Some left, Some right) \<Rightarrow>
         (case paired_row bundle st (bs ! i) i path left right of Inr row \<Rightarrow> Some row | Inl _ \<Rightarrow> None)
     | _ \<Rightarrow> None)"

lemma pair_step_rows:
  assumes "pair_step bundle bs locations s x = Inr t"
  shows "pr_paired_rows t = pr_paired_rows s @ (case row_of bundle bs x of None \<Rightarrow> [] | Some row \<Rightarrow> [row])"
proof -
  obtain key i path g where x: "x = ((key, i, path), g)" by (metis prod.collapse)
  from assms obtain st where st: "stratum_from_key key = Inr st"
    by (auto simp: x pair_step_def and_then_Inr)
  show ?thesis
  proof (cases "\<exists>left right. ro_finite (resolve (pg_left g)) = Some left \<and> ro_finite (resolve (pg_right g)) = Some right")
    case False
    with assms st show ?thesis
      by (auto simp: x pair_step_def row_of_def Let_def split: option.splits)
  next
    case True
    then obtain left right where "ro_finite (resolve (pg_left g)) = Some left"
      "ro_finite (resolve (pg_right g)) = Some right" by blast
    with assms st show ?thesis
      by (auto simp: x pair_step_def row_of_def Let_def and_then_Inr)
  qed
qed

lemma pairing_rows:
  "try_fold (pair_step bundle bs locations) s gs = Inr t \<Longrightarrow>
     pr_paired_rows t = pr_paired_rows s @ List.map_filter (row_of bundle bs) gs"
proof (induction gs arbitrary: s)
  case (Cons x xs)
  then obtain u where "pair_step bundle bs locations s x = Inr u" "try_fold (pair_step bundle bs locations) u xs = Inr t"
    by (auto simp: and_then_Inr)
  with Cons.IH [OF this(2)] pair_step_rows [OF this(1)] show ?case
    by (simp add: map_filter_simps split: option.split)
qed (simp add: map_filter_simps)

definition keys_normal :: "('k \<Rightarrow> stratum_key) \<Rightarrow> ('k \<times> 'v) list \<Rightarrow> bool" where
  "keys_normal h m \<longleftrightarrow> (\<forall>k \<in> fst ` set m. normal_key (h k))"

lemma keys_normal_Nil [simp]: "keys_normal h []"
  by (simp add: keys_normal_def)

lemma keys_normal_entry [simp]: "keys_normal h (bt_entry k f m) \<longleftrightarrow> normal_key (h k) \<and> keys_normal h m"
  unfolding keys_normal_def using bt_entry_keys [of k f m] by simp

lemma keys_normal_fold:
  assumes "\<forall>x \<in> set xs. normal_key (h (k x))" and "keys_normal h m"
  shows "keys_normal h (foldl (\<lambda>m x. bt_entry (k x) (f x) m) m xs)"
  by (rule foldl_invariant [where I = "keys_normal h"]) (use assms in simp_all)

definition pairing_normal :: "'j pairing \<Rightarrow> bool" where
  "pairing_normal s \<longleftrightarrow>
     keys_normal id (pr_strata s) \<and> keys_normal fst (pr_overlaps s) \<and> keys_normal fst (pr_profiles s) \<and>
     (\<forall>row \<in> set (pr_paired_rows s). normal_mode (sm_mode (pw_stratum row)))"

lemma add_profile_normal [simp]:
  "keys_normal fst m \<Longrightarrow> normal_key key \<Longrightarrow> keys_normal fst (add_profile key side path i ob m)"
  by (cases ob) (simp_all add: add_profile_def)

lemma paired_row_Inr:
  assumes "paired_row bundle st block i path left right = Inr row"
  shows "pw_stratum row = st" "pw_block_index row = i" "pw_remote_path row = path" "cb_order block = Some (pw_order row)"
    "pw_left_observation_id row = ob_observation_id left" "pw_right_observation_id row = ob_observation_id right"
    "ob_slot_id left = Some (pw_left_slot_id row)" "ob_slot_id right = Some (pw_right_slot_id row)"
    "ob_snr_db left = Some (pw_left_snr_db row)" "ob_snr_db right = Some (pw_right_snr_db row)"
    "pw_delta_right_minus_left_db row = f64_sub (pw_right_snr_db row) (pw_left_snr_db row)"
  using assms by (auto simp: paired_row_def expecting_def and_then_Inr ok_or_Inr)

lemma pair_step_normal:
  assumes "pairing_normal s" and "normal_key key"
    and "pair_step bundle bs locations s ((key, i, path), g) = Inr t"
  shows "pairing_normal t"
proof -
  obtain st where st: "key = stratum_key st" "normal_mode (sm_mode st)" "stratum_from_key key = Inr st"
    using assms(2) by (auto simp: normal_key_def stratum_from_key_normal)
  let ?left = "ro_finite (resolve (pg_left g))" and ?right = "ro_finite (resolve (pg_right g))"
  show ?thesis
  proof (cases "\<exists>left right. ?left = Some left \<and> ?right = Some right")
    case False
    then have "?left = None \<or> ?right = None" by (cases ?left; cases ?right) simp_all
    with assms st show ?thesis
      by (cases ?left) (auto simp: pair_step_def Let_def pairing_normal_def)
  next
    case True
    then obtain left right where "?left = Some left" "?right = Some right" by blast
    with assms st show ?thesis
      by (auto simp: pair_step_def Let_def pairing_normal_def and_then_Inr paired_row_Inr)
  qed
qed

lemma pairing_normal_after:
  assumes "try_fold (pair_step bundle bs locations) s gs = Inr t" and "pairing_normal s"
    and "\<forall>x \<in> set gs. normal_key (fst (fst x))"
  shows "pairing_normal t"
  using assms(1,2)
proof (rule try_fold_invariant [where P = "\<lambda>s _. pairing_normal s"])
  show "pairing_normal u" if "pairing_normal s" "x \<in> set gs" "pair_step bundle bs locations s x = Inr u" for s u x
    using pair_step_normal [OF that(1), of "fst (fst x)" "bundle" bs locations _ _ "snd x" u] that assms(3)
    by (metis prod.collapse)
qed

text \<open>The loop only panics on a picked observation without a slot, as far as its groups are good.\<close>

lemma pair_step_panics:
  assumes "pair_step bundle bs locations s ((key, i, path), g) = Inl e" and "normal_key key"
    and "cb_order (bs ! i) \<noteq> None"
  shows "\<exists>ob \<in> set (pg_left g) \<union> set (pg_right g). ob_slot_id ob = None"
proof (rule ccontr)
  assume slots: "\<not> ?thesis"
  obtain st where st: "stratum_from_key key = Inr st" using normal_key_read [OF assms(2)] by blast
  show False
  proof (cases "\<exists>left right. ro_finite (resolve (pg_left g)) = Some left \<and> ro_finite (resolve (pg_right g)) = Some right")
    case False
    with assms st show False by (auto simp: pair_step_def Let_def split: option.splits)
  next
    case True
    then obtain left right where picked: "ro_finite (resolve (pg_left g)) = Some left"
      "ro_finite (resolve (pg_right g)) = Some right" by blast
    note facts = resolve_finite(1,2) [OF picked(1)] resolve_finite(1,2) [OF picked(2)]
    then have "ob_slot_id left \<noteq> None" "ob_slot_id right \<noteq> None" using slots by auto
    with facts assms(3) have "\<exists>row. paired_row bundle st (bs ! i) i path left right = Inr row"
      by (auto simp: paired_row_def expecting_def simp del: not_None_eq)
    with assms(1) st picked show False by (auto simp: pair_step_def Let_def)
  qed
qed

section \<open>The summaries\<close>

lemma try_map_Inr: "\<forall>x \<in> set xs. \<exists>y. f x = Inr y \<Longrightarrow> \<exists>ys. try_map f xs = Inr ys"
  by (induction xs) auto

lemma stratum_reads: "normal_key key \<Longrightarrow> \<exists>y. and_then (stratum_from_key key) (\<lambda>st. Inr (f st)) = Inr y"
  using normal_key_read by fastforce

lemma try_map_keys:
  assumes "keys_normal h m" and "\<And>x. normal_key (h (fst x)) \<Longrightarrow> \<exists>y. f x = Inr y"
  shows "\<exists>ys. try_map f m = Inr ys"
  by (rule try_map_Inr) (use assms in \<open>simp add: keys_normal_def\<close>)

lemma overlap_rows_Inr: "keys_normal fst m \<Longrightarrow> \<exists>rows. build_overlap_rows m = Inr rows"
  unfolding build_overlap_rows_def by (erule try_map_keys) (simp add: case_prod_unfold stratum_reads)

lemma path_summaries_Inr:
  assumes "\<forall>row \<in> set rows. normal_mode (sm_mode (pw_stratum row))"
  shows "\<exists>paths. build_path_summaries rows = Inr paths"
proof -
  have "keys_normal fst (foldl (\<lambda>paths row. bt_entry (stratum_key (pw_stratum row), pw_remote_path row)
      (pushed (pw_delta_right_minus_left_db row)) paths) [] rows)"
    by (rule keys_normal_fold) (use assms in \<open>auto simp: normal_key_def\<close>)
  then show ?thesis
    unfolding build_path_summaries_def
    by (rule try_map_keys) (simp add: case_prod_unfold stratum_reads)
qed

lemma strata_Inr:
  assumes "keys_normal id m"
  shows "\<exists>strata. build_strata m paths exclusions = Inr strata"
  unfolding build_strata_def
  by (rule try_map_keys [OF assms]) (simp add: case_prod_unfold Let_def stratum_reads)

lemma profiles_Inr:
  assumes "keys_normal fst m"
  shows "\<exists>profiles. build_observed_path_profiles bundle m l r = Inr profiles"
proof -
  have "keys_normal fst (foldl (\<lambda>grouped x. bt_entry (fst (fst x), fst (snd (fst x)))
      (pushed (finish_observed_path bundle (snd (snd (fst x))) (snd x))) grouped) [] m)"
    by (rule keys_normal_fold) (use assms in \<open>auto simp: keys_normal_def\<close>)
  then show ?thesis
    unfolding build_observed_path_profiles_def case_prod_unfold
    by (rule try_map_keys) (simp add: Let_def stratum_reads)
qed

lemma finish_comparison_Inr:
  assumes "pairing_normal s" and "keys_normal id exclusions"
  shows "\<exists>c. finish_comparison bundle l r bs exclusions s = Inr c"
proof -
  have rows: "\<forall>row \<in> set (sort_key paired_row_key (pr_paired_rows s)). normal_mode (sm_mode (pw_stratum row))"
    using assms(1) by (simp add: pairing_normal_def)
  have "keys_normal id (default_entries exclusions (pr_strata s))"
    unfolding default_entries_def case_prod_unfold
    by (rule keys_normal_fold) (use assms in \<open>simp_all add: pairing_normal_def keys_normal_def\<close>)
  moreover obtain paths where "build_path_summaries (sort_key paired_row_key (pr_paired_rows s)) = Inr paths"
    using path_summaries_Inr [OF rows] by blast
  ultimately obtain paths strata where "build_path_summaries (sort_key paired_row_key (pr_paired_rows s)) = Inr paths"
    "build_strata (default_entries exclusions (pr_strata s)) paths exclusions = Inr strata"
    using strata_Inr by blast
  moreover obtain overlaps where "build_overlap_rows (pr_overlaps s) = Inr overlaps"
    using overlap_rows_Inr assms(1) unfolding pairing_normal_def by blast
  moreover obtain profiles where "build_observed_path_profiles bundle (pr_profiles s) l r = Inr profiles"
    using profiles_Inr assms(1) unfolding pairing_normal_def by blast
  ultimately show ?thesis by (simp add: finish_comparison_def Let_def)
qed

lemma finish_comparison_fields:
  assumes "finish_comparison bundle l r bs exclusions s = Inr c"
  shows "pc_paired_rows c = sort_key paired_row_key (pr_paired_rows s)" "pc_blocks c = bs"
    "pc_left_label c = Some l" "pc_right_label c = Some r"
  using assms by (auto simp: finish_comparison_def Let_def and_then_Inr)

section \<open>The comparison as a whole\<close>

lemma try_fold_Inr: "try_fold (\<lambda>s x. Inr (f s x)) s xs = Inr (foldl f s xs)"
  by (induction xs arbitrary: s) simp_all

text \<open>The two loops, and the labels and blocks they work with.\<close>

definition compared :: "'j bundle_contents \<Rightarrow> bool" where
  "compared bundle \<longleftrightarrow> sc_mode (bc_schedule bundle) \<noteq> SingleAntennaProfilingMode \<and>
     length (scheduled_labels bundle) = 2"

definition compared_blocks :: "'j bundle_contents \<Rightarrow> aligned_slot list \<Rightarrow> comparison_block list" where
  "compared_blocks bundle slots =
     build_blocks (comparison_slots slots) (scheduled_labels bundle ! 0) (scheduled_labels bundle ! 1)"

text \<open>The states the two loops start in.\<close>

definition grouping_start :: "comparison_block list \<Rightarrow> string \<Rightarrow> string \<Rightarrow> 'j grouping" where
  "grouping_start bs l r =
     \<lparr>gr_diagnostics = block_diagnostics bs, gr_timeline_rows = build_timeline_rows bs l r,
      gr_exclusions_by_stratum = [], gr_groups = []\<rparr>"

definition grouped ::
    "'j bundle_contents \<Rightarrow> comparison_block list \<Rightarrow> string \<Rightarrow> string \<Rightarrow> 'j classified_observation list \<Rightarrow> 'j grouping" where
  "grouped bundle bs l r classified =
     foldl (group_step bundle bs (slot_locations_of (build_timeline_rows bs l r)) (block_by_slot_of bs) l r)
       (grouping_start bs l r) classified"

definition pairing_start :: "'j grouping \<Rightarrow> 'j pairing" where
  "pairing_start g =
     \<lparr>pr_diagnostics = gr_diagnostics g, pr_timeline_rows = gr_timeline_rows g, pr_paired_rows = [],
      pr_overlaps = [], pr_strata = [], pr_profiles = []\<rparr>"

lemma compare_unfold:
  fixes slots :: "aligned_slot list"
  assumes "compared bundle"
  defines "l \<equiv> scheduled_labels bundle ! 0" and "r \<equiv> scheduled_labels bundle ! 1"
    and "bs \<equiv> compared_blocks bundle slots"
  shows "analyze_paired_comparison bundle slots classified budget =
    next_do (checked_loop (checkpoint budget StageCompare ''comparison_grouping'')
      (\<lambda>s c. Inr (group_step bundle bs (slot_locations_of (build_timeline_rows bs l r)) (block_by_slot_of bs) l r s c)) 0
      (grouping_start bs l r) classified) (\<lambda>g.
    next_do (checked_loop (checkpoint budget StageCompare ''comparison_pairing'')
      (pair_step bundle bs (slot_locations_of (build_timeline_rows bs l r))) 0 (pairing_start g) (gr_groups g)) (\<lambda>s.
    lifted (finish_comparison bundle l r bs (gr_exclusions_by_stratum g) s)))"
  using assms(1) unfolding analyze_paired_comparison_def compared_def l_def r_def bs_def compared_blocks_def
  by (simp add: Let_def grouping_start_def pairing_start_def)

lemma pairing_start_normal: "pairing_normal (pairing_start g)"
  by (simp add: pairing_normal_def pairing_start_def)

lemma compared_returns:
  assumes "returns (analyze_paired_comparison bundle slots classified budget) c" and "compared bundle"
  defines "l \<equiv> scheduled_labels bundle ! 0" and "r \<equiv> scheduled_labels bundle ! 1"
    and "bs \<equiv> compared_blocks bundle slots"
  obtains t where "finish_comparison bundle l r bs (gr_exclusions_by_stratum (grouped bundle bs l r classified)) t = Inr c"
    "try_fold (pair_step bundle bs (slot_locations_of (build_timeline_rows bs l r)))
       (pairing_start (grouped bundle bs l r classified)) (gr_groups (grouped bundle bs l r classified)) = Inr t"
proof -
  from assms(1) obtain g t where g: "returns (checked_loop (checkpoint budget StageCompare ''comparison_grouping'')
      (\<lambda>s c. Inr (group_step bundle bs (slot_locations_of (build_timeline_rows bs l r)) (block_by_slot_of bs) l r s c)) 0
      (grouping_start bs l r) classified) g"
    and t: "returns (checked_loop (checkpoint budget StageCompare ''comparison_pairing'')
      (pair_step bundle bs (slot_locations_of (build_timeline_rows bs l r))) 0 (pairing_start g) (gr_groups g)) t"
    and c: "finish_comparison bundle l r bs (gr_exclusions_by_stratum g) t = Inr c"
    unfolding compare_unfold [OF assms(2)] l_def r_def bs_def
    by (auto simp: returns_simps dest!: returns_nextD)
  from checked_loop_returns [OF g] have "g = grouped bundle bs l r classified"
    by (simp add: try_fold_Inr grouped_def)
  with checked_loop_returns [OF t] c show thesis by (intro that) simp_all
qed

lemma grouped_groups:
  "bt_ok (gr_groups (grouped bundle bs l r classified))"
  "(key, v) \<in> set (gr_groups (grouped bundle bs l r classified)) \<longleftrightarrow>
      (\<exists>c \<in> set classified. \<exists>side. group_of bundle bs l r c = Some (key, side)) \<and>
      v = \<lparr>pg_left = heard_on bundle bs l r classified key LeftSide,
           pg_right = heard_on bundle bs l r classified key RightSide\<rparr>"
proof -
  have "gr_groups (grouping_start bs l r) = []" by (simp add: grouping_start_def)
  from groups_after [OF this refl]
  show "bt_ok (gr_groups (grouped bundle bs l r classified))"
    "(key, v) \<in> set (gr_groups (grouped bundle bs l r classified)) \<longleftrightarrow>
      (\<exists>c \<in> set classified. \<exists>side. group_of bundle bs l r c = Some (key, side)) \<and>
      v = \<lparr>pg_left = heard_on bundle bs l r classified key LeftSide,
           pg_right = heard_on bundle bs l r classified key RightSide\<rparr>"
    unfolding grouped_def by blast+
qed

lemma grouped_normal: "(key, v) \<in> set (gr_groups (grouped bundle bs l r classified)) \<Longrightarrow> normal_key (fst key)"
  unfolding grouped_groups by (cases key) (auto elim: group_of_SomeD)

lemma distinct_map_filter:
  assumes "distinct (map g xs)" and "\<And>x y. x \<in> set xs \<Longrightarrow> f x = Some y \<Longrightarrow> h y = g x"
  shows "distinct (map h (List.map_filter f xs))"
  using assms
proof (induction xs)
  case (Cons x xs)
  have "distinct (map h (List.map_filter f xs))" using Cons by simp
  moreover have "g x \<notin> h ` set (List.map_filter f xs)"
    using Cons.prems by (fastforce simp: in_map_filter)
  ultimately show ?case
    using Cons.prems(2) [of x] by (simp add: map_filter_simps split: option.split)
qed (simp add: map_filter_simps)

lemma row_of_key:
  assumes "row_of bundle bs ((key, i, path), g) = Some row" and "normal_key key"
  shows "key = stratum_key (pw_stratum row) \<and> i = pw_block_index row \<and> path = pw_remote_path row"
proof -
  obtain st where "key = stratum_key st" "stratum_from_key key = Inr st"
    using assms(2) by (auto simp: normal_key_def stratum_from_key_normal)
  with assms(1) show ?thesis
    by (auto simp: row_of_def paired_row_Inr split: option.splits sum.splits)
qed

lemma in_grouped_rows:
  "row \<in> set (List.map_filter (row_of bundle bs) (gr_groups (grouped bundle bs l r classified))) \<longleftrightarrow>
    (\<exists>left right.
       ro_finite (resolve (heard_on bundle bs l r classified
         (stratum_key (pw_stratum row), pw_block_index row, pw_remote_path row) LeftSide)) = Some left \<and>
       ro_finite (resolve (heard_on bundle bs l r classified
         (stratum_key (pw_stratum row), pw_block_index row, pw_remote_path row) RightSide)) = Some right \<and>
       paired_row bundle (pw_stratum row) (bs ! pw_block_index row) (pw_block_index row) (pw_remote_path row)
         left right = Inr row)" (is "?in \<longleftrightarrow> ?paired")
proof
  assume ?in
  then obtain key i path v where x: "((key, i, path), v) \<in> set (gr_groups (grouped bundle bs l r classified))"
    and row: "row_of bundle bs ((key, i, path), v) = Some row"
    unfolding in_map_filter by (metis prod.collapse)
  from grouped_normal [OF x] have normal: "normal_key key" by simp
  note key = row_of_key [OF row normal]
  from row x normal show ?paired
    unfolding grouped_groups
    by (auto simp: row_of_def key split: option.splits sum.splits)
      (metis paired_row_Inr(1))
next
  let ?key = "(stratum_key (pw_stratum row), pw_block_index row, pw_remote_path row)"
  assume ?paired
  then obtain left right where picked: "ro_finite (resolve (heard_on bundle bs l r classified ?key LeftSide)) = Some left"
    "ro_finite (resolve (heard_on bundle bs l r classified ?key RightSide)) = Some right"
    and row: "paired_row bundle (pw_stratum row) (bs ! pw_block_index row) (pw_block_index row) (pw_remote_path row)
      left right = Inr row" by blast
  let ?v = "\<lparr>pg_left = heard_on bundle bs l r classified ?key LeftSide,
              pg_right = heard_on bundle bs l r classified ?key RightSide\<rparr>"
  from resolve_finite(1) [OF picked(1)]
  have x: "(?key, ?v) \<in> set (gr_groups (grouped bundle bs l r classified))"
    unfolding grouped_groups by (auto simp: heard_on_def)
  from grouped_normal [OF x] have "stratum_from_key (stratum_key (pw_stratum row)) = Inr (pw_stratum row)"
    by (metis fst_conv normal_key_def stratum_from_key_normal stratum_key_inject)
  with picked row have "row_of bundle bs (?key, ?v) = Some row" by (simp add: row_of_def)
  with x show ?in unfolding in_map_filter by blast
qed


text \<open>
  No \<open>expect\<close> of the comparison fails when the grouped observations carry a slot annotation.
\<close>

lemma compared_block: "group_of bundle (compared_blocks bundle slots) l r c = Some ((key, i, path), side) \<Longrightarrow>
    cb_order (compared_blocks bundle slots ! i) \<noteq> None"
  unfolding compared_blocks_def
  by (erule group_of_SomeD) (meson block_by_slot_of_build eligible_order nth_mem)

lemma grouped_exclusions: "keys_normal id (gr_exclusions_by_stratum (grouped bundle bs l r classified))"
  using exclusions_after [of "grouping_start bs l r"]
  by (simp add: grouped_def exclusions_normal_def keys_normal_def grouping_start_def)

lemma not_compared:
  assumes "\<not> compared bundle"
  shows "\<exists>reason. \<forall>budget. analyze_paired_comparison bundle slots classified budget =
     done_with (unavailable reason (scheduled_labels bundle))"
proof (cases "sc_mode (bc_schedule bundle) = SingleAntennaProfilingMode")
  case False
  with assms have "length (scheduled_labels bundle) \<noteq> 2" by (simp add: compared_def)
  with False show ?thesis by (auto simp: analyze_paired_comparison_def Let_def)
qed (auto simp: analyze_paired_comparison_def Let_def)

lemma pairing_normal_reached:
  "try_fold (pair_step bundle bs locations) (pairing_start (grouped bundle bs l r classified))
     (gr_groups (grouped bundle bs l r classified)) = Inr t \<Longrightarrow> pairing_normal t"
  by (rule pairing_normal_after [OF _ pairing_start_normal]) (use grouped_normal in fastforce)+

lemma try_fold_total: "(\<And>s x e. x \<in> set xs \<Longrightarrow> f s x \<noteq> Inl e) \<Longrightarrow> \<exists>t. try_fold f s xs = Inr t"
proof (induction xs arbitrary: s)
  case (Cons x xs)
  obtain u where "f s x = Inr u" using Cons.prems [of x s] by (cases "f s x") auto
  with Cons show ?case by simp
qed simp

lemma pairing_step_total:
  assumes "\<And>c. c \<in> set classified \<Longrightarrow> cl_disposition c = Usable \<Longrightarrow> ob_slot_id (cl_observation c) \<noteq> None"
    and "x \<in> set (gr_groups (grouped bundle (compared_blocks bundle slots) l r classified))"
  shows "pair_step bundle (compared_blocks bundle slots) locations s x \<noteq> Inl e"
proof
  let ?bs = "compared_blocks bundle slots"
  assume e: "pair_step bundle ?bs locations s x = Inl e"
  obtain key i path v where split: "x = ((key, i, path), v)" by (metis prod.collapse)
  with assms(2) have member: "((key, i, path), v) \<in> set (gr_groups (grouped bundle ?bs l r classified))" by simp
  then obtain c side where c: "group_of bundle ?bs l r c = Some ((key, i, path), side)"
    and v: "v = \<lparr>pg_left = heard_on bundle ?bs l r classified (key, i, path) LeftSide,
        pg_right = heard_on bundle ?bs l r classified (key, i, path) RightSide\<rparr>"
    unfolding grouped_groups by blast
  from pair_step_panics [OF e [unfolded split]] grouped_normal [OF member] compared_block [OF c]
  obtain ob where "ob \<in> set (pg_left v) \<union> set (pg_right v)" "ob_slot_id ob = None" by auto
  then obtain d side where "d \<in> set classified" "group_of bundle ?bs l r d = Some ((key, i, path), side)"
    "ob_slot_id (cl_observation d) = None" by (auto simp: v heard_on_def)
  with assms(1) [of d] show False by (metis group_of_SomeD)
qed

lemma comparison_no_panic:
  assumes "\<And>c. c \<in> set classified \<Longrightarrow> cl_disposition c = Usable \<Longrightarrow> ob_slot_id (cl_observation c) \<noteq> None"
  shows "\<not> panics (analyze_paired_comparison bundle slots classified budget)"
proof (cases "compared bundle")
  case False
  from not_compared [OF this] show ?thesis by (metis panics_simps(1))
next
  case True
  let ?l = "scheduled_labels bundle ! 0" and ?r = "scheduled_labels bundle ! 1"
  let ?bs = "compared_blocks bundle slots"
  let ?loc = "slot_locations_of (build_timeline_rows ?bs ?l ?r)"
  let ?first = "checked_loop (checkpoint budget StageCompare ''comparison_grouping'')
      (\<lambda>s c. Inr (group_step bundle ?bs ?loc (block_by_slot_of ?bs) ?l ?r s c)) 0 (grouping_start ?bs ?l ?r) classified"
  let ?second = "\<lambda>g. checked_loop (checkpoint budget StageCompare ''comparison_pairing'')
      (pair_step bundle ?bs ?loc) 0 (pairing_start g) (gr_groups g)"
  let ?g = "grouped bundle ?bs ?l ?r classified"
  have first: "\<not> panics ?first" by (rule loop_no_panic) simp_all
  have g: "returns ?first g \<Longrightarrow> g = ?g" for g
    by (drule checked_loop_returns) (simp add: try_fold_Inr grouped_def)
  have second: "\<not> panics (?second ?g)"
    by (rule loop_no_panic) (use pairing_step_total [OF assms] in simp_all)
  have last: "\<not> panics (lifted (finish_comparison bundle ?l ?r ?bs (gr_exclusions_by_stratum ?g) t))"
    if "returns (?second ?g) t" for t
  proof -
    note normal = pairing_normal_reached [OF checked_loop_returns [OF that]]
    obtain c where "finish_comparison bundle ?l ?r ?bs (gr_exclusions_by_stratum ?g) t = Inr c"
      using finish_comparison_Inr [OF normal grouped_exclusions] ..
    then show ?thesis by simp
  qed
  show ?thesis
    unfolding compare_unfold [OF True]
    by (rule no_panic_next [OF first], drule g, simp only:, rule no_panic_next [OF second last])
qed

text \<open>The outcome of the comparison, whatever the limits.\<close>

lemma comparison_outcome:
  fixes slots :: "aligned_slot list"
  assumes "\<And>c. c \<in> set classified \<Longrightarrow> cl_disposition c = Usable \<Longrightarrow> ob_slot_id (cl_observation c) \<noteq> None"
    and "compared bundle"
  defines "l \<equiv> scheduled_labels bundle ! 0" and "r \<equiv> scheduled_labels bundle ! 1"
    and "bs \<equiv> compared_blocks bundle slots"
  obtains t c where "try_fold (pair_step bundle bs (slot_locations_of (build_timeline_rows bs l r)))
       (pairing_start (grouped bundle bs l r classified)) (gr_groups (grouped bundle bs l r classified)) = Inr t"
    and "finish_comparison bundle l r bs (gr_exclusions_by_stratum (grouped bundle bs l r classified)) t = Inr c"
proof -
  have "\<exists>t. try_fold (pair_step bundle bs (slot_locations_of (build_timeline_rows bs l r)))
       (pairing_start (grouped bundle bs l r classified)) (gr_groups (grouped bundle bs l r classified)) = Inr t"
    unfolding bs_def by (rule try_fold_total) (use pairing_step_total [OF assms(1)] in blast)
  then obtain t where t: "try_fold (pair_step bundle bs (slot_locations_of (build_timeline_rows bs l r)))
       (pairing_start (grouped bundle bs l r classified)) (gr_groups (grouped bundle bs l r classified)) = Inr t" ..
  obtain c where "finish_comparison bundle l r bs (gr_exclusions_by_stratum (grouped bundle bs l r classified)) t = Inr c"
    using finish_comparison_Inr [OF pairing_normal_reached [OF t] grouped_exclusions] ..
  with t show thesis by (rule that)
qed

lemma comparison_blocks_ordered:
  assumes "returns (analyze_paired_comparison bundle slots classified budget) c"
    and "b \<in> set (pc_blocks c)" and "cb_eligibility b = Eligible"
  shows "cb_order b \<noteq> None"
proof (cases "compared bundle")
  case False
  from not_compared [OF this] obtain reason where "analyze_paired_comparison bundle slots classified budget =
      done_with (unavailable reason (scheduled_labels bundle))" by blast
  with assms show ?thesis by (simp add: returns_simps unavailable_def)
next
  case True
  from compared_returns [OF assms(1) True] have "pc_blocks c = compared_blocks bundle slots"
    by (metis finish_comparison_fields(2))
  with assms(2) have "b \<in> set (build_blocks (comparison_slots slots) (scheduled_labels bundle ! 0)
      (scheduled_labels bundle ! 1))" by (simp only: compared_blocks_def)
  then show ?thesis using assms(3) by (rule eligible_order)
qed

end
