(* ===== verification/AnalysisSafety.thy ===== *)
theory AnalysisSafety
  imports Summary ComparisonProperties
begin

text \<open>
  The analysis does not panic: none of its \<open>expect\<close>, \<open>assert!\<close> and \<open>unreachable!\<close> is reached,
  as long as the validation report withholds no slot, no two observations share an identity,
  every recorded switch is labelled, no slot starts in the first second chrono can represent and
  the build does not check integers for overflow; and without these conditions it can.
\<close>

section \<open>What the plan excludes\<close>

definition planned :: "plan_state \<Rightarrow> nat set" where
  "planned s = fst ` set (es_observations s)"

lemma plan_location_planned: "planned (plan_location d s l) =
    (if dl_record_kind l = Some KindObservation \<and> dl_record_index l \<noteq> None \<and> observation_diagnostic_excludes d
     then insert (the (dl_record_index l)) (planned s) else planned s)"
proof -
  have keys: "fst ` set (bt_entry k f m) = insert k (fst ` set m)" for k f and m :: "(nat \<times> observation_exclusion_reason) list"
    using bt_entry_keys [of k f m] by simp
  show ?thesis
    unfolding plan_location_def planned_def
    by (cases "dl_record_kind l"; cases "dl_record_index l") (simp_all add: keys split: bundle_record_kind.split)
qed

lemma planned_locations: "planned s \<subseteq> planned (foldl (plan_location d) s ls)"
  by (induction ls arbitrary: s) (auto simp: plan_location_planned subset_iff split: if_splits)

definition counted :: "plan_state \<Rightarrow> bundle_diagnostic \<Rightarrow> plan_state" where
  "counted s d = s\<lparr>es_counts := bt_entry (bd_code d, eligibility_category_of d, eligibility_scope_of (bd_location d))
     incremented (es_counts s)\<rparr>"

lemma planned_counted [simp]: "planned (counted s d) = planned s"
  by (simp add: planned_def counted_def)

lemma plan_diagnostic_counted:
  "plan_diagnostic s d = foldl (plan_location d) (counted s d) (bd_location d # bd_related_locations d)"
  by (simp add: plan_diagnostic_def counted_def)

lemma plan_diagnostic_planned: "planned s \<subseteq> planned (plan_diagnostic s d)"
  unfolding plan_diagnostic_counted
  using planned_locations [of "counted s d" d "bd_location d # bd_related_locations d"] by simp

lemma plan_diagnostic_excludes:
  assumes "dl_record_kind (bd_location d) = Some KindObservation" and "dl_record_index (bd_location d) = Some i"
    and "observation_diagnostic_excludes d"
  shows "i \<in> planned (plan_diagnostic s d)"
proof -
  have "i \<in> planned (plan_location d (counted s d) (bd_location d))" using assms by (simp add: plan_location_planned)
  then show ?thesis using planned_locations unfolding plan_diagnostic_counted by auto
qed

lemma plan_excludes:
  assumes "d \<in> set (vr_diagnostics report)" and "plan_relevant d"
    and "dl_record_kind (bd_location d) = Some KindObservation" and "dl_record_index (bd_location d) = Some i"
    and "observation_diagnostic_excludes d"
  shows "map_of (ep_excluded_observations (plan_from_report report)) i \<noteq> None"
proof -
  have mono: "planned s \<subseteq> planned (foldl plan_diagnostic s ds)" for s ds
    by (induction ds arbitrary: s) (use plan_diagnostic_planned in fastforce)+
  have "i \<in> planned (foldl plan_diagnostic s ds)" if "d \<in> set ds" for s ds
    using that
  proof (induction ds arbitrary: s)
    case (Cons e ds)
    then show ?case
      using plan_diagnostic_excludes [OF assms(3-5)] mono by (cases "d = e") (auto simp: subset_iff)
  qed simp
  moreover have "d \<in> set (filter plan_relevant (vr_diagnostics report))" using assms(1,2) by simp
  ultimately show ?thesis
    by (auto simp: plan_from_report_def Let_def planned_def map_of_eq_None_iff)
qed

text \<open>An observation whose annotation differs from its assignment is excluded.\<close>

lemma first_position:
  "distinct (map f xs) \<Longrightarrow> i < length xs \<Longrightarrow> position (\<lambda>x. f x = f (xs ! i)) xs = Some i"
proof (induction xs arbitrary: i)
  case (Cons x xs)
  show ?case
  proof (cases i)
    case (Suc j)
    with Cons.prems have "f x \<noteq> f (xs ! j)" by (metis distinct.simps(2) image_eqI length_Cons list.simps(9) list.set_map nth_mem Suc_less_eq)
    with Suc Cons show ?thesis by simp
  qed simp
qed simp

lemma tidy_fields: "bd_location (tidy_diagnostic d) = bd_location d" "bd_code (tidy_diagnostic d) = bd_code d"
  by (simp_all add: tidy_diagnostic_def)

lemma issue_reported:
  assumes "issue \<in> set issues"
  shows "tidy_diagnostic (diagnostic_from_issue issue (Some bundle)) \<in> set (vr_diagnostics (report_from_issues bundle issues))"
proof -
  have "diagnostic_from_issue issue (Some bundle) \<in> (\<lambda>i. diagnostic_from_issue i (Some bundle)) ` set issues"
    using assms by blast
  then have "tidy_diagnostic (tidy_diagnostic (diagnostic_from_issue issue (Some bundle)))
      \<in> set (vr_diagnostics (report_from_issues bundle issues))"
    by (simp add: report_from_issues_def report_extend_def report_new_def del: tidy_idem)
  then show ?thesis by simp
qed

lemma mismatch_excluded:
  assumes "validate_bundle_report bundle = Some report" and "i < length (bc_observations bundle)"
    and "distinct (map ob_observation_id (bc_observations bundle))"
    and "ob_slot_id (bc_observations bundle ! i) \<noteq> oa_slot_id (assigned_in bundle (bc_observations bundle ! i))"
  shows "map_of (ep_excluded_observations (plan_from_report report)) i \<noteq> None"
proof -
  let ?ob = "bc_observations bundle ! i"
  let ?issue = "AlignmentAnnotationMismatch (ob_observation_id ?ob) SlotIdField
    [DbgOptStr (oa_slot_id (assigned_in bundle ?ob))] [DbgOptStr (ob_slot_id ?ob)]"
  let ?d = "diagnostic_from_issue ?issue (Some bundle)"
  obtain issues where issues: "validate_bundle_issues bundle = Some issues" "report = report_from_issues bundle issues"
    using assms(1) by (auto simp: validate_bundle_report_def)
  have "?issue \<in> set (annotation_mismatches ?ob (assigned_in bundle ?ob))"
    using assms(4) by (simp add: annotation_mismatches_def)
  then have "?issue \<in> set (mismatches bundle)"
    using nth_mem [OF assms(2)] unfolding mismatches_def set_concat set_map by blast
  then have "?issue \<in> set issues"
    using issues(1) by (auto simp: issues_eq split: if_splits)
  then have "tidy_diagnostic ?d \<in> set (vr_diagnostics report)"
    unfolding issues(2) by (rule issue_reported)
  moreover have "bd_location (tidy_diagnostic ?d) = bd_location ?d" "bd_code (tidy_diagnostic ?d) = bd_code ?d"
    by (rule tidy_fields)+
  moreover have "bd_code ?d = ''bundle.semantic.alignment_annotation_mismatch''"
    "dl_record_kind (bd_location ?d) = Some KindObservation"
    "dl_record_index (bd_location ?d) = position (\<lambda>r. ob_observation_id r = ob_observation_id ?ob) (bc_observations bundle)"
    by (simp_all add: issue_diagnostic_def record_location_def)
  ultimately show ?thesis
    using first_position [OF assms(3,2)]
    by (intro plan_excludes [where d = "tidy_diagnostic ?d"])
      (simp_all add: plan_relevant_def observation_diagnostic_excludes_def)
qed

section \<open>Alignment with and without some of the events\<close>

lemma find_map: "find P (map f xs) = map_option f (find (\<lambda>x. P (f x)) xs)"
  by (induction xs) simp_all

lemma assigned_slot_id:
  "oa_slot_id (assigned ob (aligned_slots sched events) policy) =
     Option.bind (find (\<lambda>s. ps_starts_at s \<le> rm_timestamp (ob_meta ob) \<and> rm_timestamp (ob_meta ob) < end_instant s)
        (sc_slots sched))
       (\<lambda>s. if ob_band ob \<noteq> ps_band s then None else Some (ps_slot_id s))"
  by (simp add: assigned_unfold Let_def assignment_def aligned_slots_def find_map
      split: option.split aligned_slot_status.split)

section \<open>The bundle the analysis works on\<close>

definition aligned_part :: "'j observation_record \<Rightarrow> string \<times> timestamp \<times> band \<times> string option" where
  "aligned_part ob = (ob_observation_id ob, rm_timestamp (ob_meta ob), ob_band ob, ob_slot_id ob)"

lemma sanitize_keeps:
  "map aligned_part (bc_observations (sanitize_analysis_fields bundle report)) = map aligned_part (bc_observations bundle) \<and>
   bc_schedule (sanitize_analysis_fields bundle report) = bc_schedule bundle \<and>
   bc_events (sanitize_analysis_fields bundle report) = bc_events bundle"
  unfolding sanitize_analysis_fields_def
proof (rule foldl_invariant [where I = "\<lambda>b. map aligned_part (bc_observations b) = map aligned_part (bc_observations bundle) \<and>
    bc_schedule b = bc_schedule bundle \<and> bc_events b = bc_events bundle"], simp)
  have part: "aligned_part (sanitize_observation f ob) = aligned_part ob" for f and ob :: "'a observation_record"
    by (simp add: sanitize_observation_def aligned_part_def)
  have "map aligned_part (xs[i := sanitize_observation f (xs ! i)]) = map aligned_part xs" if "i < length xs"
    for i f and xs :: "'a observation_record list"
    using that by (simp add: map_update part) (metis list_update_id nth_map)
  then have "map aligned_part (bc_observations (sanitize_step b d)) = map aligned_part (bc_observations b) \<and>
      bc_schedule (sanitize_step b d) = bc_schedule b \<and> bc_events (sanitize_step b d) = bc_events b" for b :: "'a bundle_contents" and d
    by (simp add: sanitize_step_def split: option.split)
  then show "map aligned_part (bc_observations (sanitize_step b d)) = map aligned_part (bc_observations bundle) \<and>
      bc_schedule (sanitize_step b d) = bc_schedule bundle \<and> bc_events (sanitize_step b d) = bc_events bundle"
    if "map aligned_part (bc_observations b) = map aligned_part (bc_observations bundle) \<and>
      bc_schedule b = bc_schedule bundle \<and> bc_events b = bc_events bundle" for b :: "'a bundle_contents" and d
    using that by metis
qed

lemma analysis_bundle_observations [simp]:
  "bc_observations (analysis_bundle bundle report plan) = bc_observations (sanitize_analysis_fields bundle report)"
  by (simp add: analysis_bundle_def Let_def)

lemma analysis_bundle_length [simp]:
  "length (bc_observations (sanitize_analysis_fields bundle report)) = length (bc_observations bundle)"
  using sanitize_keeps [of "bundle" report] by (metis length_map)

lemma analysis_bundle_schedule:
  "ep_excluded_slots plan = {} \<Longrightarrow> bc_schedule (analysis_bundle bundle report plan) = bc_schedule bundle"
  using sanitize_keeps [of "bundle" report] by (simp add: analysis_bundle_def Let_def)

lemma analysis_bundle_version [simp]:
  "sc_schema_version (bc_schedule (analysis_bundle bundle report plan)) = sc_schema_version (bc_schedule bundle)"
  using sanitize_keeps [of "bundle" report] by (simp add: analysis_bundle_def Let_def)

lemma analysis_bundle_events: "set (bc_events (analysis_bundle bundle report plan)) \<subseteq> set (bc_events bundle)"
  by (auto simp: analysis_bundle_def Let_def in_set_enumerate_eq)

section \<open>Classification does not panic\<close>

definition switches_labelled :: "'j bundle_contents \<Rightarrow> bool" where
  "switches_labelled bundle \<longleftrightarrow> sc_schema_version (bc_schedule bundle) < SCHEMA_VERSION_V2 \<or>
     (\<forall>e \<in> set (bc_events bundle). ev_event_type e = Switched \<longrightarrow> ev_actual_antenna_label e \<noteq> None)"

text \<open>An aligned slot whose status leads to a usable assignment has a label.\<close>

lemma aligned_label:
  assumes "switches_labelled bundle" and "slot \<in> set (aligned_slots (bc_schedule bundle) (bc_events bundle))"
    and "as_status slot \<in> {StatusSwitched, StatusLateSwitch, StatusPlannedNoSwitchEvent}"
  shows "as_actual_label slot \<noteq> None"
proof -
  from assms(2) obtain s where slot: "slot = slot_alignment s (bc_events bundle) (SCHEMA_VERSION_V2 \<le> sc_schema_version (bc_schedule bundle))"
    by (auto simp: aligned_slots_def)
  show ?thesis
  proof (cases "first_switch (bc_events bundle) s")
    case None
    with assms(3) show ?thesis by (auto simp: slot align_slot_facts unswitched_slot_def split: if_splits)
  next
    case (Some e)
    then have "e \<in> set (slot_facts (bc_events bundle) s Switched)"
      by (auto simp: first_switch_def dest: min_by_key_SomeD)
    then have "SCHEMA_VERSION_V2 \<le> sc_schema_version (bc_schedule bundle) \<Longrightarrow> ev_actual_antenna_label e \<noteq> None"
      using assms(1) by (auto simp: slot_facts_def switches_labelled_def)
    with Some assms(3) show ?thesis
      by (cases "ev_actual_antenna_label e") (auto simp: slot align_slot_facts unswitched_slot_def split: if_splits)
  qed
qed

lemma find_in: "find P xs = Some x \<Longrightarrow> x \<in> set xs"
  by (auto dest: find_SomeD)

lemma classify_assigned:
  assumes "switches_labelled bundle"
  shows "\<exists>d. classify_assignment (assigned ob (aligned_slots (bc_schedule bundle) (bc_events bundle))
      default_slot_alignment_policy) = Inr d"
proof -
  let ?slots = "aligned_slots (bc_schedule bundle) (bc_events bundle)"
  let ?P = "\<lambda>slot. as_starts_at slot \<le> rm_timestamp (ob_meta ob) \<and> rm_timestamp (ob_meta ob) < as_ends_at slot"
  show ?thesis
  proof (cases "find ?P ?slots")
    case None
    then show ?thesis by (simp add: assigned_unfold Let_def assignment_def classify_assignment_def)
  next
    case (Some slot)
    note label = aligned_label [OF assms find_in [OF Some]]
    with Some show ?thesis
      by (cases "as_status slot")
        (auto simp: assigned_unfold Let_def assignment_def classify_assignment_def MINIMUM_USABLE_CONFIDENCE_def f32_defs)
  qed
qed

lemma usable_slot: "classify_assignment a = Inr Usable \<Longrightarrow> oa_slot_id a \<noteq> None"
  by (auto simp: classify_assignment_def split: slot_assignment_reason.splits if_splits)

lemma next_do_lifted [simp]: "next_do (lifted (Inr x)) f = f x"
  by (simp add: next_do_def lifted_def)

lemma no_panic_tuples:
  "\<not> panics m \<Longrightarrow> (\<And>a b. returns m (a, b) \<Longrightarrow> \<not> panics (f a b)) \<Longrightarrow> \<not> panics (next_do m (\<lambda>(a, b). f a b))"
  "\<not> panics n \<Longrightarrow> (\<And>a b c. returns n (a, b, c) \<Longrightarrow> \<not> panics (g a b c)) \<Longrightarrow>
     \<not> panics (next_do n (\<lambda>(a, b, c). g a b c))"
  "\<not> panics k \<Longrightarrow> (\<And>a b c d. returns k (a, b, c, d) \<Longrightarrow> \<not> panics (h a b c d)) \<Longrightarrow>
     \<not> panics (next_do k (\<lambda>(a, b, c, d). h a b c d))"
  by (rule no_panic_next; auto)+

lemma classify_step_simp [simp]:
  "classify_step plan acc (i, ob, a) = and_then (classify plan i ob a) (\<lambda>c. Inr (acc @ [c]))"
  by (simp add: classify_step_def)

lemma classified_all:
  "try_fold (classify_step plan) acc xs = Inr ys \<Longrightarrow>
     \<exists>zs. ys = acc @ zs \<and> list_all2 (\<lambda>(i, ob, a) c. classify plan i ob a = Inr c) xs zs"
proof (induction xs arbitrary: acc)
  case (Cons x xs)
  obtain i ob a where x: "x = (i, ob, a)" by (metis prod.collapse)
  from Cons.prems obtain c where c: "classify plan i ob a = Inr c" "try_fold (classify_step plan) (acc @ [c]) xs = Inr ys"
    by (auto simp: x and_then_Inr)
  from Cons.IH [OF c(2)] obtain zs where "ys = (acc @ [c]) @ zs"
    "list_all2 (\<lambda>(i, ob, a) c. classify plan i ob a = Inr c) xs zs" by blast
  with c(1) show ?case by (intro exI [of _ "c # zs"]) (simp add: x)
qed simp

text \<open>What the second stage returns: the alignment, and one classified observation per observation.\<close>

definition classified_as :: "eligibility_plan \<Rightarrow> 'j bundle_contents \<Rightarrow> 'j classified_observation list \<Rightarrow> bool" where
  "classified_as plan b cs \<longleftrightarrow>
     length cs = length (bc_observations b) \<and>
     (\<forall>i < length cs. classify plan i (bc_observations b ! i)
        (assigned (bc_observations b ! i) (aligned_slots (bc_schedule b) (bc_events b)) default_slot_alignment_policy)
        = Inr (cs ! i))"

lemma align_analysis_returns:
  assumes "returns (align_analysis b plan entries budget) (alignment, cs)"
  shows "sl_slots alignment = aligned_slots (bc_schedule b) (bc_events b)" and "classified_as plan b cs"
proof -
  let ?assign = "\<lambda>ob. assigned ob (aligned_slots (bc_schedule b) (bc_events b)) default_slot_alignment_policy"
  have representable: "representable_slots (bc_schedule b)"
    using assms by (auto simp: align_analysis_def align_eq expecting_def returns_simps split: if_splits dest!: returns_nextD)
  from assms have alignment: "alignment = \<lparr>sl_slots = aligned_slots (bc_schedule b) (bc_events b),
      sl_observation_assignments = map ?assign (bc_observations b)\<rparr>"
    and loop: "returns (checked_loop (checkpoint budget StageAggregate ''classify_observations'') (classify_step plan) 0 []
       (enumerate 0 (zip (bc_observations b) (sl_observation_assignments alignment)))) cs"
    using representable
    by (auto simp: align_analysis_def align_eq alignment_of_def expecting_def Let_def returns_simps dest!: returns_nextD)
  show "sl_slots alignment = aligned_slots (bc_schedule b) (bc_events b)" by (simp add: alignment)
  from classified_all [OF checked_loop_returns [OF loop]]
  have all: "list_all2 (\<lambda>(i, ob, a) c. classify plan i ob a = Inr c)
      (enumerate 0 (zip (bc_observations b) (map ?assign (bc_observations b)))) cs" by (simp add: alignment)
  show "classified_as plan b cs"
    unfolding classified_as_def
  proof (intro conjI allI impI)
    show length: "length cs = length (bc_observations b)"
      using list_all2_lengthD [OF all] by simp
    fix i assume "i < length cs"
    with list_all2_nthD2 [OF all this] length
    show "classify plan i (bc_observations b ! i) (?assign (bc_observations b ! i)) = Inr (cs ! i)"
      by (simp add: nth_enumerate_eq)
  qed
qed

lemma classify_fields:
  assumes "classify plan i ob a = Inr c"
  shows "cl_observation c = ob" "cl_assignment c = a"
  using assms by (auto simp: classify_def and_then_Inr)

lemma classify_step_total:
  assumes "switches_labelled b"
    and "x \<in> set (enumerate 0 (zip (bc_observations b) (map (\<lambda>ob. assigned ob
      (aligned_slots (bc_schedule b) (bc_events b)) default_slot_alignment_policy) (bc_observations b))))"
  shows "classify_step plan acc x \<noteq> Inl e"
proof -
  obtain i ob a where x: "x = (i, ob, a)" by (metis prod.collapse)
  with assms(2) have "a = assigned ob (aligned_slots (bc_schedule b) (bc_events b)) default_slot_alignment_policy"
    by (auto simp: in_set_enumerate_eq in_set_zip)
  with classify_assigned [OF assms(1), of ob] have "\<exists>c. classify plan i ob a = Inr c"
    by (auto simp: classify_def split: option.split)
  then show ?thesis unfolding x by auto
qed

lemma align_no_panic:
  assumes "switches_labelled b" and "representable_slots (bc_schedule b)"
  shows "\<not> panics (align_analysis b plan entries budget)"
proof -
  have "\<not> panics (checked_loop (checkpoint budget StageAggregate ''classify_observations'') (classify_step plan) 0 []
       (enumerate 0 (zip (bc_observations b) (map (\<lambda>ob. assigned ob
          (aligned_slots (bc_schedule b) (bc_events b)) default_slot_alignment_policy) (bc_observations b)))))"
    by (rule loop_no_panic) (simp, use classify_step_total [OF assms(1)] in blast)
  then show ?thesis
    unfolding align_analysis_def align_eq if_P [OF assms(2)] alignment_of_def expecting_def ok_or_simps next_do_lifted Let_def
    by (intro no_panic_next) simp_all
qed

section \<open>The later stages\<close>

lemma aggregate_no_panic [simp]: "\<not> panics (aggregate obs budget role)"
  unfolding aggregate_def by (rule loop_no_panic) simp_all

lemma each_do_no_panic: "(\<And>x. x \<in> set xs \<Longrightarrow> \<not> panics (f x)) \<Longrightarrow> \<not> panics (each_do f xs)"
  using each_do_panics by blast

lemma evidence_no_panic: "\<not> panics (evidence_analysis b antennas slots cs budget)"
  unfolding evidence_analysis_def Let_def antenna_evidence_def band_evidence_def summarize_slot_def
  by (intro no_panic_next each_do_no_panic) auto

lemma paired_step_total:
  assumes "\<And>b. b \<in> set bs \<Longrightarrow> cb_eligibility b = Eligible \<Longrightarrow> cb_order b \<noteq> None"
    and "x \<in> set (concat (map (\<lambda>b. map (Pair b) (f b)) (filter (\<lambda>b. cb_eligibility b = Eligible) bs)))"
  shows "paired_step s rates x \<noteq> Inl e"
proof -
  from assms(2) obtain b st where x: "x = (b, st)" and b: "b \<in> set bs" "cb_eligibility b = Eligible" by auto
  from assms(1) [OF b] show ?thesis
    by (auto simp: x paired_step_def paired_rate_def expecting_def Let_def split: option.split)
qed

text \<open>No slot starts so early that the nominal offset of a transmission leads out of chrono's range.\<close>

definition room_before :: "timestamp \<Rightarrow> bool" where
  "room_before t \<longleftrightarrow> plus_duration t (- seconds WSPR_NOMINAL_START_OFFSET_SECONDS) \<noteq> None"

definition starts_have_room :: "schedule \<Rightarrow> bool" where
  "starts_have_room sched \<longleftrightarrow> (\<forall>slot \<in> set (sc_slots sched). room_before (ps_starts_at slot))"

lemma activity_rates_Inr:
  assumes "\<And>slot. slot \<in> set slots \<Longrightarrow> room_before (as_starts_at slot)"
  shows "\<exists>s. activity_rates reader records directions evidence comparison slots = Inr s"
  unfolding activity_rates_def Let_def
proof (rule try_fold_total)
  have step: "\<exists>t. rate_step summaries rows directions evidence comparison entry s slot = Inr t"
    if "slot \<in> set slots" for summaries rows entry s slot
    using assms [OF that]
    by (auto simp: rate_step_def room_before_def expecting_def case_prod_unfold Let_def)
  have same_slots: "set (comparison_slots slots) = set slots" by (simp add: comparison_slots_def)
  have "\<exists>t. try_fold (rate_step summaries rows directions evidence comparison entry) s (comparison_slots slots) = Inr t"
    for summaries rows entry s
    by (rule try_fold_total) (metis step same_slots sum.distinct(1))
  then show "try_fold (rate_step (List.map_filter (parse_summary reader) records) (census_rows_of reader records) directions
      evidence comparison entry) s (comparison_slots slots) \<noteq> Inl e" for entry s e
    by (metis sum.distinct(1))
qed

lemma activity_no_panic:
  assumes "\<And>b. b \<in> set (pc_blocks comparison) \<Longrightarrow> cb_eligibility b = Eligible \<Longrightarrow> cb_order b \<noteq> None"
    and "\<And>slot. slot \<in> set slots \<Longrightarrow> room_before (as_starts_at slot)"
  shows "\<not> panics (analyze_reporter_activity reader b slots cs comparison records directions budget)"
proof (cases "records = [] \<and> directions = []")
  case True
  then show ?thesis by (simp add: analyze_reporter_activity_def)
next
  case False
  have "\<exists>t. try_fold (paired_step s) [] (concat (map (\<lambda>b. map (Pair b) (f b))
      (filter (\<lambda>b. cb_eligibility b = Eligible) (pc_blocks comparison)))) = Inr t" for s f
    by (rule try_fold_total) (use paired_step_total [OF assms(1)] in blast)
  then have "\<not> panics (lifted (try_fold (paired_step s) [] (concat (map (\<lambda>b. map (Pair b) (f b))
      (filter (\<lambda>b. cb_eligibility b = Eligible) (pc_blocks comparison))))))" for s f
    unfolding panics_simps by (metis sum.distinct(1))
  moreover have "\<not> panics (lifted (activity_rates reader records directions evidence comparison slots))" for evidence
    using activity_rates_Inr [OF assms(2)] unfolding panics_simps by (metis sum.distinct(1))
  ultimately show ?thesis
    using False unfolding analyze_reporter_activity_def Let_def
    by (simp only: if_False) (intro no_panic_next, simp_all)
qed

lemma solar_no_panic: "\<not> tg_overflow_checks tg \<Longrightarrow> \<not> panics (derive_solar_context tg b comparison budget)"
proof -
  assume "\<not> tg_overflow_checks tg"
  then have "\<exists>t. and_then (derive_row tg b row) (\<lambda>x. Inr (rows @ [x])) = Inr t" for row rows
    using derive_row_Inr [of tg b row] by auto
  then have "\<not> panics (checked_loop (checkpoint budget StageCompare ''derive_solar_context'')
        (\<lambda>rows paired. and_then (derive_row tg b paired) (\<lambda>row. Inr (rows @ [row]))) 0 [] (pc_paired_rows comparison))"
    by (intro loop_no_panic) (simp, metis sum.distinct(1))
  then show ?thesis unfolding derive_solar_context_def by (intro no_panic_next) auto
qed

lemma comparison_stage_no_panic:
  assumes "\<And>c. c \<in> set cs \<Longrightarrow> cl_disposition c = Usable \<Longrightarrow> ob_slot_id (cl_observation c) \<noteq> None"
    and "\<And>slot. slot \<in> set slots \<Longrightarrow> room_before (as_starts_at slot)" and "\<not> tg_overflow_checks tg"
  shows "\<not> panics (comparison_analysis reader tg b slots cs records directions entries budget)"
  unfolding comparison_analysis_def Let_def
  by (intro no_panic_next comparison_no_panic activity_no_panic solar_no_panic)
    (use assms comparison_blocks_ordered in auto)

lemma do_all_no_panic: "(\<And>x. x \<in> set xs \<Longrightarrow> \<not> panics (f x)) \<Longrightarrow> \<not> panics (do_all f xs)"
  unfolding do_all_def by (intro no_panic_next each_do_no_panic) auto

lemma plan_no_panic: "\<not> panics (plan_analysis bundle validation records budget)"
proof (cases "list_ex is_fatal_for_analysis (vr_diagnostics validation)")
  case True
  then have "\<exists>e. error_from_report validation = Some e"
    by (auto simp: error_from_report_def report_is_empty_def list_ex_iff)
  with True show ?thesis
    by (auto simp: plan_analysis_def expecting_def intro!: no_panic_next)
next
  case False
  then show ?thesis
    unfolding plan_analysis_def Let_def
    by (simp only: if_False) (intro no_panic_next do_all_no_panic, auto)
qed

lemma plan_returns:
  "returns (plan_analysis bundle validation records budget) plan \<Longrightarrow> plan = plan_from_report validation"
  by (auto simp: plan_analysis_def Let_def returns_simps dest!: returns_nextD split: if_splits)

text \<open>Without excluded slots, what is usable was annotated with a slot.\<close>

lemma usable_annotated:
  assumes "validate_bundle_report bundle = Some report" and "plan = plan_from_report report"
    and "ep_excluded_slots plan = {}" and "distinct (map ob_observation_id (bc_observations bundle))"
    and "classified_as plan (analysis_bundle bundle report plan) cs"
    and "c \<in> set cs" and "cl_disposition c = Usable"
  shows "ob_slot_id (cl_observation c) \<noteq> None"
proof -
  let ?b = "analysis_bundle bundle report plan"
  let ?assign = "\<lambda>ob. assigned ob (aligned_slots (bc_schedule ?b) (bc_events ?b)) default_slot_alignment_policy"
  from assms(6) obtain i where i: "i < length cs" "c = cs ! i" by (metis in_set_conv_nth)
  let ?ob = "bc_observations ?b ! i" and ?orig = "bc_observations bundle ! i"
  from assms(5) i have length: "i < length (bc_observations bundle)"
    and c: "classify plan i ?ob (?assign ?ob) = Inr c"
    by (simp_all add: classified_as_def)
  have "map aligned_part (bc_observations ?b) ! i = map aligned_part (bc_observations bundle) ! i"
    using sanitize_keeps [of "bundle" report] by simp
  then have part: "aligned_part ?ob = aligned_part ?orig"
    using length by simp
  from c assms(7) have kept: "map_of (ep_excluded_observations plan) i = None"
    and usable: "classify_assignment (?assign ?ob) = Inr Usable"
    by (auto simp: classify_def and_then_Inr split: option.splits)
  have "ob_slot_id ?orig = oa_slot_id (assigned_in bundle ?orig)"
  proof (rule ccontr)
    assume "ob_slot_id ?orig \<noteq> oa_slot_id (assigned_in bundle ?orig)"
    from mismatch_excluded [OF assms(1) length assms(4) this] kept show False by (simp add: assms(2))
  qed
  moreover note usable_slot [OF usable]
  moreover have "oa_slot_id (?assign ?ob) = oa_slot_id (assigned_in bundle ?orig)"
    unfolding assigned_in_def assigned_slot_id analysis_bundle_schedule [OF assms(3)]
    using part by (simp add: aligned_part_def)
  ultimately have "ob_slot_id ?orig \<noteq> None" by simp
  with part classify_fields(1) [OF c] show ?thesis by (simp add: aligned_part_def)
qed

text \<open>What the stages need of the bundle holds of the bundle the analysis works on.\<close>

lemma analysis_bundle_ready:
  assumes "validate_bundle_report bundle = Some report" and "ep_excluded_slots plan = {}"
    and "switches_labelled bundle" and "starts_have_room (bc_schedule bundle)"
  defines "b \<equiv> analysis_bundle bundle report plan"
  shows "switches_labelled b" and "representable_slots (bc_schedule b)"
    and "slot \<in> set (aligned_slots (bc_schedule b) (bc_events b)) \<Longrightarrow> room_before (as_starts_at slot)"
proof -
  show "switches_labelled b"
    using assms(3) analysis_bundle_events [of "bundle" report plan] by (auto simp: b_def switches_labelled_def)
  have schedule: "bc_schedule b = bc_schedule bundle" unfolding b_def by (rule analysis_bundle_schedule [OF assms(2)])
  show "representable_slots (bc_schedule b)"
    using assms(1) by (auto simp: schedule validate_bundle_report_def issues_eq split: if_splits)
  show "room_before (as_starts_at slot)" if "slot \<in> set (aligned_slots (bc_schedule b) (bc_events b))"
    using that assms(4) by (auto simp: schedule aligned_slots_def starts_have_room_def)
qed

text \<open>
  C4. The analysis of a validated bundle never panics, whatever the limits and whenever it is
  cancelled, under five conditions: the report withholds no slot, the observations have distinct
  identities, every switch recorded from schema v2 on carries a label, no slot starts in the
  first second of chrono's range, and the build has no overflow checks.
\<close>

theorem analysis_never_panics:
  assumes "validate_bundle_report bundle = Some report"
    and "ep_excluded_slots (plan_from_report report) = {}"
    and "distinct (map ob_observation_id (bc_observations bundle))" and "switches_labelled bundle"
    and "starts_have_room (bc_schedule bundle)" and "\<not> tg_overflow_checks tg"
  shows "\<not> panics (summarize_bundle_with_resources_and_activity reader tg bundle report records directions budget)"
proof -
  let ?plan = "plan_from_report report"
  let ?b = "analysis_bundle bundle report ?plan"
  note ready = analysis_bundle_ready [OF assms(1,2,4,5)]
  have usable: "ob_slot_id (cl_observation c) \<noteq> None"
    if "returns (align_analysis ?b ?plan entries budget) (alignment, cs)" "c \<in> set cs" "cl_disposition c = Usable"
    for entries alignment cs c
    using usable_annotated [OF assms(1) refl assms(2,3) align_analysis_returns(2) [OF that(1)] that(2,3)] .
  have rest: "\<not> panics (comparison_analysis reader tg ?b (sl_slots alignment) cs records directions n budget)"
    if "returns (align_analysis ?b ?plan entries budget) (alignment, cs)" for entries alignment cs n
    using that ready(3) align_analysis_returns(1) [OF that] assms(6)
    by (intro comparison_stage_no_panic usable) auto
  have align: "\<not> panics (align_analysis ?b ?plan entries budget)" for entries
    using align_no_panic [OF ready(1,2)] .
  show ?thesis
    unfolding summarize_bundle_with_resources_and_activity_def Let_def
    apply (rule no_panic_next [OF plan_no_panic], drule plan_returns, simp only:)
    apply (rule no_panic_tuples(1) [OF align])
    subgoal premises prems
      by (rule no_panic_tuples(3) [OF evidence_no_panic], rule no_panic_tuples(2) [OF rest [OF prems(2)]])
        (intro no_panic_next do_all_no_panic, auto)
    done
qed

end
