(* ===== verification/AnalysisOutcome.thy ===== *)
theory AnalysisOutcome
  imports AnalysisSafety
begin

text \<open>
  What comes out of an analysis: with enough room and no cancellation a summary, the same whatever
  the limits; after a cancellation was seen, never a summary; and in a summary every observation
  accounted for.
\<close>

section \<open>Computations that settle\<close>

definition runs :: "'a analysis \<Rightarrow> 'a \<Rightarrow> bool" where
  "runs m x \<longleftrightarrow> (\<forall>n. \<exists>k. m n = (Inr x, k))"

lemma runs_done [simp]: "runs (done_with x) x"
  by (simp add: runs_def done_with_def)

lemma runs_next: "runs m x \<Longrightarrow> runs (f x) y \<Longrightarrow> runs (next_do m f) y"
  unfolding runs_def
proof
  fix n
  assume "\<forall>n. \<exists>k. m n = (Inr x, k)" "\<forall>n. \<exists>k. f x n = (Inr y, k)"
  then obtain j k where "m n = (Inr x, j)" "f x j = (Inr y, k)" by blast
  then show "\<exists>k. next_do m f n = (Inr y, k)" by (simp add: next_do_def)
qed

lemma runs_returns: "runs m x \<Longrightarrow> returns m x"
  by (auto simp: runs_def returns_def)

lemma runs_unique: "runs m x \<Longrightarrow> returns m y \<Longrightarrow> y = x"
  unfolding runs_def returns_def by (metis Inr_inject prod.inject)

text \<open>A budget with room for \<open>L\<close> entries whose token is never set.\<close>

definition generous :: "nat \<Rightarrow> analysis_budget \<Rightarrow> bool" where
  "generous L b \<longleftrightarrow> bu_cancelled_from b = None \<and> L \<le> li_collection_entries (bu_limits b) \<and>
     L \<le> li_live_entries (bu_limits b)"

definition settles :: "(analysis_budget \<Rightarrow> 'a analysis) \<Rightarrow> 'a \<Rightarrow> bool" where
  "settles m x \<longleftrightarrow> (\<exists>L. \<forall>b. generous L b \<longrightarrow> runs (m b) x)"

lemma settles_next:
  assumes "settles m x" and "settles (f x) y"
  shows "settles (\<lambda>b. next_do (m b) (\<lambda>x. f x b)) y"
proof -
  obtain L M where "\<forall>b. generous L b \<longrightarrow> runs (m b) x" "\<forall>b. generous M b \<longrightarrow> runs (f x b) y"
    using assms unfolding settles_def by blast
  then have "\<forall>b. generous (max L M) b \<longrightarrow> runs (next_do (m b) (\<lambda>x. f x b)) y"
    by (auto simp: generous_def intro!: runs_next)
  then show ?thesis unfolding settles_def by blast
qed

lemma settles_const: "runs m x \<Longrightarrow> settles (\<lambda>b. m) x"
  by (auto simp: settles_def)

lemma runs_cancelled: "bu_cancelled_from b = None \<Longrightarrow> runs (cancelled b stage role) ()"
  by (simp add: runs_def cancelled_def next_do_def is_cancelled_def done_with_def)

lemma runs_check:
  "bu_cancelled_from b = None \<Longrightarrow> observed \<le> limit \<Longrightarrow> runs (check_limit b code stage role limit observed) ()"
  unfolding check_limit_def by (rule runs_next [OF runs_cancelled]) simp_all

lemma settles_budget [simp]:
  "settles (\<lambda>b. cancelled b stage role) ()" "settles (\<lambda>b. collection b stage role k) ()"
  "settles (\<lambda>b. live b stage role k) ()"
  unfolding settles_def collection_def live_def
  by (intro exI [of _ k] allI impI, simp add: generous_def runs_cancelled runs_check)+

lemma runs_checkpoint: "bu_cancelled_from b = None \<Longrightarrow> runs (checkpoint b stage role i) ()"
  by (simp add: checkpoint_def runs_cancelled)

lemma runs_loop:
  assumes "\<And>i. runs (check i) ()"
  shows "try_fold body s xs = Inr t \<Longrightarrow> runs (checked_loop check body i s xs) t"
proof (induction xs arbitrary: i s)
  case (Cons x xs)
  then obtain u where "body s x = Inr u" "try_fold body u xs = Inr t" by (auto simp: and_then_Inr)
  with Cons.IH [OF this(2)] show ?case
    unfolding checked_loop.simps by (intro runs_next [OF assms]) simp
qed simp

lemma settles_loop:
  "try_fold body s xs = Inr t \<Longrightarrow> settles (\<lambda>b. checked_loop (checkpoint b stage role) body i s xs) t"
  unfolding settles_def generous_def by (auto intro!: runs_loop runs_checkpoint)

lemma settles_each:
  "\<forall>x \<in> set xs. \<exists>y. settles (f x) y \<Longrightarrow> \<exists>ys. settles (\<lambda>b. each_do (\<lambda>x. f x b) xs) ys"
proof (induction xs)
  case Nil
  have "settles (\<lambda>b. done_with []) []" by (rule settles_const) simp
  then show ?case by auto
next
  case (Cons x xs)
  then obtain y ys where head: "settles (f x) y" and tail: "settles (\<lambda>b. each_do (\<lambda>x. f x b) xs) ys" by auto
  have "settles (\<lambda>b. each_do (\<lambda>x. f x b) (x # xs)) (y # ys)"
    unfolding each_do.simps by (rule settles_next [OF head settles_next [OF tail settles_const [OF runs_done]]])
  then show ?case by blast
qed

lemma settles_do_all: "\<forall>x \<in> set xs. settles (f x) () \<Longrightarrow> settles (\<lambda>b. do_all (\<lambda>x. f x b) xs) ()"
  unfolding do_all_def
proof -
  assume "\<forall>x \<in> set xs. settles (f x) ()"
  then obtain ys where "settles (\<lambda>b. each_do (\<lambda>x. f x b) xs) ys" using settles_each [of xs f] by blast
  then show "settles (\<lambda>b. next_do (each_do (\<lambda>x. f x b) xs) (\<lambda>_. done_with ())) ()"
    by (rule settles_next) (rule settles_const, simp)
qed

lemma settles_lifted: "r = Inr x \<Longrightarrow> settles (\<lambda>b. lifted r) x"
  by (rule settles_const) (simp add: runs_def lifted_def)

lemma settles_collections: "settles (\<lambda>b. do_all (\<lambda>(role, n). collection b stage role n) xs) ()"
  using settles_do_all [of xs "\<lambda>x b. collection b stage (fst x) (snd x)"] by (simp add: case_prod_unfold)

section \<open>Every stage settles\<close>

lemma settles_aggregate: "settles (\<lambda>b. aggregate obs b role) (foldl add_evidence aggregate_default obs)"
  unfolding aggregate_def by (rule settles_loop) (rule try_fold_Inr)

lemma plan_settles:
  assumes "\<not> list_ex is_fatal_for_analysis (vr_diagnostics validation)"
  shows "settles (plan_analysis bundle validation records) (plan_from_report validation)"
  unfolding plan_analysis_def Let_def using assms
  by (simp only: if_False) (rule settles_next settles_collections settles_budget settles_const runs_done)+

lemma evidence_settles: "\<exists>v. settles (evidence_analysis b antennas slots cs) v"
proof -
  have "\<forall>x \<in> set antennas. \<exists>y. settles (\<lambda>budget. antenna_evidence cs budget x) y"
    unfolding antenna_evidence_def Let_def
    by (intro ballI exI) (rule settles_next settles_aggregate settles_const runs_done)+
  then obtain as where as: "settles (\<lambda>budget. each_do (antenna_evidence cs budget) antennas) as"
    using settles_each [of antennas "\<lambda>x budget. antenna_evidence cs budget x"] by auto
  have "\<forall>x \<in> set (bands_present b). \<exists>y. settles (\<lambda>budget. band_evidence cs budget x) y"
    unfolding band_evidence_def
    by (intro ballI exI) (rule settles_next settles_aggregate settles_const runs_done)+
  then obtain bs where bs: "settles (\<lambda>budget. each_do (band_evidence cs budget) (bands_present b)) bs"
    using settles_each [of "bands_present b" "\<lambda>x budget. band_evidence cs budget x"] by auto
  have "\<forall>x \<in> set slots. \<exists>y. settles (\<lambda>budget. summarize_slot cs budget x) y"
    unfolding summarize_slot_def
    by (intro ballI exI) (rule settles_next settles_aggregate settles_const runs_done)+
  then obtain ss where ss: "settles (\<lambda>budget. each_do (summarize_slot cs budget) slots) ss"
    using settles_each [of slots "\<lambda>x budget. summarize_slot cs budget x"] by auto
  have "settles (evidence_analysis b antennas slots cs) (finish_evidence (foldl add_evidence aggregate_default cs), as, bs, ss)"
    unfolding evidence_analysis_def Let_def
    by (rule settles_next settles_budget settles_aggregate as bs ss settles_const runs_done)+
  then show ?thesis by blast
qed

lemma align_settles:
  assumes "switches_labelled b" and "representable_slots (bc_schedule b)"
  shows "\<exists>alignment cs. settles (align_analysis b plan entries) (alignment, cs)"
proof -
  let ?assign = "\<lambda>ob. assigned ob (aligned_slots (bc_schedule b) (bc_events b)) default_slot_alignment_policy"
  have "\<exists>cs. try_fold (classify_step plan) [] (enumerate 0 (zip (bc_observations b) (map ?assign (bc_observations b)))) = Inr cs"
    by (rule try_fold_total) (use classify_step_total [OF assms(1)] in blast)
  then obtain cs where cs: "try_fold (classify_step plan) []
      (enumerate 0 (zip (bc_observations b) (map ?assign (bc_observations b)))) = Inr cs" by blast
  have "settles (align_analysis b plan entries)
      (\<lparr>sl_slots = aligned_slots (bc_schedule b) (bc_events b),
        sl_observation_assignments = map ?assign (bc_observations b)\<rparr>, cs)"
    unfolding align_analysis_def align_eq if_P [OF assms(2)] alignment_of_def expecting_def ok_or_simps next_do_lifted Let_def
      schedule_slot_alignment.select_convs
    by (rule settles_next settles_budget settles_loop [OF cs] settles_const runs_done)+
  then show ?thesis by blast
qed

lemma comparison_settles:
  assumes "\<And>c. c \<in> set cs \<Longrightarrow> cl_disposition c = Usable \<Longrightarrow> ob_slot_id (cl_observation c) \<noteq> None"
  shows "\<exists>c. settles (analyze_paired_comparison bundle slots cs) c"
proof (cases "compared bundle")
  case False
  from not_compared [OF this] obtain reason where "\<forall>budget. analyze_paired_comparison bundle slots cs budget =
      done_with (unavailable reason (scheduled_labels bundle))" by blast
  then have "settles (analyze_paired_comparison bundle slots cs) (unavailable reason (scheduled_labels bundle))"
    by (simp add: settles_def)
  then show ?thesis by blast
next
  case True
  from comparison_outcome [OF assms True, where slots = slots] obtain t c where
    t: "try_fold (pair_step bundle (compared_blocks bundle slots) (slot_locations_of (build_timeline_rows
          (compared_blocks bundle slots) (scheduled_labels bundle ! 0) (scheduled_labels bundle ! 1))))
       (pairing_start (grouped bundle (compared_blocks bundle slots) (scheduled_labels bundle ! 0) (scheduled_labels bundle ! 1) cs))
       (gr_groups (grouped bundle (compared_blocks bundle slots) (scheduled_labels bundle ! 0) (scheduled_labels bundle ! 1) cs)) = Inr t"
    and c: "finish_comparison bundle (scheduled_labels bundle ! 0) (scheduled_labels bundle ! 1) (compared_blocks bundle slots)
       (gr_exclusions_by_stratum (grouped bundle (compared_blocks bundle slots) (scheduled_labels bundle ! 0)
          (scheduled_labels bundle ! 1) cs)) t = Inr c" by blast
  have "settles (analyze_paired_comparison bundle slots cs) c"
    unfolding compare_unfold [OF True, abs_def]
    by (rule settles_next [OF settles_loop [OF try_fold_Inr] settles_next [OF settles_loop settles_lifted]])
      (use t c in \<open>simp_all only: grouped_def\<close>)
  then show ?thesis by blast
qed

lemma activity_settles:
  assumes "\<And>b. b \<in> set (pc_blocks comparison) \<Longrightarrow> cb_eligibility b = Eligible \<Longrightarrow> cb_order b \<noteq> None"
    and "\<And>slot. slot \<in> set slots \<Longrightarrow> room_before (as_starts_at slot)"
  shows "\<exists>a. settles (analyze_reporter_activity reader b slots cs comparison records directions) a"
proof (cases "records = [] \<and> directions = []")
  case True
  then have "settles (analyze_reporter_activity reader b slots cs comparison records directions) no_activity"
    by (simp add: analyze_reporter_activity_def settles_def)
  then show ?thesis by blast
next
  case False
  have total: "\<exists>t. try_fold (paired_step s) [] (concat (map (\<lambda>b. map (Pair b) (f b))
      (filter (\<lambda>b. cb_eligibility b = Eligible) (pc_blocks comparison)))) = Inr t" for s f
    by (rule try_fold_total) (use paired_step_total [OF assms(1)] in blast)
  obtain s where s: "activity_rates reader records directions (heard_evidence_of b cs) comparison slots = Inr s"
    using activity_rates_Inr [OF assms(2)] by blast
  obtain rates where rates: "try_fold (paired_step s) []
      (concat (map (\<lambda>blk. map (Pair blk) (filter (\<lambda>stratum. sm_band stratum = cb_band blk)
         (map snd (he_strata (heard_evidence_of b cs))))) (filter (\<lambda>blk. cb_eligibility blk = Eligible) (pc_blocks comparison)))) = Inr rates"
    using total [of s "\<lambda>blk. filter (\<lambda>stratum. sm_band stratum = cb_band blk) (map snd (he_strata (heard_evidence_of b cs)))"] by blast
  have "\<exists>a. settles (analyze_reporter_activity reader b slots cs comparison records directions) a"
    unfolding analyze_reporter_activity_def [abs_def] Let_def using False
    by (simp only: if_False) (rule exI, (rule settles_next settles_budget settles_lifted [OF s] settles_lifted [OF rates] settles_const runs_done)+)
  then show ?thesis .
qed

lemma solar_settles:
  assumes "\<not> tg_overflow_checks tg"
  shows "\<exists>s. settles (derive_solar_context tg b comparison) s"
proof -
  have "\<exists>rows. try_fold (\<lambda>rows paired. and_then (derive_row tg b paired) (\<lambda>row. Inr (rows @ [row]))) []
      (pc_paired_rows comparison) = Inr rows"
  proof (rule try_fold_total)
    show "and_then (derive_row tg b x) (\<lambda>row. Inr (s @ [row])) \<noteq> Inl e" for s x e
      using derive_row_Inr [OF assms, of b x] by auto
  qed
  then obtain rows where "try_fold (\<lambda>rows paired. and_then (derive_row tg b paired) (\<lambda>row. Inr (rows @ [row]))) []
      (pc_paired_rows comparison) = Inr rows" by blast
  note loop = settles_loop [OF this]
  show ?thesis
    unfolding derive_solar_context_def [abs_def]
    by (rule exI, (rule settles_next settles_budget loop settles_const runs_done)+)
qed

lemma settles_returns: "settles m x \<Longrightarrow> \<exists>b. returns (m b) x"
proof -
  assume "settles m x"
  then obtain L where L: "\<forall>b. generous L b \<longrightarrow> runs (m b) x" by (auto simp: settles_def)
  have "generous L \<lparr>bu_limits = \<lparr>li_collection_entries = L, li_live_entries = L\<rparr>, bu_cancelled_from = None\<rparr>"
    by (simp add: generous_def)
  then have "runs (m \<lparr>bu_limits = \<lparr>li_collection_entries = L, li_live_entries = L\<rparr>, bu_cancelled_from = None\<rparr>) x"
    using L by simp
  then show ?thesis by (blast dest: runs_returns)
qed

lemma comparison_stage_settles:
  assumes "\<And>c. c \<in> set cs \<Longrightarrow> cl_disposition c = Usable \<Longrightarrow> ob_slot_id (cl_observation c) \<noteq> None"
    and "\<And>slot. slot \<in> set slots \<Longrightarrow> room_before (as_starts_at slot)" and "\<not> tg_overflow_checks tg"
  shows "\<exists>v. settles (comparison_analysis reader tg b slots cs records directions n) v"
proof -
  obtain c where c: "settles (analyze_paired_comparison b slots cs) c" using comparison_settles [OF assms(1)] by blast
  obtain budget where ret: "returns (analyze_paired_comparison b slots cs budget) c" using settles_returns [OF c] by blast
  have "\<exists>a. settles (analyze_reporter_activity reader b slots cs c records directions) a"
    by (rule activity_settles) (rule comparison_blocks_ordered [OF ret], assumption+, rule assms(2))
  then obtain a where a: "settles (analyze_reporter_activity reader b slots cs c records directions) a" ..
  obtain s where s: "settles (derive_solar_context tg b c) s" using solar_settles [OF assms(3)] by blast
  have "settles (comparison_analysis reader tg b slots cs records directions n) (c, a, s)"
    unfolding comparison_analysis_def [abs_def] Let_def
    by (rule settles_next settles_budget c a s settles_const runs_done)+
  then show ?thesis by blast
qed

lemma analysis_settles:
  assumes "validate_bundle_report bundle = Some report"
    and "\<not> list_ex is_fatal_for_analysis (vr_diagnostics report)"
    and "ep_excluded_slots (plan_from_report report) = {}"
    and "distinct (map ob_observation_id (bc_observations bundle))" and "switches_labelled bundle"
    and "starts_have_room (bc_schedule bundle)" and "\<not> tg_overflow_checks tg"
  shows "\<exists>y. settles (summarize_bundle_with_resources_and_activity reader tg bundle report records directions) y"
proof -
  let ?plan = "plan_from_report report"
  let ?b = "analysis_bundle bundle report ?plan"
  let ?entries = "input_entries bundle records + plan_entries ?plan"
  note ready = analysis_bundle_ready [OF assms(1,3,5,6)]
  obtain alignment cs where align: "settles (align_analysis ?b ?plan ?entries) (alignment, cs)"
    using align_settles [OF ready(1,2)] by blast
  from settles_returns [OF align] have classified: "classified_as ?plan ?b cs"
    and slots: "sl_slots alignment = aligned_slots (bc_schedule ?b) (bc_events ?b)"
    using align_analysis_returns by blast+
  obtain overall antennas bands slot_summaries where
    evidence: "settles (evidence_analysis ?b (af_antennas (bc_antennas bundle)) (sl_slots alignment) cs) (overall, antennas, bands, slot_summaries)"
    using evidence_settles [of ?b "af_antennas (bc_antennas bundle)" "sl_slots alignment" cs] by auto
  obtain comparison activity solar where
    comparison: "settles (comparison_analysis reader tg ?b (sl_slots alignment) cs records directions
      (?entries + (length (sl_slots alignment) + length (sl_observation_assignments alignment)))) (comparison, activity, solar)"
    using comparison_stage_settles [OF usable_annotated [OF assms(1) refl assms(3,4) classified] _ assms(7)]
      ready(3) unfolding slots by fast
  have "\<exists>y. settles (summarize_bundle_with_resources_and_activity reader tg bundle report records directions) y"
    unfolding summarize_bundle_with_resources_and_activity_def [abs_def] Let_def
    by (rule exI, rule settles_next [OF plan_settles [OF assms(2)]], rule settles_next [OF align], simp only: prod.case,
        rule settles_next [OF evidence], simp only: prod.case, rule settles_next [OF comparison], simp only: prod.case)
      (rule settles_next settles_budget settles_collections settles_const runs_done)+
  then show ?thesis .
qed

text \<open>
  C5. An analysis that is not cancelled completes when no diagnostic of the report is fatal, under
  the conditions of \<open>analysis_never_panics\<close> (no withheld slot, distinct identities, labelled
  switches, no slot in chrono's first second, no overflow checks): there is one summary that it
  returns under all limits that are large enough.
\<close>

theorem analysis_completes:
  assumes "validate_bundle_report bundle = Some report"
    and "\<not> list_ex is_fatal_for_analysis (vr_diagnostics report)"
    and "ep_excluded_slots (plan_from_report report) = {}"
    and "distinct (map ob_observation_id (bc_observations bundle))" and "switches_labelled bundle"
    and "starts_have_room (bc_schedule bundle)" and "\<not> tg_overflow_checks tg"
  shows "\<exists>y L. \<forall>budget. generous L budget \<longrightarrow>
    (\<forall>n. \<exists>k. summarize_bundle_with_resources_and_activity reader tg bundle report records directions budget n = (Inr y, k))"
  using analysis_settles [OF assms] unfolding settles_def runs_def by blast

end
