(* ===== verification/AnalysisAccounts.thy ===== *)
theory AnalysisAccounts
  imports AnalysisOutcome
begin

text \<open>
  In every evidence summary each observation is counted once: as usable, under its kind, or as
  excluded, under its reason; the bands partition the observations; and the errors of an analysis
  tell the truth about limits and cancellation.
\<close>

section \<open>Evidence in closed form\<close>

definition usable :: "'j classified_observation \<Rightarrow> bool" where
  "usable c \<longleftrightarrow> cl_disposition c = Usable"

definition excluded_as :: "observation_exclusion_reason \<Rightarrow> 'j classified_observation list \<Rightarrow> nat" where
  "excluded_as reason cs = length (filter (\<lambda>c. cl_disposition c = Excluded reason) cs)"

definition usable_of :: "observation_kind \<Rightarrow> 'j classified_observation list \<Rightarrow> nat" where
  "usable_of kind cs = length (filter (\<lambda>c. usable c \<and> ob_observation_kind (cl_observation c) = kind) cs)"

lemma bump_reasons:
  "bump (exclusion_reason_index r) (map f EXCLUSION_REASONS) = map (f(r := f r + 1)) EXCLUSION_REASONS"
  by (cases r) (simp_all add: bump_def EXCLUSION_REASONS_def)

lemma bump_kinds:
  "bump (observation_kind_index k) (map f OBSERVATION_KINDS) = map (f(k := f k + 1)) OBSERVATION_KINDS"
  by (cases k) (simp_all add: bump_def OBSERVATION_KINDS_def)

lemma evidence_closed:
  defines "g cs \<equiv> foldl add_evidence aggregate_default cs"
  shows "ga_total (g cs) = length cs" and "ga_usable (g cs) = length (filter usable cs)"
    and "ga_exclusions (g cs) = map (\<lambda>r. excluded_as r cs) EXCLUSION_REASONS"
    and "ga_usable_kinds (g cs) = map (\<lambda>k. usable_of k cs) OBSERVATION_KINDS"
    and "length (ga_snr_samples (g cs)) = length (filter (\<lambda>c. usable c \<and> ob_snr_db (cl_observation c) \<noteq> None) cs)"
proof (induction cs rule: rev_induct)
  case Nil
  show "ga_total (g []) = length []" "ga_usable (g []) = length (filter usable [])"
    "ga_exclusions (g []) = map (\<lambda>r. excluded_as r []) EXCLUSION_REASONS"
    "ga_usable_kinds (g []) = map (\<lambda>k. usable_of k []) OBSERVATION_KINDS"
    "length (ga_snr_samples (g [])) = length (filter (\<lambda>c. usable c \<and> ob_snr_db (cl_observation c) \<noteq> None) [])"
    by (simp_all add: g_def aggregate_default_def excluded_as_def usable_of_def EXCLUSION_REASONS_def
        OBSERVATION_KINDS_def eval_nat_numeral)
next
  case (snoc c cs)
  have g: "g (cs @ [c]) = add_evidence (g cs) c" by (simp add: g_def)
  have reasons: "(\<lambda>r. excluded_as r (cs @ [c])) = (case cl_disposition c of Usable \<Rightarrow> (\<lambda>r. excluded_as r cs)
      | Excluded r \<Rightarrow> (\<lambda>r. excluded_as r cs)(r := excluded_as r cs + 1))"
    by (auto simp: excluded_as_def fun_eq_iff split: observation_disposition.split)
  have kinds: "(\<lambda>k. usable_of k (cs @ [c])) = (if usable c
      then (\<lambda>k. usable_of k cs)(ob_observation_kind (cl_observation c) :=
         usable_of (ob_observation_kind (cl_observation c)) cs + 1)
      else (\<lambda>k. usable_of k cs))"
    by (auto simp: usable_of_def fun_eq_iff)
  show "ga_total (g (cs @ [c])) = length (cs @ [c])" "ga_usable (g (cs @ [c])) = length (filter usable (cs @ [c]))"
    "ga_exclusions (g (cs @ [c])) = map (\<lambda>r. excluded_as r (cs @ [c])) EXCLUSION_REASONS"
    "ga_usable_kinds (g (cs @ [c])) = map (\<lambda>k. usable_of k (cs @ [c])) OBSERVATION_KINDS"
    "length (ga_snr_samples (g (cs @ [c]))) =
       length (filter (\<lambda>c. usable c \<and> ob_snr_db (cl_observation c) \<noteq> None) (cs @ [c]))"
    unfolding reasons kinds g add_evidence_def Let_def using snoc
    by (auto simp: usable_def [abs_def] bump_reasons bump_kinds split: observation_disposition.split option.split)
qed

lemma excluded_total: "sum_list (map (\<lambda>r. excluded_as r cs) EXCLUSION_REASONS) = length (filter (\<lambda>c. \<not> usable c) cs)"
proof (induction cs)
  case (Cons c cs)
  have "excluded_as r (c # cs) = (if cl_disposition c = Excluded r then 1 else 0) + excluded_as r cs" for r
    by (simp add: excluded_as_def)
  moreover have "sum_list (map (\<lambda>r. if cl_disposition c = Excluded r then 1 else 0 :: nat) EXCLUSION_REASONS) =
      (if usable c then 0 else 1)"
  proof (cases "cl_disposition c")
    case (Excluded r)
    then show ?thesis by (cases r) (simp_all add: usable_def EXCLUSION_REASONS_def)
  qed (simp add: usable_def EXCLUSION_REASONS_def)
  ultimately show ?case using Cons by (simp add: sum_list_addf)
qed (simp add: excluded_as_def EXCLUSION_REASONS_def)

lemma usable_total: "sum_list (map (\<lambda>k. usable_of k cs) OBSERVATION_KINDS) = length (filter usable cs)"
proof (induction cs)
  case (Cons c cs)
  have "usable_of k (c # cs) = (if usable c \<and> ob_observation_kind (cl_observation c) = k then 1 else 0) + usable_of k cs" for k
    by (simp add: usable_of_def)
  moreover have "sum_list (map (\<lambda>k. if usable c \<and> ob_observation_kind (cl_observation c) = k then 1 else 0 :: nat) OBSERVATION_KINDS) =
      (if usable c then 1 else 0)"
    by (cases "ob_observation_kind (cl_observation c)") (auto simp: OBSERVATION_KINDS_def)
  ultimately show ?case using Cons by (simp add: sum_list_addf)
qed (simp add: usable_of_def OBSERVATION_KINDS_def)

lemma nonzero_closed: "nonzero_counts xs (map f xs) = map (\<lambda>x. (x, f x)) (filter (\<lambda>x. 0 < f x) xs)"
proof -
  have "List.map_filter (\<lambda>(i, x). bool_then (0 < (ys @ map f xs) ! i) (x, (ys @ map f xs) ! i)) (enumerate (length ys) xs) =
      map (\<lambda>x. (x, f x)) (filter (\<lambda>x. 0 < f x) xs)" for ys
  proof (induction xs arbitrary: ys)
    case (Cons x xs)
    from Cons.IH [of "ys @ [f x]"] show ?case by (simp add: map_filter_simps nth_append)
  qed (simp add: map_filter_simps)
  from this [of "[]"] show ?thesis by (simp add: nonzero_counts_def)
qed

lemma nonzero_sum: "sum_list (map snd (nonzero_counts xs (map f xs))) = sum_list (map f xs)"
  unfolding nonzero_closed by (induction xs) auto

section \<open>Accounts\<close>

definition accounted :: "evidence_summary \<Rightarrow> bool" where
  "accounted e \<longleftrightarrow>
     (let n = es_observation_counts e in
      oc_total n = oc_usable n + oc_excluded n \<and>
      sum_list (map snd (es_exclusions e)) = oc_excluded n \<and>
      sum_list (map snd (es_usable_observation_kinds e)) = oc_usable n \<and>
      distinct (map fst (es_exclusions e)) \<and> distinct (map fst (es_usable_observation_kinds e)) \<and>
      (case es_snr e of None \<Rightarrow> 0 | Some s \<Rightarrow> ns_sample_count s) \<le> oc_usable n)"

lemma finish_counts:
  "es_observation_counts (finish_evidence (foldl add_evidence aggregate_default cs)) =
     \<lparr>oc_total = length cs, oc_usable = length (filter usable cs), oc_excluded = length (filter (\<lambda>c. \<not> usable c) cs)\<rparr>"
  using sum_length_filter_compl [of usable cs] by (simp add: finish_evidence_def evidence_closed)

lemma finish_accounted: "accounted (finish_evidence (foldl add_evidence aggregate_default cs))"
proof -
  let ?g = "foldl add_evidence aggregate_default cs"
  have "distinct EXCLUSION_REASONS" "distinct OBSERVATION_KINDS"
    by (simp_all add: EXCLUSION_REASONS_def OBSERVATION_KINDS_def)
  then have "distinct (map fst (nonzero_counts EXCLUSION_REASONS (ga_exclusions ?g)))"
    "distinct (map fst (nonzero_counts OBSERVATION_KINDS (ga_usable_kinds ?g)))"
    unfolding evidence_closed nonzero_closed by (simp_all add: comp_def)
  moreover have "length (filter (\<lambda>c. usable c \<and> ob_snr_db (cl_observation c) \<noteq> None) cs) \<le> length (filter usable cs)"
    by (induction cs) auto
  ultimately show ?thesis
    using sum_length_filter_compl [of usable cs]
    unfolding accounted_def Let_def finish_counts
    by (simp add: finish_evidence_def evidence_closed nonzero_sum excluded_total usable_total snr_statistics_of_def)
qed

section \<open>The parts of a summary\<close>

lemma summary_parts:
  assumes "returns (summarize_bundle_with_resources_and_activity reader tg bundle report records directions budget) y"
  obtains cs slots where
    "classified_as (plan_from_report report) (analysis_bundle bundle report (plan_from_report report)) cs"
    and "returns (evidence_analysis (analysis_bundle bundle report (plan_from_report report))
      (af_antennas (bc_antennas bundle)) slots cs budget) (sy_overall y, sy_antennas y, sy_bands y, sy_slots y)"
    and "sy_exclusion_records y = sort_key xr_observation_id (List.map_filter exclusion_record cs)"
    and "\<exists>n. returns (comparison_analysis reader tg (analysis_bundle bundle report (plan_from_report report)) slots cs
      records directions n budget) (sy_comparison y, sy_reporter_activity y, sy_solar_context y)"
  using assms unfolding summarize_bundle_with_resources_and_activity_def Let_def
  by (auto simp: returns_simps dest!: returns_nextD plan_returns intro!: that dest: align_analysis_returns(2))

abbreviation evidence_of :: "'j classified_observation list \<Rightarrow> evidence_summary" where
  "evidence_of cs \<equiv> finish_evidence (foldl add_evidence aggregate_default cs)"

lemma aggregate_returns: "returns (aggregate cs budget role) g \<Longrightarrow> g = foldl add_evidence aggregate_default cs"
  unfolding aggregate_def by (auto dest: checked_loop_returns simp: try_fold_Inr)

lemma each_evidence:
  assumes "returns (each_do f xs) ys" and "\<And>x y. returns (f x) y \<Longrightarrow> key y = k x \<and> val y = evidence_of (g x)"
  shows "map key ys = map k xs" and "map val ys = map (\<lambda>x. evidence_of (g x)) xs"
proof -
  have "list_all2 (\<lambda>x y. key y = k x \<and> val y = evidence_of (g x)) xs ys"
    using each_do_returns [OF assms(1)] assms(2) by (rule list_all2_mono)
  then show "map key ys = map k xs" "map val ys = map (\<lambda>x. evidence_of (g x)) xs"
    by (induction rule: list_all2_induct) simp_all
qed

lemma evidence_analysis_parts:
  assumes "returns (evidence_analysis b antennas slots cs budget) (overall, as, bs, ss)"
  shows "overall = evidence_of cs"
    and "map ae_evidence as = map (\<lambda>a. evidence_of (filter (\<lambda>c. oa_slot_label (cl_assignment c) = Some (an_label a)) cs)) antennas"
    and "map be_evidence bs = map (\<lambda>band. evidence_of (filter (\<lambda>c. ob_band (cl_observation c) = band) cs)) (bands_present b)"
    and "map se_evidence ss = map (\<lambda>s. evidence_of (filter (\<lambda>c. oa_slot_id (cl_assignment c) = Some (as_slot_id s)) cs)) slots"
proof -
  from assms have parts: "\<exists>g. overall = finish_evidence g \<and> returns (aggregate cs budget ''overall_evidence'') g"
    "returns (each_do (antenna_evidence cs budget) antennas) as"
    "returns (each_do (band_evidence cs budget) (bands_present b)) bs"
    "returns (each_do (summarize_slot cs budget) slots) ss"
    unfolding evidence_analysis_def Let_def by (auto simp: returns_simps dest!: returns_nextD)
  show "overall = evidence_of cs" using parts(1) by (auto dest: aggregate_returns)
  show "map ae_evidence as = map (\<lambda>a. evidence_of (filter (\<lambda>c. oa_slot_label (cl_assignment c) = Some (an_label a)) cs)) antennas"
    by (rule each_evidence(2) [OF parts(2), where key = ae_antenna_label and k = an_label])
      (auto simp: antenna_evidence_def Let_def returns_simps dest!: returns_nextD aggregate_returns)
  show "map be_evidence bs = map (\<lambda>band. evidence_of (filter (\<lambda>c. ob_band (cl_observation c) = band) cs)) (bands_present b)"
    by (rule each_evidence(2) [OF parts(3), where key = be_band and k = id])
      (auto simp: band_evidence_def returns_simps dest!: returns_nextD aggregate_returns)
  show "map se_evidence ss = map (\<lambda>s. evidence_of (filter (\<lambda>c. oa_slot_id (cl_assignment c) = Some (as_slot_id s)) cs)) slots"
    by (rule each_evidence(2) [OF parts(4), where key = se_slot and k = id])
      (auto simp: summarize_slot_def returns_simps dest!: returns_nextD aggregate_returns)
qed

lemma partition_lengths:
  assumes "distinct ks" and "f ` set xs \<subseteq> set ks"
  shows "sum_list (map (\<lambda>k. length (filter (\<lambda>x. f x = k) xs)) ks) = length xs"
  using assms(2)
proof (induction xs)
  case (Cons x xs)
  have "sum_list (map (\<lambda>k. if f x = k then 1 else 0 :: nat) ks) = 1"
    using assms(1) Cons.prems by (simp add: sum_list_distinct_conv_sum_set)
  moreover have "length (filter (\<lambda>y. f y = k) (x # xs)) = (if f x = k then 1 else 0) + length (filter (\<lambda>y. f y = k) xs)" for k
    by simp
  ultimately show ?case using Cons by (simp add: sum_list_addf del: filter.simps)
qed simp

lemma exclusion_records_length:
  "length (List.map_filter exclusion_record cs) = length (filter (\<lambda>c. \<not> usable c) cs)"
  by (induction cs) (auto simp: map_filter_simps exclusion_record_def usable_def Let_def split: observation_disposition.split)

lemma present_band: "ob \<in> set (bc_observations b) \<Longrightarrow> ob_band ob \<in> set (bands_present b)"
proof -
  have "band \<in> set BANDS" for band by (cases band) (simp_all add: BANDS_def)
  then show "ob \<in> set (bc_observations b) \<Longrightarrow> ?thesis" by (simp add: bands_present_def list_ex_iff) blast
qed

text \<open>
  C3. A summary accounts for every observation: the overall evidence counts each observation of the
  bundle exactly once, as usable or as excluded; the bands partition them; for the whole, for each
  antenna, band and slot the counts by kind and the counts by reason add up; and there is one
  exclusion record for every excluded observation.
\<close>

theorem evidence_accounts:
  assumes "returns (summarize_bundle_with_resources_and_activity reader tg bundle report records directions budget) y"
  shows "oc_total (es_observation_counts (sy_overall y)) = length (bc_observations bundle) \<and>
    list_all accounted (sy_overall y # map ae_evidence (sy_antennas y) @ map be_evidence (sy_bands y) @
      map se_evidence (sy_slots y)) \<and>
    sum_list (map (\<lambda>b. oc_total (es_observation_counts (be_evidence b))) (sy_bands y)) =
      length (bc_observations bundle) \<and>
    length (sy_exclusion_records y) = oc_excluded (es_observation_counts (sy_overall y))"
proof (rule summary_parts [OF assms])
  let ?b = "analysis_bundle bundle report (plan_from_report report)"
  fix cs slots
  assume cs: "classified_as (plan_from_report report) ?b cs"
    and evidence: "returns (evidence_analysis ?b (af_antennas (bc_antennas bundle)) slots cs budget)
      (sy_overall y, sy_antennas y, sy_bands y, sy_slots y)"
    and records: "sy_exclusion_records y = sort_key xr_observation_id (List.map_filter exclusion_record cs)"
  note parts = evidence_analysis_parts [OF evidence]
  have "cl_observation (cs ! i) = bc_observations ?b ! i" if "i < length cs" for i
    using cs that unfolding classified_as_def by (blast intro: classify_fields(1))
  then have obs: "map cl_observation cs = bc_observations ?b"
    using cs by (intro nth_equalityI) (auto simp: classified_as_def)
  then have length: "length cs = length (bc_observations bundle)"
    using cs by (simp add: classified_as_def)
  have "ob_band (cl_observation c) \<in> set (bands_present ?b)" if "c \<in> set cs" for c
  proof -
    from that have "cl_observation c \<in> set (map cl_observation cs)" by simp
    with obs have "cl_observation c \<in> set (bc_observations ?b)" by (simp only:)
    then show ?thesis by (rule present_band)
  qed
  then have "(\<lambda>c. ob_band (cl_observation c)) ` set cs \<subseteq> set (bands_present ?b)" by blast
  moreover have "distinct (bands_present ?b)"
    unfolding bands_present_def by (rule distinct_filter) (simp add: BANDS_def)
  ultimately have "sum_list (map (\<lambda>band. length (filter (\<lambda>c. ob_band (cl_observation c) = band) cs)) (bands_present ?b)) = length cs"
    by (rule partition_lengths [rotated])
  then have "sum_list (map (\<lambda>e. oc_total (es_observation_counts e)) (map be_evidence (sy_bands y))) = length cs"
    unfolding parts(3) by (simp add: finish_counts comp_def)
  moreover have "list_all accounted (map ae_evidence (sy_antennas y) @ map be_evidence (sy_bands y) @ map se_evidence (sy_slots y))"
    unfolding parts list_all_append list.pred_map by (simp add: list_all_iff finish_accounted comp_def)
  ultimately show ?thesis
    using length by (simp add: parts(1) finish_counts finish_accounted records exclusion_records_length comp_def)
qed

section \<open>Joint outcomes\<close>

lemma outcomes_partition:
  "outcome_count rs HeardBoth + outcome_count rs LeftOnly + outcome_count rs RightOnly + outcome_count rs HeardNeither = length rs"
proof (induction rs)
  case (Cons r rs)
  then show ?case by (cases "jr_outcome r") (simp_all add: outcome_count_def)
qed (simp add: outcome_count_def)

definition indexed :: "activity_state \<Rightarrow> bool" where
  "indexed s \<longleftrightarrow> snd ` set (at_census_indices s) \<subseteq> {..< length (at_census_cycles s)} \<and>
     (\<forall>rate \<in> set (at_cycle_rates s). \<forall>i. cr_census_cycle_index rate = Some i \<longrightarrow> i < length (at_census_cycles s))"

lemma bt_entry_subset: "v \<in> snd ` set (bt_entry k (\<lambda>_. i) m) \<Longrightarrow> v = i \<or> v \<in> snd ` set m"
  by (induction m) (force split: if_splits)+

lemma cycle_census_indexed:
  assumes "cycle_census summaries rows stratum slot t s = ((coverage, index, reporters), s')" and "indexed s"
  shows "indexed s' \<and> at_cycle_rates s' = at_cycle_rates s \<and> (\<forall>i. index = Some i \<longrightarrow> i < length (at_census_cycles s'))"
proof -
  consider (old) "s' = s" "\<forall>i. index = Some i \<longrightarrow> i \<in> snd ` set (at_census_indices s)"
    | (new) k cycle where "at_census_indices s' = bt_entry k (\<lambda>_. length (at_census_cycles s)) (at_census_indices s)"
      "at_census_cycles s' = at_census_cycles s @ [cycle]" "at_cycle_rates s' = at_cycle_rates s"
      "index = Some (length (at_census_cycles s))"
  proof (cases "sm_direction stratum = PathReceive \<or> \<not> eq_ignore_ascii_case (mode_str (sm_mode stratum)) ''WSPR'' \<or>
      \<not> is_known (fst (coverage_for t (as_band slot) summaries))")
    case True
    then have "index = None \<and> s' = s" using assms(1) by (auto simp: cycle_census_def case_prod_unfold split: if_splits)
    then show ?thesis using old by simp
  next
    case False
    let ?key = "(t, comparison_band_rank (as_band slot))"
    note step = assms(1) [unfolded cycle_census_def Let_def case_prod_unfold]
    show ?thesis
    proof (cases "map_of (at_census_indices s) ?key")
      case None
      with step False show ?thesis by (intro new [of ?key]) auto
    next
      case (Some i)
      with step False have "index = Some i" "s' = s" by auto
      with Some show ?thesis by (intro old) (force dest: map_of_SomeD)+
    qed
  qed
  then show ?thesis
  proof cases
    case old
    then show ?thesis using assms(2) by (auto simp: indexed_def)
  next
    case new
    with assms(2) show ?thesis
      by (auto simp: indexed_def less_Suc_eq image_subset_iff) (fastforce dest: bt_entry_subset [OF image_eqI, rotated] simp: less_Suc_eq)+
  qed
qed

lemma rate_step_indexed:
  assumes "indexed s" and "rate_step summaries rows directions evidence comparison entry s slot = Inr t"
  shows "indexed t"
proof (cases "t = s")
  case False
  obtain key stratum where entry: "entry = (key, stratum)" by (cases entry)
  from assms(2) False obtain time where time: "plus_duration (as_starts_at slot) (- seconds 1) = Some time"
    by (auto simp: rate_step_def entry and_then_Inr ok_or_Inr expecting_def split: if_splits)
  obtain coverage index reporters s' where c: "cycle_census summaries rows stratum slot time s = ((coverage, index, reporters), s')"
    by (metis prod.exhaust)
  obtain rate where rate: "t = s'\<lparr>at_cycle_rates := at_cycle_rates s' @ [rate]\<rparr>" "cr_census_cycle_index rate = index"
  proof -
    note step = assms(2) [unfolded rate_step_def entry prod.case expecting_def]
    show thesis
      using step False
      by (auto simp: time c Let_def intro!: that split: if_splits simp flip: sum.inject(2))
  qed
  from cycle_census_indexed [OF c assms(1)] assms(1) show ?thesis
    by (auto simp: rate indexed_def)
qed (simp add: assms)

lemma activity_rates_indexed:
  assumes "activity_rates reader records directions evidence comparison slots = Inr s"
  shows "indexed s"
proof -
  have loop: "indexed t"
    if "try_fold f s xs = Inr t" "indexed s" "\<And>s x t. indexed s \<Longrightarrow> f s x = Inr t \<Longrightarrow> indexed t" for f s t and xs :: "'z list"
    using that(1,2) by (induction xs arbitrary: s) (auto simp: and_then_Inr dest: that(3))
  show ?thesis
    by (rule loop [OF assms [unfolded activity_rates_def Let_def]])
      (simp add: indexed_def, blast intro: loop rate_step_indexed)
qed

lemma paired_step_rates:
  "try_fold (paired_step s) rates xs = Inr rates' \<Longrightarrow> r \<in> set rates' \<Longrightarrow> r \<in> set rates \<or>
     (\<exists>block stratum left right. left \<in> set (at_cycle_rates s) \<and> right \<in> set (at_cycle_rates s) \<and>
        cr_stratum left = stratum \<and> cr_block_index left = Some (cb_block_index block) \<and> cr_side left = Some LeftSide \<and>
        cr_stratum right = stratum \<and> cr_block_index right = Some (cb_block_index block) \<and> cr_side right = Some RightSide \<and>
        paired_rate (at_census_cycles s) stratum block left right = Inr r)"
proof (induction xs arbitrary: rates)
  case (Cons x xs)
  from Cons.prems(1) obtain u where step: "paired_step s rates x = Inr u" and rest: "try_fold (paired_step s) u xs = Inr rates'"
    by (auto simp: and_then_Inr)
  consider "u = rates" | rate left right where "u = rates @ [rate]"
      "find (\<lambda>row. cr_stratum row = snd x \<and> cr_block_index row = Some (cb_block_index (fst x)) \<and> cr_side row = Some LeftSide) (at_cycle_rates s) = Some left"
      "find (\<lambda>row. cr_stratum row = snd x \<and> cr_block_index row = Some (cb_block_index (fst x)) \<and> cr_side row = Some RightSide) (at_cycle_rates s) = Some right"
      "paired_rate (at_census_cycles s) (snd x) (fst x) left right = Inr rate"
    using step by (auto simp: paired_step_def case_prod_unfold Let_def and_then_Inr split: option.splits)
  then show ?case
    using Cons.IH [OF rest Cons.prems(2)] by cases (simp, fastforce simp: find_Some_iff)
qed simp

lemma heard_counts:
  assumes "distinct (map jr_receiver rs)" and "\<And>r. r \<in> set rs \<Longrightarrow> jr_outcome r = joint_outcome (P (jr_receiver r)) (Q (jr_receiver r))"
  shows "outcome_count rs HeardBoth + outcome_count rs LeftOnly = card {x \<in> jr_receiver ` set rs. P x}"
    and "outcome_count rs HeardBoth + outcome_count rs RightOnly = card {x \<in> jr_receiver ` set rs. Q x}"
proof -
  have "outcome_count rs HeardBoth + outcome_count rs LeftOnly = length (filter (\<lambda>r. P (jr_receiver r)) rs) \<and>
      outcome_count rs HeardBoth + outcome_count rs RightOnly = length (filter (\<lambda>r. Q (jr_receiver r)) rs)"
    using assms(2) by (induction rs) (auto simp: outcome_count_def joint_outcome_def)
  moreover have "length (filter (\<lambda>r. R (jr_receiver r)) rs) = card {x \<in> jr_receiver ` set rs. R x}" for R
  proof -
    have "{x \<in> jr_receiver ` set rs. R x} = set (map jr_receiver (filter (\<lambda>r. R (jr_receiver r)) rs))" by auto
    moreover have "distinct (map jr_receiver (filter (\<lambda>r. R (jr_receiver r)) rs))"
      using assms(1) by (rule List.distinct_map_filter)
    ultimately show ?thesis using distinct_card by force
  qed
  ultimately show "outcome_count rs HeardBoth + outcome_count rs LeftOnly = card {x \<in> jr_receiver ` set rs. P x}"
    "outcome_count rs HeardBoth + outcome_count rs RightOnly = card {x \<in> jr_receiver ` set rs. Q x}" by simp_all
qed

text \<open>
  C6. Every paired rate of the reporter activity is a sound fourfold table: its receivers are
  distinct, there is one for every reporter the census saw active in both cycles, each belongs to
  exactly one of heard-both, left-only, right-only and heard-neither, and the left (right) total
  is the number of receivers whose reports the left (right) cycle rate of that stratum and block
  holds.  The census cycles the rates refer to exist.
\<close>

theorem joint_outcomes_sound:
  assumes "returns (analyze_reporter_activity reader bundle slots observations comparison records directions budget) a"
    and "r \<in> set (ra_paired_rates a)"
  shows "ap_heard_both_count r + ap_left_only_count r + ap_right_only_count r + ap_heard_neither_count r =
      ap_active_in_both_count r \<and>
    length (ap_receivers r) = ap_active_in_both_count r \<and> distinct (map jr_receiver (ap_receivers r)) \<and>
    (\<exists>left \<in> set (ra_cycle_rates a). \<exists>right \<in> set (ra_cycle_rates a).
       cr_stratum left = ap_stratum r \<and> cr_stratum right = ap_stratum r \<and>
       cr_block_index left = Some (ap_block_index r) \<and> cr_block_index right = Some (ap_block_index r) \<and>
       cr_side left = Some LeftSide \<and> cr_side right = Some RightSide \<and>
       ap_left_heard_count r = card {x \<in> jr_receiver ` set (ap_receivers r). x \<in> set (cr_heard_reporters left)} \<and>
       ap_right_heard_count r = card {x \<in> jr_receiver ` set (ap_receivers r). x \<in> set (cr_heard_reporters right)} \<and>
       jr_receiver ` set (ap_receivers r) =
         (case (cr_census_cycle_index left, cr_census_cycle_index right) of
            (Some i, Some j) \<Rightarrow> reporter_ids (ra_census_cycles a ! i) \<inter> reporter_ids (ra_census_cycles a ! j)
          | _ \<Rightarrow> {})) \<and>
    (\<forall>rate \<in> set (ra_cycle_rates a). \<forall>i. cr_census_cycle_index rate = Some i \<longrightarrow> i < length (ra_census_cycles a))"
proof -
  obtain s xs where s: "activity_rates reader records directions (heard_evidence_of bundle observations) comparison slots = Inr s"
    and rates: "try_fold (paired_step s) [] xs = Inr (ra_paired_rates a)"
    and fields: "ra_cycle_rates a = at_cycle_rates s" "ra_census_cycles a = at_census_cycles s"
    using assms unfolding analyze_reporter_activity_def Let_def
    by (auto simp: returns_simps no_activity_def split: if_splits dest!: returns_nextD)
  from paired_step_rates [OF rates assms(2)] obtain block left right where
    in_rates: "left \<in> set (ra_cycle_rates a)" "right \<in> set (ra_cycle_rates a)"
    and sides: "cr_block_index left = Some (cb_block_index block)" "cr_side left = Some LeftSide"
      "cr_stratum right = cr_stratum left" "cr_block_index right = Some (cb_block_index block)" "cr_side right = Some RightSide"
    and rate: "paired_rate (at_census_cycles s) (cr_stratum left) block left right = Inr r"
    unfolding fields by auto
  let ?rs = "joint_receivers (at_census_cycles s) left right"
  from rate have r: "ap_receivers r = ?rs" "ap_active_in_both_count r = length ?rs" "ap_stratum r = cr_stratum left"
    "ap_block_index r = cb_block_index block"
    "ap_heard_both_count r = outcome_count ?rs HeardBoth" "ap_left_only_count r = outcome_count ?rs LeftOnly"
    "ap_right_only_count r = outcome_count ?rs RightOnly" "ap_heard_neither_count r = outcome_count ?rs HeardNeither"
    "ap_left_heard_count r = outcome_count ?rs HeardBoth + outcome_count ?rs LeftOnly"
    "ap_right_heard_count r = outcome_count ?rs HeardBoth + outcome_count ?rs RightOnly"
    by (auto simp: paired_rate_def Let_def and_then_Inr)
  have finite: "finite (reporter_ids c)" for c by (simp add: reporter_ids_def)
  have distinct: "distinct (map jr_receiver ?rs)"
    by (simp add: joint_receivers_def Let_def comp_def split: option.split)
  have outcome: "jr_outcome x = joint_outcome (jr_receiver x \<in> set (cr_heard_reporters left)) (jr_receiver x \<in> set (cr_heard_reporters right))"
    if "x \<in> set ?rs" for x
    using that by (auto simp: joint_receivers_def Let_def split: option.splits)
  have receivers: "jr_receiver ` set ?rs = (case (cr_census_cycle_index left, cr_census_cycle_index right) of
      (Some i, Some j) \<Rightarrow> reporter_ids (ra_census_cycles a ! i) \<inter> reporter_ids (ra_census_cycles a ! j) | _ \<Rightarrow> {})"
    using finite by (simp add: joint_receivers_def Let_def image_image fields split: option.split)
  have "\<forall>rate \<in> set (ra_cycle_rates a). \<forall>i. cr_census_cycle_index rate = Some i \<longrightarrow> i < length (ra_census_cycles a)"
    using activity_rates_indexed [OF s] by (simp add: indexed_def fields)
  moreover note heard_counts [OF distinct outcome]
  ultimately show ?thesis
    using in_rates sides distinct receivers outcomes_partition [of ?rs] unfolding r by auto
qed

end
