(* ===== verification/AnalysisSamples.thy ===== *)
theory AnalysisSamples
  imports AnalysisOutcome AnalysisAccounts
begin

text \<open>
  A clean bundle with one eligible block: the same reporter hears the station in a slot of
  antenna A and, two minutes later, in a slot of antenna B.  The properties of the analysis are
  applied to it.
\<close>

definition paired_meta :: "timestamp \<Rightarrow> record_source \<Rightarrow> record_meta" where
  "paired_meta t source = \<lparr>rm_schema_version = 1, rm_session_id = ''session'', rm_timestamp = t, rm_source = source\<rparr>"

definition paired_slot :: "string \<Rightarrow> nat \<Rightarrow> int \<Rightarrow> string \<Rightarrow> planned_slot" where
  "paired_slot i n start label =
     \<lparr>ps_slot_id = i, ps_sequence_number = n, ps_starts_at = seconds start, ps_duration_seconds = 120,
      ps_guard_seconds = 10, ps_band = M20, ps_antenna_label = label\<rparr>"

definition paired_schedule :: schedule where
  "paired_schedule =
     \<lparr>sc_schema_version = 1, sc_session_id = ''session'', sc_mode = WholeStationAb, sc_goal = GeneralCoverage,
      sc_slots = [paired_slot ''a'' 1 0 ''A'', paired_slot ''b'' 2 120 ''B'']\<rparr>"

definition paired_switch :: "string \<Rightarrow> string \<Rightarrow> int \<Rightarrow> string \<Rightarrow> operator_event" where
  "paired_switch i slot t label =
     \<lparr>ev_meta = paired_meta (seconds t) Operator, ev_event_id = i, ev_slot_id = Some slot,
      ev_event_type = Switched, ev_note = None, ev_actual_antenna_label = Some label\<rparr>"

definition paired_events :: "operator_event list" where
  "paired_events = [paired_switch ''e1'' ''a'' 2 ''A'', paired_switch ''e2'' ''b'' 122 ''B'']"

definition paired_report :: "string \<Rightarrow> int \<Rightarrow> string \<Rightarrow> string \<Rightarrow> rat \<Rightarrow> unit observation_record" where
  "paired_report i t slot label snr =
     \<lparr>ob_meta = paired_meta (seconds t) WsjtxUdp, ob_observation_id = i,
      ob_observation_kind = PublicReport, ob_band = M20, ob_frequency_hz = None, ob_mode = Some ''WSPR'',
      ob_reporter_call = Some ''K1ABC'', ob_heard_call = Some ''N1RWJ'', ob_reporter_grid = Some ''FN31'',
      ob_heard_grid = None, ob_distance_km = None, ob_azimuth_degrees = None, ob_snr_db = Some (Finite snr),
      ob_drift_hz_per_minute = None, ob_power_watts = None, ob_slot_id = Some slot, ob_slot_label = Some label,
      ob_slot_confidence = Some (Finite f32_095), ob_raw = ()\<rparr>"

definition paired_antenna :: "string \<Rightarrow> antenna" where
  "paired_antenna label =
     \<lparr>an_label = label, an_facets = [], an_height_m = None, an_radial_count = None, an_radial_length_m = None,
      an_orientation_degrees = None, an_tuner = None, an_feedline = None, an_notes = None\<rparr>"

definition paired_bundle :: "unit bundle_contents" where
  "paired_bundle =
     \<lparr>bc_manifest = \<lparr>bm_schema_version = 1, bm_session_id = ''session'', bm_created_at = 0,
        bm_app_version = ''0'', bm_files = default_bundle_files\<rparr>,
      bc_station = \<lparr>st_schema_version = 1, st_session_id = ''session'', st_callsign = ''N1RWJ'',
        st_grid = ''FN42'', st_power_watts = None, st_operator_notes = None\<rparr>,
      bc_antennas = \<lparr>af_schema_version = 1, af_session_id = ''session'',
        af_antennas = [paired_antenna ''A'', paired_antenna ''B'']\<rparr>,
      bc_schedule = paired_schedule, bc_events = paired_events,
      bc_observations = [paired_report ''o1'' 60 ''a'' ''A'' (- 10), paired_report ''o2'' 180 ''b'' ''B'' (- 7)],
      bc_wsjtx = [], bc_rig = [], bc_propagation = [],
      bc_analysis = \<lparr>al_schema_version = 1, al_session_id = ''session'', al_generated_at = None,
        al_status = NotRun, al_notes = []\<rparr>\<rparr>"

lemmas paired_defs = paired_bundle_def paired_schedule_def paired_slot_def paired_events_def paired_switch_def
  paired_report_def paired_antenna_def paired_meta_def

lemma paired_aligned:
  "aligned_slots paired_schedule paired_events =
     map (\<lambda>(i, n, t, l, e). \<lparr>as_slot_id = i, as_sequence_number = n, as_band = M20, as_planned_label = l,
        as_actual_label = Some l, as_status = StatusSwitched, as_starts_at = seconds t, as_ends_at = seconds (t + 120),
        as_usable_start = seconds (t + 10), as_switch_event_id = Some e, as_switch_timestamp = Some (seconds (t + 2)),
        as_switch_delay_seconds = Some 2\<rparr>)
      [(''a'', 1, 0, ''A'', ''e1''), (''b'', 2, 120, ''B'', ''e2'')]"
  by (simp add: aligned_slots_def paired_defs schema_version_defs Let_def align_slot_facts slot_facts_def active_facts_def
      first_switch_def unswitched_slot_def seconds_def guard_instant_def end_instant_def num_seconds_def switch_delay_seconds_def
      default_slot_alignment_policy_def)

lemma paired_assigned:
  "assigned (paired_report i 60 ''a'' ''A'' snr) (aligned_slots paired_schedule paired_events) default_slot_alignment_policy =
     \<lparr>oa_observation_id = i, oa_slot_id = Some ''a'', oa_slot_label = Some ''A'', oa_confidence = Finite f32_095,
      oa_reason = ReasonInterior\<rparr>"
  "assigned (paired_report i 180 ''b'' ''B'' snr) (aligned_slots paired_schedule paired_events) default_slot_alignment_policy =
     \<lparr>oa_observation_id = i, oa_slot_id = Some ''b'', oa_slot_label = Some ''B'', oa_confidence = Finite f32_095,
      oa_reason = ReasonInterior\<rparr>"
  unfolding paired_aligned
  by (simp_all add: assigned_unfold paired_report_def paired_meta_def seconds_def guard_instant_def end_instant_def
      num_seconds_def assignment_def default_slot_alignment_policy_def)

lemma paired_matches: "annotations_match paired_bundle"
  by (simp add: annotations_match_def assigned_in_def paired_bundle_def paired_assigned)
    (simp add: paired_report_def slot_confidence_matches_def SLOT_CONFIDENCE_TOLERANCE_def f32_defs)

lemma paired_sound: "structurally_sound paired_bundle"
  by (simp add: structurally_sound_def one_session_def unique_ids_def sound_schedule_def slots_resolve_def
      paired_defs slot_after_def end_instant_def seconds_def schema_version_defs)

lemma paired_confidences: "validate_slot_confidence_ranges paired_bundle = []"
  by (simp add: validate_slot_confidence_ranges_def paired_defs unit_interval_def f32_defs)

lemma paired_texts:
  "trim ''N1RWJ'' = ''N1RWJ''" "trim ''FN42'' = ''FN42''" "trim ''A'' = ''A''" "trim ''B'' = ''B''"
  "trim ''K1ABC'' = ''K1ABC''" "trim ''WSPR'' = ''WSPR''"
  by (code_simp)+

lemma paired_identities: "validate_identities paired_bundle = []"
proof -
  have "validate_machine_identity i = Inr ()" if "i \<in> {''session'', ''a'', ''b'', ''e1'', ''e2'', ''o1'', ''o2''}" for i
    using that by (elim insertE emptyE) (simp_all add: validate_machine_identity_def MACHINE_ID_MAX_BYTES_def is_ascii_def)
  then show ?thesis
    by (simp add: validate_identities_def validate_identity_at_def record_ids_def paired_defs)
qed

lemma paired_station: "validate_station paired_bundle = []"
  by (simp add: validate_station_def paired_bundle_def paired_texts validate_optional_number_def)

lemma paired_antennas: "validate_antennas paired_bundle = []"
  by (simp add: validate_antennas_def paired_bundle_def paired_antenna_def paired_texts valid_antenna_label_def
      ANTENNA_LABEL_MAX_BYTES_def antenna_numbers_def validate_optional_number_def)

lemma paired_schedule_ok: "validate_schedule paired_bundle = []"
  by (simp add: validate_schedule_def paired_bundle_def paired_schedule_def paired_slot_def shape_matches_def)

lemma paired_evidence: "validate_observations paired_bundle = []" "validate_rig paired_bundle = []"
  "validate_propagation paired_bundle = []" "validate_analysis paired_bundle = []"
  by (simp_all add: validate_observations_def validate_observation_def paired_bundle_def paired_report_def
      validate_optional_number_def validate_rig_def validate_propagation_def validate_analysis_def
      validate_write_only_finite_def f32_defs)

lemmas paired_semantic = paired_identities paired_station paired_antennas paired_schedule_ok paired_evidence

lemma paired_representable:
  "representable_slots paired_schedule" "starts_have_room paired_schedule"
  by (simp_all add: representable_slots_def representable_slot_def in_utc_def MIN_UTC_def MAX_UTC_def starts_have_room_def
      room_before_def plus_duration_def guard_instant_def end_instant_def seconds_def paired_schedule_def paired_slot_def)

lemma paired_bundle_schedule [simp]: "bc_schedule paired_bundle = paired_schedule"
  by (simp add: paired_bundle_def)

lemma paired_clean: "validate_bundle_report paired_bundle = Some \<lparr>vr_diagnostics = []\<rparr>"
  using paired_sound paired_matches unfolding structural_issues_Nil [symmetric] mismatches_Nil [symmetric]
  by (simp add: validate_bundle_report_def issues_eq paired_representable paired_confidences report_from_issues_def report_extend_def report_new_def
     sort_deterministically_def semantic_diagnostics_def paired_semantic)

section \<open>Applying the properties\<close>

lemma paired_plan:
  "\<not> list_ex is_fatal_for_analysis (vr_diagnostics \<lparr>vr_diagnostics = []\<rparr>)"
  "ep_excluded_slots (plan_from_report \<lparr>vr_diagnostics = []\<rparr>) = {}"
  "distinct (map ob_observation_id (bc_observations paired_bundle))"
  "switches_labelled paired_bundle" "starts_have_room (bc_schedule paired_bundle)"
  by (simp_all add: paired_representable) (simp_all add: plan_from_report_def paired_defs switches_labelled_def)

definition release_platform :: platform where
  "release_platform = \<lparr>tg_sin = (\<lambda>v. v), tg_cos = (\<lambda>v. v), tg_acos = (\<lambda>v. v), tg_overflow_checks = False\<rparr>"

theorem analysis_never_panics_witness:
  "\<forall>(reader :: unit json_reader) budget. \<not> panics (summarize_bundle_with_resources_and_activity reader
     release_platform paired_bundle \<lparr>vr_diagnostics = []\<rparr> [] [] budget)"
  by (intro allI analysis_never_panics [OF paired_clean paired_plan(2-)]) (simp add: release_platform_def)

theorem analysis_completes_witness:
  "\<forall>(reader :: unit json_reader). \<exists>y L. \<forall>budget. generous L budget \<longrightarrow>
    (\<forall>n. \<exists>k. summarize_bundle_with_resources_and_activity reader release_platform paired_bundle \<lparr>vr_diagnostics = []\<rparr> [] [] budget n =
      (Inr y, k))"
  by (intro allI analysis_completes [OF paired_clean paired_plan]) (simp add: release_platform_def)

text \<open>The two reports, assigned and usable.\<close>

definition paired_classified :: "unit classified_observation list" where
  "paired_classified = map (\<lambda>(ob, i, slot, label).
     \<lparr>cl_observation = ob, cl_assignment =
        \<lparr>oa_observation_id = i, oa_slot_id = Some slot, oa_slot_label = Some label,
         oa_confidence = Finite f32_095, oa_reason = ReasonInterior\<rparr>, cl_disposition = Usable\<rparr>)
     [(paired_report ''o1'' 60 ''a'' ''A'' (- 10), ''o1'', ''a'', ''A''),
      (paired_report ''o2'' 180 ''b'' ''B'' (- 7), ''o2'', ''b'', ''B'')]"

definition paired_blocks :: "comparison_block list" where
  "paired_blocks = compared_blocks paired_bundle (aligned_slots paired_schedule paired_events)"

lemma paired_labels: "scheduled_labels paired_bundle = [''A'', ''B'']"
  by (simp add: scheduled_labels_def paired_bundle_def paired_schedule_def paired_slot_def)

lemma paired_block:
  "length paired_blocks = 1" "cb_order (paired_blocks ! 0) = Some LeftThenRight"
  "cb_eligibility (paired_blocks ! 0) = Eligible"
  "block_by_slot_of paired_blocks ''a'' = Some 0" "block_by_slot_of paired_blocks ''b'' = Some 0"
  by (simp_all add: paired_blocks_def compared_blocks_def paired_labels comparison_slots_def paired_aligned build_blocks_def
      comparison_block_of_def ambiguous_sequence_order_def block_state_def block_by_slot_of_def hash_of_def)

lemma paired_mode: "normalize_mode ''WSPR'' = Some (SignalMode ''WSPR'')"
  by code_simp

lemma paired_calls:
  "eq_ignore_ascii_case ''K1ABC'' ''N1RWJ'' = False" "eq_ignore_ascii_case ''N1RWJ'' ''N1RWJ'' = True"
  "map ascii_upper ''K1ABC'' = ''K1ABC''" "eq_ignore_ascii_case ''WSPR'' ''WSPR'' = True"
  by (code_simp)+

lemma paired_path:
  "path_identity paired_bundle (paired_report i t slot label snr) = Some (PathTransmit, ''K1ABC'')"
  by (simp add: path_identity_def paired_bundle_def paired_report_def paired_texts paired_calls Let_def bool_then_def
      del: list.map)

definition paired_key :: comparison_stratum where
  "paired_key = \<lparr>sm_direction = PathTransmit, sm_band = M20, sm_mode = SignalMode ''WSPR'',
     sm_observation_kind = PublicReport, sm_source = WsjtxUdp\<rparr>"

lemma paired_stratum:
  "observation_mode (paired_report i t slot label snr) = Some (SignalMode ''WSPR'')"
  "observation_stratum (paired_report i t slot label snr) PathTransmit (SignalMode ''WSPR'') = paired_key"
  by (simp_all add: observation_mode_def observation_stratum_def paired_key_def paired_report_def paired_meta_def
      paired_mode)

lemma paired_heard:
  "heard_on paired_bundle paired_blocks ''A'' ''B'' paired_classified (stratum_key paired_key, 0, ''K1ABC'') LeftSide =
     [paired_report ''o1'' 60 ''a'' ''A'' (- 10)]"
  "heard_on paired_bundle paired_blocks ''A'' ''B'' paired_classified (stratum_key paired_key, 0, ''K1ABC'') RightSide =
     [paired_report ''o2'' 180 ''b'' ''B'' (- 7)]"
  by (simp_all add: heard_on_def paired_classified_def group_of_def paired_block paired_path paired_stratum block_side_def)

lemma paired_resolved: "ro_finite (resolve [paired_report i t slot label snr]) = Some (paired_report i t slot label snr)"
  by (simp add: resolve_def paired_report_def unresolved_def)


lemma paired_summary:
  "\<exists>budget y. returns (summarize_bundle_with_resources_and_activity reader release_platform paired_bundle
     \<lparr>vr_diagnostics = []\<rparr> [] [] budget) y"
proof -
  obtain y where y: "settles (summarize_bundle_with_resources_and_activity reader release_platform paired_bundle \<lparr>vr_diagnostics = []\<rparr> [] []) y"
    using analysis_settles [OF paired_clean paired_plan, of release_platform reader] by (auto simp: release_platform_def)
  from settles_returns [OF y] show ?thesis by blast
qed

theorem evidence_accounts_witness:
  "\<forall>reader :: unit json_reader. \<exists>budget y. returns (summarize_bundle_with_resources_and_activity reader release_platform paired_bundle
       \<lparr>vr_diagnostics = []\<rparr> [] [] budget) y \<and> oc_total (es_observation_counts (sy_overall y)) = 2"
proof (intro allI)
  fix reader :: "unit json_reader"
  obtain budget y where y: "returns (summarize_bundle_with_resources_and_activity
      reader release_platform paired_bundle \<lparr>vr_diagnostics = []\<rparr> [] [] budget) y" using paired_summary by blast
  moreover have "length (bc_observations paired_bundle) = 2" by (simp add: paired_bundle_def)
  ultimately show "\<exists>budget y. returns (summarize_bundle_with_resources_and_activity reader release_platform paired_bundle
      \<lparr>vr_diagnostics = []\<rparr> [] [] budget) y \<and> oc_total (es_observation_counts (sy_overall y)) = 2"
    using evidence_accounts [OF y] by auto
qed

definition paired_comparison :: paired_comparison_analysis where
  "paired_comparison = (unavailable NoMatchedPaths [''A'', ''B''])
     \<lparr>pc_blocks := paired_blocks, pc_timeline_rows := build_timeline_rows paired_blocks ''A'' ''B''\<rparr>"

lemma paired_timeline:
  "map (\<lambda>row. (tr_slot_id row, tr_block_index row, tr_side row)) (pc_timeline_rows paired_comparison) =
     [(''a'', 0, Some LeftSide), (''b'', 0, Some RightSide)]"
  by (simp add: paired_comparison_def build_timeline_rows_def block_timeline_rows_def timeline_row_def paired_blocks_def
      compared_blocks_def paired_labels comparison_slots_def paired_aligned build_blocks_def
      comparison_block_of_def ambiguous_sequence_order_def block_state_def)

lemma paired_heard_evidence:
  "heard_evidence_of paired_bundle paired_classified =
     \<lparr>he_strata = [(activity_stratum_key paired_key, paired_key)],
      he_heard = [((activity_stratum_key paired_key, ''a''), {''K1ABC''}), ((activity_stratum_key paired_key, ''b''), {''K1ABC''})],
      he_observed_directions = [(''a'', {0}), (''b'', {0})]\<rparr>"
  by (simp add: heard_evidence_of_def heard_step_def paired_classified_def paired_path paired_stratum Let_def unwrap_or_def)

definition silent_reader :: "unit json_reader" where
  "silent_reader = \<lparr>jn_from_str = (\<lambda>_. None), jn_get = (\<lambda>_ _. None), jn_pointer = (\<lambda>_ _. None), jn_as_str = (\<lambda>_. None),
     jn_as_bool = (\<lambda>_. None), jn_as_u64 = (\<lambda>_. None), jn_time = (\<lambda>_. None), jn_band = (\<lambda>_. None), jn_bands = (\<lambda>_. None)\<rparr>"

definition paired_cycle_rate :: "string \<Rightarrow> int \<Rightarrow> string \<Rightarrow> comparison_side \<Rightarrow> reporter_activity_cycle_rate" where
  "paired_cycle_rate slot t label side =
     \<lparr>cr_stratum = paired_key, cr_block_index = Some 0, cr_side = Some side, cr_slot_id = slot, cr_antenna_label = label,
      cr_cycle_starts_at = seconds t, cr_census_cycle_index = None, cr_coverage = CoverageUnknown NoCensusCoverage,
      cr_active_reporter_count = 0, cr_heard_reporter_count = 0, cr_hearing_rate = None, cr_heard_reporters = []\<rparr>"

lemma paired_find_row:
  "map_option (\<lambda>row. (tr_block_index row, tr_side row)) (find (\<lambda>row. tr_slot_id row = ''a'') (pc_timeline_rows paired_comparison)) = Some (0, Some LeftSide)"
  "map_option (\<lambda>row. (tr_block_index row, tr_side row)) (find (\<lambda>row. tr_slot_id row = ''b'') (pc_timeline_rows paired_comparison)) = Some (0, Some RightSide)"
  using paired_timeline by (auto simp: map_eq_Cons_conv)

lemma paired_activity_rates:
  "activity_rates silent_reader [] [(''a'', PathTransmit)] (heard_evidence_of paired_bundle paired_classified)
     paired_comparison (aligned_slots paired_schedule paired_events) =
   Inr \<lparr>at_census_cycles = [], at_census_indices = [], at_cycle_rates =
     [paired_cycle_rate ''a'' 0 ''A'' LeftSide, paired_cycle_rate ''b'' 120 ''B'' RightSide]\<rparr>"
  using paired_find_row
  by (auto simp: activity_rates_def paired_heard_evidence paired_aligned comparison_slots_def rate_step_def Let_def
      slot_direction_def paired_calls direction_from_rank_def cycle_census_def coverage_for_def is_known_def
      paired_cycle_rate_def paired_key_def hearing_rate_def bool_then_def unwrap_or_def census_rows_of_def
      mode_str_def map_filter_simps plus_duration_def MIN_UTC_def MAX_UTC_def expecting_def seconds_def)

theorem joint_outcomes_sound_witness:
  "\<exists>budget a. returns (analyze_reporter_activity silent_reader paired_bundle (aligned_slots paired_schedule paired_events)
       paired_classified paired_comparison [] [(''a'', PathTransmit)] budget) a \<and>
     (\<exists>r \<in> set (ra_paired_rates a). ap_left_slot_id r = ''a'' \<and> ap_right_slot_id r = ''b'' \<and>
        ap_heard_both_count r + ap_left_only_count r + ap_right_only_count r + ap_heard_neither_count r =
          ap_active_in_both_count r)"
proof -
  let ?s = "\<lparr>at_census_cycles = [], at_census_indices = [], at_cycle_rates =
     [paired_cycle_rate ''a'' 0 ''A'' LeftSide, paired_cycle_rate ''b'' 120 ''B'' RightSide]\<rparr>"
  obtain b where b: "paired_blocks = [b]" "cb_eligibility b = Eligible" "cb_order b = Some LeftThenRight"
      "cb_block_index b = 0" "cb_band b = M20"
    by (simp add: paired_blocks_def compared_blocks_def paired_labels comparison_slots_def paired_aligned build_blocks_def
      comparison_block_of_def ambiguous_sequence_order_def block_state_def)
  obtain r where r: "paired_step ?s [] (b, paired_key) = Inr [r]" "ap_left_slot_id r = ''a''" "ap_right_slot_id r = ''b''"
    by (simp add: paired_step_def paired_cycle_rate_def b paired_rate_def expecting_def Let_def)
  have pairs: "concat (map (\<lambda>blk. map (Pair blk) (filter (\<lambda>stratum. sm_band stratum = cb_band blk)
        (map snd (he_strata (heard_evidence_of paired_bundle paired_classified)))))
        (filter (\<lambda>blk. cb_eligibility blk = Eligible) (pc_blocks paired_comparison))) = [(b, paired_key)]"
    by (simp add: paired_comparison_def b paired_heard_evidence paired_key_def)
  have fold: "try_fold (paired_step ?s) [] [(b, paired_key)] = Inr [r]" using r(1) by simp
  have "\<exists>a. settles (analyze_reporter_activity silent_reader paired_bundle (aligned_slots paired_schedule paired_events)
       paired_classified paired_comparison [] [(''a'', PathTransmit)]) a \<and> ra_paired_rates a = [r]"
    unfolding analyze_reporter_activity_def [abs_def] Let_def pairs
    by (simp only: list.simps simp_thms if_False, intro exI conjI)
      ((rule settles_next settles_budget settles_lifted [OF paired_activity_rates] settles_lifted [OF fold] settles_const runs_done)+, simp)
  then obtain a where a: "settles (analyze_reporter_activity silent_reader paired_bundle (aligned_slots paired_schedule paired_events)
       paired_classified paired_comparison [] [(''a'', PathTransmit)]) a" "ra_paired_rates a = [r]" by blast
  from settles_returns [OF a(1)] obtain budget where ret: "returns (analyze_reporter_activity silent_reader paired_bundle
      (aligned_slots paired_schedule paired_events) paired_classified paired_comparison [] [(''a'', PathTransmit)] budget) a" ..
  have "r \<in> set (ra_paired_rates a)" by (simp add: a(2))
  then show ?thesis
    using joint_outcomes_sound [OF ret, THEN conjunct1] ret r(2,3) by blast
qed

end
