(* ===== verification/AnalysisCrash.thy ===== *)
theory AnalysisCrash
  imports AnalysisSamples
begin

text \<open>
  Three observations of one identity: the report names the first two, so the analysis withholds
  those and counts the third as evidence; if that one was never annotated with a slot, the pairing
  of the comparison panics.
\<close>

section \<open>Computations that panic\<close>

definition crashes :: "'a analysis \<Rightarrow> bool" where
  "crashes m \<longleftrightarrow> (\<forall>n. \<exists>message k. m n = (Inl (Panicked message), k))"

lemma crashes_panics: "crashes m \<Longrightarrow> panics m"
  unfolding crashes_def panics_def by blast

lemma crashes_first: "crashes m \<Longrightarrow> crashes (next_do m f)"
  unfolding crashes_def next_do_def by (metis (mono_tags, lifting) old.prod.case old.sum.simps(5))

lemma crashes_next: "runs m x \<Longrightarrow> crashes (f x) \<Longrightarrow> crashes (next_do m f)"
  unfolding crashes_def runs_def
proof
  fix n
  assume "\<forall>n. \<exists>k. m n = (Inr x, k)" "\<forall>n. \<exists>message k. f x n = (Inl (Panicked message), k)"
  then obtain j where "m n = (Inr x, j)" by blast
  moreover obtain message k where "f x j = (Inl (Panicked message), k)"
    using \<open>\<forall>n. \<exists>message k. f x n = (Inl (Panicked message), k)\<close> by blast
  ultimately show "\<exists>message k. next_do m f n = (Inl (Panicked message), k)" by (simp add: next_do_def)
qed

lemma crashes_loop:
  assumes "\<And>i. runs (check i) ()"
  shows "try_fold body s xs = Inl (Panicked message) \<Longrightarrow> crashes (checked_loop check body i s xs)"
proof (induction xs arbitrary: i s)
  case (Cons x xs)
  show ?case
  proof (cases "body s x")
    case (Inl e)
    with Cons.prems have "crashes (lifted (body s x))" by (simp add: crashes_def lifted_def and_then_def)
    then show ?thesis unfolding checked_loop.simps by (intro crashes_next [OF assms] crashes_first)
  next
    case (Inr u)
    with Cons.prems have "try_fold body u xs = Inl (Panicked message)" by simp
    from Cons.IH [OF this] show ?thesis
      unfolding checked_loop.simps by (intro crashes_next [OF assms]) (simp add: Inr)
  qed
qed simp

text \<open>A generous budget lets a computation crash.\<close>

definition fails :: "(analysis_budget \<Rightarrow> 'a analysis) \<Rightarrow> bool" where
  "fails m \<longleftrightarrow> (\<exists>L. \<forall>b. generous L b \<longrightarrow> crashes (m b))"

lemma fails_first: "fails m \<Longrightarrow> fails (\<lambda>b. next_do (m b) (\<lambda>x. f x b))"
  unfolding fails_def by (blast intro: crashes_first)

lemma fails_next:
  assumes "settles m x" and "fails (f x)"
  shows "fails (\<lambda>b. next_do (m b) (\<lambda>x. f x b))"
proof -
  obtain L M where "\<forall>b. generous L b \<longrightarrow> runs (m b) x" "\<forall>b. generous M b \<longrightarrow> crashes (f x b)"
    using assms unfolding settles_def fails_def by blast
  then have "\<forall>b. generous (max L M) b \<longrightarrow> crashes (next_do (m b) (\<lambda>x. f x b))"
    by (auto simp: generous_def intro!: crashes_next)
  then show ?thesis unfolding fails_def by blast
qed

lemma fails_loop:
  "try_fold body s xs = Inl (Panicked message) \<Longrightarrow>
   fails (\<lambda>b. checked_loop (checkpoint b stage role) body i s xs)"
  unfolding fails_def generous_def by (auto intro!: crashes_loop runs_checkpoint)

section \<open>Which observations a plan excludes\<close>

lemma excluded_named:
  assumes "i \<in> fst ` set (es_observations (foldl plan_diagnostic s ds))"
  shows "i \<in> fst ` set (es_observations s) \<or>
    (\<exists>d \<in> set ds. \<exists>l \<in> set (bd_location d # bd_related_locations d). dl_record_index l = Some i)"
proof -
  have location: "i \<in> fst ` set (es_observations (plan_location d s l)) \<Longrightarrow>
      i \<in> fst ` set (es_observations s) \<or> dl_record_index l = Some i" for d s l
    by (auto simp: plan_location_def bt_entry_keys simp flip: set_map split: option.splits bundle_record_kind.splits if_splits)
  have locations: "i \<in> fst ` set (es_observations (foldl (plan_location d) s ls)) \<Longrightarrow>
      i \<in> fst ` set (es_observations s) \<or> (\<exists>l \<in> set ls. dl_record_index l = Some i)" for d s ls
  proof (induction ls arbitrary: s)
    case (Cons l ls)
    then have "i \<in> fst ` set (es_observations (plan_location d s l)) \<or> (\<exists>l \<in> set ls. dl_record_index l = Some i)" by simp
    then show ?case using location by (metis list.set_intros)
  qed simp
  show ?thesis using assms
  proof (induction ds arbitrary: s)
    case (Cons d ds)
    then have "i \<in> fst ` set (es_observations (plan_diagnostic s d)) \<or>
        (\<exists>d \<in> set ds. \<exists>l \<in> set (bd_location d # bd_related_locations d). dl_record_index l = Some i)" by simp
    then show ?case
    proof
      assume "i \<in> fst ` set (es_observations (plan_diagnostic s d))"
      from locations [OF this [unfolded plan_diagnostic_def]] show ?thesis by (auto simp: plan_diagnostic_def)
    qed auto
  qed simp
qed

lemma slots_named:
  "es_slots (foldl plan_diagnostic s ds) \<subseteq> es_slots s \<union> {i. \<exists>d \<in> set ds. \<exists>l \<in> set (bd_location d # bd_related_locations d).
     dl_record_kind l = Some KindSlot \<and> dl_record_index l = Some i}"
proof -
  have location: "es_slots (plan_location d s l) \<subseteq> es_slots s \<union> {i. dl_record_kind l = Some KindSlot \<and> dl_record_index l = Some i}" for d s l
    by (auto simp: plan_location_def split: option.splits bundle_record_kind.splits if_splits)
  have locations: "es_slots (foldl (plan_location d) s ls) \<subseteq> es_slots s \<union>
      {i. \<exists>l \<in> set ls. dl_record_kind l = Some KindSlot \<and> dl_record_index l = Some i}" for d s ls
    by (induction ls arbitrary: s) (use location in fastforce)+
  have diagnostic: "es_slots (plan_diagnostic s d) \<subseteq> es_slots s \<union>
      {i. \<exists>l \<in> set (bd_location d # bd_related_locations d). dl_record_kind l = Some KindSlot \<and> dl_record_index l = Some i}" for s d
    unfolding plan_diagnostic_def by (rule order_trans [OF locations]) auto
  show ?thesis by (induction ds arbitrary: s) (use diagnostic in fastforce)+
qed

lemma events_named:
  "es_events (foldl plan_diagnostic s ds) \<subseteq> es_events s \<union> {i. \<exists>d \<in> set ds. \<exists>l \<in> set (bd_location d # bd_related_locations d).
     dl_record_kind l = Some KindOperatorEvent \<and> dl_record_index l = Some i}"
proof -
  have location: "es_events (plan_location d s l) \<subseteq> es_events s \<union> {i. dl_record_kind l = Some KindOperatorEvent \<and> dl_record_index l = Some i}" for d s l
    by (auto simp: plan_location_def split: option.splits bundle_record_kind.splits if_splits)
  have locations: "es_events (foldl (plan_location d) s ls) \<subseteq> es_events s \<union>
      {i. \<exists>l \<in> set ls. dl_record_kind l = Some KindOperatorEvent \<and> dl_record_index l = Some i}" for d s ls
    by (induction ls arbitrary: s) (use location in fastforce)+
  have diagnostic: "es_events (plan_diagnostic s d) \<subseteq> es_events s \<union>
      {i. \<exists>l \<in> set (bd_location d # bd_related_locations d). dl_record_kind l = Some KindOperatorEvent \<and> dl_record_index l = Some i}" for s d
    unfolding plan_diagnostic_def by (rule order_trans [OF locations]) auto
  show ?thesis by (induction ds arbitrary: s) (use diagnostic in fastforce)+
qed

section \<open>The bundle\<close>

definition bare_report :: "unit observation_record" where
  "bare_report = (paired_report ''o1'' 60 ''a'' ''A'' (- 10))
     \<lparr>ob_slot_id := None, ob_slot_label := None, ob_slot_confidence := None\<rparr>"

definition tripled_bundle :: "unit bundle_contents" where
  "tripled_bundle = paired_bundle\<lparr>bc_observations :=
     [paired_report ''o1'' 60 ''a'' ''A'' (- 10), paired_report ''o1'' 60 ''a'' ''A'' (- 10), bare_report,
      paired_report ''o2'' 180 ''b'' ''B'' (- 7)]\<rparr>"

lemma tripled_fields [simp]:
  "bc_schedule tripled_bundle = paired_schedule" "bc_events tripled_bundle = paired_events"
  "bc_observations tripled_bundle = [paired_report ''o1'' 60 ''a'' ''A'' (- 10), paired_report ''o1'' 60 ''a'' ''A'' (- 10),
     bare_report, paired_report ''o2'' 180 ''b'' ''B'' (- 7)]"
  "bc_station tripled_bundle = bc_station paired_bundle" "bc_manifest tripled_bundle = bc_manifest paired_bundle"
  "bc_antennas tripled_bundle = bc_antennas paired_bundle" "bc_wsjtx tripled_bundle = []" "bc_rig tripled_bundle = []"
  "bc_propagation tripled_bundle = []" "bc_analysis tripled_bundle = bc_analysis paired_bundle"
  by (simp_all add: tripled_bundle_def paired_bundle_def)

lemma bare_assigned:
  "assigned bare_report (aligned_slots paired_schedule paired_events) default_slot_alignment_policy =
     \<lparr>oa_observation_id = ''o1'', oa_slot_id = Some ''a'', oa_slot_label = Some ''A'', oa_confidence = Finite f32_095,
      oa_reason = ReasonInterior\<rparr>"
  unfolding paired_aligned
  by (simp add: assigned_unfold bare_report_def paired_report_def paired_meta_def seconds_def guard_instant_def end_instant_def
      num_seconds_def assignment_def default_slot_alignment_policy_def)

lemma report_id: "ob_observation_id (paired_report i t slot label snr) = i" "ob_observation_id bare_report = ''o1''"
  by (simp_all add: paired_report_def bare_report_def)

lemma tripled_issues:
  "validate_bundle_issues tripled_bundle = Some
     ([DuplicateId IdObservation ''o1'', DuplicateId IdObservation ''o1''] @ annotation_mismatches bare_report
        (assigned bare_report (aligned_slots paired_schedule paired_events) default_slot_alignment_policy))"
proof -
  have clean: "validate_schema_and_session paired_bundle = []" "validate_all_duplicates paired_bundle = []"
    "schedule_issues paired_bundle = []"
    "validate_event_and_observation_references paired_bundle = []"
    using paired_sound unfolding structural_issues_Nil [symmetric] by simp_all
  have "validate_schema_and_session tripled_bundle = []"
    using clean(1) by (simp add: validate_schema_and_session_def paired_bundle_def paired_defs bare_report_def Let_def
        validate_record_meta_def validate_root_schema_and_session_def schema_version_defs)
  moreover have "validate_all_duplicates tripled_bundle = [DuplicateId IdObservation ''o1'', DuplicateId IdObservation ''o1'']"
    by (simp add: validate_all_duplicates_def validate_duplicates_def report_id) (simp add: paired_defs)
  moreover have "schedule_issues tripled_bundle = []"
    using clean(3) by (simp add: schedule_issues_def paired_bundle_def)
  moreover have "validate_event_and_observation_references tripled_bundle = []"
    by (simp add: validate_event_and_observation_references_def paired_defs bare_report_def)
  moreover have "validate_slot_confidence_ranges tripled_bundle = []"
    by (simp add: validate_slot_confidence_ranges_def paired_defs bare_report_def unit_interval_def f32_defs)
  moreover have "mismatches tripled_bundle = annotation_mismatches bare_report
      (assigned bare_report (aligned_slots paired_schedule paired_events) default_slot_alignment_policy)"
    by (simp add: mismatches_def assigned_in_def paired_assigned)
      (simp add: annotation_mismatches_def paired_report_def slot_confidence_matches_def SLOT_CONFIDENCE_TOLERANCE_def f32_defs)
  ultimately show ?thesis by (simp add: issues_eq paired_representable)
qed

lemma tripled_semantic: "semantic_diagnostics tripled_bundle = []"
proof -
  have "validate_machine_identity i = Inr ()" if "i \<in> {''session'', ''a'', ''b'', ''e1'', ''e2'', ''o1'', ''o2''}" for i
    using that by (elim insertE emptyE) (simp_all add: validate_machine_identity_def MACHINE_ID_MAX_BYTES_def is_ascii_def)
  then have "validate_identities tripled_bundle = []"
    by (simp add: validate_identities_def validate_identity_at_def record_ids_def report_id) (simp add: paired_defs)
  moreover have "validate_observations tripled_bundle = []"
    by (simp add: validate_observations_def validate_observation_def paired_report_def bare_report_def
        validate_optional_number_def validate_write_only_finite_def f32_defs)
  moreover have "validate_station tripled_bundle = validate_station paired_bundle"
    "validate_antennas tripled_bundle = validate_antennas paired_bundle" "validate_schedule tripled_bundle = validate_schedule paired_bundle"
    "validate_rig tripled_bundle = []" "validate_propagation tripled_bundle = []"
    "validate_analysis tripled_bundle = validate_analysis paired_bundle"
    by (simp_all add: validate_station_def validate_antennas_def validate_schedule_def validate_rig_def validate_propagation_def
        validate_analysis_def)
  ultimately show ?thesis by (simp add: semantic_diagnostics_def paired_semantic)
qed

lemma report_members:
  "set (vr_diagnostics (report_from_issues b issues)) = tidy_diagnostic `
     (tidy_diagnostic ` (\<lambda>i. diagnostic_from_issue i (Some b)) ` set issues \<union> set (semantic_diagnostics b))"
  by (simp add: report_from_issues_def report_extend_def report_new_def sort_deterministically_def)

text \<open>Every diagnostic of the report is about the first two observations.\<close>

definition about_first_two :: "bundle_diagnostic \<Rightarrow> bool" where
  "about_first_two d \<longleftrightarrow> (\<forall>l \<in> set (bd_location d # bd_related_locations d).
     dl_record_kind l = Some KindObservation \<and> dl_record_index l \<in> {Some 0, Some 1}) \<and>
     bd_code d \<in> {''bundle.structure.duplicate_id'', ''bundle.semantic.alignment_annotation_mismatch''} \<and>
     dl_field_path (bd_location d) \<in> {Some ''/observation_id'', Some ''/slot_id'', Some ''/slot_label'', Some ''/slot_confidence''} \<and>
     bd_category d \<in> {Structural, Semantic}"

lemma tidy_about: "about_first_two (tidy_diagnostic d) = about_first_two d"
  by (simp add: about_first_two_def tidy_diagnostic_def)

definition tripled_report :: bundle_validation_report where
  "tripled_report = the (validate_bundle_report tripled_bundle)"

lemma tripled_validated: "validate_bundle_report tripled_bundle = Some tripled_report"
  by (simp add: tripled_report_def validate_bundle_report_def tripled_issues)

lemma tripled_position: "position (\<lambda>r. ob_observation_id r = ''o1'') (bc_observations tripled_bundle) = Some 0"
  by (simp add: report_id)

lemma tripled_indices: "indices_of (\<lambda>r. ob_observation_id r = ''o1'') (bc_observations tripled_bundle) = [0, 1, 2]"
  by (simp add: indices_of_def report_id)

lemma tripled_about: "d \<in> set (vr_diagnostics tripled_report) \<Longrightarrow> about_first_two d"
proof -
  assume d: "d \<in> set (vr_diagnostics tripled_report)"
  have duplicate: "about_first_two (diagnostic_from_issue (DuplicateId IdObservation ''o1'') (Some tripled_bundle))"
    by (simp add: duplicate_id_locations_def about_first_two_def issue_diagnostic_def Let_def id_kind_target_def
        tripled_indices [simplified] id_field_name_def)
  have mismatch: "about_first_two (diagnostic_from_issue (AlignmentAnnotationMismatch ''o1'' field x y) (Some tripled_bundle))" for field x y
    by (cases field) (simp_all add: record_location_def report_id about_first_two_def issue_diagnostic_def)
  have "\<exists>field x y. i = AlignmentAnnotationMismatch ''o1'' field x y" if "i \<in> set (annotation_mismatches bare_report a)" for i a
    using that by (auto simp: annotation_mismatches_def report_id split: if_splits)
  with duplicate mismatch have "about_first_two (diagnostic_from_issue i (Some tripled_bundle))"
    if "i \<in> set ([DuplicateId IdObservation ''o1'', DuplicateId IdObservation ''o1''] @ annotation_mismatches bare_report a)" for i a
    using that by fastforce
  with d show ?thesis
    unfolding tripled_report_def validate_bundle_report_def tripled_issues option.map option.sel report_members
    by (auto simp only: tripled_semantic tidy_about list.set)
qed

lemma tripled_not_fatal: "\<not> list_ex is_fatal_for_analysis (vr_diagnostics tripled_report)"
  by (auto simp: list_ex_iff is_fatal_for_analysis_def dest!: tripled_about simp: about_first_two_def)

lemma tripled_plan:
  "ep_excluded_slots (plan_from_report tripled_report) = {}" "ep_excluded_events (plan_from_report tripled_report) = {}"
  "fst ` set (ep_excluded_observations (plan_from_report tripled_report)) \<subseteq> {0, 1}"
proof -
  let ?ds = "filter plan_relevant (vr_diagnostics tripled_report)"
  have about: "\<forall>d \<in> set ?ds. about_first_two d" using tripled_about by auto
  from slots_named [of "\<lparr>es_observations = [], es_slots = {}, es_events = {}, es_counts = []\<rparr>" ?ds] about
  show "ep_excluded_slots (plan_from_report tripled_report) = {}"
    by (fastforce simp: plan_from_report_def Let_def about_first_two_def)
  from events_named [of "\<lparr>es_observations = [], es_slots = {}, es_events = {}, es_counts = []\<rparr>" ?ds] about
  show "ep_excluded_events (plan_from_report tripled_report) = {}"
    by (fastforce simp: plan_from_report_def Let_def about_first_two_def)
  have "i \<in> {0, 1}" if "i \<in> fst ` set (es_observations (foldl plan_diagnostic
      \<lparr>es_observations = [], es_slots = {}, es_events = {}, es_counts = []\<rparr> ?ds))" for i
    using excluded_named [OF that] about by (fastforce simp: about_first_two_def)
  note bound = this
  show "fst ` set (ep_excluded_observations (plan_from_report tripled_report)) \<subseteq> {0, 1}"
    unfolding plan_from_report_def Let_def eligibility_plan.select_convs by (rule subsetI) (rule bound)
qed

lemma tripled_sanitized: "sanitize_analysis_fields tripled_bundle tripled_report = tripled_bundle"
proof -
  have "sanitize_step tripled_bundle d = tripled_bundle" if "about_first_two d" for d
  proof -
    have "sanitize_observation (dl_field_path (bd_location d)) ob = ob" for ob :: "unit observation_record"
    proof -
      have "dl_field_path (bd_location d) \<in> {Some ''/observation_id'', Some ''/slot_id'', Some ''/slot_label'', Some ''/slot_confidence''}"
        using that by (simp only: about_first_two_def)
      then show ?thesis by (elim insertE emptyE) (simp_all add: sanitize_observation_def)
    qed
    then show ?thesis by (simp add: sanitize_step_def del: tripled_fields split: option.split)
  qed
  then have "foldl sanitize_step tripled_bundle ds = tripled_bundle" if "\<forall>d \<in> set ds. about_first_two d" for ds
    using that by (induction ds) auto
  then show ?thesis by (simp add: sanitize_analysis_fields_def tripled_about)
qed

lemma tripled_analysed: "analysis_bundle tripled_bundle tripled_report (plan_from_report tripled_report) = tripled_bundle"
  by (simp add: analysis_bundle_def tripled_sanitized tripled_plan)
    (simp add: tripled_bundle_def paired_defs)

section \<open>The panic\<close>

lemma bare_classified:
  assumes "classified_as plan tripled_bundle cs" and "fst ` set (ep_excluded_observations plan) \<subseteq> {0, 1}"
  shows "length cs = 4"
    and "cs ! 2 = \<lparr>cl_observation = bare_report, cl_assignment =
        \<lparr>oa_observation_id = ''o1'', oa_slot_id = Some ''a'', oa_slot_label = Some ''A'', oa_confidence = Finite f32_095,
         oa_reason = ReasonInterior\<rparr>, cl_disposition = Usable\<rparr>"
    and "cs ! 3 = \<lparr>cl_observation = paired_report ''o2'' 180 ''b'' ''B'' (- 7), cl_assignment =
        \<lparr>oa_observation_id = ''o2'', oa_slot_id = Some ''b'', oa_slot_label = Some ''B'', oa_confidence = Finite f32_095,
         oa_reason = ReasonInterior\<rparr>, cl_disposition = Usable\<rparr>"
proof -
  have "map_of (ep_excluded_observations plan) i = None" if "2 \<le> i" for i
    using assms(2) that by (force simp: map_of_eq_None_iff)
  note kept = this [of 2, simplified] this [of 3, simplified]
  have all: "i < length cs \<Longrightarrow> classify plan i (bc_observations tripled_bundle ! i)
      (assigned (bc_observations tripled_bundle ! i) (aligned_slots paired_schedule paired_events)
         default_slot_alignment_policy) = Inr (cs ! i)" for i
    using assms(1) by (simp add: classified_as_def)
  show length: "length cs = 4" using assms(1) by (simp add: classified_as_def)
  have "classify_assignment \<lparr>oa_observation_id = i, oa_slot_id = Some slot, oa_slot_label = Some label,
      oa_confidence = Finite f32_095, oa_reason = ReasonInterior\<rparr> = Inr Usable" for i slot label
    by (simp add: classify_assignment_def MINIMUM_USABLE_CONFIDENCE_def f32_defs)
  with all [of 2] all [of 3] length kept
  show "cs ! 2 = \<lparr>cl_observation = bare_report, cl_assignment =
        \<lparr>oa_observation_id = ''o1'', oa_slot_id = Some ''a'', oa_slot_label = Some ''A'', oa_confidence = Finite f32_095,
         oa_reason = ReasonInterior\<rparr>, cl_disposition = Usable\<rparr>"
    and "cs ! 3 = \<lparr>cl_observation = paired_report ''o2'' 180 ''b'' ''B'' (- 7), cl_assignment =
        \<lparr>oa_observation_id = ''o2'', oa_slot_id = Some ''b'', oa_slot_label = Some ''B'', oa_confidence = Finite f32_095,
         oa_reason = ReasonInterior\<rparr>, cl_disposition = Usable\<rparr>"
    by (simp_all add: classify_def bare_assigned paired_assigned)
qed

lemma tidy_same:
  "plan_relevant (tidy_diagnostic d) = plan_relevant d"
  "observation_diagnostic_excludes (tidy_diagnostic d) = observation_diagnostic_excludes d"
  "bd_location (tidy_diagnostic d) = bd_location d"
  by (simp_all add: plan_relevant_def observation_diagnostic_excludes_def is_non_finite_snr_def blocks_def tidy_diagnostic_def)

lemma tripled_excluded:
  assumes "classified_as (plan_from_report tripled_report) tripled_bundle cs" and "i < 2"
  shows "cl_disposition (cs ! i) \<noteq> Usable"
proof -
  let ?duplicate = "diagnostic_from_issue (DuplicateId IdObservation ''o1'') (Some tripled_bundle)"
  let ?mismatch = "\<lambda>x y. diagnostic_from_issue (AlignmentAnnotationMismatch ''o1'' SlotIdField x y) (Some tripled_bundle)"
  have members: "tidy_diagnostic (tidy_diagnostic (diagnostic_from_issue j (Some tripled_bundle))) \<in> set (vr_diagnostics tripled_report)"
    if "j \<in> set ([DuplicateId IdObservation ''o1'', DuplicateId IdObservation ''o1''] @ annotation_mismatches bare_report
        (assigned bare_report (aligned_slots paired_schedule paired_events) default_slot_alignment_policy))" for j
    unfolding tripled_report_def validate_bundle_report_def tripled_issues option.map option.sel report_members using that by blast
  have "\<exists>d. d \<in> set (vr_diagnostics tripled_report) \<and> plan_relevant d \<and> dl_record_kind (bd_location d) = Some KindObservation \<and>
      dl_record_index (bd_location d) = Some i \<and> observation_diagnostic_excludes d"
  proof (cases "i = 0")
    case True
    obtain x y where xy: "AlignmentAnnotationMismatch ''o1'' SlotIdField x y \<in> set (annotation_mismatches bare_report
        (assigned bare_report (aligned_slots paired_schedule paired_events) default_slot_alignment_policy))"
      by (simp add: annotation_mismatches_def report_id bare_assigned) (simp add: bare_report_def)
    have "tidy_diagnostic (tidy_diagnostic (?mismatch x y)) \<in> set (vr_diagnostics tripled_report)"
      by (rule members) (use xy in simp)
    moreover have "plan_relevant (?mismatch x y) \<and> dl_record_kind (bd_location (?mismatch x y)) = Some KindObservation \<and>
      dl_record_index (bd_location (?mismatch x y)) = Some i \<and> observation_diagnostic_excludes (?mismatch x y)"
      using True by (simp add: plan_relevant_def issue_diagnostic_def record_location_def report_id observation_diagnostic_excludes_def)
    ultimately show ?thesis
      by (intro exI conjI) (assumption, simp_all only: tidy_same)
  next
    case False
    with assms(2) have i: "i = 1" by simp
    have "tidy_diagnostic (tidy_diagnostic ?duplicate) \<in> set (vr_diagnostics tripled_report)"
      by (rule members) simp
    moreover have "plan_relevant ?duplicate \<and> dl_record_kind (bd_location ?duplicate) = Some KindObservation \<and>
      dl_record_index (bd_location ?duplicate) = Some i \<and> observation_diagnostic_excludes ?duplicate"
      by (simp add: i plan_relevant_def blocks_def ALL_TYPED_OPERATIONS_def duplicate_id_locations_def Let_def id_kind_target_def
          tripled_indices [simplified] issue_diagnostic_def observation_diagnostic_excludes_def)
    ultimately show ?thesis
      by (intro exI conjI) (assumption, simp_all only: tidy_same)
  qed
  then have "map_of (ep_excluded_observations (plan_from_report tripled_report)) i \<noteq> None" using plan_excludes by blast
  moreover have "classify (plan_from_report tripled_report) i (bc_observations tripled_bundle ! i)
      (assigned (bc_observations tripled_bundle ! i) (aligned_slots paired_schedule paired_events)
         default_slot_alignment_policy) = Inr (cs ! i)"
    using assms by (simp add: classified_as_def)
  ultimately have "\<exists>reason. cl_disposition (cs ! i) = Excluded reason"
    by (clarsimp simp: classify_def simp del: tripled_fields) (drule arg_cong [where f = cl_disposition], auto dest: sym)
  then show ?thesis by auto
qed

lemma singleton_list:
  assumes "set xs = {x}" and "distinct xs"
  shows "xs = [x]"
proof (cases xs)
  case (Cons y ys)
  with assms have "y = x" "set ys \<subseteq> {x}" "x \<notin> set ys" by auto
  then have "ys = []" by (cases ys) auto
  with Cons \<open>y = x\<close> show ?thesis by simp
qed (use assms in simp)

lemma tripled_heard:
  assumes "classified_as (plan_from_report tripled_report) tripled_bundle cs"
  shows "gr_groups (grouped tripled_bundle paired_blocks ''A'' ''B'' cs) =
    [((stratum_key paired_key, 0, ''K1ABC''), \<lparr>pg_left = [bare_report], pg_right = [paired_report ''o2'' 180 ''b'' ''B'' (- 7)]\<rparr>)]"
proof -
  note c = bare_classified [OF assms tripled_plan(3)]
  obtain c0 c1 where cs: "cs = [c0, c1, cs ! 2, cs ! 3]" and c01: "cl_disposition c0 \<noteq> Usable" "cl_disposition c1 \<noteq> Usable"
    using c(1) tripled_excluded [OF assms, of 0] tripled_excluded [OF assms, of 1]
    by (auto simp: eval_nat_numeral length_Suc_conv)
  let ?key = "(stratum_key paired_key, 0 :: nat, ''K1ABC'')"
  have path: "path_identity tripled_bundle ob = path_identity paired_bundle ob" for ob
    by (simp add: path_identity_def)
  have bare: "path_identity paired_bundle bare_report = Some (PathTransmit, ''K1ABC'')"
    "observation_mode bare_report = Some (SignalMode ''WSPR'')"
    "observation_stratum bare_report PathTransmit (SignalMode ''WSPR'') = paired_key"
    using paired_path [of "''o1''" 60 "''a''" "''A''" "- 10"] paired_stratum [of "''o1''" 60 "''a''" "''A''" "- 10"]
    by (simp_all add: path_identity_def observation_mode_def observation_stratum_def bare_report_def)
  have groups: "group_of tripled_bundle paired_blocks ''A'' ''B'' (cs ! 2) = Some (?key, LeftSide)"
    "group_of tripled_bundle paired_blocks ''A'' ''B'' (cs ! 3) = Some (?key, RightSide)"
    "group_of tripled_bundle paired_blocks ''A'' ''B'' c0 = None" "group_of tripled_bundle paired_blocks ''A'' ''B'' c1 = None"
    by (simp_all add: c c01 group_of_def path bare paired_path paired_stratum paired_block block_side_def)
  have heard: "heard_on tripled_bundle paired_blocks ''A'' ''B'' cs ?key LeftSide = [bare_report]"
    "heard_on tripled_bundle paired_blocks ''A'' ''B'' cs ?key RightSide = [paired_report ''o2'' 180 ''b'' ''B'' (- 7)]"
    by (subst cs, simp add: heard_on_def groups, simp add: c)
      (subst cs, simp add: heard_on_def groups, simp add: c)
  let ?gs = "gr_groups (grouped tripled_bundle paired_blocks ''A'' ''B'' cs)"
  have "x \<in> set ?gs \<longleftrightarrow> x = (?key, \<lparr>pg_left = [bare_report], pg_right = [paired_report ''o2'' 180 ''b'' ''B'' (- 7)]\<rparr>)" for x
  proof (cases x)
    case (Pair k v)
    have "(\<exists>c \<in> set cs. \<exists>side. group_of tripled_bundle paired_blocks ''A'' ''B'' c = Some (k, side)) \<longleftrightarrow> k = ?key"
      by (subst cs) (auto simp: groups)
    then show ?thesis unfolding Pair grouped_groups(2) using heard by auto
  qed
  then have "set ?gs = {(?key, \<lparr>pg_left = [bare_report], pg_right = [paired_report ''o2'' 180 ''b'' ''B'' (- 7)]\<rparr>)}" by blast
  moreover have "distinct ?gs"
    using bt_ok_distinct [OF grouped_groups(1) [of tripled_bundle paired_blocks "''A''" "''B''" cs]] by (simp add: distinct_map)
  ultimately show ?thesis by (rule singleton_list)
qed

lemma tripled_pairing:
  "pair_step tripled_bundle paired_blocks locations s
     ((stratum_key paired_key, 0, ''K1ABC''), \<lparr>pg_left = [bare_report], pg_right = [paired_report ''o2'' 180 ''b'' ''B'' (- 7)]\<rparr>) =
   Inl (Panicked ''usable observation has slot'')"
proof -
  have "normal_mode (sm_mode paired_key)" using normalize_mode_normal [OF paired_mode] by (simp add: paired_key_def)
  moreover have "ro_finite (resolve [bare_report]) = Some bare_report"
    by (simp add: resolve_def bare_report_def paired_report_def unresolved_def)
  moreover have "paired_row tripled_bundle paired_key (paired_blocks ! 0) 0 ''K1ABC'' bare_report
      (paired_report ''o2'' 180 ''b'' ''B'' (- 7)) = Inl (Panicked ''usable observation has slot'')"
    by (simp add: paired_row_def bare_report_def paired_report_def expecting_def paired_block)
  ultimately show ?thesis by (simp add: pair_step_def stratum_from_key_normal paired_resolved Let_def)
qed

lemma tripled_comparison:
  assumes "classified_as (plan_from_report tripled_report) tripled_bundle cs"
  shows "fails (analyze_paired_comparison tripled_bundle (aligned_slots paired_schedule paired_events) cs)"
proof -
  have labels: "scheduled_labels tripled_bundle = [''A'', ''B'']"
    using paired_labels by (simp add: scheduled_labels_def paired_bundle_def)
  then have compared: "compared tripled_bundle" by (simp add: compared_def) (simp add: paired_schedule_def)
  have blocks: "compared_blocks tripled_bundle (aligned_slots paired_schedule paired_events) = paired_blocks"
    by (simp add: compared_blocks_def labels paired_labels paired_blocks_def)
  show ?thesis
    unfolding compare_unfold [OF compared, abs_def] blocks labels nth_Cons_0 nth_Cons_Suc One_nat_def
    by (rule fails_next [OF settles_loop [OF try_fold_Inr] fails_first [OF fails_loop]])
      (simp add: tripled_heard [OF assms, unfolded grouped_def] tripled_pairing)
qed

lemma tripled_labelled: "switches_labelled tripled_bundle"
  by (simp add: switches_labelled_def) (simp add: paired_defs)

text \<open>
  C36. Three observations of one identity make the analysis panic.  There is a bundle that meets
  every other condition of \<open>analysis_never_panics\<close> and has no fatal diagnostic, whose first three
  observations share one identity: the report names only the first two of them, the third, never
  annotated with a slot, counts as usable evidence, and the pairing of the comparison insists on
  its slot, so on every platform the analysis panics when there is room and nobody cancels.
\<close>

theorem third_duplicate_panics:
  "\<exists>bundle :: unit bundle_contents. \<exists>report. validate_bundle_report bundle = Some report \<and>
     map ob_observation_id (bc_observations bundle) = [''o1'', ''o1'', ''o1'', ''o2''] \<and>
     \<not> list_ex is_fatal_for_analysis (vr_diagnostics report) \<and>
     ep_excluded_slots (plan_from_report report) = {} \<and> switches_labelled bundle \<and>
     starts_have_room (bc_schedule bundle) \<and>
     (\<forall>(reader :: 'v json_reader) tg. \<exists>limits.
        panics (summarize_bundle_with_resources_and_activity reader tg bundle report [] []
          \<lparr>bu_limits = limits, bu_cancelled_from = None\<rparr>))"
proof (rule exI [of _ tripled_bundle], rule exI [of _ tripled_report], intro conjI allI)
  show "validate_bundle_report tripled_bundle = Some tripled_report" by (rule tripled_validated)
  show "map ob_observation_id (bc_observations tripled_bundle) = [''o1'', ''o1'', ''o1'', ''o2'']" by (simp add: report_id)
  show "\<not> list_ex is_fatal_for_analysis (vr_diagnostics tripled_report)" by (rule tripled_not_fatal)
  show "ep_excluded_slots (plan_from_report tripled_report) = {}" by (rule tripled_plan)
  show "switches_labelled tripled_bundle" by (rule tripled_labelled)
  show "starts_have_room (bc_schedule tripled_bundle)" by (simp add: paired_representable)
next
  fix reader :: "'v json_reader" and tg
  let ?plan = "plan_from_report tripled_report"
  have "representable_slots (bc_schedule tripled_bundle)" by (simp add: paired_representable)
  from align_settles [OF tripled_labelled this] obtain alignment cs
    where align: "settles (align_analysis tripled_bundle ?plan (input_entries tripled_bundle [] + plan_entries ?plan)) (alignment, cs)"
    by blast
  from settles_returns [OF align] have slots: "sl_slots alignment = aligned_slots paired_schedule paired_events"
    and cs: "classified_as ?plan tripled_bundle cs"
    using align_analysis_returns by fastforce+
  obtain overall antennas bands ss where evidence: "settles (evidence_analysis tripled_bundle
      (af_antennas (bc_antennas tripled_bundle)) (sl_slots alignment) cs) (overall, antennas, bands, ss)"
    using evidence_settles by (metis prod.exhaust)
  have comparison: "fails (comparison_analysis reader tg tripled_bundle (sl_slots alignment) cs [] [] n)" for n
    unfolding comparison_analysis_def [abs_def] Let_def slots
    by (rule fails_next [OF settles_budget(3) fails_next [OF settles_budget(1) fails_first [OF tripled_comparison [OF cs]]]])
  have "fails (summarize_bundle_with_resources_and_activity reader tg tripled_bundle tripled_report [] [])"
    unfolding summarize_bundle_with_resources_and_activity_def [abs_def] Let_def
    by (rule fails_next [OF plan_settles [OF tripled_not_fatal]], unfold tripled_analysed,
        rule fails_next [OF align], simp only: prod.case, rule fails_next [OF evidence], simp only: prod.case,
        rule fails_first [OF comparison])
  then obtain L where L: "\<forall>b. generous L b \<longrightarrow> crashes (summarize_bundle_with_resources_and_activity reader tg
      tripled_bundle tripled_report [] [] b)" by (auto simp: fails_def)
  have "generous L \<lparr>bu_limits = \<lparr>li_collection_entries = L, li_live_entries = L\<rparr>, bu_cancelled_from = None\<rparr>"
    by (simp add: generous_def)
  with L show "\<exists>limits. panics (summarize_bundle_with_resources_and_activity reader tg tripled_bundle tripled_report [] []
      \<lparr>bu_limits = limits, bu_cancelled_from = None\<rparr>)"
    by (blast dest: crashes_panics)
qed

end
