(* ===== verification/Spec2Isabelle.thy ===== *)
theory Spec2Isabelle
  imports Identity EventData WsprCycle OperatorEvents WsprRun Alignment Diagnostics Semantics
    Validation BundleTypes Upgrade CurrentBundle UpgradeInvariance
    RuntimeContext AntennaControl OrderedMaps SignalPlan StoreV3 StoreUpgrade
    AnalysisCrash
begin

text \<open>
  A verification development for AntennaBench (\<open>crates/core\<close> first).

  \<^bold>\<open>The program.\<close>  AntennaBench runs antenna comparisons: a session has a schedule of slots
  or WSPR cycle intents, an append-only history of operator events, and the reception
  observations it collected.  A bundle holds all of it; the core crate reads the bundle of any
  schema version (1 to 6), validates it, reduces the operator history to the evidence that is
  in force, derives which antenna was connected when, and annotates every observation with a
  slot, an antenna label and a confidence.  Analysis and report build on that model.

  \<^bold>\<open>Theories.\<close>
  \<^item> \<open>Prelude\<close>: time, machine integers, floats, strings, messages, list lemmas.
  \<^item> \<open>Model\<close>, \<open>EventData\<close>, \<open>BundleTypes\<close>: the records and enums of \<open>model.rs\<close>, \<open>v2.rs\<close>,
    \<open>v3.rs\<close>, \<open>v5_antenna_control.rs\<close>, \<open>v6.rs\<close> and \<open>v6/diagnostic.rs\<close>.
  \<^item> \<open>Identity\<close>: identities and provenance (\<open>v2.rs\<close>, \<open>v3.rs\<close>, \<open>semantics.rs\<close>), the locale
    \<open>identity_type\<close> and its interpretation for every newtype.
  \<^item> \<open>WsprCycle\<close>, \<open>WsprRun\<close>: cycle timing and the run projection of \<open>wspr.rs\<close>.
  \<^item> \<open>OperatorEvents\<close>: lifecycle machine and event reducers of \<open>operator_events.rs\<close>.
  \<^item> \<open>Alignment\<close>: \<open>alignment.rs\<close> and \<open>normalization.rs\<close>.
  \<^item> \<open>Diagnostics\<close>, \<open>Semantics\<close>, \<open>Validation\<close>: \<open>diagnostics.rs\<close>, \<open>semantics.rs\<close>, \<open>validation.rs\<close>.
  \<^item> \<open>Upgrade\<close>, \<open>CurrentBundle\<close>, \<open>UpgradeInvariance\<close>: schema upgrades (\<open>v3.rs\<close>,
    \<open>v5_antenna_control.rs\<close>), the projection to the analysis model (\<open>v2.rs\<close>, \<open>v3.rs\<close>,
    \<open>wspr_live_projection.rs\<close>) and what an upgrade may not change.
  \<^item> \<open>Results\<close>, \<open>AntennaControl\<close>: the validation of antenna-control evidence in
    \<open>v5_antenna_control.rs\<close>.
  \<^item> \<open>RuntimeContext\<close>: runtime identities and the upgrade to schema v6 of \<open>v6.rs\<close>.
  \<^item> \<open>OrderedMaps\<close>, \<open>SignalPlan\<close>: ordered maps as sorted entry lists, and the signal-plan and
    signal-state validation of \<open>v3.rs\<close> with its abstract contract.
  \<^item> \<open>StoreV3\<close>, \<open>StoreUpgrade\<close>: the model check \<open>validate_v3_model\<close> that \<open>crates/storage\<close> runs on
    every bundle of schema v3 to v6, and the upgrades with respect to it.

  \<^item> \<open>Floats\<close>: the arithmetic of \<open>f64\<close> values the analysis uses, over reals, infinities and NaN.
  \<^item> \<open>AnalysisModel\<close>, \<open>Comparison\<close>, \<open>Activity\<close>, \<open>Solar\<close>, \<open>Summary\<close>: \<open>crates/analysis\<close>: budgets and
    cancellation, classification and the paired comparison, reporter activity, solar context and
    \<open>summarize_bundle_with_resources_and_activity\<close>.
  \<^item> \<open>ComparisonProperties\<close>, \<open>AnalysisSafety\<close>, \<open>AnalysisOutcome\<close>, \<open>AnalysisAccounts\<close>: what the paired
    rows are, that the analysis does not panic and completes, and that its counts add up;
    \<open>AnalysisSamples\<close> and \<open>AnalysisCrash\<close> evaluate it on concrete bundles, the last one on a
    bundle it panics on.

  \<^bold>\<open>Parameters.\<close>  \<open>rep\<close> says which instants chrono can represent; \<open>direction_of\<close> reads a string
  member of a JSON payload (\<open>serde_json\<close>); JSON payloads are of an arbitrary type \<open>'j\<close>.
  Where the code adds durations to slot starts (\<open>alignment.rs\<close>, \<open>validation.rs\<close>,
  \<open>activity.rs\<close>) the range of chrono's \<open>DateTime<Utc>\<close> is written out, and leaving it is the
  panic it is in the code.
  The record \<open>externals\<close> collects what the storage checks call outside the repository: SHA-256,
  the RFC 3339 printer of chrono, the JSON printer of serde, base64 decoding.

  In the analysis, \<open>json_reader\<close> reads the members of an adapter payload, \<open>platform\<close> holds the
  functions of the mathematics library and whether the build checks integer overflow, and a budget carries the limits and the poll from which on
  the cancellation token reports a cancellation; the state threaded through is the number of polls.

  \<^bold>\<open>Bounds and fuel.\<close>  No model uses fuel: every loop of the code is a structural recursion over
  its input.

  \<^bold>\<open>Not modelled.\<close>  The serialized form (serde), files and locks, HTTP, the desktop user
  interface and the HTML templates are I/O or generated code.  Of \<open>crates/storage\<close> only the model
  check of \<open>v3.rs\<close> is modelled; the debug assertions of \<open>crates/analysis\<close> are left out;
  \<open>crates/wsjtx\<close>, \<open>crates/rbn\<close>, \<open>crates/propagation\<close> and \<open>crates/report\<close> are not modelled yet.
\<close>

end
